(* ===== verification/Go_Prelude.thy ===== *)
theory Go_Prelude
  imports Main "HOL-Library.Word" "HOL-Library.Multiset" "HOL-Library.List_Lexorder"
    "HOL-Library.Char_ord"
begin

text \<open>
  The parts of the Go language and of its standard library that the operator uses: fixed-width
  integers, strings (\<open>strings\<close>, \<open>strconv\<close>, \<open>net.SplitHostPort\<close>), maps with the nil map,
  error values and \<open>sort.Slice\<close> / \<open>sort.Sort\<close>, with the lemmas the component theories share.
  A Go string is a \<^typ>\<open>string\<close> of bytes, an \<open>int32\<close> or \<open>int64\<close> is an \<^typ>\<open>int\<close> whose
  wrap-around is written out by \<open>int32\<close>, a \<open>time.Time\<close> is an \<^typ>\<open>int\<close> of nanoseconds since
  the Unix epoch.
\<close>

named_theorems go_simps \<open>unfolding rules for the model of the Go library\<close>

section \<open>Integers and time\<close>

type_synonym time = int

definition int32 :: "int \<Rightarrow> int" where
  "int32 x = signed_take_bit 31 x"

definition zeroTime :: time where
  "zeroTime = - 62135596800000000000"

definition nanosPerSecond :: int where
  "nanosPerSecond = 1000000000"

text \<open>\<open>t.Second()\<close>: the second within the minute, 0 to 59.\<close>

definition timeSecond :: "time \<Rightarrow> int" where
  "timeSecond t = (t div nanosPerSecond) mod 60"

text \<open>
  \<open>int32(time.Since(t).Seconds())\<close>: whole seconds, truncated towards zero, then to 32 bits.
\<close>

definition secondsSince :: "time \<Rightarrow> time \<Rightarrow> int" where
  "secondsSince now t =
     (let d = now - t in int32 (sgn d * (\<bar>d\<bar> div nanosPerSecond)))"

section \<open>Strings\<close>

definition newline :: string where
  "newline = [CHR 0x0A]"

definition dquote :: char where
  "dquote = CHR 0x22"

fun hasPrefix :: "string \<Rightarrow> string \<Rightarrow> bool" where
  "hasPrefix s [] = True"
| "hasPrefix [] (p # ps) = False"
| "hasPrefix (c # s) (p # ps) = (c = p \<and> hasPrefix s ps)"

fun containsStr :: "string \<Rightarrow> string \<Rightarrow> bool" where
  "containsStr [] p = (p = [])"
| "containsStr (c # s) p = (hasPrefix (c # s) p \<or> containsStr s p)"

text \<open>\<open>strings.Index\<close> of a single byte; \<open>None\<close> stands for the result -1.\<close>

fun indexByte :: "string \<Rightarrow> char \<Rightarrow> nat option" where
  "indexByte [] c = None"
| "indexByte (x # s) c = (if x = c then Some 0 else map_option Suc (indexByte s c))"

definition lastIndexByte :: "string \<Rightarrow> char \<Rightarrow> nat option" where
  "lastIndexByte s c = map_option (\<lambda>i. length s - 1 - i) (indexByte (rev s) c)"

text \<open>\<open>strings.Split\<close> on a single byte.\<close>

fun splitByte :: "char \<Rightarrow> string \<Rightarrow> string list" where
  "splitByte c [] = [[]]"
| "splitByte c (x # s) =
     (if x = c then [] # splitByte c s
      else (case splitByte c s of [] \<Rightarrow> [[x]] | w # ws \<Rightarrow> (x # w) # ws))"

text \<open>\<open>strings.Trim(s, c)\<close> for a one-byte cutset.\<close>

definition trimByte :: "char \<Rightarrow> string \<Rightarrow> string" where
  "trimByte c s = rev (dropWhile (\<lambda>x. x = c) (rev (dropWhile (\<lambda>x. x = c) s)))"

fun joinStr :: "string \<Rightarrow> string list \<Rightarrow> string" where
  "joinStr sep [] = []"
| "joinStr sep [s] = s"
| "joinStr sep (s # t # ss) = s @ sep @ joinStr sep (t # ss)"

definition isDigit :: "char \<Rightarrow> bool" where
  "isDigit c = (48 \<le> (of_char c :: nat) \<and> (of_char c :: nat) \<le> 57)"

definition digitVal :: "char \<Rightarrow> int" where
  "digitVal c = of_char c - 48"

definition digitsVal :: "string \<Rightarrow> int" where
  "digitsVal s = foldl (\<lambda>n c. 10 * n + digitVal c) 0 s"

text \<open>
  \<open>strconv.Atoi\<close>: the value and whether an error is reported. A syntax error gives 0, a value
  outside 64 bits the nearest bound.
\<close>

definition atoi :: "string \<Rightarrow> int \<times> bool" where
  "atoi s =
     (let neg = (case s of c # _ \<Rightarrow> c = CHR ''-'' | [] \<Rightarrow> False);
          body = (case s of c # t \<Rightarrow> if c = CHR ''-'' \<or> c = CHR ''+'' then t else s | [] \<Rightarrow> [])
      in if body = [] \<or> \<not> list_all isDigit body then (0, True)
         else let v = (if neg then - digitsVal body else digitsVal body)
              in if v > 2 ^ 63 - 1 then (2 ^ 63 - 1, True)
                 else if v < - (2 ^ 63) then (- (2 ^ 63), True)
                 else (v, False))"

fun natDigits :: "nat \<Rightarrow> string" where
  "natDigits n =
     (if n < 10 then [char_of (48 + n)] else natDigits (n div 10) @ [char_of (48 + n mod 10)])"

declare natDigits.simps [simp del]

definition itoa :: "int \<Rightarrow> string" where
  "itoa i = (if i < 0 then CHR ''-'' # natDigits (nat (- i)) else natDigits (nat i))"

text \<open>\<open>net.SplitHostPort\<close>: host, port and whether an error is reported.\<close>

definition splitHostPort :: "string \<Rightarrow> string \<times> string \<times> bool" where
  "splitHostPort hp =
     (case lastIndexByte hp (CHR '':'') of
        None \<Rightarrow> ([], [], True)
      | Some i \<Rightarrow>
          if hd hp = CHR ''['' then
            (case indexByte hp (CHR '']'') of
               None \<Rightarrow> ([], [], True)
             | Some e \<Rightarrow>
                 if e + 1 = length hp then ([], [], True)
                 else if e + 1 \<noteq> i then ([], [], True)
                 else if CHR ''['' \<in> set (drop 1 hp) then ([], [], True)
                 else if CHR '']'' \<in> set (drop (e + 1) hp) then ([], [], True)
                 else (take (e - 1) (drop 1 hp), drop (i + 1) hp, False))
          else if CHR '':'' \<in> set (take i hp) then ([], [], True)
          else if CHR ''['' \<in> set hp then ([], [], True)
          else if CHR '']'' \<in> set hp then ([], [], True)
          else (take i hp, drop (i + 1) hp, False))"

section \<open>Maps with string keys\<close>

text \<open>
  A Go \<open>map[string]string\<close> is a partial function; the nil map is \<open>None\<close>. Reading a nil map finds
  no key. Every write in the modelled code is guarded by a nil check that allocates the map first;
  \<open>mset\<close> is that guard and the write together.
\<close>

type_synonym gomap = "(string \<rightharpoonup> string) option"

definition mget :: "gomap \<Rightarrow> string \<Rightarrow> string option" where
  "mget m k = (case m of None \<Rightarrow> None | Some f \<Rightarrow> f k)"

definition mentries :: "gomap \<Rightarrow> (string \<rightharpoonup> string)" where
  "mentries m = (case m of None \<Rightarrow> Map.empty | Some f \<Rightarrow> f)"

definition mset_key :: "gomap \<Rightarrow> string \<Rightarrow> string \<Rightarrow> gomap" where
  "mset_key m k v = Some ((mentries m)(k \<mapsto> v))"

section \<open>Errors and panics\<close>

text \<open>
  Error values as the code tells them apart: the reasons of the API server, the sentinels of
  \<open>io\<close> and \<open>internal/errors\<close>, other errors by their text, and wrapping (\<open>emperror.Wrap\<close>).
  A function that can hit a nil dereference or an index out of range returns a
  \<open>go\<close> value: \<open>Panic\<close> or \<open>Ret\<close> of its result.
\<close>

datatype goerr =
    ErrNotFound
  | ErrAlreadyExists
  | ErrConflict
  | ErrEOF
  | ErrPodNotReady
  | ErrStsNotReady
  | ErrText string
  | ErrWrap string goerr

datatype 'a go = Panic | Ret 'a

section \<open>Sorting\<close>

text \<open>
  \<open>sort.Slice\<close> and \<open>sort.Sort\<close> promise a sorted permutation; up to twelve elements they run
  the insertion sort below, which is stable.
\<close>

fun go_insert :: "('a \<Rightarrow> 'a \<Rightarrow> bool) \<Rightarrow> 'a \<Rightarrow> 'a list \<Rightarrow> 'a list" where
  "go_insert lt x [] = [x]"
| "go_insert lt x (y # ys) = (if lt x y then y # go_insert lt x ys else x # y # ys)"

definition go_sort :: "('a \<Rightarrow> 'a \<Rightarrow> bool) \<Rightarrow> 'a list \<Rightarrow> 'a list" where
  "go_sort lt xs = rev (foldl (\<lambda>acc x. go_insert lt x acc) [] xs)"

text \<open>The position of the first element with a property, as a \<open>for i := range\<close> loop finds it.\<close>

fun findIndex :: "('a \<Rightarrow> bool) \<Rightarrow> 'a list \<Rightarrow> nat option" where
  "findIndex P [] = None"
| "findIndex P (x # xs) = (if P x then Some 0 else map_option Suc (findIndex P xs))"

section \<open>Lemmas on maps\<close>

lemma mget_None [simp]: "mget None k = None"
  by (simp add: mget_def)

lemma mget_Some [simp]: "mget (Some f) k = f k"
  by (simp add: mget_def)

lemma mentries_simps [simp]: "mentries None = Map.empty" "mentries (Some f) = f"
  by (simp_all add: mentries_def)

lemma mget_mentries: "mget m k = mentries m k"
  by (cases m) simp_all

lemma mget_mset_key [simp]: "mget (mset_key m k v) k' = (if k' = k then Some v else mget m k')"
  by (cases m) (simp_all add: mset_key_def)

section \<open>Lemmas on searching\<close>

lemma findIndex_SomeD:
  "findIndex P xs = Some i \<Longrightarrow> i < length xs \<and> P (xs ! i) \<and> (\<forall>j < i. \<not> P (xs ! j))"
proof (induction xs arbitrary: i)
  case (Cons x xs)
  show ?case
  proof (cases "P x")
    case False
    with Cons.prems obtain k where "findIndex P xs = Some k" "i = Suc k" by auto
    with Cons.IH[of k] False show ?thesis by (auto simp: nth_Cons split: nat.splits)
  qed (use Cons.prems in auto)
qed simp

lemma findIndex_None_iff: "findIndex P xs = None \<longleftrightarrow> (\<forall>x \<in> set xs. \<not> P x)"
  by (induction xs) auto

lemma find_SomeD: "find P xs = Some x \<Longrightarrow> x \<in> set xs \<and> P x"
  by (induction xs) (auto split: if_splits)

lemma find_findIndex: "find P xs = map_option (\<lambda>i. xs ! i) (findIndex P xs)"
  by (induction xs) (auto simp: option.map_comp comp_def)

section \<open>Lemmas on sorting\<close>

lemma mset_go_insert [simp]: "mset (go_insert lt x ys) = add_mset x (mset ys)"
  by (induction ys) auto

lemma mset_go_insert_fold:
  "mset (foldl (\<lambda>acc x. go_insert lt x acc) acc xs) = mset acc + mset xs"
  by (induction xs arbitrary: acc) auto

lemma mset_go_sort [simp]: "mset (go_sort lt xs) = mset xs"
  by (simp add: go_sort_def mset_go_insert_fold)

lemma set_go_sort [simp]: "set (go_sort lt xs) = set xs"
  by (metis mset_go_sort set_mset_mset)

lemma length_go_sort [simp]: "length (go_sort lt xs) = length xs"
  by (metis mset_go_sort size_mset)

lemma go_sort_Nil [simp]: "go_sort lt [] = []"
  by (simp add: go_sort_def)

lemma distinct_go_sort [simp]: "distinct (go_sort lt xs) = distinct xs"
  by (metis mset_go_sort mset_eq_imp_distinct_iff)

lemma distinct_map_go_sort [simp]: "distinct (map f (go_sort lt xs)) = distinct (map f xs)"
  by (metis mset_go_sort mset_eq_imp_distinct_iff mset_map)

text \<open>
  The contract of a comparison function passed to \<open>sort\<close>: a strict weak order. Every comparator
  of the code is shown to meet it; what the sorted slice then satisfies is proved here once.
\<close>

locale go_less =
  fixes lt :: "'a \<Rightarrow> 'a \<Rightarrow> bool"
  assumes less_irrefl: "\<not> lt x x"
    and less_trans: "lt x y \<Longrightarrow> lt y z \<Longrightarrow> lt x z"
    and less_negtrans: "lt x z \<Longrightarrow> lt x y \<or> lt y z"
begin

lemma less_asym: "lt x y \<Longrightarrow> \<not> lt y x"
  using less_irrefl less_trans by blast

lemma notless_trans: "\<not> lt y x \<Longrightarrow> \<not> lt z y \<Longrightarrow> \<not> lt z x"
  using less_negtrans by blast

lemma go_insert_sorted:
  "sorted_wrt (\<lambda>a b. \<not> lt a b) ys \<Longrightarrow> sorted_wrt (\<lambda>a b. \<not> lt a b) (go_insert lt x ys)"
proof (induction ys)
  case (Cons y ys)
  have set_ins: "set (go_insert lt x ys) = insert x (set ys)"
    by (metis mset_go_insert set_mset_add_mset_insert set_mset_mset)
  show ?case
  proof (cases "lt x y")
    case True
    with Cons set_ins less_asym[OF True] show ?thesis by auto
  next
    case False
    with Cons.prems have "\<not> lt x z" if "z \<in> set ys" for z
      using that less_negtrans[of x z y] by auto
    with Cons.prems False show ?thesis by auto
  qed
qed simp

lemma go_insert_fold_sorted:
  "sorted_wrt (\<lambda>a b. \<not> lt a b) acc \<Longrightarrow>
   sorted_wrt (\<lambda>a b. \<not> lt a b) (foldl (\<lambda>acc x. go_insert lt x acc) acc xs)"
  by (induction xs arbitrary: acc) (auto intro: go_insert_sorted)

lemma go_sort_sorted: "sorted_wrt (\<lambda>a b. \<not> lt b a) (go_sort lt xs)"
  unfolding go_sort_def sorted_wrt_rev by (rule go_insert_fold_sorted) simp

lemma go_sort_hd_least:
  assumes "x \<in> set xs"
  shows "\<not> lt x (hd (go_sort lt xs))"
proof -
  have "go_sort lt xs \<noteq> []"
    using assms by (metis empty_iff list.set(1) set_go_sort)
  then obtain y ys where s: "go_sort lt xs = y # ys" by (cases "go_sort lt xs") auto
  with go_sort_sorted[of xs] have "\<forall>z \<in> set ys. \<not> lt z y" by simp
  moreover have "x = y \<or> x \<in> set ys"
    using assms s by (metis set_ConsD set_go_sort)
  ultimately show ?thesis using s less_irrefl by auto
qed

lemma go_sort_last_greatest:
  assumes "x \<in> set xs"
  shows "\<not> lt (last (go_sort lt xs)) x"
proof -
  have ne: "go_sort lt xs \<noteq> []"
    using assms by (metis empty_iff list.set(1) set_go_sort)
  have srt: "sorted_wrt (\<lambda>a b. \<not> lt b a) (butlast (go_sort lt xs) @ [last (go_sort lt xs)])"
    using go_sort_sorted[of xs] ne by simp
  have "x \<in> set (butlast (go_sort lt xs) @ [last (go_sort lt xs)])"
    using assms ne by simp
  with srt less_irrefl show ?thesis by (auto simp: sorted_wrt_append)
qed

text \<open>An element strictly below every other one ends up first.\<close>

lemma go_sort_hd_strict:
  assumes "x \<in> set xs" and "\<And>y. y \<in> set xs \<Longrightarrow> y \<noteq> x \<Longrightarrow> lt x y"
  shows "hd (go_sort lt xs) = x"
proof (rule ccontr)
  assume ne: "hd (go_sort lt xs) \<noteq> x"
  have "go_sort lt xs \<noteq> []" using assms(1) by (metis empty_iff list.set(1) set_go_sort)
  then have "hd (go_sort lt xs) \<in> set xs" by (metis list.set_sel(1) set_go_sort)
  with assms(2) ne have "lt x (hd (go_sort lt xs))" by blast
  with go_sort_hd_least[OF assms(1)] show False by blast
qed

end

text \<open>A comparison of integer keys, or of keys under a linear order, meets the contract.\<close>

interpretation less_on_int: go_less "\<lambda>x y. (f x :: int) < f y" for f
  by unfold_locales auto

interpretation greater_on_int: go_less "\<lambda>x y. (f y :: int) < f x" for f
  by unfold_locales auto

interpretation less_on_string: go_less "\<lambda>x y. (f x :: string) < f y" for f
  by unfold_locales auto

text \<open>Sorting a list that is already in order returns it unchanged.\<close>

lemma go_insert_all_not_less:
  "(\<forall>y \<in> set ys. \<not> lt x y) \<Longrightarrow> go_insert lt x ys = x # ys"
  by (cases ys) auto

lemma go_insert_fold_id:
  "sorted_wrt (\<lambda>a b. \<not> lt b a) (rev acc @ xs) \<Longrightarrow>
   foldl (\<lambda>acc x. go_insert lt x acc) acc xs = rev xs @ acc"
proof (induction xs arbitrary: acc)
  case (Cons x xs)
  then have "\<forall>y \<in> set acc. \<not> lt x y" by (auto simp: sorted_wrt_append)
  then have ins: "go_insert lt x acc = x # acc" by (rule go_insert_all_not_less)
  with Cons.IH[of "x # acc"] Cons.prems show ?case by simp
qed simp

lemma go_sort_id: "sorted_wrt (\<lambda>a b. \<not> lt b a) xs \<Longrightarrow> go_sort lt xs = xs"
  by (simp add: go_sort_def go_insert_fold_id[of lt "[]" xs, simplified])

section \<open>Lemmas on strings and integers\<close>

lemma int32_bounds: "- (2 ^ 31) \<le> int32 x \<and> int32 x < 2 ^ 31"
  using signed_take_bit_int_greater_eq_minus_exp[of 31 x] signed_take_bit_int_less_exp[of 31 x]
  by (simp add: int32_def)

lemma int32_id: "- (2 ^ 31) \<le> x \<Longrightarrow> x < 2 ^ 31 \<Longrightarrow> int32 x = x"
  by (simp add: int32_def signed_take_bit_int_eq_self)

lemma digitVal_nonneg: "isDigit c \<Longrightarrow> 0 \<le> digitVal c"
proof -
  assume "isDigit c"
  then have "48 \<le> (of_char c :: nat)" by (simp only: isDigit_def)
  then have "(48 :: int) \<le> int (of_char c)" by linarith
  then show ?thesis by (simp only: digitVal_def of_nat_of_char diff_ge_0_iff_ge)
qed

lemma digitsVal_nonneg:
  assumes "list_all isDigit p"
  shows "0 \<le> digitsVal p"
proof -
  have "0 \<le> foldl (\<lambda>n c. 10 * n + digitVal c) a q" if "0 \<le> a" "list_all isDigit q" for a q
    using that
  proof (induction q arbitrary: a)
    case (Cons c q)
    have "0 \<le> 10 * a + digitVal c" using Cons.prems digitVal_nonneg[of c] by simp
    with Cons show ?case by simp
  qed simp
  with assms show ?thesis by (simp add: digitsVal_def)
qed

lemma atoi_digits:
  assumes "list_all isDigit p" "p \<noteq> []" "digitsVal p \<le> 2 ^ 63 - 1"
  shows "atoi p = (digitsVal p, False)"
proof -
  obtain c t where p: "p = c # t" using assms(2) by (cases p) auto
  have "c \<noteq> CHR ''-''" "c \<noteq> CHR ''+''" using assms(1) by (auto simp: p isDigit_def)
  then have sign: "(case p of c # _ \<Rightarrow> c = CHR ''-'' | [] \<Rightarrow> False) = False"
    "(case p of c # t \<Rightarrow> if c = CHR ''-'' \<or> c = CHR ''+'' then t else p | [] \<Rightarrow> []) = p"
    by (simp_all add: p)
  have "\<not> digitsVal p > 2 ^ 63 - 1" "\<not> digitsVal p < - (2 ^ 63)"
    using assms(3) digitsVal_nonneg[OF assms(1)] by linarith+
  then show ?thesis
    unfolding atoi_def Let_def sign using assms(1,2) by (simp only: if_False not_True_eq_False disj_not1 simp_thms)
qed

lemma splitByte_not_Nil [simp]: "splitByte c s \<noteq> []"
  by (induction s) (auto split: list.splits)

lemma joinStr_Cons_head: "joinStr sep ((x # w) # ws) = x # joinStr sep (w # ws)"
  by (cases ws) simp_all

lemma splitByte_join: "joinStr [c] (splitByte c s) = s"
proof (induction s)
  case (Cons x s)
  then show ?case
    by (cases "splitByte c s") (auto simp: joinStr_Cons_head)
qed simp

lemma splitByte_no_sep: "w \<in> set (splitByte c s) \<Longrightarrow> c \<notin> set w"
  by (induction s arbitrary: w) (auto split: if_splits list.splits)

lemma splitByte_append_sep: "c \<notin> set w \<Longrightarrow> splitByte c (w @ c # s) = w # splitByte c s"
  by (induction w) auto

lemma splitByte_single: "c \<notin> set w \<Longrightarrow> splitByte c w = [w]"
  by (induction w) auto

lemma hasPrefix_append [simp]: "hasPrefix (p @ s) p"
  by (induction p) auto

lemma hasPrefix_iff: "hasPrefix s p \<longleftrightarrow> (\<exists>r. s = p @ r)"
  by (induction s p rule: hasPrefix.induct) auto

lemma indexByte_SomeD:
  "indexByte s c = Some i \<Longrightarrow> i < length s \<and> s ! i = c \<and> c \<notin> set (take i s)"
  by (induction s arbitrary: i) (auto split: if_splits)

lemma indexByte_None_iff: "indexByte s c = None \<longleftrightarrow> c \<notin> set s"
  by (induction s) auto

lemma indexByte_append: "c \<notin> set s \<Longrightarrow> indexByte (s @ c # t) c = Some (length s)"
  by (induction s) auto

lemma lastIndexByte_append: "c \<notin> set t \<Longrightarrow> lastIndexByte (s @ c # t) c = Some (length s)"
  using indexByte_append[of c "rev t" "rev s"] by (simp add: lastIndexByte_def)

lemma splitHostPort_plain:
  assumes "CHR '':'' \<notin> set h" "CHR ''['' \<notin> set h" "CHR '']'' \<notin> set h"
    and "CHR '':'' \<notin> set p" "CHR ''['' \<notin> set p" "CHR '']'' \<notin> set p"
  shows "splitHostPort (h @ CHR '':'' # p) = (h, p, False)"
proof -
  have "hd (h @ CHR '':'' # p) \<noteq> CHR ''[''" using assms(2) by (cases h) auto
  with assms show ?thesis
    by (simp add: splitHostPort_def lastIndexByte_append)
qed

end
