(* ===== verification/K8s_Types.thy ===== *)
theory K8s_Types
  imports Go_Prelude
begin

text \<open>
  The Kubernetes API objects the operator reads and writes, as records with the fields the code
  uses. A structure the operator only copies from the custom resource into a pod template
  (affinity, probes, security contexts, resources, \<dots>) is a \<open>json\<close> value; a nil pointer is
  \<open>None\<close>. Nothing here models code of the repository: these are the data types of
  \<open>k8s.io/api\<close> and \<open>k8s.io/apimachinery\<close>.
\<close>

datatype json =
    JNull
  | JBool bool
  | JInt int
  | JStr string
  | JArr "json list"
  | JObj "(string \<times> json) list"

datatype conditionStatus = StatusUnset | ConditionTrue | ConditionFalse | ConditionUnknown

datatype intstr = IntVal int | StrVal string

record objectMeta =
  om_Name :: string
  om_Namespace :: string
  om_Labels :: gomap
  om_Annotations :: gomap
  om_UID :: string
  om_ResourceVersion :: string
  om_Generation :: int
  om_CreationTimestamp :: time
  om_DeletionTimestamp :: "time option"
  om_Finalizers :: "string list"
  om_controller :: "string option" \<comment> \<open>the UID of \<open>metav1.GetControllerOf\<close>, \<open>None\<close> for nil\<close>

record labelSelectorRequirement =
  lsr_Key :: string
  lsr_Operator :: string
  lsr_Values :: "string list option"

record labelSelector =
  sel_MatchLabels :: gomap
  sel_MatchExpressions :: "labelSelectorRequirement list option"

record servicePort =
  sp_Name :: string
  sp_Protocol :: string
  sp_Port :: int
  sp_TargetPort :: intstr
  sp_NodePort :: int

record containerPort =
  cp_Name :: string
  cp_Protocol :: string
  cp_ContainerPort :: int

record serviceSpec =
  ss_Type :: string
  ss_ClusterIP :: string
  ss_SessionAffinity :: string
  ss_PublishNotReadyAddresses :: bool
  ss_Selector :: gomap
  ss_Ports :: "servicePort list"
  ss_other :: json

record service =
  svc_APIVersion :: string
  svc_Kind :: string
  svc_meta :: objectMeta
  svc_spec :: serviceSpec

datatype envSource =
    EnvValue string
  | EnvFieldRef string
  | EnvSecretKeyRef string string
  | EnvOther json

record envVar =
  ev_Name :: string
  ev_Value :: envSource

record volumeMount =
  vm_Name :: string
  vm_MountPath :: string
  vm_SubPath :: string
  vm_ReadOnly :: bool

datatype volumeSource =
    VolSecret string
  | VolConfigMap string
  | VolEmptyDir
  | VolOther json

record volume =
  vol_Name :: string
  vol_Source :: volumeSource

record container =
  c_Name :: string
  c_Image :: string
  c_ImagePullPolicy :: string
  c_Command :: "string list"
  c_Args :: "string list"
  c_WorkingDir :: string
  c_Ports :: "containerPort list"
  c_Env :: "envVar list"
  c_EnvFrom :: "json list"
  c_Resources :: json
  c_VolumeMounts :: "volumeMount list"
  c_VolumeDevices :: "json list"
  c_SecurityContext :: "json option"
  c_LivenessProbe :: "json option"
  c_ReadinessProbe :: "json option"
  c_StartupProbe :: "json option"
  c_Lifecycle :: "json option"
  c_TerminationMessagePath :: string
  c_TerminationMessagePolicy :: string
  c_Stdin :: bool
  c_StdinOnce :: bool
  c_TTY :: bool

record podSpec =
  ps_ReadinessGates :: "string list"
  ps_ImagePullSecrets :: "string list"
  ps_ServiceAccountName :: string
  ps_SecurityContext :: "json option"
  ps_Affinity :: "json option"
  ps_Tolerations :: "json list"
  ps_TopologySpreadConstraints :: "json list"
  ps_NodeName :: string
  ps_NodeSelector :: gomap
  ps_InitContainers :: "container list"
  ps_EphemeralContainers :: "json list"
  ps_Containers :: "container list"
  ps_Volumes :: "volume list"

record podTemplateSpec =
  pt_meta :: objectMeta
  pt_spec :: podSpec

record pvcSpec =
  pvc_VolumeMode :: "string option"
  pvc_other :: json

record persistentVolumeClaim =
  pvc_meta :: objectMeta
  pvc_spec :: pvcSpec

record setStatus =
  st_Replicas :: int
  st_ReadyReplicas :: int
  st_CurrentReplicas :: int
  st_ObservedGeneration :: int
  st_CurrentRevision :: string

record statefulSet =
  sts_meta :: objectMeta
  sts_ServiceName :: string
  sts_Replicas :: "int option"
  sts_Selector :: labelSelector
  sts_PodManagementPolicy :: string
  sts_Template :: podTemplateSpec
  sts_VolumeClaimTemplates :: "persistentVolumeClaim list"
  sts_status :: setStatus

record replicaSet =
  rs_meta :: objectMeta
  rs_Replicas :: "int option"
  rs_Selector :: labelSelector
  rs_Template :: podTemplateSpec
  rs_status :: setStatus

record podCondition =
  pc_Type :: string
  pc_Status :: conditionStatus
  pc_LastTransitionTime :: time

record pod =
  pod_meta :: objectMeta
  pod_NodeName :: string
  pod_PodIP :: string
  pod_Phase :: string
  pod_Conditions :: "podCondition list"

record event =
  e_Reason :: string
  e_LastTimestamp :: time
  e_CreationTimestamp :: time

record secret =
  sec_meta :: objectMeta
  sec_Data :: gomap
  sec_StringData :: gomap

record configMap =
  cm_meta :: objectMeta
  cm_Data :: gomap

record pdb =
  pdb_APIVersion :: string
  pdb_meta :: objectMeta
  pdb_Selector :: labelSelector
  pdb_MinAvailable :: "intstr option"
  pdb_MaxUnavailable :: "intstr option"

record objectReference =
  or_Kind :: string
  or_Namespace :: string
  or_Name :: string
  or_UID :: string

record endpointAddress =
  ea_IP :: string
  ea_NodeName :: "string option"
  ea_TargetRef :: "objectReference option"

record endpointPort =
  ep_Name :: string
  ep_Port :: int
  ep_Protocol :: string

record endpointSubset =
  eps_Addresses :: "endpointAddress list"
  eps_Ports :: "endpointPort list"

record endpoints =
  end_meta :: objectMeta
  end_Subsets :: "endpointSubset list"

text \<open>The zero values of the structures the code builds field by field.\<close>

definition emptyMeta :: objectMeta where
  "emptyMeta = \<lparr>om_Name = [], om_Namespace = [], om_Labels = None, om_Annotations = None,
     om_UID = [], om_ResourceVersion = [], om_Generation = 0, om_CreationTimestamp = zeroTime,
     om_DeletionTimestamp = None, om_Finalizers = [], om_controller = None\<rparr>"

definition emptySetStatus :: setStatus where
  "emptySetStatus = \<lparr>st_Replicas = 0, st_ReadyReplicas = 0, st_CurrentReplicas = 0,
     st_ObservedGeneration = 0, st_CurrentRevision = []\<rparr>"

definition emptyServiceSpec :: serviceSpec where
  "emptyServiceSpec = \<lparr>ss_Type = [], ss_ClusterIP = [], ss_SessionAffinity = [],
     ss_PublishNotReadyAddresses = False, ss_Selector = None, ss_Ports = [], ss_other = JNull\<rparr>"

text \<open>
  Whether labels satisfy an equality-based selector (\<open>client.MatchingLabels\<close>,
  \<open>LabelSelector.MatchLabels\<close>): every required key is present with the required value.
\<close>

definition matchesLabels :: "gomap \<Rightarrow> gomap \<Rightarrow> bool" where
  "matchesLabels sel labels = (\<forall>k v. mget sel k = Some v \<longrightarrow> mget labels k = Some v)"

lemma matchesLabels_refl [simp]: "matchesLabels m m"
  by (simp add: matchesLabels_def)

lemma matchesLabels_trans:
  "matchesLabels a b \<Longrightarrow> matchesLabels b c \<Longrightarrow> matchesLabels a c"
  by (simp add: matchesLabels_def)

end
