(* ===== verification/Condition_Store.thy ===== *)
theory Condition_Store
  imports K8s_Types
begin

text \<open>
  The interface every status of the operator offers for its conditions, whatever the API version:
  a condition of a type is stored, and looked up by its type. The contract says what a lookup
  returns after a store; what a sequence of stores leaves behind is proved from it once.
\<close>

text \<open>The list of a store before it is sorted: the condition replaced in place, or appended.\<close>

definition placed :: "('c \<Rightarrow> 't) \<Rightarrow> 'c list \<Rightarrow> 'c \<Rightarrow> 'c list" where
  "placed kind cs c = (case findIndex (\<lambda>d. kind d = kind c) cs of
     None \<Rightarrow> cs @ [c] | Some i \<Rightarrow> cs[i := c])"

section \<open>Lemmas on lists with one element per key\<close>

lemma find_unique:
  assumes "distinct (map f xs)" "x \<in> set xs"
  shows "find (\<lambda>y. f y = f x) xs = Some x"
  using assms by (induction xs) (auto simp: image_iff)

lemma find_mset_unique:
  assumes "distinct (map f xs)" "mset xs = mset ys"
  shows "find (\<lambda>y. f y = k) xs = find (\<lambda>y. f y = k) ys"
proof (cases "\<exists>x \<in> set xs. f x = k")
  case True
  then obtain x where x: "x \<in> set xs" "f x = k" by blast
  have "distinct (map f ys)"
    using assms by (metis mset_eq_imp_distinct_iff mset_map)
  moreover have "x \<in> set ys" using x assms(2) by (metis set_mset_mset)
  ultimately show ?thesis
    using find_unique[OF assms(1) x(1)] find_unique[of f ys x] x(2) by simp
next
  case False
  then have "\<forall>x \<in> set ys. f x \<noteq> k" using assms(2) by (metis set_mset_mset)
  with False have "find (\<lambda>y. f y = k) xs = None" "find (\<lambda>y. f y = k) ys = None"
    by (auto simp: find_None_iff)
  then show ?thesis by simp
qed

lemma placed_types:
  "distinct (map kind cs) \<Longrightarrow> distinct (map kind (placed kind cs c))"
proof (cases "findIndex (\<lambda>d. kind d = kind c) cs")
  case None
  assume "distinct (map kind cs)"
  moreover from None have "\<forall>d \<in> set cs. kind d \<noteq> kind c"
    by (simp only: findIndex_None_iff)
  ultimately show ?thesis using None by (auto simp: placed_def)
next
  case (Some i)
  assume d: "distinct (map kind cs)"
  from Some findIndex_SomeD[OF Some] have "map kind (cs[i := c]) = map kind cs"
    by (metis list_update_id map_update nth_map)
  with d Some show ?thesis by (simp add: placed_def)
qed

lemma set_placed:
  assumes "distinct (map kind cs)"
  shows "set (placed kind cs c) = insert c {d \<in> set cs. kind d \<noteq> kind c}"
proof (cases "findIndex (\<lambda>d. kind d = kind c) cs")
  case None
  then have "\<forall>d \<in> set cs. kind d \<noteq> kind c"
    by (simp only: findIndex_None_iff)
  with None show ?thesis by (auto simp: placed_def)
next
  case (Some i)
  note i = findIndex_SomeD[OF Some]
  have "distinct cs" using assms by (simp add: distinct_map)
  moreover have "d = cs ! i" if "d \<in> set cs" "kind d = kind c" for d
    using that i assms by (metis distinct_map inj_on_eq_iff nth_mem)
  ultimately show ?thesis
    using i Some by (auto simp: placed_def set_update_distinct)
qed

lemma find_placed:
  "find (\<lambda>d. kind d = t) (placed kind cs c) =
     (if t = kind c then Some c else find (\<lambda>d. kind d = t) cs)"
proof (induction cs)
  case (Cons d cs)
  then show ?case
    by (cases "findIndex (\<lambda>d. kind d = kind c) cs") (auto simp: placed_def)
qed (auto simp: placed_def)

lemma find_sorted_placed:
  assumes "distinct (map kind cs)"
  shows "find (\<lambda>d. kind d = t) (go_sort lt (placed kind cs c)) =
    (if t = kind c then Some c else find (\<lambda>d. kind d = t) cs)"
proof -
  have "find (\<lambda>d. kind d = t) (go_sort lt (placed kind cs c)) =
      find (\<lambda>d. kind d = t) (placed kind cs c)"
    by (rule find_mset_unique) (simp_all add: placed_types assms)
  then show ?thesis by (simp add: find_placed)
qed

lemma drop_found:
  assumes "distinct (map kind cs)" "findIndex (\<lambda>c. kind c = t) cs = Some i"
  shows "take i cs @ drop (Suc i) cs = filter (\<lambda>c. kind c \<noteq> t) cs"
  using assms
proof (induction cs arbitrary: i)
  case (Cons c cs)
  show ?case
  proof (cases "kind c = t")
    case True
    with Cons.prems(1) have "\<forall>d \<in> set cs. kind d \<noteq> t" by (auto simp: image_iff)
    with Cons.prems True show ?thesis by (simp add: filter_id_conv)
  next
    case False
    with Cons.prems obtain k where "findIndex (\<lambda>c. kind c = t) cs = Some k" "i = Suc k"
      by auto
    with Cons False show ?thesis by auto
  qed
qed simp

section \<open>The interface\<close>

locale condition_store =
  fixes inv :: "'s \<Rightarrow> bool"
    and store :: "time \<Rightarrow> 's \<Rightarrow> 'c \<Rightarrow> 's"
    and lookup :: "'s \<Rightarrow> 't \<Rightarrow> 'c option"
    and kind :: "'c \<Rightarrow> 't"
    and stat :: "'c \<Rightarrow> conditionStatus"
  assumes store_inv: "inv s \<Longrightarrow> inv (store now s c)"
    and lookup_store_same:
      "inv s \<Longrightarrow> \<exists>c'. lookup (store now s c) (kind c) = Some c' \<and> stat c' = stat c"
    and lookup_store_other:
      "inv s \<Longrightarrow> t \<noteq> kind c \<Longrightarrow> lookup (store now s c) t = lookup s t"
begin

definition storeAll :: "'s \<Rightarrow> (time \<times> 'c) list \<Rightarrow> 's" where
  "storeAll s cs = foldl (\<lambda>s (now, c). store now s c) s cs"

definition statusOf :: "'s \<Rightarrow> 't \<Rightarrow> conditionStatus option" where
  "statusOf s t = map_option stat (lookup s t)"

lemma storeAll_simps [simp]:
  "storeAll s [] = s"
  "storeAll s ((now, c) # cs) = storeAll (store now s c) cs"
  by (simp_all add: storeAll_def)

lemma storeAll_inv: "inv s \<Longrightarrow> inv (storeAll s cs)"
  by (induction cs arbitrary: s) (auto simp: store_inv)

lemma statusOf_store:
  "inv s \<Longrightarrow> statusOf (store now s c) t = (if t = kind c then Some (stat c) else statusOf s t)"
  using lookup_store_same[of s now c] lookup_store_other[of s t c now]
  by (auto simp: statusOf_def)

text \<open>After any sequence of stores a type has the status of the last condition stored for it.\<close>

lemma statusOf_storeAll:
  "inv s \<Longrightarrow>
   statusOf (storeAll s cs) t =
     (case find (\<lambda>p. kind (snd p) = t) (rev cs) of
        Some p \<Rightarrow> Some (stat (snd p))
      | None \<Rightarrow> statusOf s t)"
proof (induction cs rule: rev_induct)
  case (snoc p cs)
  obtain now c where p: "p = (now, c)" by (cases p)
  have "storeAll s (cs @ [p]) = store now (storeAll s cs) c"
    by (simp add: storeAll_def p)
  then show ?case
    using snoc p statusOf_store[OF storeAll_inv[OF snoc.prems]] by auto
qed simp

end

end
