(* ===== verification/Rebalance_Types.thy ===== *)
theory Rebalance_Types
  imports Condition_Store
begin

text \<open>
  The \<open>Rebalance\<close> custom resource of API version v2beta1: the types of
  \<open>apis/apps/v2beta1/rebalance_types.go\<close>, the phase and condition operations of its status, and
  the admission checks of \<open>rebalance_webhook.go\<close>. \<open>metav1.Now()\<close> is an argument; the two calls
  of one operation are given the same time.
\<close>

section \<open>Types\<close>

record RebalanceStrategy =
  rst_ConnEvictRate :: int
  rst_SessEvictRate :: int
  rst_WaitTakeover :: int
  rst_WaitHealthCheck :: int
  rst_AbsConnThreshold :: int
  rst_RelConnThreshold :: string
  rst_AbsSessThreshold :: int
  rst_RelSessThreshold :: string

record RebalanceSpec =
  rb_InstanceKind :: string
  rb_InstanceName :: string
  rb_RebalanceStrategy :: RebalanceStrategy

record RebalanceCondition =
  rc_Type :: string
  rc_Status :: conditionStatus
  rc_LastUpdateTime :: time
  rc_LastTransitionTime :: time
  rc_Reason :: string
  rc_Message :: string

record RebalanceState =
  rbs_State :: string
  rbs_SessionEvictionRate :: int
  rbs_Recipients :: "string list"
  rbs_Node :: string
  rbs_Donors :: "string list"
  rbs_CoordinatorNode :: string
  rbs_ConnectionEvictionRate :: int

record RebalanceStatus =
  rb_Conditions :: "RebalanceCondition list"
  rb_Phase :: string
  rb_RebalanceStates :: "RebalanceState list"
  rb_StartedTime :: time
  rb_CompletedTime :: time

record Rebalance =
  rb_meta :: objectMeta
  rb_Spec :: RebalanceSpec
  rb_Status :: RebalanceStatus

definition RebalancePhaseProcessing :: string where
  "RebalancePhaseProcessing = ''Processing''"

definition RebalancePhaseCompleted :: string where
  "RebalancePhaseCompleted = ''Completed''"

definition RebalancePhaseFailed :: string where
  "RebalancePhaseFailed = ''Failed''"

definition RebalanceConditionProcessing :: string where
  "RebalanceConditionProcessing = ''Processing''"

definition RebalanceConditionCompleted :: string where
  "RebalanceConditionCompleted = ''Completed''"

definition RebalanceConditionFailed :: string where
  "RebalanceConditionFailed = ''Failed''"

lemmas rebalance_consts = RebalancePhaseProcessing_def RebalancePhaseCompleted_def
  RebalancePhaseFailed_def RebalanceConditionProcessing_def RebalanceConditionCompleted_def
  RebalanceConditionFailed_def

section \<open>Status operations\<close>

definition getConditionIndex :: "RebalanceStatus \<Rightarrow> string \<Rightarrow> int" where
  "getConditionIndex s condType =
     (case findIndex (\<lambda>c. condType = rc_Type c) (rb_Conditions s) of None \<Rightarrow> - 1 | Some i \<Rightarrow> int i)"

definition updatedLater :: "RebalanceCondition \<Rightarrow> RebalanceCondition \<Rightarrow> bool" where
  "updatedLater a b = (rc_LastUpdateTime b < rc_LastUpdateTime a)"

definition SetRebalanceCondition ::
  "time \<Rightarrow> RebalanceStatus \<Rightarrow> RebalanceCondition \<Rightarrow> RebalanceStatus" where
  "SetRebalanceCondition now s c0 =
     (let c = c0\<lparr>rc_LastUpdateTime := now, rc_LastTransitionTime := now\<rparr>;
          pos = getConditionIndex s (rc_Type c);
          conds =
            (if pos \<ge> 0 then
               let old = rb_Conditions s ! nat pos;
                   c' = (if rc_Status old = rc_Status c
                         then c\<lparr>rc_LastTransitionTime := rc_LastTransitionTime old\<rparr> else c)
               in (rb_Conditions s)[nat pos := c']
             else rb_Conditions s @ [c])
      in s\<lparr>rb_Conditions := go_sort updatedLater conds\<rparr>)"

text \<open>The three setters: the new status and the error, \<open>None\<close> for nil.\<close>

definition SetFailed ::
  "time \<Rightarrow> RebalanceStatus \<Rightarrow> RebalanceCondition \<Rightarrow> RebalanceStatus \<times> goerr option" where
  "SetFailed now s condition =
     (if rc_Type condition \<noteq> RebalanceConditionFailed
      then (s, Some (ErrText (''condition type must be '' @ RebalanceConditionFailed)))
      else (SetRebalanceCondition now (s\<lparr>rb_Phase := RebalancePhaseFailed\<rparr>) condition, None))"

definition SetCompleted ::
  "time \<Rightarrow> RebalanceStatus \<Rightarrow> RebalanceCondition \<Rightarrow> RebalanceStatus \<times> goerr option" where
  "SetCompleted now s condition =
     (if rb_Phase s \<noteq> RebalancePhaseProcessing
      then (s, Some (ErrText ''rebalance job is not in processing''))
      else if rc_Type condition \<noteq> RebalanceConditionCompleted
      then (s, Some (ErrText (''condition type must be '' @ RebalanceConditionCompleted)))
      else (SetRebalanceCondition now
              (s\<lparr>rb_Phase := RebalancePhaseCompleted, rb_CompletedTime := now\<rparr>) condition, None))"

definition SetProcessing ::
  "time \<Rightarrow> RebalanceStatus \<Rightarrow> RebalanceCondition \<Rightarrow> RebalanceStatus \<times> goerr option" where
  "SetProcessing now s condition =
     (if rb_Phase s = RebalancePhaseFailed
      then (s, Some (ErrText ''rebalance job has been failed''))
      else if rb_Phase s = RebalancePhaseCompleted
      then (s, Some (ErrText ''rebalance job has been completed''))
      else if rc_Type condition \<noteq> RebalanceConditionProcessing
      then (s, Some (ErrText (''condition type must be '' @ RebalanceConditionProcessing)))
      else (SetRebalanceCondition now
              (s\<lparr>rb_Phase := RebalancePhaseProcessing,
                 rb_StartedTime := (if rb_StartedTime s = zeroTime then now else rb_StartedTime s)\<rparr>)
              condition, None))"

section \<open>Admission\<close>

text \<open>
  \<open>strconv.ParseFloat\<close> is the argument \<open>parseFloat\<close>, \<open>None\<close> for its error. The result is the
  error reported to the API server.
\<close>

definition ValidateCreateRebalance :: "(string \<Rightarrow> 'f option) \<Rightarrow> Rebalance \<Rightarrow> goerr option" where
  "ValidateCreateRebalance parseFloat r =
     (let st = rb_RebalanceStrategy (rb_Spec r)
      in if rst_RelConnThreshold st \<noteq> [] \<and> parseFloat (rst_RelConnThreshold st) = None
         then Some (ErrText ''the field .spec.rebalanceStrategy.relConnThreshold must be float64'')
         else if rst_RelSessThreshold st \<noteq> [] \<and> parseFloat (rst_RelSessThreshold st) = None
         then Some (ErrText ''the field .spec.rebalanceStrategy.relSessThreshold must be float64'')
         else None)"

definition ValidateUpdateRebalance :: "Rebalance \<Rightarrow> Rebalance \<Rightarrow> goerr option" where
  "ValidateUpdateRebalance r oldRebalance =
     (if om_Generation (rb_meta r) \<noteq> om_Generation (rb_meta oldRebalance)
      then Some (ErrText ''the Rebalance spec don't allow update'') else None)"

definition ValidateDeleteRebalance :: "Rebalance \<Rightarrow> goerr option" where
  "ValidateDeleteRebalance r = None"

section \<open>Lemmas\<close>

definition rebalanceConditionMap :: "RebalanceStatus \<Rightarrow> string \<rightharpoonup> RebalanceCondition" where
  "rebalanceConditionMap s = (\<lambda>t. find (\<lambda>c. rc_Type c = t) (rb_Conditions s))"

definition rebalance_conditions_inv :: "RebalanceStatus \<Rightarrow> bool" where
  "rebalance_conditions_inv s \<longleftrightarrow> distinct (map rc_Type (rb_Conditions s))"

interpretation updatedLater: go_less updatedLater
  unfolding updatedLater_def by unfold_locales auto

text \<open>The condition as it is stored: its transition time kept while the status does not change.\<close>

definition storedCondition ::
  "time \<Rightarrow> RebalanceStatus \<Rightarrow> RebalanceCondition \<Rightarrow> RebalanceCondition" where
  "storedCondition now s c =
     c\<lparr>rc_LastUpdateTime := now,
       rc_LastTransitionTime :=
         (case rebalanceConditionMap s (rc_Type c) of
            Some old \<Rightarrow> if rc_Status old = rc_Status c then rc_LastTransitionTime old else now
          | None \<Rightarrow> now)\<rparr>"

lemma storedCondition_simps [simp]:
  "rc_Type (storedCondition now s c) = rc_Type c"
  "rc_Status (storedCondition now s c) = rc_Status c"
  "rc_LastUpdateTime (storedCondition now s c) = now"
  by (simp_all add: storedCondition_def)

lemma rb_Conditions_Set:
  "rb_Conditions (SetRebalanceCondition now s c) =
     go_sort updatedLater (placed rc_Type (rb_Conditions s) (storedCondition now s c))"
proof (cases "findIndex (\<lambda>d. rc_Type c = rc_Type d) (rb_Conditions s)")
  case None
  then show ?thesis
    by (simp add: SetRebalanceCondition_def getConditionIndex_def Let_def placed_def
        storedCondition_def rebalanceConditionMap_def find_findIndex eq_commute[of "rc_Type c"])
next
  case (Some i)
  then show ?thesis
    by (simp add: SetRebalanceCondition_def getConditionIndex_def Let_def placed_def
        storedCondition_def rebalanceConditionMap_def find_findIndex eq_commute[of "rc_Type c"])
qed

lemma SetRebalanceCondition_frame [simp]:
  "rb_Phase (SetRebalanceCondition now s c) = rb_Phase s"
  "rb_RebalanceStates (SetRebalanceCondition now s c) = rb_RebalanceStates s"
  "rb_StartedTime (SetRebalanceCondition now s c) = rb_StartedTime s"
  "rb_CompletedTime (SetRebalanceCondition now s c) = rb_CompletedTime s"
  by (simp_all add: SetRebalanceCondition_def Let_def)

lemma SetRebalanceCondition_inv:
  "rebalance_conditions_inv s \<Longrightarrow> rebalance_conditions_inv (SetRebalanceCondition now s c)"
  by (simp add: rebalance_conditions_inv_def rb_Conditions_Set placed_types)

lemma rebalanceConditionMap_Set:
  "rebalance_conditions_inv s \<Longrightarrow>
   rebalanceConditionMap (SetRebalanceCondition now s c) =
     (rebalanceConditionMap s)(rc_Type c \<mapsto> storedCondition now s c)"
  using find_sorted_placed[of rc_Type "rb_Conditions s"]
  by (auto simp: rebalance_conditions_inv_def rebalanceConditionMap_def rb_Conditions_Set)

interpretation rebalance_conditions:
  condition_store rebalance_conditions_inv SetRebalanceCondition rebalanceConditionMap
    rc_Type rc_Status
  by unfold_locales (auto simp: SetRebalanceCondition_inv rebalanceConditionMap_Set)

end
