(* ===== verification/Emqx_Types.thy ===== *)
theory Emqx_Types
  imports K8s_Types
begin

text \<open>
  The \<open>EMQX\<close> custom resource of API version v2beta1: \<open>apis/apps/v2beta1/emqx_types.go\<close>, the
  status types of \<open>status.go\<close>, the constants of \<open>const.go\<close> and the object names of
  \<open>names.go\<close>. A pointer field is an option; the embedded \<open>EMQXReplicantTemplateSpec\<close> of the core
  template is a record extension.
\<close>

section \<open>Spec\<close>

record KeyRef =
  kr_SecretName :: string
  kr_SecretKey :: string

record SecretRef =
  sr_Key :: KeyRef
  sr_Secret :: KeyRef

record BootstrapAPIKey =
  bak_Key :: string
  bak_Secret :: string
  bak_SecretRef :: "SecretRef option"

record Config =
  cfg_Mode :: string
  cfg_Data :: string

record EvacuationStrategy =
  es_WaitTakeover :: int
  es_ConnEvictRate :: int
  es_SessEvictRate :: int

record UpdateStrategy =
  us_Type :: string
  us_InitialDelaySeconds :: int
  us_EvacuationStrategy :: EvacuationStrategy

record EMQXReplicantTemplateSpec =
  t_NodeSelector :: gomap
  t_NodeName :: string
  t_Affinity :: "json option"
  t_ToleRations :: "json list"
  t_Tolerations :: "json list"
  t_TopologySpreadConstraints :: "json list"
  t_Replicas :: "int option"
  t_MinAvailable :: "intstr option"
  t_MaxUnavailable :: "intstr option"
  t_Command :: "string list"
  t_Args :: "string list"
  t_Ports :: "containerPort list"
  t_Env :: "envVar list"
  t_EnvFrom :: "json list"
  t_Resources :: json
  t_PodSecurityContext :: "json option"
  t_ContainerSecurityContext :: "json option"
  t_InitContainers :: "container list"
  t_ExtraContainers :: "container list"
  t_ExtraVolumes :: "volume list"
  t_ExtraVolumeMounts :: "volumeMount list"
  t_LivenessProbe :: "json option"
  t_ReadinessProbe :: "json option"
  t_StartupProbe :: "json option"
  t_Lifecycle :: "json option"

record EMQXCoreTemplateSpec = EMQXReplicantTemplateSpec +
  t_VolumeClaimTemplates :: pvcSpec

record EMQXReplicantTemplate =
  rt_meta :: objectMeta
  rt_Spec :: EMQXReplicantTemplateSpec

record EMQXCoreTemplate =
  ct_meta :: objectMeta
  ct_Spec :: EMQXCoreTemplateSpec

record ServiceTemplate =
  stpl_Enabled :: "bool option"
  stpl_meta :: objectMeta
  stpl_Spec :: serviceSpec

record EMQXSpec =
  Image :: string
  ImagePullPolicy :: string
  ImagePullSecrets :: "string list"
  ServiceAccountName :: string
  BootstrapAPIKeys :: "BootstrapAPIKey list"
  SpecConfig :: Config
  ClusterDomain :: string
  RevisionHistoryLimit :: "int option"
  SpecUpdateStrategy :: UpdateStrategy
  CoreTemplate :: EMQXCoreTemplate
  ReplicantTemplate :: "EMQXReplicantTemplate option"
  DashboardServiceTemplate :: "ServiceTemplate option"
  ListenersServiceTemplate :: "ServiceTemplate option"

section \<open>Status\<close>

record condition =
  cd_Type :: string
  cd_Status :: conditionStatus
  cd_Reason :: string
  cd_Message :: string
  cd_LastTransitionTime :: time

record NodeEvacuationStats =
  nes_InitialSessions :: "int option"
  nes_InitialConnected :: "int option"
  nes_CurrentSessions :: "int option"
  nes_CurrentConnected :: "int option"

record NodeEvacuationStatus =
  ne_Node :: string
  ne_Stats :: NodeEvacuationStats
  ne_State :: string
  ne_SessionRecipients :: "string list"
  ne_SessionGoal :: int
  ne_SessionEvictionRate :: int
  ne_ConnectionGoal :: int
  ne_ConnectionEvictionRate :: int

record EMQXNodesStatus =
  ns_Replicas :: int
  ns_ReadyReplicas :: int
  ns_CurrentRevision :: string
  ns_CurrentReplicas :: int
  ns_UpdateRevision :: string
  ns_UpdateReplicas :: int
  ns_CollisionCount :: "int option"

record EMQXNode =
  n_ControllerUID :: string
  n_PodUID :: string
  n_Node :: string
  n_NodeStatus :: string
  n_OTPRelease :: string
  n_Version :: string
  n_Role :: string
  n_Edition :: string
  n_Session :: int
  n_Connections :: int
  n_Uptime :: int

record EMQXStatus =
  Conditions :: "condition list"
  CoreNodes :: "EMQXNode list"
  CoreNodesStatus :: EMQXNodesStatus
  ReplicantNodes :: "EMQXNode list"
  ReplicantNodesStatus :: EMQXNodesStatus
  NodeEvacuationsStatus :: "NodeEvacuationStatus list"

record EMQX =
  Meta :: objectMeta
  Spec :: EMQXSpec
  Status :: EMQXStatus

section \<open>Constants\<close>

definition DefaultContainerName :: string where
  "DefaultContainerName = ''emqx''"

definition DefaultBootstrapAPIKey :: string where
  "DefaultBootstrapAPIKey = ''emqx-operator-controller''"

definition LabelsInstanceKey :: string where
  "LabelsInstanceKey = ''apps.emqx.io/instance''"

definition LabelsManagedByKey :: string where
  "LabelsManagedByKey = ''apps.emqx.io/managed-by''"

definition LabelsDBRoleKey :: string where
  "LabelsDBRoleKey = ''apps.emqx.io/db-role''"

definition LabelsPodTemplateHashKey :: string where
  "LabelsPodTemplateHashKey = ''apps.emqx.io/pod-template-hash''"

definition AnnotationsLastEMQXConfigKey :: string where
  "AnnotationsLastEMQXConfigKey = ''apps.emqx.io/last-emqx-configuration''"

definition PodOnServing :: string where
  "PodOnServing = ''apps.emqx.io/on-serving''"

definition Initialized :: string where
  "Initialized = ''Initialized''"

definition CoreNodesProgressing :: string where
  "CoreNodesProgressing = ''CoreNodesProgressing''"

definition CoreNodesReady :: string where
  "CoreNodesReady = ''CoreNodesReady''"

definition ReplicantNodesProgressing :: string where
  "ReplicantNodesProgressing = ''ReplicantNodesProgressing''"

definition ReplicantNodesReady :: string where
  "ReplicantNodesReady = ''ReplicantNodesReady''"

definition Available :: string where
  "Available = ''Available''"

definition Ready :: string where
  "Ready = ''Ready''"

lemmas condition_type_defs = Initialized_def CoreNodesProgressing_def CoreNodesReady_def
  ReplicantNodesProgressing_def ReplicantNodesReady_def Available_def Ready_def

lemmas label_key_defs = LabelsInstanceKey_def LabelsManagedByKey_def LabelsDBRoleKey_def
  LabelsPodTemplateHashKey_def

section \<open>Names of the managed objects\<close>

definition CoreNamespacedName :: "EMQX \<Rightarrow> string \<times> string" where
  "CoreNamespacedName instance =
     (om_Namespace (Meta instance), om_Name (Meta instance) @ ''-core'')"

definition ReplicantNamespacedName :: "EMQX \<Rightarrow> string \<times> string" where
  "ReplicantNamespacedName instance =
     (om_Namespace (Meta instance), om_Name (Meta instance) @ ''-replicant'')"

definition HeadlessServiceNamespacedName :: "EMQX \<Rightarrow> string \<times> string" where
  "HeadlessServiceNamespacedName instance =
     (om_Namespace (Meta instance), om_Name (Meta instance) @ ''-headless'')"

definition DashboardServiceNamespacedName :: "EMQX \<Rightarrow> string \<times> string" where
  "DashboardServiceNamespacedName instance =
     (om_Namespace (Meta instance), om_Name (Meta instance) @ ''-dashboard'')"

definition ListenersServiceNamespacedName :: "EMQX \<Rightarrow> string \<times> string" where
  "ListenersServiceNamespacedName instance =
     (om_Namespace (Meta instance), om_Name (Meta instance) @ ''-listeners'')"

definition BootstrapAPIKeyNamespacedName :: "EMQX \<Rightarrow> string \<times> string" where
  "BootstrapAPIKeyNamespacedName instance =
     (om_Namespace (Meta instance), om_Name (Meta instance) @ ''-bootstrap-api-key'')"

definition NodeCookieNamespacedName :: "EMQX \<Rightarrow> string \<times> string" where
  "NodeCookieNamespacedName instance =
     (om_Namespace (Meta instance), om_Name (Meta instance) @ ''-node-cookie'')"

definition ConfigsNamespacedName :: "EMQX \<Rightarrow> string \<times> string" where
  "ConfigsNamespacedName instance =
     (om_Namespace (Meta instance), om_Name (Meta instance) @ ''-configs'')"

section \<open>Replicants\<close>

text \<open>\<open>IsExistReplicant\<close> of \<open>util.go\<close>: a replicant template with a positive replica count.\<close>

definition IsExistReplicant :: "EMQX \<Rightarrow> bool" where
  "IsExistReplicant instance =
     (case ReplicantTemplate (Spec instance) of
        None \<Rightarrow> False
      | Some t \<Rightarrow> (case t_Replicas (rt_Spec t) of None \<Rightarrow> False | Some n \<Rightarrow> n > 0))"

lemmas name_defs = CoreNamespacedName_def ReplicantNamespacedName_def
  HeadlessServiceNamespacedName_def DashboardServiceNamespacedName_def
  ListenersServiceNamespacedName_def BootstrapAPIKeyNamespacedName_def
  NodeCookieNamespacedName_def ConfigsNamespacedName_def

lemma set_Status_simps [simp]:
  "IsExistReplicant (x\<lparr>Status := s\<rparr>) = IsExistReplicant x"
  "CoreNamespacedName (x\<lparr>Status := s\<rparr>) = CoreNamespacedName x"
  "ReplicantNamespacedName (x\<lparr>Status := s\<rparr>) = ReplicantNamespacedName x"
  by (simp_all add: IsExistReplicant_def name_defs)

end
