(* ===== verification/V4_Types.thy ===== *)
theory V4_Types
  imports Condition_Store Emqx_Types
begin

text \<open>
  The custom resources of API version v1beta4, \<open>EmqxBroker\<close> and \<open>EmqxEnterprise\<close>: the records of
  \<open>apis/apps/v1beta4/spec_types.go\<close>, \<open>status_types.go\<close>, \<open>emqxbroker_types.go\<close> and
  \<open>emqxenterprise_types.go\<close>, and the condition operations of their status. The fields the two
  kinds share are one record, which the enterprise record extends. A value of the Go interface
  \<open>Emqx\<close> is one of the two kinds. The map \<open>EmqxConfig\<close> is the list of its entries in the order
  in which a loop over it meets them; it and the slices \<open>BootstrapAPIKeys\<close> and
  \<open>EvacuationsStatus\<close> are \<open>None\<close> when they are nil, which the code tells from empty ones.
\<close>

section \<open>Spec\<close>

record EmqxImage =
  im_Registry :: string
  im_Repository :: string
  im_Version :: string
  im_Prefix :: string
  im_Suffix :: string
  im_PullPolicy :: string

record BootstrapAPIKey4 =
  bk_Key :: string
  bk_Secret :: string

record EmqxContainer =
  ec_Image :: EmqxImage
  ec_Command :: "string list"
  ec_Args :: "string list"
  ec_WorkingDir :: string
  ec_Ports :: "containerPort list"
  ec_EnvFrom :: "json list"
  ec_Env :: "envVar list"
  ec_Resources :: json
  ec_VolumeMounts :: "volumeMount list"
  ec_VolumeDevices :: "json list"
  ec_LivenessProbe :: "json option"
  ec_ReadinessProbe :: "json option"
  ec_StartupProbe :: "json option"
  ec_Lifecycle :: "json option"
  ec_TerminationMessagePath :: string
  ec_TerminationMessagePolicy :: string
  ec_SecurityContext :: "json option"
  ec_Stdin :: bool
  ec_StdinOnce :: bool
  ec_TTY :: bool
  ec_EmqxConfig :: "(string \<times> string) list option"
  ec_EmqxACL :: "string list"
  ec_BootstrapAPIKeys :: "BootstrapAPIKey4 list option"

text \<open>The entries a loop over the configuration meets: none for a nil map.\<close>

definition configEntries :: "EmqxContainer \<Rightarrow> (string \<times> string) list" where
  "configEntries c = (case ec_EmqxConfig c of None \<Rightarrow> [] | Some entries \<Rightarrow> entries)"

record EmqxTemplateSpec =
  ts_ServiceAccountName :: string
  ts_ReloaderImage :: string
  ts_ImagePullSecrets :: "string list"
  ts_EmqxContainer :: EmqxContainer
  ts_ExtraContainers :: "container list"
  ts_InitContainers :: "container list"
  ts_EphemeralContainers :: "json list"
  ts_Volumes :: "volume list"
  ts_PodSecurityContext :: "json option"
  ts_NodeSelector :: gomap
  ts_NodeName :: string
  ts_Affinity :: "json option"
  ts_Tolerations :: "json list"

record EmqxTemplate =
  et_meta :: objectMeta
  et_Spec :: EmqxTemplateSpec

record ServiceTemplate4 =
  st4_meta :: objectMeta
  st4_Spec :: serviceSpec

record EmqxLicense =
  li_Data :: "string option"
  li_StringData :: string
  li_SecretName :: string

record EmqxBlueGreenUpdate =
  bg_InitialDelaySeconds :: int
  bg_EvacuationStrategy :: EvacuationStrategy

record EmqxBrokerSpec =
  sp4_Replicas :: "int option"
  sp4_ClusterDomain :: string
  sp4_Persistent :: "persistentVolumeClaim option"
  sp4_Template :: EmqxTemplate
  sp4_ServiceTemplate :: ServiceTemplate4

record EmqxEnterpriseSpec = EmqxBrokerSpec +
  sp4_License :: EmqxLicense
  sp4_EmqxBlueGreenUpdate :: "EmqxBlueGreenUpdate option"

section \<open>Status\<close>

record Condition4 =
  c4_Type :: string
  c4_Status :: conditionStatus
  c4_LastUpdateTime :: time
  c4_LastTransitionTime :: time
  c4_Reason :: string
  c4_Message :: string

record EmqxNode4 =
  n4_Node :: string
  n4_NodeStatus :: string
  n4_OTPRelease :: string
  n4_Version :: string
  n4_Connections :: int

record EmqxEvacuationStats =
  evs_InitialSessions :: "int option"
  evs_InitialConnected :: "int option"
  evs_CurrentSessions :: "int option"
  evs_CurrentConnected :: "int option"

record EmqxEvacuationStatus =
  ev4_Node :: string
  ev4_Stats :: EmqxEvacuationStats
  ev4_State :: string
  ev4_SessionRecipients :: "string list"
  ev4_SessionGoal :: int
  ev4_SessionEvictionRate :: int
  ev4_ConnectionGoal :: int
  ev4_ConnectionEvictionRate :: int

record EmqxBlueGreenUpdateStatus =
  bgs_OriginStatefulSet :: string
  bgs_CurrentStatefulSet :: string
  bgs_StartedAt :: "time option"
  bgs_EvacuationsStatus :: "EmqxEvacuationStatus list option"

record EmqxBrokerStatus =
  st4_Conditions :: "Condition4 list"
  st4_EmqxNodes :: "EmqxNode4 list"
  st4_Replicas :: int
  st4_ReadyReplicas :: int
  st4_CurrentStatefulSetVersion :: string

record EmqxEnterpriseStatus = EmqxBrokerStatus +
  st4_EmqxBlueGreenUpdateStatus :: "EmqxBlueGreenUpdateStatus option"

record EmqxBroker =
  br_meta :: objectMeta
  br_Spec :: EmqxBrokerSpec
  br_Status :: EmqxBrokerStatus

record EmqxEnterprise =
  en_meta :: objectMeta
  en_Spec :: EmqxEnterpriseSpec
  en_Status :: EmqxEnterpriseStatus

text \<open>The interface \<open>Emqx\<close> of \<open>types.go\<close>: its values, \<open>client.Object\<close>, \<open>GetSpec\<close> and \<open>GetStatus\<close>.\<close>

datatype Emqx = Broker EmqxBroker | Enterprise EmqxEnterprise

fun emqxMeta :: "Emqx \<Rightarrow> objectMeta" where
  "emqxMeta (Broker x) = br_meta x"
| "emqxMeta (Enterprise x) = en_meta x"

fun setEmqxMeta :: "objectMeta \<Rightarrow> Emqx \<Rightarrow> Emqx" where
  "setEmqxMeta m (Broker x) = Broker (x\<lparr>br_meta := m\<rparr>)"
| "setEmqxMeta m (Enterprise x) = Enterprise (x\<lparr>en_meta := m\<rparr>)"

fun GetSpec :: "Emqx \<Rightarrow> EmqxBrokerSpec" where
  "GetSpec (Broker x) = br_Spec x"
| "GetSpec (Enterprise x) = EmqxBrokerSpec.truncate (en_Spec x)"

fun SetTemplate :: "EmqxTemplate \<Rightarrow> Emqx \<Rightarrow> Emqx" where
  "SetTemplate t (Broker x) = Broker (x\<lparr>br_Spec := (br_Spec x)\<lparr>sp4_Template := t\<rparr>\<rparr>)"
| "SetTemplate t (Enterprise x) = Enterprise (x\<lparr>en_Spec := (en_Spec x)\<lparr>sp4_Template := t\<rparr>\<rparr>)"

fun GetStatus :: "Emqx \<Rightarrow> EmqxBrokerStatus" where
  "GetStatus (Broker x) = br_Status x"
| "GetStatus (Enterprise x) = EmqxBrokerStatus.truncate (en_Status x)"

text \<open>What the setters of the status, called through the interface, leave: the shared fields.\<close>

fun setGetStatus :: "EmqxBrokerStatus \<Rightarrow> Emqx \<Rightarrow> Emqx" where
  "setGetStatus s (Broker x) = Broker (x\<lparr>br_Status := s\<rparr>)"
| "setGetStatus s (Enterprise x) =
     Enterprise (x\<lparr>en_Status := (en_Status x)\<lparr>st4_Conditions := st4_Conditions s,
       st4_EmqxNodes := st4_EmqxNodes s, st4_Replicas := st4_Replicas s,
       st4_ReadyReplicas := st4_ReadyReplicas s,
       st4_CurrentStatefulSetVersion := st4_CurrentStatefulSetVersion s\<rparr>\<rparr>)"

text \<open>The custom resource \<open>EmqxPlugin\<close>.\<close>

record EmqxPluginSpec =
  pg_PluginName :: string
  pg_Selector :: gomap
  pg_Config :: "(string \<times> string) list"

record EmqxPlugin =
  pg_meta :: objectMeta
  pg_Spec :: EmqxPluginSpec

text \<open>What the management API of EMQX 4 answers about listeners and plugins.\<close>

record emqxListener =
  ln_Protocol :: string
  ln_ListenOn :: string

record emqxListeners =
  ls_Node :: string
  ls_Listeners :: "emqxListener list"

record pluginByAPIReturn =
  pa_Name :: string
  pa_Version :: string
  pa_Description :: string
  pa_Active :: bool
  pa_Type :: string

record pluginListByAPIReturn =
  pl_Node :: string
  pl_Plugins :: "pluginByAPIReturn list"

definition ConditionRunning :: string where
  "ConditionRunning = ''Running''"

definition ConditionBlueGreenUpdating :: string where
  "ConditionBlueGreenUpdating = ''BlueGreenUpdating''"

section \<open>Operations on conditions\<close>

definition indexCondition :: "Condition4 list \<Rightarrow> string \<Rightarrow> int" where
  "indexCondition conditions t =
     (case findIndex (\<lambda>c. t = c4_Type c) conditions of None \<Rightarrow> - 1 | Some i \<Rightarrow> int i)"

definition updatedLater4 :: "Condition4 \<Rightarrow> Condition4 \<Rightarrow> bool" where
  "updatedLater4 a b = (c4_LastUpdateTime b < c4_LastUpdateTime a)"

definition addCondition :: "time \<Rightarrow> Condition4 list \<Rightarrow> Condition4 \<Rightarrow> Condition4 list" where
  "addCondition now conditions c0 =
     (let c = c0\<lparr>c4_LastUpdateTime := now, c4_LastTransitionTime := now\<rparr>;
          index = indexCondition conditions (c4_Type c);
          conds =
            (if index = - 1 then conditions @ [c]
             else if index = 0 then
               conditions[0 := c\<lparr>c4_LastTransitionTime := c4_LastTransitionTime (conditions ! 0)\<rparr>]
             else conditions[nat index := c])
      in go_sort updatedLater4 conds)"

definition GetCondition4 :: "('a EmqxBrokerStatus_scheme) \<Rightarrow> string \<Rightarrow> int \<times> Condition4 option" where
  "GetCondition4 s t =
     (case findIndex (\<lambda>c. t = c4_Type c) (st4_Conditions s) of
        None \<Rightarrow> (- 1, None)
      | Some i \<Rightarrow> (int i, Some (st4_Conditions s ! i)))"

definition IsConditionTrue4 :: "('a EmqxBrokerStatus_scheme) \<Rightarrow> string \<Rightarrow> bool" where
  "IsConditionTrue4 s t =
     (case snd (GetCondition4 s t) of None \<Rightarrow> False | Some c \<Rightarrow> c4_Status c = ConditionTrue)"

definition AddCondition ::
  "time \<Rightarrow> ('a EmqxBrokerStatus_scheme) \<Rightarrow> string \<Rightarrow> conditionStatus \<Rightarrow> string \<Rightarrow> string \<Rightarrow>
   ('a EmqxBrokerStatus_scheme)" where
  "AddCondition now s condType status reason message =
     s\<lparr>st4_Conditions := addCondition now (st4_Conditions s)
        \<lparr>c4_Type = condType, c4_Status = status, c4_LastUpdateTime = zeroTime,
         c4_LastTransitionTime = zeroTime, c4_Reason = reason, c4_Message = message\<rparr>\<rparr>"

section \<open>Lemmas\<close>

lemma emqxMeta_set [simp]: "emqxMeta (setEmqxMeta m x) = m"
  by (cases x) simp_all

lemma GetStatus_set [simp]: "GetStatus (setGetStatus s x) = s"
  by (cases x) (simp_all add: EmqxBrokerStatus.defs)

lemma GetSpec_setters [simp]:
  "GetSpec (setGetStatus s x) = GetSpec x" "GetSpec (setEmqxMeta m x) = GetSpec x"
  by (cases x; simp)+

lemma emqxMeta_setters [simp]:
  "emqxMeta (setGetStatus s x) = emqxMeta x" "emqxMeta (SetTemplate t x) = emqxMeta x"
  by (cases x; simp)+

lemma GetStatus_setters [simp]:
  "GetStatus (setEmqxMeta m x) = GetStatus x" "GetStatus (SetTemplate t x) = GetStatus x"
  by (cases x; simp)+

definition conditionMap4 :: "Condition4 list \<Rightarrow> string \<rightharpoonup> Condition4" where
  "conditionMap4 cs = (\<lambda>t. find (\<lambda>c. c4_Type c = t) cs)"

definition conditions4_inv :: "Condition4 list \<Rightarrow> bool" where
  "conditions4_inv cs \<longleftrightarrow> distinct (map c4_Type cs)"

interpretation updatedLater4: go_less updatedLater4
  unfolding updatedLater4_def by unfold_locales auto

text \<open>
  The condition as it is stored: the old transition time survives only when the condition stands
  first, whatever its status was.
\<close>

definition storedCondition4 :: "time \<Rightarrow> Condition4 list \<Rightarrow> Condition4 \<Rightarrow> Condition4" where
  "storedCondition4 now cs c =
     c\<lparr>c4_LastUpdateTime := now,
       c4_LastTransitionTime :=
         (case cs of
            d # _ \<Rightarrow> if c4_Type d = c4_Type c then c4_LastTransitionTime d else now
          | [] \<Rightarrow> now)\<rparr>"

lemma storedCondition4_simps [simp]:
  "c4_Type (storedCondition4 now cs c) = c4_Type c"
  "c4_Status (storedCondition4 now cs c) = c4_Status c"
  by (simp_all add: storedCondition4_def)

lemma addCondition_placed:
  "addCondition now cs c = go_sort updatedLater4 (placed c4_Type cs (storedCondition4 now cs c))"
proof (cases cs)
  case Nil
  then show ?thesis
    by (simp add: addCondition_def indexCondition_def placed_def storedCondition4_def)
next
  case (Cons d ds)
  have "nat (1 + int a) = Suc a" for a by simp
  with Cons show ?thesis
    by (cases "findIndex (\<lambda>d. c4_Type d = c4_Type c) ds")
      (auto simp: addCondition_def indexCondition_def placed_def storedCondition4_def Let_def
        eq_commute[of "c4_Type c"])
qed

lemma addCondition_inv: "conditions4_inv cs \<Longrightarrow> conditions4_inv (addCondition now cs c)"
  by (simp add: conditions4_inv_def addCondition_placed placed_types)

lemma conditionMap4_addCondition:
  "conditions4_inv cs \<Longrightarrow>
   conditionMap4 (addCondition now cs c) = (conditionMap4 cs)(c4_Type c \<mapsto> storedCondition4 now cs c)"
  using find_sorted_placed[of c4_Type cs]
  by (auto simp: conditions4_inv_def conditionMap4_def addCondition_placed)

interpretation conditions4: condition_store conditions4_inv addCondition conditionMap4 c4_Type c4_Status
  by unfold_locales (auto simp: addCondition_inv conditionMap4_addCondition)

lemma IsConditionTrue4_map:
  "IsConditionTrue4 s t =
     (case conditionMap4 (st4_Conditions s) t of None \<Rightarrow> False | Some c \<Rightarrow> c4_Status c = ConditionTrue)"
  by (auto simp: IsConditionTrue4_def GetCondition4_def conditionMap4_def find_findIndex
      eq_commute[of t] split: option.splits)

end
