(* ===== verification/Conditions.thy ===== *)
theory Conditions
  imports Emqx_Types Condition_Store
begin

text \<open>
  The conditions of an \<open>EMQX\<close> status: \<open>SetCondition\<close>, \<open>GetCondition\<close>,
  \<open>GetLastTrueCondition\<close>, \<open>IsConditionTrue\<close> and \<open>RemoveCondition\<close> of
  \<open>apis/apps/v2beta1/status.go\<close>. The current time (\<open>metav1.Now()\<close>) is an argument. The list is
  kept with one condition per type, newest first; \<open>conditions_inv\<close> is that invariant.
\<close>

section \<open>Operations\<close>

definition GetCondition :: "EMQXStatus \<Rightarrow> string \<Rightarrow> int \<times> condition option" where
  "GetCondition s conditionType =
     (case findIndex (\<lambda>c. cd_Type c = conditionType) (Conditions s) of
        None \<Rightarrow> (- 1, None)
      | Some i \<Rightarrow> (int i, Some (Conditions s ! i)))"

definition newerFirst :: "condition \<Rightarrow> condition \<Rightarrow> bool" where
  "newerFirst a b = (cd_LastTransitionTime b < cd_LastTransitionTime a)"

definition SetCondition :: "time \<Rightarrow> EMQXStatus \<Rightarrow> condition \<Rightarrow> EMQXStatus" where
  "SetCondition now s c0 =
     (let c = c0\<lparr>cd_LastTransitionTime := now\<rparr>;
          pos = fst (GetCondition s (cd_Type c));
          conds = (if pos \<ge> 0 then (Conditions s)[nat pos := c] else Conditions s @ [c])
      in s\<lparr>Conditions := go_sort newerFirst conds\<rparr>)"

definition GetLastTrueCondition :: "EMQXStatus \<Rightarrow> condition option" where
  "GetLastTrueCondition s = find (\<lambda>c. cd_Status c = ConditionTrue) (Conditions s)"

definition IsConditionTrue :: "EMQXStatus \<Rightarrow> string \<Rightarrow> bool" where
  "IsConditionTrue s conditionType =
     (case snd (GetCondition s conditionType) of
        None \<Rightarrow> False
      | Some condition \<Rightarrow> cd_Status condition = ConditionTrue)"

definition RemoveCondition :: "EMQXStatus \<Rightarrow> string \<Rightarrow> EMQXStatus" where
  "RemoveCondition s conditionType =
     (let pos = fst (GetCondition s conditionType)
      in if pos = - 1 then s
         else s\<lparr>Conditions := take (nat pos) (Conditions s) @ drop (nat pos + 1) (Conditions s)\<rparr>)"

section \<open>Abstract specification\<close>

text \<open>A status as a map from condition type to condition, and the invariant of its list.\<close>

definition conditionMap :: "EMQXStatus \<Rightarrow> string \<rightharpoonup> condition" where
  "conditionMap s = (\<lambda>t. find (\<lambda>c. cd_Type c = t) (Conditions s))"

definition conditions_inv :: "EMQXStatus \<Rightarrow> bool" where
  "conditions_inv s \<longleftrightarrow>
     distinct (map cd_Type (Conditions s)) \<and>
     sorted_wrt (\<lambda>a b. cd_LastTransitionTime b \<le> cd_LastTransitionTime a) (Conditions s)"

section \<open>Lemmas\<close>

interpretation newer: go_less newerFirst
  unfolding newerFirst_def by unfold_locales auto

lemma GetCondition_snd: "snd (GetCondition s t) = conditionMap s t"
  by (auto simp: GetCondition_def conditionMap_def find_findIndex split: option.splits)

lemma GetCondition_pos:
  "fst (GetCondition s t) = (case findIndex (\<lambda>c. cd_Type c = t) (Conditions s) of
     None \<Rightarrow> - 1 | Some i \<Rightarrow> int i)"
  by (simp add: GetCondition_def split: option.splits)

lemma Conditions_SetCondition:
  "Conditions (SetCondition now s c) =
     go_sort newerFirst (placed cd_Type (Conditions s) (c\<lparr>cd_LastTransitionTime := now\<rparr>))"
  by (simp add: SetCondition_def GetCondition_pos placed_def Let_def split: option.splits)

lemma conditions_inv_distinct [dest]: "conditions_inv s \<Longrightarrow> distinct (map cd_Type (Conditions s))"
  by (simp add: conditions_inv_def)

lemma SetCondition_frame [simp]:
  "CoreNodes (SetCondition now s c) = CoreNodes s"
  "CoreNodesStatus (SetCondition now s c) = CoreNodesStatus s"
  "ReplicantNodes (SetCondition now s c) = ReplicantNodes s"
  "ReplicantNodesStatus (SetCondition now s c) = ReplicantNodesStatus s"
  "NodeEvacuationsStatus (SetCondition now s c) = NodeEvacuationsStatus s"
  by (simp_all add: SetCondition_def Let_def)

lemma RemoveCondition_frame [simp]:
  "CoreNodes (RemoveCondition s t) = CoreNodes s"
  "CoreNodesStatus (RemoveCondition s t) = CoreNodesStatus s"
  "ReplicantNodes (RemoveCondition s t) = ReplicantNodes s"
  "ReplicantNodesStatus (RemoveCondition s t) = ReplicantNodesStatus s"
  "NodeEvacuationsStatus (RemoveCondition s t) = NodeEvacuationsStatus s"
  by (simp_all add: RemoveCondition_def Let_def)

lemma SetCondition_inv: "conditions_inv s \<Longrightarrow> conditions_inv (SetCondition now s c)"
proof -
  assume "conditions_inv s"
  then have "distinct (map cd_Type (placed cd_Type (Conditions s) (c\<lparr>cd_LastTransitionTime := now\<rparr>)))"
    by (intro placed_types) auto
  moreover have "sorted_wrt (\<lambda>a b. cd_LastTransitionTime b \<le> cd_LastTransitionTime a)
      (go_sort newerFirst xs)" for xs
    using newer.go_sort_sorted[of xs]
    by (rule sorted_wrt_mono_rel[rotated]) (auto simp: newerFirst_def)
  ultimately show ?thesis
    by (simp add: conditions_inv_def Conditions_SetCondition)
qed

lemma conditionMap_SetCondition:
  assumes "conditions_inv s"
  shows "conditionMap (SetCondition now s c) =
    (conditionMap s)(cd_Type c \<mapsto> c\<lparr>cd_LastTransitionTime := now\<rparr>)"
  using find_sorted_placed[OF conditions_inv_distinct[OF assms]]
  by (auto simp: conditionMap_def Conditions_SetCondition)

lemma Conditions_RemoveCondition:
  assumes "distinct (map cd_Type (Conditions s))"
  shows "Conditions (RemoveCondition s t) = filter (\<lambda>c. cd_Type c \<noteq> t) (Conditions s)"
proof (cases "findIndex (\<lambda>c. cd_Type c = t) (Conditions s)")
  case None
  then have "filter (\<lambda>c. cd_Type c \<noteq> t) (Conditions s) = Conditions s"
    by (simp add: findIndex_None_iff filter_id_conv)
  with None show ?thesis by (simp add: RemoveCondition_def GetCondition_pos)
next
  case (Some i)
  with drop_found[OF assms Some] show ?thesis
    by (simp add: RemoveCondition_def GetCondition_pos Let_def)
qed

lemma RemoveCondition_inv: "conditions_inv s \<Longrightarrow> conditions_inv (RemoveCondition s t)"
  by (auto simp: conditions_inv_def Conditions_RemoveCondition distinct_map_filter sorted_wrt_filter)

lemma conditionMap_RemoveCondition:
  "conditions_inv s \<Longrightarrow> conditionMap (RemoveCondition s t) = (conditionMap s)(t := None)"
proof
  fix u
  assume "conditions_inv s"
  then have d: "distinct (map cd_Type (Conditions s))" by auto
  have f: "find (\<lambda>c. cd_Type c = u) (filter (\<lambda>c. cd_Type c \<noteq> t) xs) =
      (if u = t then None else find (\<lambda>c. cd_Type c = u) xs)" for xs
    by (induction xs) auto
  show "conditionMap (RemoveCondition s t) u = ((conditionMap s)(t := None)) u"
    using d by (simp only: conditionMap_def Conditions_RemoveCondition f fun_upd_apply)
qed

lemma IsConditionTrue_map:
  "IsConditionTrue s t =
     (case conditionMap s t of None \<Rightarrow> False | Some c \<Rightarrow> cd_Status c = ConditionTrue)"
  by (simp add: IsConditionTrue_def GetCondition_snd)

lemma IsConditionTrue_SetCondition:
  "conditions_inv s \<Longrightarrow>
   IsConditionTrue (SetCondition now s c) t =
     (if t = cd_Type c then cd_Status c = ConditionTrue else IsConditionTrue s t)"
  by (simp add: IsConditionTrue_map conditionMap_SetCondition)

lemma IsConditionTrue_RemoveCondition:
  "conditions_inv s \<Longrightarrow>
   IsConditionTrue (RemoveCondition s t) u = (u \<noteq> t \<and> IsConditionTrue s u)"
  by (simp add: IsConditionTrue_map conditionMap_RemoveCondition)

lemmas condition_simps = IsConditionTrue_SetCondition IsConditionTrue_RemoveCondition
  SetCondition_inv RemoveCondition_inv

text \<open>The status implements the interface of \<open>Condition_Store\<close>.\<close>

interpretation emqx_conditions:
  condition_store conditions_inv SetCondition conditionMap cd_Type cd_Status
  by unfold_locales (auto simp: SetCondition_inv conditionMap_SetCondition)

text \<open>
  Setting a true condition later than every other one makes it the last true condition: the one
  the status machine acts on.
\<close>

definition beforeNow :: "time \<Rightarrow> EMQXStatus \<Rightarrow> bool" where
  "beforeNow now s = (\<forall>c \<in> set (Conditions s). cd_LastTransitionTime c < now)"

lemma hd_go_sort_placed:
  assumes "distinct (map cd_Type cs)" "\<forall>d \<in> set cs. cd_LastTransitionTime d < cd_LastTransitionTime c"
  shows "\<exists>rest. go_sort newerFirst (placed cd_Type cs c) = c # rest"
proof -
  note set_p = set_placed[OF assms(1), of c]
  have "newerFirst c y" if "y \<in> set (placed cd_Type cs c)" "y \<noteq> c" for y
    using that assms(2) unfolding set_p newerFirst_def by blast
  then have "hd (go_sort newerFirst (placed cd_Type cs c)) = c"
    by (intro newer.go_sort_hd_strict) (simp_all add: set_p)
  moreover have "go_sort newerFirst (placed cd_Type cs c) \<noteq> []"
  proof
    assume "go_sort newerFirst (placed cd_Type cs c) = []"
    then have "set (placed cd_Type cs c) = {}" by (metis set_go_sort set_empty)
    then show False by (simp add: set_p)
  qed
  ultimately show ?thesis by (cases "go_sort newerFirst (placed cd_Type cs c)") simp_all
qed

lemma hd_SetCondition:
  assumes "conditions_inv s" "beforeNow now s"
  shows "\<exists>rest. Conditions (SetCondition now s c) = c\<lparr>cd_LastTransitionTime := now\<rparr> # rest"
  unfolding Conditions_SetCondition
  by (rule hd_go_sort_placed)
    (use assms in \<open>simp_all add: conditions_inv_distinct beforeNow_def\<close>)

lemma GetLastTrueCondition_SetCondition:
  assumes "conditions_inv s" "beforeNow now s" "cd_Status c = ConditionTrue"
  shows "GetLastTrueCondition (SetCondition now s c) = Some (c\<lparr>cd_LastTransitionTime := now\<rparr>)"
  using hd_SetCondition[OF assms(1,2), of c] assms(3) by (auto simp: GetLastTrueCondition_def)

lemma beforeNow_RemoveCondition: "beforeNow now s \<Longrightarrow> beforeNow now (RemoveCondition s t)"
  by (auto simp: beforeNow_def RemoveCondition_def Let_def dest: in_set_takeD in_set_dropD)

lemma beforeNow_SetCondition:
  "conditions_inv s \<Longrightarrow> beforeNow now s \<Longrightarrow> now < now' \<Longrightarrow> beforeNow now' (SetCondition now s c)"
  using set_placed[OF conditions_inv_distinct, of s "c\<lparr>cd_LastTransitionTime := now\<rparr>"]
  by (auto simp: beforeNow_def Conditions_SetCondition)

lemma beforeNow_mono: "beforeNow now s \<Longrightarrow> now \<le> now' \<Longrightarrow> beforeNow now' s"
  by (auto simp: beforeNow_def)

lemma find_sorted_first:
  "sorted_wrt R xs \<Longrightarrow> find P xs = Some c \<Longrightarrow> d \<in> set xs \<Longrightarrow> P d \<Longrightarrow> d = c \<or> R c d"
  by (induction xs) (auto split: if_splits)

lemma GetLastTrueCondition_newest:
  assumes "conditions_inv s" "GetLastTrueCondition s = Some c" "d \<in> set (Conditions s)"
    and "cd_Status d = ConditionTrue"
  shows "cd_LastTransitionTime d \<le> cd_LastTransitionTime c"
  using find_sorted_first[of _ "Conditions s" "\<lambda>c. cd_Status c = ConditionTrue" c d] assms
  by (auto simp: conditions_inv_def GetLastTrueCondition_def)

end
