(* ===== verification/Labels.thy ===== *)
theory Labels
  imports Emqx_Types
begin

text \<open>
  The label and map helpers of \<open>apis/apps/v2beta1/util.go\<close>: the labels the operator puts on the
  objects it manages, and the clone, merge, add and remove operations on label maps and selectors.
  \<open>CloneAndMergeMap\<close> keeps the entry of the first map that has a key.
\<close>

section \<open>Operations\<close>

definition addMissing :: "(string \<rightharpoonup> string) \<Rightarrow> (string \<rightharpoonup> string) \<Rightarrow> (string \<rightharpoonup> string)" where
  "addMissing new m = (\<lambda>key. case new key of Some value \<Rightarrow> Some value | None \<Rightarrow> m key)"

definition CloneAndMergeMap :: "gomap \<Rightarrow> gomap list \<Rightarrow> gomap" where
  "CloneAndMergeMap dst src = Some (foldl (\<lambda>new m. addMissing new (mentries m)) (mentries dst) src)"

definition CloneAndAddLabel :: "gomap \<Rightarrow> string \<Rightarrow> string \<Rightarrow> gomap" where
  "CloneAndAddLabel labels labelKey labelValue =
     (if labelKey = [] then labels else Some ((mentries labels)(labelKey \<mapsto> labelValue)))"

definition CloneAndRemoveLabel :: "gomap \<Rightarrow> string \<Rightarrow> gomap" where
  "CloneAndRemoveLabel labels labelKey =
     (if labelKey = [] then labels else Some ((mentries labels)(labelKey := None)))"

definition AddLabel :: "gomap \<Rightarrow> string \<Rightarrow> string \<Rightarrow> gomap" where
  "AddLabel labels labelKey labelValue =
     (if labelKey = [] then labels else mset_key labels labelKey labelValue)"

definition mergeMap :: "gomap \<Rightarrow> gomap \<Rightarrow> gomap" where
  "mergeMap dst src = Some (addMissing (mentries dst) (mentries src))"

definition cloneRequirement :: "labelSelectorRequirement \<Rightarrow> labelSelectorRequirement" where
  "cloneRequirement me =
     \<lparr>lsr_Key = lsr_Key me, lsr_Operator = lsr_Operator me,
      lsr_Values = (case lsr_Values me of Some vs \<Rightarrow> Some vs | None \<Rightarrow> None)\<rparr>"

definition CloneSelectorAndAddLabel :: "labelSelector \<Rightarrow> string \<Rightarrow> string \<Rightarrow> labelSelector" where
  "CloneSelectorAndAddLabel selector labelKey labelValue =
     (if labelKey = [] then selector
      else \<lparr>sel_MatchLabels = Some ((mentries (sel_MatchLabels selector))(labelKey \<mapsto> labelValue)),
            sel_MatchExpressions =
              (case sel_MatchExpressions selector of
                 Some mes \<Rightarrow> Some (map cloneRequirement mes)
               | None \<Rightarrow> None)\<rparr>)"

definition AddLabelToSelector :: "labelSelector \<Rightarrow> string \<Rightarrow> string \<Rightarrow> labelSelector" where
  "AddLabelToSelector selector labelKey labelValue =
     (if labelKey = [] then selector
      else selector\<lparr>sel_MatchLabels := mset_key (sel_MatchLabels selector) labelKey labelValue\<rparr>)"

definition DefaultLabels :: "EMQX \<Rightarrow> gomap" where
  "DefaultLabels instance =
     Some [LabelsInstanceKey \<mapsto> om_Name (Meta instance), LabelsManagedByKey \<mapsto> ''emqx-operator'']"

definition DefaultCoreLabels :: "EMQX \<Rightarrow> gomap" where
  "DefaultCoreLabels instance = CloneAndAddLabel (DefaultLabels instance) LabelsDBRoleKey ''core''"

definition DefaultReplicantLabels :: "EMQX \<Rightarrow> gomap" where
  "DefaultReplicantLabels instance =
     CloneAndAddLabel (DefaultLabels instance) LabelsDBRoleKey ''replicant''"

section \<open>Lemmas\<close>

lemma addMissing_apply:
  "addMissing new m k = (case new k of Some v \<Rightarrow> Some v | None \<Rightarrow> m k)"
  by (simp add: addMissing_def)

lemma foldl_addMissing:
  "foldl (\<lambda>new m. addMissing new (mentries m)) new ms k =
     (case new k of
        Some v \<Rightarrow> Some v
      | None \<Rightarrow> (case find (\<lambda>m. mget m k \<noteq> None) ms of Some m \<Rightarrow> mget m k | None \<Rightarrow> None))"
  by (induction ms arbitrary: new) (auto simp: addMissing_apply mget_mentries split: option.splits)

lemma mget_CloneAndMergeMap:
  "mget (CloneAndMergeMap dst src) k =
     (case find (\<lambda>m. mget m k \<noteq> None) (dst # src) of Some m \<Rightarrow> mget m k | None \<Rightarrow> None)"
  by (auto simp: CloneAndMergeMap_def foldl_addMissing mget_mentries split: option.splits)

lemma mget_CloneAndMergeMap2 [simp]:
  "mget (CloneAndMergeMap dst [m]) k = (case mget dst k of Some v \<Rightarrow> Some v | None \<Rightarrow> mget m k)"
  by (auto simp: mget_CloneAndMergeMap split: option.splits)

lemma mget_CloneAndAddLabel [simp]:
  "labelKey \<noteq> [] \<Longrightarrow>
   mget (CloneAndAddLabel labels labelKey v) k = (if k = labelKey then Some v else mget labels k)"
  by (simp add: CloneAndAddLabel_def mget_mentries)

lemma mget_CloneAndRemoveLabel [simp]:
  "labelKey \<noteq> [] \<Longrightarrow>
   mget (CloneAndRemoveLabel labels labelKey) k = (if k = labelKey then None else mget labels k)"
  by (simp add: CloneAndRemoveLabel_def mget_mentries)

lemma mget_AddLabel [simp]:
  "labelKey \<noteq> [] \<Longrightarrow>
   mget (AddLabel labels labelKey v) k = (if k = labelKey then Some v else mget labels k)"
  by (simp add: AddLabel_def)

lemma mget_mergeMap [simp]:
  "mget (mergeMap dst src) k = (case mget dst k of Some v \<Rightarrow> Some v | None \<Rightarrow> mget src k)"
  by (auto simp: mergeMap_def addMissing_apply mget_mentries split: option.splits)

lemma label_keys_nonempty [simp]:
  "LabelsInstanceKey \<noteq> []" "LabelsManagedByKey \<noteq> []" "LabelsDBRoleKey \<noteq> []"
  "LabelsPodTemplateHashKey \<noteq> []"
  by (simp_all add: label_key_defs)

lemma label_keys_distinct [simp]:
  "LabelsInstanceKey \<noteq> LabelsManagedByKey" "LabelsManagedByKey \<noteq> LabelsInstanceKey"
  "LabelsInstanceKey \<noteq> LabelsDBRoleKey" "LabelsDBRoleKey \<noteq> LabelsInstanceKey"
  "LabelsManagedByKey \<noteq> LabelsDBRoleKey" "LabelsDBRoleKey \<noteq> LabelsManagedByKey"
  "LabelsPodTemplateHashKey \<noteq> LabelsDBRoleKey" "LabelsDBRoleKey \<noteq> LabelsPodTemplateHashKey"
  "LabelsPodTemplateHashKey \<noteq> LabelsInstanceKey" "LabelsInstanceKey \<noteq> LabelsPodTemplateHashKey"
  "LabelsPodTemplateHashKey \<noteq> LabelsManagedByKey" "LabelsManagedByKey \<noteq> LabelsPodTemplateHashKey"
  by (simp_all add: label_key_defs)

lemma mget_DefaultLabels:
  "mget (DefaultLabels x) k =
     (if k = LabelsManagedByKey then Some ''emqx-operator''
      else if k = LabelsInstanceKey then Some (om_Name (Meta x)) else None)"
  by (simp add: DefaultLabels_def)

lemma mget_DefaultCoreLabels:
  "mget (DefaultCoreLabels x) k =
     (if k = LabelsDBRoleKey then Some ''core'' else mget (DefaultLabels x) k)"
  by (simp add: DefaultCoreLabels_def)

lemma mget_DefaultReplicantLabels:
  "mget (DefaultReplicantLabels x) k =
     (if k = LabelsDBRoleKey then Some ''replicant'' else mget (DefaultLabels x) k)"
  by (simp add: DefaultReplicantLabels_def)

lemma matchesLabelsD:
  "matchesLabels sel ls \<Longrightarrow> mget sel k = Some v \<Longrightarrow> mget ls k = Some v"
  by (simp add: matchesLabels_def)

lemma matchesLabels_merge: "matchesLabels m (CloneAndMergeMap m [n])"
  by (simp add: matchesLabels_def)

lemma matchesLabels_add:
  assumes "k \<noteq> []" "mget m k = None"
  shows "matchesLabels m (CloneAndAddLabel m k v)"
  using assms by (auto simp: matchesLabels_def)

text \<open>Core and replicant objects carry conflicting labels, so no selector of one matches the other.\<close>

lemma core_replicant_disjoint:
  "\<not> (matchesLabels (DefaultCoreLabels x) ls \<and> matchesLabels (DefaultReplicantLabels y) ls)"
proof
  assume m: "matchesLabels (DefaultCoreLabels x) ls \<and> matchesLabels (DefaultReplicantLabels y) ls"
  have "mget ls LabelsDBRoleKey = Some ''core''"
    by (rule matchesLabelsD[OF conjunct1[OF m]]) (simp add: mget_DefaultCoreLabels)
  moreover have "mget ls LabelsDBRoleKey = Some ''replicant''"
    by (rule matchesLabelsD[OF conjunct2[OF m]]) (simp add: mget_DefaultReplicantLabels)
  ultimately show False by simp
qed

end
