(* ===== verification/Set_Lists.thy ===== *)
theory Set_Lists
  imports Conditions Labels
begin

text \<open>
  The helpers of \<open>controllers/apps/v2beta1/util.go\<close>: which StatefulSet or ReplicaSet is the update
  revision, which the current one and which are old; the pods of each ReplicaSet; the deletion
  events; the delays before a scale-down; the order in which objects are handled; the hash of a pod
  template. The items the API server lists are arguments, and so is the current time.
  \<open>spew\<close> (the printer of \<open>go-spew\<close>) and \<open>SafeEncodeString\<close> (\<open>k8s.io/apimachinery\<close>) are not
  part of the repository: they are the record \<open>hashLib\<close>.
\<close>

unbundle bit_operations_syntax

section \<open>Comparators\<close>

definition StatefulSetsByCreationTimestamp :: "statefulSet \<Rightarrow> statefulSet \<Rightarrow> bool" where
  "StatefulSetsByCreationTimestamp a b =
     (if om_CreationTimestamp (sts_meta a) = om_CreationTimestamp (sts_meta b)
      then om_Name (sts_meta a) < om_Name (sts_meta b)
      else om_CreationTimestamp (sts_meta a) < om_CreationTimestamp (sts_meta b))"

definition ReplicaSetsByCreationTimestamp :: "replicaSet \<Rightarrow> replicaSet \<Rightarrow> bool" where
  "ReplicaSetsByCreationTimestamp a b =
     (if om_CreationTimestamp (rs_meta a) = om_CreationTimestamp (rs_meta b)
      then om_Name (rs_meta a) < om_Name (rs_meta b)
      else om_CreationTimestamp (rs_meta a) < om_CreationTimestamp (rs_meta b))"

definition EventsByLastTimestamp :: "event \<Rightarrow> event \<Rightarrow> bool" where
  "EventsByLastTimestamp a b =
     (if e_LastTimestamp a = e_LastTimestamp b
      then timeSecond (e_CreationTimestamp a) < timeSecond (e_CreationTimestamp b)
      else e_LastTimestamp a < e_LastTimestamp b)"

definition PodsByCreationTimestamp :: "pod \<Rightarrow> pod \<Rightarrow> bool" where
  "PodsByCreationTimestamp a b =
     (if om_CreationTimestamp (pod_meta a) = om_CreationTimestamp (pod_meta b)
      then om_Name (pod_meta a) < om_Name (pod_meta b)
      else om_CreationTimestamp (pod_meta a) < om_CreationTimestamp (pod_meta b))"

definition PodsByNameOlder :: "pod \<Rightarrow> pod \<Rightarrow> bool" where
  "PodsByNameOlder a b =
     (if om_Name (pod_meta a) = om_Name (pod_meta b) then PodsByCreationTimestamp a b
      else om_Name (pod_meta b) < om_Name (pod_meta a))"

definition PodsByNameNewer :: "pod \<Rightarrow> pod \<Rightarrow> bool" where
  "PodsByNameNewer a b =
     (if om_Name (pod_meta a) = om_Name (pod_meta b) then PodsByCreationTimestamp b a
      else om_Name (pod_meta b) < om_Name (pod_meta a))"

section \<open>Classifying the sets of an instance\<close>

text \<open>
  The loop shared by \<open>getStateFulSetList\<close> and \<open>getReplicaSetList\<close>: an item whose hash label is the
  update (current) revision becomes the update (current) set, the last one found winning; an item
  with another hash is old; an item without the label is ignored.
\<close>

fun classifyStep ::
  "('s \<Rightarrow> string option) \<Rightarrow> string \<Rightarrow> string \<Rightarrow> 's option \<times> 's option \<times> 's list \<Rightarrow> 's \<Rightarrow>
   's option \<times> 's option \<times> 's list" where
  "classifyStep hashOf upd cur (updateSet, currentSet, oldList) s =
     (case hashOf s of
        None \<Rightarrow> (updateSet, currentSet, oldList)
      | Some hash \<Rightarrow>
          (if hash = upd then Some s else updateSet,
           if hash = cur then Some s else currentSet,
           if hash \<noteq> upd \<and> hash \<noteq> cur then oldList @ [s] else oldList))"

definition classify ::
  "('s \<Rightarrow> string option) \<Rightarrow> string \<Rightarrow> string \<Rightarrow> 's list \<Rightarrow> 's option \<times> 's option \<times> 's list" where
  "classify hashOf upd cur items = foldl (classifyStep hashOf upd cur) (None, None, []) items"

definition stsHash :: "statefulSet \<Rightarrow> string option" where
  "stsHash sts = mget (om_Labels (sts_meta sts)) LabelsPodTemplateHashKey"

definition rsHash :: "replicaSet \<Rightarrow> string option" where
  "rsHash rs = mget (om_Labels (rs_meta rs)) LabelsPodTemplateHashKey"

definition getStateFulSetList ::
  "statefulSet list \<Rightarrow> EMQX \<Rightarrow> statefulSet option \<times> statefulSet option \<times> statefulSet list" where
  "getStateFulSetList items instance =
     (let (updateSts, currentSts, oldStsList) =
        classify stsHash (ns_UpdateRevision (CoreNodesStatus (Status instance)))
          (ns_CurrentRevision (CoreNodesStatus (Status instance))) items
      in (updateSts, currentSts, go_sort StatefulSetsByCreationTimestamp oldStsList))"

definition getReplicaSetList ::
  "replicaSet list \<Rightarrow> EMQX \<Rightarrow> replicaSet option \<times> replicaSet option \<times> replicaSet list" where
  "getReplicaSetList items instance =
     (let (updateRs, currentRs, oldRsList) =
        classify rsHash (ns_UpdateRevision (ReplicantNodesStatus (Status instance)))
          (ns_CurrentRevision (ReplicantNodesStatus (Status instance))) items
      in (updateRs, currentRs, go_sort ReplicaSetsByCreationTimestamp oldRsList))"

text \<open>\<open>getRsPodMap\<close>: the pods of each listed ReplicaSet, keyed by the UID of the ReplicaSet.\<close>

fun podMapLoop :: "pod list \<Rightarrow> (string \<rightharpoonup> pod list) \<Rightarrow> (string \<rightharpoonup> pod list)" where
  "podMapLoop [] rsMap = rsMap"
| "podMapLoop (p # ps) rsMap =
     (case om_controller (pod_meta p) of
        None \<Rightarrow> podMapLoop ps rsMap
      | Some uid \<Rightarrow>
          (case rsMap uid of
             None \<Rightarrow> podMapLoop ps rsMap
           | Some pods \<Rightarrow> podMapLoop ps (rsMap(uid \<mapsto> pods @ [p]))))"

definition getRsPodMap :: "replicaSet list \<Rightarrow> pod list \<Rightarrow> (string \<rightharpoonup> pod list)" where
  "getRsPodMap replicaSets pods =
     podMapLoop pods (foldl (\<lambda>m rs. m(om_UID (rs_meta rs) \<mapsto> [])) Map.empty replicaSets)"

definition handlerEventList :: "event list \<Rightarrow> event list" where
  "handlerEventList items =
     go_sort EventsByLastTimestamp (filter (\<lambda>e. e_Reason e = ''SuccessfulDelete'') items)"

section \<open>Delays\<close>

definition checkInitialDelaySecondsReady :: "time \<Rightarrow> EMQX \<Rightarrow> bool" where
  "checkInitialDelaySecondsReady now instance =
     (case snd (GetCondition (Status instance) Available) of
        None \<Rightarrow> False
      | Some condition \<Rightarrow>
          if cd_Type condition \<noteq> Available then False
          else secondsSince now (cd_LastTransitionTime condition)
                 > us_InitialDelaySeconds (SpecUpdateStrategy (Spec instance)))"

definition checkWaitTakeoverReady :: "time \<Rightarrow> EMQX \<Rightarrow> event list \<Rightarrow> bool" where
  "checkWaitTakeoverReady now instance eList =
     (if eList = [] then True
      else secondsSince now (e_LastTimestamp (last eList))
             > es_WaitTakeover (us_EvacuationStrategy (SpecUpdateStrategy (Spec instance))))"

section \<open>The pod template hash\<close>

record hashLib =
  hl_spew :: "podTemplateSpec \<Rightarrow> string"
  hl_SafeEncodeString :: "string \<Rightarrow> string"

text \<open>FNV-1a, 32 bits (\<open>hash/fnv\<close>): xor the byte in, multiply by the prime.\<close>

definition fnvPrime :: "32 word" where
  "fnvPrime = 16777619"

definition fnvWrite :: "32 word \<Rightarrow> 32 word list \<Rightarrow> 32 word" where
  "fnvWrite h bs = foldl (\<lambda>h b. (h XOR b) * fnvPrime) h bs"

definition stringBytes :: "string \<Rightarrow> 32 word list" where
  "stringBytes s = map of_char s"

text \<open>Eight bytes, the low four of them the little-endian \<open>uint32\<close> of the collision count.\<close>

definition collisionCountBytes :: "int \<Rightarrow> 32 word list" where
  "collisionCountBytes c =
     map (\<lambda>i. word_of_int ((c mod 2 ^ 32) div 256 ^ i mod 256)) [0, 1, 2, 3] @ [0, 0, 0, 0]"

definition deepHashObject :: "hashLib \<Rightarrow> podTemplateSpec \<Rightarrow> 32 word" where
  "deepHashObject lib template = fnvWrite 2166136261 (stringBytes (hl_spew lib template))"

definition templateSum32 :: "hashLib \<Rightarrow> podTemplateSpec \<Rightarrow> int option \<Rightarrow> 32 word" where
  "templateSum32 lib template collisionCount =
     (let h = deepHashObject lib template
      in case collisionCount of None \<Rightarrow> h | Some c \<Rightarrow> fnvWrite h (collisionCountBytes c))"

definition computeHash :: "hashLib \<Rightarrow> podTemplateSpec \<Rightarrow> int option \<Rightarrow> string" where
  "computeHash lib template collisionCount =
     hl_SafeEncodeString lib (natDigits (unat (templateSum32 lib template collisionCount)))"

text \<open>
  \<open>justCheckPodTemplate\<close>: only the pod templates are compared, without the hash label.
\<close>

definition getPodTemplate :: "podTemplateSpec \<Rightarrow> podTemplateSpec" where
  "getPodTemplate t =
     (case mget (om_Labels (pt_meta t)) LabelsPodTemplateHashKey of
        None \<Rightarrow> t
      | Some _ \<Rightarrow> t\<lparr>pt_meta := (pt_meta t)\<lparr>om_Labels :=
                    CloneAndRemoveLabel (om_Labels (pt_meta t)) LabelsPodTemplateHashKey\<rparr>\<rparr>)"

definition justCheckPodTemplate ::
  "podTemplateSpec \<Rightarrow> podTemplateSpec \<Rightarrow> podTemplateSpec \<times> podTemplateSpec" where
  "justCheckPodTemplate current modified = (getPodTemplate current, getPodTemplate modified)"

section \<open>Lemmas: comparators\<close>

text \<open>A lexicographic comparison of an integer key and a string key is a strict weak order.\<close>

lemma go_less_lex:
  fixes f :: "'a \<Rightarrow> 'k :: linorder" and g :: "'a \<Rightarrow> 'l :: linorder"
  assumes "\<And>a b. lt a b = (if f a = f b then g a < g b else f a < f b)"
  shows "go_less lt"
  unfolding go_less_def assms by (auto split: if_splits)

interpretation stsOrder: go_less StatefulSetsByCreationTimestamp
  by (rule go_less_lex) (rule StatefulSetsByCreationTimestamp_def)

interpretation rsOrder: go_less ReplicaSetsByCreationTimestamp
  by (rule go_less_lex) (rule ReplicaSetsByCreationTimestamp_def)

interpretation eventOrder: go_less EventsByLastTimestamp
  by (rule go_less_lex) (rule EventsByLastTimestamp_def)

interpretation podCreationOrder: go_less PodsByCreationTimestamp
  by (rule go_less_lex) (rule PodsByCreationTimestamp_def)

interpretation podNameOlder: go_less PodsByNameOlder
  unfolding go_less_def PodsByNameOlder_def PodsByCreationTimestamp_def
  by (auto split: if_splits)

interpretation podNameNewer: go_less PodsByNameNewer
  unfolding go_less_def PodsByNameNewer_def PodsByCreationTimestamp_def
  by (auto split: if_splits)

section \<open>Lemmas: classification\<close>

lemma classify_invariant:
  assumes "foldl (classifyStep hashOf upd cur) (None, None, []) items = (u, c, old)"
  shows "old = filter (\<lambda>s. \<exists>h. hashOf s = Some h \<and> h \<noteq> upd \<and> h \<noteq> cur) items"
    and "u = find (\<lambda>s. hashOf s = Some upd) (rev items)"
    and "c = find (\<lambda>s. hashOf s = Some cur) (rev items)"
  using assms
proof (induction items arbitrary: u c old rule: rev_induct)
  case (snoc s items)
  {
    case 1
    with snoc.IH show ?case
      by (cases "foldl (classifyStep hashOf upd cur) (None, None, []) items")
        (auto split: option.splits)
  next
    case 2
    with snoc.IH show ?case
      by (cases "foldl (classifyStep hashOf upd cur) (None, None, []) items")
        (auto split: option.splits)
  next
    case 3
    with snoc.IH show ?case
      by (cases "foldl (classifyStep hashOf upd cur) (None, None, []) items")
        (auto split: option.splits)
  }
qed simp_all

lemma classify_eq:
  "classify hashOf upd cur items =
     (find (\<lambda>s. hashOf s = Some upd) (rev items),
      find (\<lambda>s. hashOf s = Some cur) (rev items),
      filter (\<lambda>s. \<exists>h. hashOf s = Some h \<and> h \<noteq> upd \<and> h \<noteq> cur) items)"
  using classify_invariant[of hashOf upd cur items] unfolding classify_def
  by (cases "foldl (classifyStep hashOf upd cur) (None, None, []) items") simp

lemma find_rev_SomeD: "find P (rev xs) = Some x \<Longrightarrow> x \<in> set xs \<and> P x"
  using find_SomeD[of P "rev xs" x] by simp

lemmas getStateFulSetList_simps = getStateFulSetList_def classify_eq Let_def

lemmas getReplicaSetList_simps = getReplicaSetList_def classify_eq Let_def

lemma oldSts_mem:
  "sts \<in> set (snd (snd (getStateFulSetList items x))) \<longleftrightarrow>
     sts \<in> set items \<and> (\<exists>h. stsHash sts = Some h \<and>
       h \<noteq> ns_UpdateRevision (CoreNodesStatus (Status x)) \<and>
       h \<noteq> ns_CurrentRevision (CoreNodesStatus (Status x)))"
  by (auto simp: getStateFulSetList_simps)

lemma oldRs_mem:
  "rs \<in> set (snd (snd (getReplicaSetList items x))) \<longleftrightarrow>
     rs \<in> set items \<and> (\<exists>h. rsHash rs = Some h \<and>
       h \<noteq> ns_UpdateRevision (ReplicantNodesStatus (Status x)) \<and>
       h \<noteq> ns_CurrentRevision (ReplicantNodesStatus (Status x)))"
  by (auto simp: getReplicaSetList_simps)

section \<open>Lemmas: pods of a ReplicaSet\<close>

lemma podMapLoop_lookup:
  "podMapLoop ps m uid =
     (case m uid of
        None \<Rightarrow> None
      | Some pods \<Rightarrow> Some (pods @ filter (\<lambda>p. om_controller (pod_meta p) = Some uid) ps))"
proof (induction ps arbitrary: m)
  case (Cons p ps)
  show ?case
  proof (cases "om_controller (pod_meta p)")
    case None
    then show ?thesis by (simp add: Cons.IH split: option.splits)
  next
    case (Some owner)
    then show ?thesis
      by (cases "m owner"; cases "owner = uid") (simp_all add: Cons.IH split: option.splits)
  qed
qed (simp split: option.splits)

lemma foldl_upd_empty:
  "foldl (\<lambda>m rs. m(k rs \<mapsto> [])) m rss uid = (if uid \<in> k ` set rss then Some [] else m uid)"
  by (induction rss arbitrary: m) auto

lemma getRsPodMap_lookup:
  "getRsPodMap rss pods uid =
     (if uid \<in> (\<lambda>rs. om_UID (rs_meta rs)) ` set rss
      then Some (filter (\<lambda>p. om_controller (pod_meta p) = Some uid) pods) else None)"
  by (simp add: getRsPodMap_def podMapLoop_lookup foldl_upd_empty)

section \<open>Lemmas: the hash\<close>

lemma fnvPrime_inverse: "fnvPrime * 899433627 = 1"
  by (simp add: fnvPrime_def)

lemma fnvPrime_cancel: "a * fnvPrime = b * fnvPrime \<longleftrightarrow> a = b"
proof
  assume "a * fnvPrime = b * fnvPrime"
  then have "a * (fnvPrime * 899433627) = b * (fnvPrime * 899433627)"
    by (metis mult.assoc)
  then show "a = b" by (simp add: fnvPrime_inverse)
qed simp

lemma xor_right_cancel: "(a :: 32 word) XOR b = c XOR b \<longleftrightarrow> a = c"
proof
  assume "a XOR b = c XOR b"
  then have "(a XOR b) XOR b = (c XOR b) XOR b" by (simp only:)
  then show "a = c" by (simp only: xor.assoc xor_self_eq xor.right_neutral)
qed (simp only:)

text \<open>Writing the same bytes to two different states keeps them different.\<close>

lemma fnvWrite_inj: "fnvWrite h bs = fnvWrite h' bs \<longleftrightarrow> h = h'"
  by (induction bs arbitrary: h h')
    (simp_all add: fnvWrite_def fnvPrime_cancel xor_right_cancel)

lemma fnvWrite_first_byte:
  "b \<noteq> b' \<Longrightarrow> fnvWrite h (b # bs) \<noteq> fnvWrite h (b' # bs)"
  using fnvWrite_inj[of "(h XOR b) * fnvPrime" bs "(h XOR b') * fnvPrime"]
  by (simp add: fnvWrite_def fnvPrime_cancel xor.commute[of h] xor_right_cancel)

lemma digitsVal_snoc: "digitsVal (s @ [c]) = 10 * digitsVal s + digitVal c"
  by (simp add: digitsVal_def)

lemma digitVal_char_of: "d < 10 \<Longrightarrow> digitVal (char_of (48 + d)) = int d"
proof -
  assume "d < 10"
  then have "of_char (char_of (48 + d) :: char) = 48 + d" by simp
  then have "int (of_char (char_of (48 + d) :: char)) = 48 + int d" by linarith
  then show ?thesis by (simp only: digitVal_def of_nat_of_char)
qed

lemma digitsVal_natDigits: "digitsVal (natDigits n) = int n"
proof (induction n rule: natDigits.induct)
  case (1 n)
  show ?case
  proof (cases "n < 10")
    case True
    then show ?thesis
      by (subst natDigits.simps) (simp add: digitsVal_def digitVal_char_of)
  next
    case False
    with 1 have "digitsVal (natDigits (n div 10)) = int (n div 10)" by simp
    moreover have "n mod 10 < 10" by simp
    moreover have "10 * int (n div 10) + int (n mod 10) = int n"
      by (metis mult_div_mod_eq of_nat_add of_nat_mult of_nat_numeral)
    ultimately show ?thesis
      using False by (subst natDigits.simps) (simp add: digitsVal_snoc digitVal_char_of)
  qed
qed

lemma natDigits_inj: "natDigits m = natDigits n \<longleftrightarrow> m = n"
  by (metis digitsVal_natDigits of_nat_eq_iff)

lemma collisionCountBytes_Suc:
  assumes "0 \<le> c" "c mod 256 < 255" "c < 2 ^ 31 - 1"
  shows "\<exists>b b' bs. collisionCountBytes c = b # bs \<and> collisionCountBytes (c + 1) = b' # bs \<and> b \<noteq> b'"
proof -
  have c: "c mod 2 ^ 32 = c" "(c + 1) mod 2 ^ 32 = c + 1" using assms by simp_all
  have split: "c + 1 = 256 * (c div 256) + (c mod 256 + 1)" by simp
  have low: "0 \<le> c mod 256" by simp
  have div: "(c + 1) div 256 = c div 256"
    using split by (rule int_div_pos_eq) (use low assms(2) in linarith)+
  have rem: "(c + 1) mod 256 = c mod 256 + 1"
    using split by (rule int_mod_pos_eq) (use low assms(2) in linarith)+
  have high: "(c + 1) div 256 ^ i = c div 256 ^ i" if "1 \<le> i" for i :: nat
  proof -
    from that obtain k where i: "i = Suc k" by (cases i) auto
    have "x div (256 ^ Suc k) = x div 256 div 256 ^ k" for x :: int
      by (simp add: zdiv_zmult2_eq)
    then show ?thesis unfolding i by (simp only: div)
  qed
  have "(word_of_int (c mod 256) :: 32 word) \<noteq> word_of_int ((c + 1) mod 256)"
  proof -
    have ne: "c mod 256 \<noteq> (c + 1) mod 256" by (simp only: rem)
    have "take_bit 32 (x mod 256) = x mod 256" for x :: int
      by (simp add: take_bit_eq_mod)
    with ne show ?thesis by (simp add: word_of_int_eq_iff)
  qed
  moreover have "(c + 1) div 256 ^ 1 = c div 256 ^ 1" "(c + 1) div 256 ^ 2 = c div 256 ^ 2"
    "(c + 1) div 256 ^ 3 = c div 256 ^ 3"
    by (rule high, simp)+
  ultimately show ?thesis
    unfolding collisionCountBytes_def c list.map append_Cons append_Nil power_0 div_by_1
    by (metis (no_types))
qed

lemma templateSum32_Suc:
  assumes "0 \<le> c" "c mod 256 < 255" "c < 2 ^ 31 - 1"
  shows "templateSum32 lib t (Some (c + 1)) \<noteq> templateSum32 lib t (Some c)"
proof -
  obtain b b' bs where "collisionCountBytes c = b # bs" "collisionCountBytes (c + 1) = b' # bs"
    and "b \<noteq> b'" using collisionCountBytes_Suc[OF assms] by blast
  then show ?thesis
    using fnvWrite_first_byte[of b' b "deepHashObject lib t" bs] by (simp add: templateSum32_def)
qed

end
