(* ===== verification/Ports.thy ===== *)
theory Ports
  imports Labels
begin

text \<open>
  The port helpers of \<open>apis/apps/v2beta1/util.go\<close>: dashboard and listener ports read from the
  HOCON configuration, and the merge of port lists. The HOCON parser
  (\<open>github.com/rory-z/go-hocon\<close>) and \<open>intstr\<close> are not part of the repository: they are the record
  \<open>hoconLib\<close>, an argument of the operations that call them. A parsed value has the type \<open>'c\<close>;
  the fields of an object come as a list, in the order a \<open>range\<close> over the Go map visits them.
\<close>

record 'c hoconLib =
  h_ParseString :: "string \<Rightarrow> goerr + 'c"
  h_GetString :: "'c \<Rightarrow> string \<Rightarrow> string"
  h_GetObject :: "'c \<Rightarrow> string \<Rightarrow> (string \<times> 'c) list"
  h_isObject :: "'c \<Rightarrow> bool"
  h_fields :: "'c \<Rightarrow> (string \<times> 'c) list"
  h_object :: "(string \<times> 'c) list \<Rightarrow> 'c"
  h_String :: "'c \<Rightarrow> string"
  intstr_Parse :: "string \<Rightarrow> intstr"
  intstr_IntValue :: "intstr \<Rightarrow> int"

section \<open>Operations\<close>

definition withColon :: "string \<Rightarrow> string" where
  "withColon bind = (if CHR '':'' \<in> set bind then bind else CHR '':'' # bind)"

text \<open>The port number of a bind address: \<open>SplitHostPort\<close> then \<open>Atoi\<close>, both errors ignored.\<close>

definition bindPort :: "string \<Rightarrow> int" where
  "bindPort bind = fst (atoi (fst (snd (splitHostPort (withColon bind)))))"

definition setDashboardPort ::
  "string \<Rightarrow> string \<Rightarrow> (string \<rightharpoonup> int) \<Rightarrow> (string \<rightharpoonup> int)" where
  "setDashboardPort name bind portMap =
     (if bind = [] then portMap
      else let port = bindPort bind
           in if port \<noteq> 0 then portMap(name \<mapsto> int32 port) else portMap(name := None))"

definition GetDashboardPortMap :: "'c hoconLib \<Rightarrow> string \<Rightarrow> goerr + (string \<rightharpoonup> int)" where
  "GetDashboardPortMap lib hoconString =
     (let portMap = [''dashboard'' \<mapsto> (18083 :: int)]
      in case h_ParseString lib hoconString of
           Inl err \<Rightarrow> Inl (ErrWrap (''failed to parse '' @ hoconString) err)
         | Inr hoconConfig \<Rightarrow>
             let http = trimByte dquote (h_GetString lib hoconConfig ''dashboard.listeners.http.bind'');
                 https = trimByte dquote (h_GetString lib hoconConfig ''dashboard.listeners.https.bind'')
             in Inr (setDashboardPort ''dashboard-https'' https
                       (setDashboardPort ''dashboard'' http portMap)))"

definition portNameLess :: "servicePort \<Rightarrow> servicePort \<Rightarrow> bool" where
  "portNameLess a b = (sp_Name a < sp_Name b)"

definition tcpPort :: "string \<Rightarrow> int \<Rightarrow> servicePort" where
  "tcpPort name port = \<lparr>sp_Name = name, sp_Protocol = ''TCP'', sp_Port = port,
     sp_TargetPort = IntVal port, sp_NodePort = 0\<rparr>"

definition GetDashboardServicePort :: "'c hoconLib \<Rightarrow> string \<Rightarrow> goerr + servicePort list" where
  "GetDashboardServicePort lib hoconString =
     (case GetDashboardPortMap lib hoconString of
        Inl err \<Rightarrow> Inl (ErrWrap ''failed to get dashboard port map'' err)
      | Inr portMap \<Rightarrow>
          Inr (go_sort portNameLess
            (concat (map (\<lambda>name. case portMap name of None \<Rightarrow> [] | Some port \<Rightarrow> [tcpPort name port])
               [''dashboard'', ''dashboard-https'']))))"

text \<open>The two loops of \<open>GetListenersServicePorts\<close>, listeners first, then gateways.\<close>

definition disabled :: "'c hoconLib \<Rightarrow> 'c \<Rightarrow> bool" where
  "disabled lib c = (h_GetString lib c ''enable'' = ''false'' \<or> h_GetString lib c ''enabled'' = ''false'')"

definition bindServicePort ::
  "'c hoconLib \<Rightarrow> string \<Rightarrow> string \<Rightarrow> string \<Rightarrow> servicePort" where
  "bindServicePort lib name protocol bind0 =
     (let bind = withColon (trimByte dquote bind0);
          strPort = fst (snd (splitHostPort bind));
          intStrValue = intstr_Parse lib strPort
      in \<lparr>sp_Name = name, sp_Protocol = protocol, sp_Port = int32 (intstr_IntValue lib intStrValue),
          sp_TargetPort = intStrValue, sp_NodePort = 0\<rparr>)"

definition cutConfig :: "(string \<times> 'c) list \<Rightarrow> (string \<times> 'c) list" where
  "cutConfig obj =
     concat (map (\<lambda>k. case map_of obj k of None \<Rightarrow> [] | Some v \<Rightarrow> [(k, v)])
       [''enable'', ''enabled'', ''bind''])"

fun listenerPorts ::
  "'c hoconLib \<Rightarrow> string \<Rightarrow> (string \<times> 'c) list \<Rightarrow> servicePort list \<Rightarrow> (goerr + servicePort list) go" where
  "listenerPorts lib t [] svcPorts = Ret (Inr svcPorts)"
| "listenerPorts lib t ((name, config) # rest) svcPorts =
     (if \<not> h_isObject lib config then Panic
      else case h_ParseString lib (h_String lib (h_object lib (cutConfig (h_fields lib config)))) of
             Inl err \<Rightarrow> Ret (Inl (ErrWrap (''failed to parse '' @ h_String lib config) err))
           | Inr c \<Rightarrow>
               if disabled lib c then listenerPorts lib t rest svcPorts
               else listenerPorts lib t rest
                      (svcPorts @ [bindServicePort lib (t @ ''-'' @ name)
                         (if t = ''quic'' then ''UDP'' else ''TCP'') (h_GetString lib c ''bind'')]))"

fun listenersLoop ::
  "'c hoconLib \<Rightarrow> (string \<times> 'c) list \<Rightarrow> servicePort list \<Rightarrow> (goerr + servicePort list) go" where
  "listenersLoop lib [] svcPorts = Ret (Inr svcPorts)"
| "listenersLoop lib ((t, listener) # rest) svcPorts =
     (if \<not> h_isObject lib listener then listenersLoop lib rest svcPorts
      else case h_ParseString lib (h_String lib listener) of
             Inl _ \<Rightarrow> listenersLoop lib rest svcPorts
           | Inr configs \<Rightarrow>
               if \<not> h_isObject lib configs then listenersLoop lib rest svcPorts
               else (case listenerPorts lib t (h_fields lib configs) svcPorts of
                       Panic \<Rightarrow> Panic
                     | Ret (Inl err) \<Rightarrow> Ret (Inl err)
                     | Ret (Inr ports) \<Rightarrow> listenersLoop lib rest ports))"

fun gatewayListenerPorts ::
  "'c hoconLib \<Rightarrow> string \<Rightarrow> string \<Rightarrow> (string \<times> 'c) list \<Rightarrow> servicePort list \<Rightarrow> servicePort list go" where
  "gatewayListenerPorts lib proto t [] svcPorts = Ret svcPorts"
| "gatewayListenerPorts lib proto t ((name, config) # rest) svcPorts =
     (case h_ParseString lib (h_String lib config) of
        Inl _ \<Rightarrow> Panic
      | Inr c \<Rightarrow>
          if disabled lib c then gatewayListenerPorts lib proto t rest svcPorts
          else gatewayListenerPorts lib proto t rest
                 (svcPorts @ [bindServicePort lib (proto @ ''-'' @ t @ ''-'' @ name)
                    (if t = ''udp'' \<or> t = ''dtls'' then ''UDP'' else ''TCP'')
                    (h_GetString lib c ''bind'')]))"

fun gatewayListenersLoop ::
  "'c hoconLib \<Rightarrow> string \<Rightarrow> (string \<times> 'c) list \<Rightarrow> servicePort list \<Rightarrow> servicePort list go" where
  "gatewayListenersLoop lib proto [] svcPorts = Ret svcPorts"
| "gatewayListenersLoop lib proto ((t, listener) # rest) svcPorts =
     (if \<not> h_isObject lib listener then gatewayListenersLoop lib proto rest svcPorts
      else case h_ParseString lib (h_String lib listener) of
             Inl _ \<Rightarrow> gatewayListenersLoop lib proto rest svcPorts
           | Inr configs \<Rightarrow>
               if \<not> h_isObject lib configs then gatewayListenersLoop lib proto rest svcPorts
               else (case gatewayListenerPorts lib proto t (h_fields lib configs) svcPorts of
                       Panic \<Rightarrow> Panic
                     | Ret ports \<Rightarrow> gatewayListenersLoop lib proto rest ports))"

fun gatewaysLoop ::
  "'c hoconLib \<Rightarrow> (string \<times> 'c) list \<Rightarrow> servicePort list \<Rightarrow> servicePort list go" where
  "gatewaysLoop lib [] svcPorts = Ret svcPorts"
| "gatewaysLoop lib ((proto, gateway) # rest) svcPorts =
     (case h_ParseString lib (h_String lib gateway) of
        Inl _ \<Rightarrow> Panic
      | Inr c \<Rightarrow>
          if disabled lib c then gatewaysLoop lib rest svcPorts
          else (case gatewayListenersLoop lib proto (h_GetObject lib c ''listeners'') svcPorts of
                  Panic \<Rightarrow> Panic
                | Ret ports \<Rightarrow> gatewaysLoop lib rest ports))"

definition GetListenersServicePorts ::
  "'c hoconLib \<Rightarrow> string \<Rightarrow> (goerr + servicePort list) go" where
  "GetListenersServicePorts lib hoconString =
     (case h_ParseString lib hoconString of
        Inl err \<Rightarrow> Ret (Inl (ErrWrap (''failed to parse '' @ hoconString) err))
      | Inr hoconConfig \<Rightarrow>
          (case listenersLoop lib (h_GetObject lib hoconConfig ''listeners'') [] of
             Panic \<Rightarrow> Panic
           | Ret (Inl err) \<Rightarrow> Ret (Inl err)
           | Ret (Inr ports) \<Rightarrow>
               (case gatewaysLoop lib (h_GetObject lib hoconConfig ''gateway'') ports of
                  Panic \<Rightarrow> Panic
                | Ret ports' \<Rightarrow> Ret (Inr (go_sort portNameLess ports')))))"

text \<open>
  The loop of \<open>MergeServicePorts\<close> and \<open>MergeContainerPorts\<close>: a port is kept when neither its
  name nor its number was seen before.
\<close>

fun mergeLoop ::
  "('p \<Rightarrow> string) \<Rightarrow> ('p \<Rightarrow> int) \<Rightarrow> 'p list \<Rightarrow> string set \<Rightarrow> int set \<Rightarrow> 'p list \<Rightarrow> 'p list" where
  "mergeLoop name port [] tempName tempPort result = result"
| "mergeLoop name port (item # items) tempName tempPort result =
     (if name item \<notin> tempName \<and> port item \<notin> tempPort
      then mergeLoop name port items (insert (name item) tempName) (insert (port item) tempPort)
             (result @ [item])
      else mergeLoop name port items tempName tempPort result)"

definition MergeServicePorts :: "servicePort list \<Rightarrow> servicePort list \<Rightarrow> servicePort list" where
  "MergeServicePorts ports1 ports2 = mergeLoop sp_Name sp_Port (ports1 @ ports2) {} {} []"

definition MergeContainerPorts :: "containerPort list \<Rightarrow> containerPort list \<Rightarrow> containerPort list" where
  "MergeContainerPorts ports1 ports2 =
     mergeLoop cp_Name cp_ContainerPort (ports1 @ ports2) {} {} []"

definition TransServicePortsToContainerPorts :: "servicePort list \<Rightarrow> containerPort list" where
  "TransServicePortsToContainerPorts ports =
     map (\<lambda>item. \<lparr>cp_Name = sp_Name item, cp_Protocol = sp_Protocol item,
                  cp_ContainerPort = sp_Port item\<rparr>) ports"

section \<open>Lemmas on merging\<close>

text \<open>
  The invariant of the merge loop: the sets hold the names and numbers of the result so far, which
  has neither twice.
\<close>

definition unclashing :: "('p \<Rightarrow> string) \<Rightarrow> ('p \<Rightarrow> int) \<Rightarrow> 'p list \<Rightarrow> bool" where
  "unclashing name port ps \<longleftrightarrow> distinct (map name ps) \<and> distinct (map port ps)"

lemma mergeLoop_unclashing:
  "unclashing name port result \<Longrightarrow>
   unclashing name port
     (mergeLoop name port items (name ` set result) (port ` set result) result)"
proof (induction items arbitrary: result)
  case (Cons item items)
  show ?case
  proof (cases "name item \<notin> name ` set result \<and> port item \<notin> port ` set result")
    case True
    with Cons.prems have "unclashing name port (result @ [item])" by (auto simp: unclashing_def)
    from Cons.IH[OF this] True show ?thesis by simp
  qed (use Cons in auto)
qed simp

lemma mergeLoop_prefix: "\<exists>kept. mergeLoop name port items N P result = result @ kept"
proof (induction items arbitrary: N P result)
  case (Cons item items)
  then show ?case by (metis append.assoc mergeLoop.simps(2))
qed simp

lemma mergeLoop_subset: "set (mergeLoop name port items N P result) \<subseteq> set result \<union> set items"
proof (induction items arbitrary: N P result)
  case (Cons item items)
  have "set (mergeLoop name port items N' P' result') \<subseteq> set result' \<union> set items" for N' P' result'
    by (rule Cons.IH)
  from this[of "insert (name item) N" "insert (port item) P" "result @ [item]"] this[of N P result]
  show ?case by auto
qed simp

lemma mergeLoop_keeps:
  assumes "unclashing name port (result @ ps)"
  shows "mergeLoop name port (ps @ qs) (name ` set result) (port ` set result) result =
    mergeLoop name port qs (name ` set (result @ ps)) (port ` set (result @ ps)) (result @ ps)"
  using assms
proof (induction ps arbitrary: result)
  case (Cons p ps)
  from Cons.prems have "name p \<notin> name ` set result \<and> port p \<notin> port ` set result"
    by (auto simp: unclashing_def)
  moreover from Cons.prems have "unclashing name port ((result @ [p]) @ ps)" by simp
  ultimately show ?case using Cons.IH[of "result @ [p]"] by simp
qed simp

lemma mergeLoop_covers:
  assumes "item \<in> set items"
  shows "name item \<in> name ` set (mergeLoop name port items (name ` set result) (port ` set result) result)
    \<or> port item \<in> port ` set (mergeLoop name port items (name ` set result) (port ` set result) result)"
  using assms
proof (induction items arbitrary: result)
  case (Cons x items)
  let ?go = "\<lambda>its res. mergeLoop name port its (name ` set res) (port ` set res) res"
  show ?case
  proof (cases "name x \<notin> name ` set result \<and> port x \<notin> port ` set result")
    case True
    then have eq: "?go (x # items) result = ?go items (result @ [x])" by simp
    obtain kept where "?go items (result @ [x]) = (result @ [x]) @ kept"
      using mergeLoop_prefix by blast
    then have "x \<in> set (?go (x # items) result)" unfolding eq by simp
    then show ?thesis using Cons.IH[of "result @ [x]"] Cons.prems unfolding eq by auto
  next
    case False
    then have eq: "?go (x # items) result = ?go items result" by auto
    obtain kept where "?go items result = result @ kept" using mergeLoop_prefix by blast
    then have "set result \<subseteq> set (?go items result)" by simp
    then show ?thesis using Cons.IH[of result] Cons.prems False unfolding eq by fastforce
  qed
qed simp

section \<open>Lemmas on dashboard ports\<close>

interpretation portName: go_less portNameLess
  unfolding portNameLess_def by unfold_locales auto

lemma setDashboardPort_other:
  "k \<noteq> name \<Longrightarrow> setDashboardPort name bind m k = m k"
  by (simp add: setDashboardPort_def Let_def)

lemma setDashboardPort_same:
  "setDashboardPort name bind m name =
     (if bind = [] then m name
      else if bindPort bind = 0 then None else Some (int32 (bindPort bind)))"
  by (simp add: setDashboardPort_def Let_def)

lemma GetDashboardPortMap_dom:
  assumes "GetDashboardPortMap lib s = Inr pm" "pm k = Some p"
  shows "k = ''dashboard'' \<or> k = ''dashboard-https''"
  using assms
  by (auto simp: GetDashboardPortMap_def setDashboardPort_def Let_def split: sum.splits if_splits)

lemma bindPort_plain:
  assumes "list_all isDigit p" "p \<noteq> []" "digitsVal p \<le> 2 ^ 63 - 1"
  shows "bindPort p = digitsVal p"
proof -
  have nc: "c \<notin> set p" if "\<not> isDigit c" for c using assms(1) that by (auto simp: list_all_iff)
  have chars: "CHR '':'' \<notin> set p" "CHR ''['' \<notin> set p" "CHR '']'' \<notin> set p"
    "CHR ''-'' \<notin> set p" "CHR ''+'' \<notin> set p"
    by (rule nc, simp add: isDigit_def)+
  have split: "splitHostPort (CHR '':'' # p) = ([], p, False)"
    using splitHostPort_plain[of "[]" p] chars by simp
  have "atoi p = (digitsVal p, False)" using assms by (rule atoi_digits)
  then show ?thesis using chars(1) split by (simp add: bindPort_def withColon_def)
qed

end
