(* ===== verification/Api.thy ===== *)
theory Api
  imports Rebalance_Types V4_Types Set_Lists Ports "HOL-Library.State_Monad"
begin

text \<open>
  What the controllers run on: the Kubernetes API server, the clock, the event recorder and the
  HTTP API of the EMQX nodes. None of them is code of the repository, so they are the fields of the
  record \<open>env\<close>, functions on an opaque world of type \<open>'w\<close>: every answer, every failure and
  every change another client makes between two calls is some choice of these functions. A
  controller is a state monad over the world and the trace of its calls; a theorem that holds for
  every \<open>env\<close> and every initial state holds whatever the cluster does.
\<close>

section \<open>Objects, requests and the trace\<close>

datatype obj =
    OStatefulSet statefulSet
  | OReplicaSet replicaSet
  | OPod pod
  | OPvc persistentVolumeClaim
  | OSecret secret
  | OConfigMap configMap
  | OService service
  | OPdb pdb
  | OEndpoints endpoints
  | OPlugin EmqxPlugin

record httpRequest =
  hr_Method :: string
  hr_Scheme :: string
  hr_Host :: string
  hr_Path :: string
  hr_RawQuery :: string
  hr_Header :: "(string \<times> string) list"
  hr_BasicAuth :: "(string \<times> string) option"
  hr_Body :: json

record httpResponse =
  resp_StatusCode :: int
  resp_Status :: string
  resp_Body :: string
  resp_ReadErr :: "goerr option"

text \<open>One entry per call: its arguments, then the answer. An error result is \<open>Some\<close> or \<open>Inl\<close>.\<close>

datatype call =
    TNow time
  | TListSts string gomap "statefulSet list"
  | TListRs string gomap "replicaSet list"
  | TListPods string gomap "pod list"
  | TListPvcs string gomap "persistentVolumeClaim list"
  | TListEvents string string "event list"
  | TGetPod string string "goerr + pod"
  | TGetSecret string string "goerr + secret"
  | TGetConfigMap string string "goerr + configMap"
  | TListStsE string gomap "goerr + statefulSet list"
  | TListPodsE string gomap "goerr + pod list"
  | TListPlugins string "goerr + EmqxPlugin list"
  | TListBrokers string gomap "goerr + EmqxBroker list"
  | TListEnterprises string gomap "goerr + EmqxEnterprise list"
  | TGetSts string string "goerr + statefulSet"
  | TGetBroker string string "goerr + EmqxBroker"
  | TGetPlugin string string "goerr + EmqxPlugin"
  | TStatusEmqx Emqx "goerr + Emqx"
  | TGetEMQX string string "goerr + EMQX"
  | TGetEnterprise string string "goerr + EmqxEnterprise"
  | TGetRebalance string string "goerr + Rebalance"
  | TGetObj obj "goerr + obj"
  | TCreate obj "goerr option"
  | TUpdate obj "goerr option"
  | TDelete obj "goerr option"
  | TUpdateEMQX EMQX "goerr + EMQX"
  | TStatusEMQX EMQX "goerr + EMQX"
  | TUpdateRebalance Rebalance "goerr + Rebalance"
  | TStatusRebalance Rebalance "goerr + Rebalance"
  | TPatchPodStatus pod podCondition "goerr option"
  | TEvent string string
  | THttp httpRequest "goerr + httpResponse"
  | TPassword string
  | TServerVersion string

record 'w st =
  world :: 'w
  trace :: "call list"

type_synonym ('w, 'a) op = "('w st, 'a) state"

abbreviation ret :: "'a \<Rightarrow> ('w, 'a) op" where
  "ret \<equiv> State_Monad.return"

section \<open>The environment\<close>

text \<open>
  The library functions without effect come first: the HOCON parser, the hash helpers, the
  ownership helper of \<open>controller-runtime\<close>, the comparison of versions (\<open>semver\<close>, \<open>None\<close> when
  the version does not parse), the patch calculation of \<open>k8s-objectmatcher\<close> (\<open>Inr True\<close>: the patch
  is empty; the first is given what \<open>justCheckPodTemplate\<close> leaves of the two objects), the
  annotation it records, the decoding of JSON text, and the text of an error (\<open>err.Error()\<close>).
  \<open>validLabels\<close> is the validation of a label set by \<open>k8s.io/apimachinery\<close>, \<open>mapFirst\<close> the key a Go
  loop over a map meets first (any key), \<open>jsonGetPath\<close> and \<open>jsonSetPath\<close> a \<open>gjson\<close> read and an
  \<open>sjson\<close> write of a path in a map printed as JSON, \<open>maxCollisions\<close> the number of names after which the
  search for a free StatefulSet name is taken not to end.
\<close>

record ('w, 'c) env =
  hocon :: "'c hoconLib"
  hashes :: hashLib
  setControllerReference :: "objectMeta \<Rightarrow> objectMeta \<Rightarrow> goerr + objectMeta"
  semverLess :: "string \<Rightarrow> string \<Rightarrow> bool option"
  calculateTemplate :: "obj \<Rightarrow> podTemplateSpec \<times> podTemplateSpec \<Rightarrow> goerr + bool"
  calculate :: "obj \<Rightarrow> obj \<Rightarrow> goerr + bool"
  setLastApplied :: "obj \<Rightarrow> goerr + obj"
  unmarshalNodes :: "string \<Rightarrow> goerr + EMQXNode list"
  unmarshalNode :: "string \<Rightarrow> goerr + EMQXNode option"
  unmarshalEvacuations :: "string \<Rightarrow> goerr + NodeEvacuationStatus list"
  unmarshalRebalances :: "string \<Rightarrow> goerr + RebalanceState list"
  unmarshalNodes4 :: "string \<Rightarrow> goerr + EmqxNode4 list"
  unmarshalEvacuations4 :: "string \<Rightarrow> goerr + EmqxEvacuationStatus list option"
  unmarshalListeners4 :: "string \<Rightarrow> goerr + emqxListeners list"
  unmarshalPlugins4 :: "string \<Rightarrow> goerr + pluginListByAPIReturn list"
  validLabels :: "gomap \<Rightarrow> bool"
  mapFirst :: "gomap \<Rightarrow> string option"
  maxCollisions :: nat
  jsonGetPath :: "gomap \<Rightarrow> string \<Rightarrow> string option"
  jsonSetPath :: "gomap \<Rightarrow> string \<Rightarrow> string \<Rightarrow> goerr + gomap"
  gjsonString :: "string \<Rightarrow> string \<Rightarrow> string"
  gjsonRaw :: "string \<Rightarrow> string \<Rightarrow> string"
  errorText :: "goerr \<Rightarrow> string"
  parseFloat :: "string \<Rightarrow> json"
  joinHostPort :: "string \<Rightarrow> string \<Rightarrow> string"
  newRequestErr :: "httpRequest \<Rightarrow> goerr option"
  retrySteps :: nat
  w_now :: "'w \<Rightarrow> time \<times> 'w"
  w_listSts :: "string \<Rightarrow> gomap \<Rightarrow> 'w \<Rightarrow> statefulSet list \<times> 'w"
  w_listRs :: "string \<Rightarrow> gomap \<Rightarrow> 'w \<Rightarrow> replicaSet list \<times> 'w"
  w_listPods :: "string \<Rightarrow> gomap \<Rightarrow> 'w \<Rightarrow> pod list \<times> 'w"
  w_listPvcs :: "string \<Rightarrow> gomap \<Rightarrow> 'w \<Rightarrow> persistentVolumeClaim list \<times> 'w"
  w_listEvents :: "string \<Rightarrow> string \<Rightarrow> 'w \<Rightarrow> event list \<times> 'w"
  w_getPod :: "string \<Rightarrow> string \<Rightarrow> 'w \<Rightarrow> (goerr + pod) \<times> 'w"
  w_getSecret :: "string \<Rightarrow> string \<Rightarrow> 'w \<Rightarrow> (goerr + secret) \<times> 'w"
  w_getConfigMap :: "string \<Rightarrow> string \<Rightarrow> 'w \<Rightarrow> (goerr + configMap) \<times> 'w"
  w_listStsE :: "string \<Rightarrow> gomap \<Rightarrow> 'w \<Rightarrow> (goerr + statefulSet list) \<times> 'w"
  w_listPodsE :: "string \<Rightarrow> gomap \<Rightarrow> 'w \<Rightarrow> (goerr + pod list) \<times> 'w"
  w_listPlugins :: "string \<Rightarrow> 'w \<Rightarrow> (goerr + EmqxPlugin list) \<times> 'w"
  w_listBrokers :: "string \<Rightarrow> gomap \<Rightarrow> 'w \<Rightarrow> (goerr + EmqxBroker list) \<times> 'w"
  w_listEnterprises :: "string \<Rightarrow> gomap \<Rightarrow> 'w \<Rightarrow> (goerr + EmqxEnterprise list) \<times> 'w"
  w_getSts :: "string \<Rightarrow> string \<Rightarrow> 'w \<Rightarrow> (goerr + statefulSet) \<times> 'w"
  w_getBroker :: "string \<Rightarrow> string \<Rightarrow> 'w \<Rightarrow> (goerr + EmqxBroker) \<times> 'w"
  w_getPlugin :: "string \<Rightarrow> string \<Rightarrow> 'w \<Rightarrow> (goerr + EmqxPlugin) \<times> 'w"
  w_statusEmqx :: "Emqx \<Rightarrow> 'w \<Rightarrow> (goerr + Emqx) \<times> 'w"
  w_getEMQX :: "string \<Rightarrow> string \<Rightarrow> 'w \<Rightarrow> (goerr + EMQX) \<times> 'w"
  w_getEnterprise :: "string \<Rightarrow> string \<Rightarrow> 'w \<Rightarrow> (goerr + EmqxEnterprise) \<times> 'w"
  w_getRebalance :: "string \<Rightarrow> string \<Rightarrow> 'w \<Rightarrow> (goerr + Rebalance) \<times> 'w"
  w_getObj :: "obj \<Rightarrow> 'w \<Rightarrow> (goerr + obj) \<times> 'w"
  w_create :: "obj \<Rightarrow> 'w \<Rightarrow> goerr option \<times> 'w"
  w_update :: "obj \<Rightarrow> 'w \<Rightarrow> goerr option \<times> 'w"
  w_delete :: "obj \<Rightarrow> 'w \<Rightarrow> goerr option \<times> 'w"
  w_updateEMQX :: "EMQX \<Rightarrow> 'w \<Rightarrow> (goerr + EMQX) \<times> 'w"
  w_statusEMQX :: "EMQX \<Rightarrow> 'w \<Rightarrow> (goerr + EMQX) \<times> 'w"
  w_updateRebalance :: "Rebalance \<Rightarrow> 'w \<Rightarrow> (goerr + Rebalance) \<times> 'w"
  w_statusRebalance :: "Rebalance \<Rightarrow> 'w \<Rightarrow> (goerr + Rebalance) \<times> 'w"
  w_patchPodStatus :: "pod \<Rightarrow> podCondition \<Rightarrow> 'w \<Rightarrow> goerr option \<times> 'w"
  w_do :: "httpRequest \<Rightarrow> 'w \<Rightarrow> (goerr + httpResponse) \<times> 'w"
  w_password :: "'w \<Rightarrow> string \<times> 'w"
  w_serverVersion :: "'w \<Rightarrow> string \<times> 'w"

section \<open>Calls\<close>

definition prim :: "('w \<Rightarrow> 'a \<times> 'w) \<Rightarrow> ('a \<Rightarrow> call) \<Rightarrow> ('w, 'a) op" where
  "prim f entry = State (\<lambda>s. case f (world s) of
     (a, w) \<Rightarrow> (a, s\<lparr>world := w, trace := trace s @ [entry a]\<rparr>))"

definition timeNow :: "('w, 'c) env \<Rightarrow> ('w, time) op" where
  "timeNow E = prim (w_now E) TNow"

definition listSts :: "('w, 'c) env \<Rightarrow> string \<Rightarrow> gomap \<Rightarrow> ('w, statefulSet list) op" where
  "listSts E ns labels = prim (w_listSts E ns labels) (TListSts ns labels)"

definition listRs :: "('w, 'c) env \<Rightarrow> string \<Rightarrow> gomap \<Rightarrow> ('w, replicaSet list) op" where
  "listRs E ns labels = prim (w_listRs E ns labels) (TListRs ns labels)"

definition listPods :: "('w, 'c) env \<Rightarrow> string \<Rightarrow> gomap \<Rightarrow> ('w, pod list) op" where
  "listPods E ns labels = prim (w_listPods E ns labels) (TListPods ns labels)"

definition listPvcs :: "('w, 'c) env \<Rightarrow> string \<Rightarrow> gomap \<Rightarrow> ('w, persistentVolumeClaim list) op" where
  "listPvcs E ns labels = prim (w_listPvcs E ns labels) (TListPvcs ns labels)"

definition listEvents :: "('w, 'c) env \<Rightarrow> string \<Rightarrow> string \<Rightarrow> ('w, event list) op" where
  "listEvents E ns name = prim (w_listEvents E ns name) (TListEvents ns name)"

definition getPod :: "('w, 'c) env \<Rightarrow> string \<Rightarrow> string \<Rightarrow> ('w, goerr + pod) op" where
  "getPod E ns name = prim (w_getPod E ns name) (TGetPod ns name)"

definition getSecret :: "('w, 'c) env \<Rightarrow> string \<Rightarrow> string \<Rightarrow> ('w, goerr + secret) op" where
  "getSecret E ns name = prim (w_getSecret E ns name) (TGetSecret ns name)"

definition getConfigMap :: "('w, 'c) env \<Rightarrow> string \<Rightarrow> string \<Rightarrow> ('w, goerr + configMap) op" where
  "getConfigMap E ns name = prim (w_getConfigMap E ns name) (TGetConfigMap ns name)"

definition listStsE :: "('w, 'c) env \<Rightarrow> string \<Rightarrow> gomap \<Rightarrow> ('w, goerr + statefulSet list) op" where
  "listStsE E ns labels = prim (w_listStsE E ns labels) (TListStsE ns labels)"

definition listPodsE :: "('w, 'c) env \<Rightarrow> string \<Rightarrow> gomap \<Rightarrow> ('w, goerr + pod list) op" where
  "listPodsE E ns labels = prim (w_listPodsE E ns labels) (TListPodsE ns labels)"

definition listPlugins :: "('w, 'c) env \<Rightarrow> string \<Rightarrow> ('w, goerr + EmqxPlugin list) op" where
  "listPlugins E ns = prim (w_listPlugins E ns) (TListPlugins ns)"

definition listBrokers :: "('w, 'c) env \<Rightarrow> string \<Rightarrow> gomap \<Rightarrow> ('w, goerr + EmqxBroker list) op" where
  "listBrokers E ns labels = prim (w_listBrokers E ns labels) (TListBrokers ns labels)"

definition listEnterprises :: "('w, 'c) env \<Rightarrow> string \<Rightarrow> gomap \<Rightarrow> ('w, goerr + EmqxEnterprise list) op" where
  "listEnterprises E ns labels = prim (w_listEnterprises E ns labels) (TListEnterprises ns labels)"

definition getSts :: "('w, 'c) env \<Rightarrow> string \<Rightarrow> string \<Rightarrow> ('w, goerr + statefulSet) op" where
  "getSts E ns name = prim (w_getSts E ns name) (TGetSts ns name)"

definition getBroker :: "('w, 'c) env \<Rightarrow> string \<Rightarrow> string \<Rightarrow> ('w, goerr + EmqxBroker) op" where
  "getBroker E ns name = prim (w_getBroker E ns name) (TGetBroker ns name)"

definition getPlugin :: "('w, 'c) env \<Rightarrow> string \<Rightarrow> string \<Rightarrow> ('w, goerr + EmqxPlugin) op" where
  "getPlugin E ns name = prim (w_getPlugin E ns name) (TGetPlugin ns name)"

definition statusEmqx :: "('w, 'c) env \<Rightarrow> Emqx \<Rightarrow> ('w, goerr + Emqx) op" where
  "statusEmqx E x = prim (w_statusEmqx E x) (TStatusEmqx x)"

definition getEMQX :: "('w, 'c) env \<Rightarrow> string \<Rightarrow> string \<Rightarrow> ('w, goerr + EMQX) op" where
  "getEMQX E ns name = prim (w_getEMQX E ns name) (TGetEMQX ns name)"

definition getEnterprise :: "('w, 'c) env \<Rightarrow> string \<Rightarrow> string \<Rightarrow> ('w, goerr + EmqxEnterprise) op" where
  "getEnterprise E ns name = prim (w_getEnterprise E ns name) (TGetEnterprise ns name)"

definition getRebalance :: "('w, 'c) env \<Rightarrow> string \<Rightarrow> string \<Rightarrow> ('w, goerr + Rebalance) op" where
  "getRebalance E ns name = prim (w_getRebalance E ns name) (TGetRebalance ns name)"

definition getObj :: "('w, 'c) env \<Rightarrow> obj \<Rightarrow> ('w, goerr + obj) op" where
  "getObj E ob = prim (w_getObj E ob) (TGetObj ob)"

definition create :: "('w, 'c) env \<Rightarrow> obj \<Rightarrow> ('w, goerr option) op" where
  "create E ob = prim (w_create E ob) (TCreate ob)"

definition update :: "('w, 'c) env \<Rightarrow> obj \<Rightarrow> ('w, goerr option) op" where
  "update E ob = prim (w_update E ob) (TUpdate ob)"

definition delete :: "('w, 'c) env \<Rightarrow> obj \<Rightarrow> ('w, goerr option) op" where
  "delete E ob = prim (w_delete E ob) (TDelete ob)"

definition updateEMQX :: "('w, 'c) env \<Rightarrow> EMQX \<Rightarrow> ('w, goerr + EMQX) op" where
  "updateEMQX E x = prim (w_updateEMQX E x) (TUpdateEMQX x)"

definition statusEMQX :: "('w, 'c) env \<Rightarrow> EMQX \<Rightarrow> ('w, goerr + EMQX) op" where
  "statusEMQX E x = prim (w_statusEMQX E x) (TStatusEMQX x)"

definition updateRebalance :: "('w, 'c) env \<Rightarrow> Rebalance \<Rightarrow> ('w, goerr + Rebalance) op" where
  "updateRebalance E x = prim (w_updateRebalance E x) (TUpdateRebalance x)"

definition statusRebalance :: "('w, 'c) env \<Rightarrow> Rebalance \<Rightarrow> ('w, goerr + Rebalance) op" where
  "statusRebalance E x = prim (w_statusRebalance E x) (TStatusRebalance x)"

definition patchPodStatus :: "('w, 'c) env \<Rightarrow> pod \<Rightarrow> podCondition \<Rightarrow> ('w, goerr option) op" where
  "patchPodStatus E p c = prim (w_patchPodStatus E p c) (TPatchPodStatus p c)"

definition recordEvent :: "string \<Rightarrow> string \<Rightarrow> ('w, unit) op" where
  "recordEvent kind reason = prim (\<lambda>w. ((), w)) (\<lambda>_. TEvent kind reason)"

definition httpDo :: "('w, 'c) env \<Rightarrow> httpRequest \<Rightarrow> ('w, goerr + httpResponse) op" where
  "httpDo E r = prim (w_do E r) (THttp r)"

definition generatePassword :: "('w, 'c) env \<Rightarrow> ('w, string) op" where
  "generatePassword E = prim (w_password E) TPassword"

definition serverVersion :: "('w, 'c) env \<Rightarrow> ('w, string) op" where
  "serverVersion E = prim (w_serverVersion E) TServerVersion"

lemmas call_defs = timeNow_def listSts_def listRs_def listPods_def listPvcs_def listEvents_def
  getPod_def getSecret_def getConfigMap_def getEMQX_def getEnterprise_def getRebalance_def
  getObj_def create_def update_def delete_def updateEMQX_def statusEMQX_def updateRebalance_def
  statusRebalance_def patchPodStatus_def recordEvent_def httpDo_def generatePassword_def
  serverVersion_def listStsE_def listPodsE_def listPlugins_def listBrokers_def listEnterprises_def
  getSts_def getBroker_def getPlugin_def statusEmqx_def

section \<open>Errors\<close>

text \<open>\<open>emperror.Cause\<close>, and the \<open>Is\<dots>\<close> tests of \<open>k8s.io/apimachinery\<close>, which look through wraps.\<close>

fun Cause :: "goerr \<Rightarrow> goerr" where
  "Cause (ErrWrap _ err) = Cause err"
| "Cause err = err"

definition IsNotFound :: "goerr \<Rightarrow> bool" where
  "IsNotFound err = (Cause err = ErrNotFound)"

definition IsAlreadyExists :: "goerr \<Rightarrow> bool" where
  "IsAlreadyExists err = (Cause err = ErrAlreadyExists)"

definition IsConflict :: "goerr \<Rightarrow> bool" where
  "IsConflict err = (Cause err = ErrConflict)"

text \<open>\<open>internal/errors/errors.go\<close>: the errors after which a reconcile is silently repeated.\<close>

definition IsCommonError :: "goerr \<Rightarrow> bool" where
  "IsCommonError err =
     (let e = Cause err
      in e = ErrEOF \<or> e = ErrPodNotReady \<or> e = ErrStsNotReady \<or> IsNotFound e \<or> IsConflict e)"

section \<open>Panics in the monad\<close>

definition bindGo :: "('w, 'a go) op \<Rightarrow> ('a \<Rightarrow> ('w, 'b go) op) \<Rightarrow> ('w, 'b go) op" where
  "bindGo m k = do { r \<leftarrow> m; case r of Panic \<Rightarrow> ret Panic | Ret x \<Rightarrow> k x }"

text \<open>
  \<open>retry.RetryOnConflict\<close>: the function is run again while it reports a conflict, at most
  \<open>steps\<close> times; it keeps a value between the attempts.
\<close>

fun retryOnConflict ::
  "nat \<Rightarrow> ('a \<Rightarrow> ('w, goerr option \<times> 'a) op) \<Rightarrow> 'a \<Rightarrow> ('w, goerr option \<times> 'a) op" where
  "retryOnConflict 0 fn x = ret (Some ErrConflict, x)"
| "retryOnConflict (Suc steps) fn x = do {
     (err, y) \<leftarrow> fn x;
     (case err of
        Some e \<Rightarrow> if IsConflict e \<and> steps \<noteq> 0 then retryOnConflict steps fn y
                  else ret (err, y)
      | None \<Rightarrow> ret (None, y)) }"

section \<open>Reasoning about traces\<close>

text \<open>The calls that change an object of the API server.\<close>

fun k8sWrite :: "call \<Rightarrow> bool" where
  "k8sWrite (TCreate _ _) = True"
| "k8sWrite (TUpdate _ _) = True"
| "k8sWrite (TDelete _ _) = True"
| "k8sWrite (TUpdateEMQX _ _) = True"
| "k8sWrite (TStatusEMQX _ _) = True"
| "k8sWrite (TStatusEmqx _ _) = True"
| "k8sWrite (TUpdateRebalance _ _) = True"
| "k8sWrite (TStatusRebalance _ _) = True"
| "k8sWrite (TPatchPodStatus _ _ _) = True"
| "k8sWrite _ = False"

text \<open>
  \<open>obeys m P\<close>: from every state, \<open>m\<close> returns a result and appends a list of calls that satisfy
  \<open>P\<close>, whatever the environment answers.
\<close>

definition obeys :: "('w, 'a) op \<Rightarrow> ('a \<Rightarrow> call list \<Rightarrow> bool) \<Rightarrow> bool" where
  "obeys m P \<longleftrightarrow> (\<forall>s. \<exists>l. trace (snd (run_state m s)) = trace s @ l \<and> P (fst (run_state m s)) l)"

lemma obeysD:
  "obeys m P \<Longrightarrow> run_state m s = (r, s') \<Longrightarrow> \<exists>l. trace s' = trace s @ l \<and> P r l"
  unfolding obeys_def by (metis fst_conv snd_conv)

lemma obeys_mono: "obeys m P \<Longrightarrow> (\<And>x l. P x l \<Longrightarrow> Q x l) \<Longrightarrow> obeys m Q"
  unfolding obeys_def by blast

lemma obeys_conj: "obeys m P \<Longrightarrow> obeys m Q \<Longrightarrow> obeys m (\<lambda>x l. P x l \<and> Q x l)"
  unfolding obeys_def by (metis same_append_eq)

lemma obeys_return: "P x [] \<Longrightarrow> obeys (ret x) P"
  unfolding obeys_def by (simp add: State_Monad.return_def)

lemma obeys_prim: "(\<And>a. P a [entry a]) \<Longrightarrow> obeys (prim f entry) P"
  unfolding obeys_def prim_def by (simp split: prod.splits)

lemma run_bind:
  "run_state (State_Monad.bind m k) s = run_state (k (fst (run_state m s))) (snd (run_state m s))"
  by (cases m) (simp add: split_beta)

lemma obeys_bind:
  assumes "obeys m Q" "\<And>x l. Q x l \<Longrightarrow> obeys (k x) (\<lambda>y l'. P y (l @ l'))"
  shows "obeys (State_Monad.bind m k) P"
  unfolding obeys_def
proof
  fix s
  obtain l where l: "trace (snd (run_state m s)) = trace s @ l" "Q (fst (run_state m s)) l"
    using assms(1) unfolding obeys_def by blast
  from assms(2)[OF l(2)] obtain l' where
    "trace (snd (run_state (k (fst (run_state m s))) (snd (run_state m s)))) =
       trace (snd (run_state m s)) @ l'"
    "P (fst (run_state (k (fst (run_state m s))) (snd (run_state m s)))) (l @ l')"
    unfolding obeys_def by blast
  then show "\<exists>l. trace (snd (run_state (State_Monad.bind m k) s)) = trace s @ l \<and>
      P (fst (run_state (State_Monad.bind m k) s)) l"
    unfolding run_bind by (intro exI[of _ "l @ l'"]) (simp add: l(1))
qed

lemma obeys_bind_prim:
  "(\<And>a. obeys (k a) (\<lambda>y l. P y (entry a # l))) \<Longrightarrow> obeys (State_Monad.bind (prim f entry) k) P"
  by (rule obeys_bind[where Q = "\<lambda>a l. l = [entry a]"]) (auto intro: obeys_prim)

lemma obeys_bind_return:
  "obeys (k x) P \<Longrightarrow> obeys (State_Monad.bind (ret x) k) P"
  by (simp add: State_Monad.bind_left_identity)

lemma obeys_bindGo:
  assumes "obeys m Q" "\<And>x l. Q (Ret x) l \<Longrightarrow> obeys (k x) (\<lambda>y l'. P y (l @ l'))"
    and "\<And>l. Q Panic l \<Longrightarrow> P Panic l"
  shows "obeys (bindGo m k) P"
  unfolding bindGo_def
proof (rule obeys_bind[OF assms(1)])
  fix r l assume "Q r l"
  then show "obeys (case r of Panic \<Rightarrow> ret Panic | Ret x \<Rightarrow> k x) (\<lambda>y l'. P y (l @ l'))"
    using assms(2,3) by (cases r) (auto intro: obeys_return)
qed

text \<open>A retried function: what holds of every attempt holds of the whole.\<close>

lemma obeys_retry:
  fixes fn :: "'a \<Rightarrow> ('w, goerr option \<times> 'a) op"
  assumes step: "\<And>x. I x \<Longrightarrow> obeys (fn x) (\<lambda>r l. I (snd r) \<and> list_all C l)" and "I x"
  shows "obeys (retryOnConflict n fn x) (\<lambda>r l. I (snd r) \<and> list_all C l)"
  using assms(2)
proof (induction n arbitrary: x)
  case 0
  then show ?case by (simp add: obeys_return)
next
  case (Suc n)
  show ?case unfolding retryOnConflict.simps
  proof (rule obeys_bind[OF step[OF Suc.prems]])
    fix r :: "goerr option \<times> 'a" and l assume r: "I (snd r) \<and> list_all C l"
    obtain err y where ry: "r = (err, y)" by (cases r)
    have "obeys (retryOnConflict n fn y) (\<lambda>r' l'. I (snd r') \<and> list_all C (l @ l'))"
      using r ry by (intro obeys_mono[OF Suc.IH]) auto
    then show "obeys (case r of (err, y) \<Rightarrow>
        (case err of
           Some e \<Rightarrow> if IsConflict e \<and> n \<noteq> 0 then retryOnConflict n fn y
                     else ret (err, y)
         | None \<Rightarrow> ret (None, y))) (\<lambda>r' l'. I (snd r') \<and> list_all C (l @ l'))"
      using r ry by (cases err) (auto intro!: obeys_return)
  qed
qed

text \<open>The rules for the constructs of the models, used as introduction rules.\<close>

lemmas obeys_rules = obeys_return obeys_bind_prim obeys_bind_return obeys_prim

lemma obeys_if:
  "(b \<Longrightarrow> obeys m P) \<Longrightarrow> (\<not> b \<Longrightarrow> obeys n P) \<Longrightarrow> obeys (if b then m else n) P"
  by simp

lemma obeys_case_option:
  "(x = None \<Longrightarrow> obeys m P) \<Longrightarrow> (\<And>a. x = Some a \<Longrightarrow> obeys (k a) P) \<Longrightarrow>
   obeys (case x of None \<Rightarrow> m | Some a \<Rightarrow> k a) P"
  by (cases x) simp_all

lemma obeys_case_sum:
  "(\<And>e. x = Inl e \<Longrightarrow> obeys (m e) P) \<Longrightarrow> (\<And>a. x = Inr a \<Longrightarrow> obeys (k a) P) \<Longrightarrow>
   obeys (case x of Inl e \<Rightarrow> m e | Inr a \<Rightarrow> k a) P"
  by (cases x) simp_all

lemma obeys_case_prod:
  "(\<And>a b. x = (a, b) \<Longrightarrow> obeys (k a b) P) \<Longrightarrow> obeys (case x of (a, b) \<Rightarrow> k a b) P"
  by (cases x) simp_all

lemma obeys_case_go:
  "(x = Panic \<Longrightarrow> obeys m P) \<Longrightarrow> (\<And>a. x = Ret a \<Longrightarrow> obeys (k a) P) \<Longrightarrow>
   obeys (case x of Panic \<Rightarrow> m | Ret a \<Rightarrow> k a) P"
  by (cases x) simp_all

lemma obeys_case_list:
  "(x = [] \<Longrightarrow> obeys m P) \<Longrightarrow> (\<And>a as. x = a # as \<Longrightarrow> obeys (k a as) P) \<Longrightarrow>
   obeys (case x of [] \<Rightarrow> m | a # as \<Rightarrow> k a as) P"
  by (cases x) simp_all

lemma obeys_Let: "obeys (k x) P \<Longrightarrow> obeys (let y = x in k y) P"
  by simp

lemmas obeys_intros = obeys_rules obeys_if obeys_case_option obeys_case_sum obeys_case_prod
  obeys_case_go obeys_case_list obeys_Let

text \<open>
  Laws of every single call and of the result: \<open>only Q R m\<close> says that each call of \<open>m\<close> satisfies
  \<open>Q\<close> and its result \<open>R\<close>. The rules follow the syntax of the models, so they are collected for
  \<open>intro\<close>.
\<close>

definition only :: "(call \<Rightarrow> bool) \<Rightarrow> ('a \<Rightarrow> bool) \<Rightarrow> ('w, 'a) op \<Rightarrow> bool" where
  "only Q R m \<longleftrightarrow> obeys m (\<lambda>x l. list_all Q l \<and> R x)"

abbreviation onlyCalls :: "(call \<Rightarrow> bool) \<Rightarrow> ('w, 'a) op \<Rightarrow> bool" where
  "onlyCalls Q \<equiv> only Q (\<lambda>_. True)"

named_theorems only_intros \<open>rules for the calls a model makes\<close>

lemma only_return [only_intros]: "R x \<Longrightarrow> only Q R (ret x)"
  by (simp add: only_def obeys_return)

lemma only_prim [only_intros]: "(\<And>a. Q (entry a)) \<Longrightarrow> (\<And>a. R a) \<Longrightarrow> only Q R (prim f entry)"
  by (simp add: only_def obeys_prim)

lemma only_bind [only_intros]:
  assumes "onlyCalls Q m" "\<And>x. only Q R (k x)"
  shows "only Q R (State_Monad.bind m k)"
  using assms unfolding only_def by (elim obeys_bind) (auto elim!: obeys_mono)

lemma only_bind_result:
  assumes "only Q S m" "\<And>x. S x \<Longrightarrow> only Q R (k x)"
  shows "only Q R (State_Monad.bind m k)"
  using assms unfolding only_def by (elim obeys_bind) (auto elim!: obeys_mono)

lemma only_weaken: "only Q S m \<Longrightarrow> (\<And>x. S x \<Longrightarrow> R x) \<Longrightarrow> only Q R m"
  unfolding only_def by (auto elim!: obeys_mono)

lemma only_bindGo_result:
  assumes "only Q S m" "\<And>x. S (Ret x) \<Longrightarrow> only Q R (k x)" "R Panic"
  shows "only Q R (bindGo m k)"
  using assms unfolding bindGo_def
  by (intro only_bind_result[of Q S]) (auto split: go.splits intro: only_return)

lemma only_bindGo [only_intros]:
  assumes "onlyCalls Q m" "\<And>x. only Q R (k x)" "R Panic"
  shows "only Q R (bindGo m k)"
  using assms unfolding bindGo_def by (intro only_bind) (auto split: go.splits intro: only_return)

lemma only_if [only_intros]:
  "(b \<Longrightarrow> only Q R m) \<Longrightarrow> (\<not> b \<Longrightarrow> only Q R n) \<Longrightarrow> only Q R (if b then m else n)"
  by simp

lemma only_case_option [only_intros]:
  "(x = None \<Longrightarrow> only Q R m) \<Longrightarrow> (\<And>a. x = Some a \<Longrightarrow> only Q R (k a)) \<Longrightarrow>
   only Q R (case x of None \<Rightarrow> m | Some a \<Rightarrow> k a)"
  by (cases x) simp_all

lemma only_case_sum [only_intros]:
  "(\<And>e. x = Inl e \<Longrightarrow> only Q R (m e)) \<Longrightarrow> (\<And>a. x = Inr a \<Longrightarrow> only Q R (k a)) \<Longrightarrow>
   only Q R (case x of Inl e \<Rightarrow> m e | Inr a \<Rightarrow> k a)"
  by (cases x) simp_all

lemma only_case_prod [only_intros]:
  "(\<And>a b. x = (a, b) \<Longrightarrow> only Q R (k a b)) \<Longrightarrow> only Q R (case x of (a, b) \<Rightarrow> k a b)"
  by (cases x) simp_all

lemma only_case_go [only_intros]:
  "(x = Panic \<Longrightarrow> only Q R m) \<Longrightarrow> (\<And>a. x = Ret a \<Longrightarrow> only Q R (k a)) \<Longrightarrow>
   only Q R (case x of Panic \<Rightarrow> m | Ret a \<Rightarrow> k a)"
  by (cases x) simp_all

lemma only_case_list [only_intros]:
  "(x = [] \<Longrightarrow> only Q R m) \<Longrightarrow> (\<And>a as. x = a # as \<Longrightarrow> only Q R (k a as)) \<Longrightarrow>
   only Q R (case x of [] \<Rightarrow> m | a # as \<Rightarrow> k a as)"
  by (cases x) simp_all

lemma only_Let [only_intros]: "only Q R (k x) \<Longrightarrow> only Q R (let y = x in k y)"
  by simp

lemma only_retry [only_intros]:
  assumes "\<And>y. onlyCalls Q (fn y)"
  shows "onlyCalls Q (retryOnConflict n fn x)"
  using obeys_retry[of "\<lambda>_. True" fn Q x n] assms by (simp add: only_def)

lemma onlyD: "only Q R m \<Longrightarrow> obeys m (\<lambda>x l. list_all Q l \<and> R x)"
  by (simp add: only_def)

lemma Cause_idem [simp]: "Cause (Cause err) = Cause err"
  by (induction err) simp_all

lemma Cause_not_wrap [simp]: "Cause err \<noteq> ErrWrap m e"
  by (induction err) auto

end
