(* ===== verification/Requester.thy ===== *)
theory Requester
  imports Api
begin

text \<open>
  The HTTP client of \<open>internal/requester/requester.go\<close>: the URL of a path, and one request with
  its default headers. A request is handed to \<open>net/http\<close> as a record of what is sent; a JSON
  body is the value that \<open>json.Marshal\<close> prints, \<open>JNull\<close> a missing body.
\<close>

record Requester =
  rq_Schema :: string
  rq_Host :: string
  rq_Username :: string
  rq_Password :: string

record url =
  url_Scheme :: string
  url_Host :: string
  url_Path :: string
  url_RawQuery :: string

definition GetSchema :: "Requester \<Rightarrow> string" where
  "GetSchema r = (if rq_Schema r = [] then ''http'' else rq_Schema r)"

fun addQuery :: "string \<Rightarrow> string list \<Rightarrow> string" where
  "addQuery raw [] = raw"
| "addQuery raw (q # qs) = (if raw = [] then addQuery q qs else addQuery (raw @ ''&'' @ q) qs)"

definition GetURL :: "Requester \<Rightarrow> string \<Rightarrow> string list \<Rightarrow> url" where
  "GetURL r path query =
     \<lparr>url_Scheme = GetSchema r, url_Host = rq_Host r, url_Path = path,
      url_RawQuery = addQuery [] query\<rparr>"

definition headerGet :: "(string \<times> string) list \<Rightarrow> string \<Rightarrow> string" where
  "headerGet hs k = (case map_of hs k of None \<Rightarrow> [] | Some v \<Rightarrow> v)"

definition defaultHeader :: "string \<Rightarrow> string \<Rightarrow> (string \<times> string) list \<Rightarrow> (string \<times> string) list" where
  "defaultHeader k v hs = (if headerGet hs k = [] then (k, v) # hs else hs)"

definition buildRequest ::
  "Requester \<Rightarrow> string \<Rightarrow> url \<Rightarrow> json \<Rightarrow> (string \<times> string) list \<Rightarrow> httpRequest" where
  "buildRequest r method u body header =
     \<lparr>hr_Method = method,
      hr_Scheme = (if url_Scheme u = [] then GetSchema r else url_Scheme u),
      hr_Host = (if url_Host u = [] then rq_Host r else url_Host u),
      hr_Path = url_Path u, hr_RawQuery = url_RawQuery u,
      hr_Header = defaultHeader ''Accept'' ''application/json''
                    (defaultHeader ''Content-Type'' ''application/json'' header),
      hr_BasicAuth = (if headerGet header ''Authorization'' = []
                      then Some (rq_Username r, rq_Password r) else None),
      hr_Body = body\<rparr>"

definition Request ::
  "('w, 'c) env \<Rightarrow> Requester \<Rightarrow> string \<Rightarrow> url \<Rightarrow> json \<Rightarrow> (string \<times> string) list \<Rightarrow>
   ('w, goerr + httpResponse) op" where
  "Request E r method u body header =
     (let req = buildRequest r method u body header
      in case newRequestErr E req of
           Some err \<Rightarrow> ret (Inl (ErrWrap ''failed to create request'' err))
         | None \<Rightarrow> do {
             resp \<leftarrow> httpDo E req;
             ret (case resp of
                    Inl err \<Rightarrow> Inl (ErrWrap ''failed to request API'' err)
                  | Inr rp \<Rightarrow>
                      (case resp_ReadErr rp of
                         Some err \<Rightarrow> Inl (ErrWrap ''failed to read response body'' err)
                       | None \<Rightarrow> Inr rp)) })"

section \<open>Lemmas\<close>

text \<open>A request of the operator: what reaches the wire.\<close>

lemma obeys_Request:
  assumes "\<And>resp l. l = [] \<or> (\<exists>ans. l = [THttp (buildRequest r method u body header) ans]) \<Longrightarrow>
    (\<forall>rp. resp = Inr rp \<longrightarrow> l = [THttp (buildRequest r method u body header) (Inr rp)]) \<Longrightarrow> P resp l"
  shows "obeys (Request E r method u body header) P"
  unfolding Request_def Let_def call_defs
  by (intro obeys_intros) (auto intro!: assms split: sum.splits option.splits)

lemma headerGet_default [simp]:
  "headerGet (defaultHeader k v hs) k' =
     (if k' = k \<and> headerGet hs k = [] then v else headerGet hs k')"
  by (auto simp: defaultHeader_def headerGet_def)

end
