(* ===== verification/Handler.thy ===== *)
theory Handler
  imports Api
begin

text \<open>
  The object handler of \<open>internal/handler/handler.go\<close>: create an object, update it, or create it
  when it is missing and update it only when the calculated patch is not empty. The stored object
  comes from the API server typed like the wanted one; an object of another kind is what
  \<open>FromUnstructured\<close> cannot decode. The options of the patch calculation that are code of the
  repository are applied before \<open>calculate\<close>.
\<close>

section \<open>Objects\<close>

fun objMeta :: "obj \<Rightarrow> objectMeta" where
  "objMeta (OStatefulSet x) = sts_meta x"
| "objMeta (OReplicaSet x) = rs_meta x"
| "objMeta (OPod x) = pod_meta x"
| "objMeta (OPvc x) = pvc_meta x"
| "objMeta (OSecret x) = sec_meta x"
| "objMeta (OConfigMap x) = cm_meta x"
| "objMeta (OService x) = svc_meta x"
| "objMeta (OPdb x) = pdb_meta x"
| "objMeta (OEndpoints x) = end_meta x"
| "objMeta (OPlugin x) = pg_meta x"

fun setObjMeta :: "objectMeta \<Rightarrow> obj \<Rightarrow> obj" where
  "setObjMeta m (OStatefulSet x) = OStatefulSet (x\<lparr>sts_meta := m\<rparr>)"
| "setObjMeta m (OReplicaSet x) = OReplicaSet (x\<lparr>rs_meta := m\<rparr>)"
| "setObjMeta m (OPod x) = OPod (x\<lparr>pod_meta := m\<rparr>)"
| "setObjMeta m (OPvc x) = OPvc (x\<lparr>pvc_meta := m\<rparr>)"
| "setObjMeta m (OSecret x) = OSecret (x\<lparr>sec_meta := m\<rparr>)"
| "setObjMeta m (OConfigMap x) = OConfigMap (x\<lparr>cm_meta := m\<rparr>)"
| "setObjMeta m (OService x) = OService (x\<lparr>svc_meta := m\<rparr>)"
| "setObjMeta m (OPdb x) = OPdb (x\<lparr>pdb_meta := m\<rparr>)"
| "setObjMeta m (OEndpoints x) = OEndpoints (x\<lparr>end_meta := m\<rparr>)"
| "setObjMeta m (OPlugin x) = OPlugin (x\<lparr>pg_meta := m\<rparr>)"

fun objKind :: "obj \<Rightarrow> string" where
  "objKind (OStatefulSet _) = ''StatefulSet''"
| "objKind (OReplicaSet _) = ''ReplicaSet''"
| "objKind (OPod _) = ''Pod''"
| "objKind (OPvc _) = ''PersistentVolumeClaim''"
| "objKind (OSecret _) = ''Secret''"
| "objKind (OConfigMap _) = ''ConfigMap''"
| "objKind (OService _) = ''Service''"
| "objKind (OPdb _) = ''PodDisruptionBudget''"
| "objKind (OEndpoints _) = ''Endpoints''"
| "objKind (OPlugin _) = ''EmqxPlugin''"

definition describe :: "obj \<Rightarrow> string" where
  "describe ob = objKind ob @ '' '' @ om_Name (objMeta ob)"

section \<open>Managed containers\<close>

definition ManageContainersAnnotation :: string where
  "ManageContainersAnnotation = ''apps.emqx.io/manage-containers''"

definition selectManagerContainer :: "podTemplateSpec \<Rightarrow> podTemplateSpec" where
  "selectManagerContainer t =
     (let containerNames = (case mget (om_Annotations (pt_meta t)) ManageContainersAnnotation of
                              None \<Rightarrow> [] | Some names \<Rightarrow> names)
      in t\<lparr>pt_spec := (pt_spec t)\<lparr>ps_Containers :=
             filter (\<lambda>c. containsStr containerNames (c_Name c)) (ps_Containers (pt_spec t))\<rparr>\<rparr>)"

fun IgnoreOtherContainers :: "obj \<Rightarrow> obj" where
  "IgnoreOtherContainers (OStatefulSet x) =
     OStatefulSet (x\<lparr>sts_Template := selectManagerContainer (sts_Template x)\<rparr>)"
| "IgnoreOtherContainers ob = ob"

definition SetManagerContainerAnnotation :: "gomap \<Rightarrow> container list \<Rightarrow> gomap" where
  "SetManagerContainerAnnotation annotations containers =
     mset_key annotations ManageContainersAnnotation (joinStr '','' (map c_Name containers))"

section \<open>Create and update\<close>

definition Create :: "('w, 'c) env \<Rightarrow> obj \<Rightarrow> ('w, goerr option) op" where
  "Create E ob =
     (case setLastApplied E ob of
        Inl err \<Rightarrow> ret (Some (ErrWrap (''failed to set last applied annotation for '' @ describe ob) err))
      | Inr ob' \<Rightarrow> do {
          err \<leftarrow> create E ob';
          ret (map_option (ErrWrap (''failed to create '' @ describe ob)) err) })"

definition Update :: "('w, 'c) env \<Rightarrow> obj \<Rightarrow> ('w, goerr option) op" where
  "Update E ob =
     (case setLastApplied E ob of
        Inl err \<Rightarrow> ret (Some (ErrWrap (''failed to set last applied annotation for '' @ describe ob) err))
      | Inr ob' \<Rightarrow> do {
          err \<leftarrow> update E ob';
          ret (map_option (ErrWrap (''failed to update '' @ describe ob)) err) })"

text \<open>The fields a stored service hands on: its cluster IP, and node ports by port name.\<close>

definition nodePortMap :: "servicePort list \<Rightarrow> (string \<rightharpoonup> int)" where
  "nodePortMap ports = foldl (\<lambda>m p. m(sp_Name p \<mapsto> sp_NodePort p)) Map.empty ports"

definition keepNodePort :: "(string \<rightharpoonup> int) \<Rightarrow> servicePort \<Rightarrow> servicePort" where
  "keepNodePort m p =
     (if sp_NodePort p = 0
      then (case m (sp_Name p) of None \<Rightarrow> p | Some nodePort \<Rightarrow> p\<lparr>sp_NodePort := nodePort\<rparr>)
      else p)"

definition adoptService :: "serviceSpec \<Rightarrow> serviceSpec \<Rightarrow> serviceSpec" where
  "adoptService storage wanted =
     (let w1 = (if (ss_Type wanted = [] \<or> ss_Type wanted = ''ClusterIP'') \<and> ss_ClusterIP storage \<noteq> []
                then wanted\<lparr>ss_ClusterIP := ss_ClusterIP storage\<rparr> else wanted)
      in if ss_Type w1 = ''NodePort'' \<or> ss_Type w1 = ''LoadBalancer''
         then w1\<lparr>ss_Ports := map (keepNodePort (nodePortMap (ss_Ports storage))) (ss_Ports w1)\<rparr>
         else w1)"

definition adoptMeta :: "objectMeta \<Rightarrow> objectMeta \<Rightarrow> objectMeta" where
  "adoptMeta stored m =
     m\<lparr>om_ResourceVersion := om_ResourceVersion stored,
       om_CreationTimestamp := om_CreationTimestamp stored,
       om_Annotations := Some (addMissing (mentries (om_Annotations m)) (mentries (om_Annotations stored)))\<rparr>"

text \<open>
  The object in memory after \<open>SetLastAppliedAnnotation\<close>: the annotation is set in the object's
  own map, before the API server is asked.
\<close>

definition annotated :: "('w, 'c) env \<Rightarrow> obj \<Rightarrow> obj" where
  "annotated E ob = (case setLastApplied E ob of Inl _ \<Rightarrow> ob | Inr ob' \<Rightarrow> ob')"

text \<open>The error, and the object as the call leaves it in memory.\<close>

definition CreateOrUpdateObj :: "('w, 'c) env \<Rightarrow> objectMeta \<Rightarrow> obj \<Rightarrow> ('w, goerr option \<times> obj) op" where
  "CreateOrUpdateObj E owner ob0 =
     (case setControllerReference E owner (objMeta ob0) of
        Inl err \<Rightarrow> ret (Some err, ob0)
      | Inr m \<Rightarrow>
          let ob = setObjMeta m ob0
          in do {
            got \<leftarrow> getObj E ob;
            (case got of
               Inl err \<Rightarrow>
                 if IsNotFound err then do { err \<leftarrow> Create E ob; ret (err, annotated E ob) }
                 else ret (Some (ErrWrap (''failed to get '' @ describe ob) err), ob)
             | Inr u \<Rightarrow>
                 let ob1 = setObjMeta (adoptMeta (objMeta u) (objMeta ob)) ob;
                     adopted =
                       (case ob1 of
                          OService resource \<Rightarrow>
                            (case u of
                               OService storage \<Rightarrow>
                                 Inr (OService (resource\<lparr>svc_spec :=
                                        adoptService (svc_spec storage) (svc_spec resource)\<rparr>))
                             | _ \<Rightarrow> Inl (ErrText ''cannot convert unstructured''))
                        | _ \<Rightarrow> Inr ob1)
                 in case adopted of
                      Inl err \<Rightarrow> ret (Some err, ob1)
                    | Inr ob2 \<Rightarrow>
                        (case calculate E (IgnoreOtherContainers u) (IgnoreOtherContainers ob2) of
                           Inl err \<Rightarrow>
                             ret (Some (ErrWrap (''failed to calculate patch for '' @ describe ob2) err), ob2)
                         | Inr isEmpty \<Rightarrow>
                             if isEmpty then ret (None, ob2)
                             else do { err \<leftarrow> Update E ob2; ret (err, annotated E ob2) })) })"

definition CreateOrUpdate :: "('w, 'c) env \<Rightarrow> objectMeta \<Rightarrow> obj \<Rightarrow> ('w, goerr option) op" where
  "CreateOrUpdate E owner ob = do { (err, _) \<leftarrow> CreateOrUpdateObj E owner ob; ret err }"

fun CreateOrUpdateList :: "('w, 'c) env \<Rightarrow> objectMeta \<Rightarrow> obj list \<Rightarrow> ('w, goerr option) op" where
  "CreateOrUpdateList E owner [] = ret None"
| "CreateOrUpdateList E owner (resource # resources) = do {
     err \<leftarrow> CreateOrUpdate E owner resource;
     (case err of Some e \<Rightarrow> ret (Some e) | None \<Rightarrow> CreateOrUpdateList E owner resources) }"

section \<open>Lemmas\<close>

lemma objMeta_setObjMeta [simp]: "objMeta (setObjMeta m ob) = m"
  by (cases ob) simp_all

lemma objKind_setObjMeta [simp]: "objKind (setObjMeta m ob) = objKind ob"
  by (cases ob) simp_all

lemma hasPrefix_containsStr: "hasPrefix s p \<Longrightarrow> containsStr s p"
  by (cases s; cases p) auto

lemma containsStr_append_right: "containsStr s p \<Longrightarrow> containsStr (t @ s) p"
  by (induction t) (auto)

lemma containsStr_append: "containsStr (p @ s) p"
  by (rule hasPrefix_containsStr) simp

lemma containsStr_join:
  "p \<in> set ps \<Longrightarrow> containsStr (joinStr sep ps) p"
proof (induction sep ps rule: joinStr.induct)
  case (2 sep s)
  then show ?case using containsStr_append[of s "[]"] by simp
next
  case (3 sep s t ss)
  then show ?case
    using containsStr_append containsStr_append_right[of "joinStr sep (t # ss)" p "s @ sep"] by auto
qed simp

lemma foldl_nodePort:
  "foldl (\<lambda>m p. m(f p \<mapsto> g p)) m ps k =
     (case find (\<lambda>p. f p = k) (rev ps) of Some p \<Rightarrow> Some (g p) | None \<Rightarrow> m k)"
  by (induction ps rule: rev_induct) auto

lemma nodePortMap_lookup:
  "nodePortMap ports name = map_option sp_NodePort (find (\<lambda>p. sp_Name p = name) (rev ports))"
  by (simp add: nodePortMap_def foldl_nodePort split: option.splits)

text \<open>
  What the operator is meant to create: no pods, which belong to the sets. An object that is created
  is such an object, or what the annotator makes of it.
\<close>

fun creatable :: "obj \<Rightarrow> bool" where
  "creatable (OPod _) = False"
| "creatable _ = True"

definition made :: "('w, 'c) env \<Rightarrow> obj \<Rightarrow> bool" where
  "made E ob' \<longleftrightarrow> (\<exists>ob. creatable ob \<and> (ob' = ob \<or> setLastApplied E ob = Inr ob'))"

lemma made_same [simp]: "creatable ob \<Longrightarrow> made E ob"
  by (auto simp: made_def)

lemma made_annotated: "creatable ob \<Longrightarrow> setLastApplied E ob = Inr ob' \<Longrightarrow> made E ob'"
  by (auto simp: made_def)

lemma creatable_setObjMeta [simp]: "creatable (setObjMeta m ob) = creatable ob"
  by (cases ob) simp_all

text \<open>The calls of one object: a look-up and at most one write of that object.\<close>

definition writes :: "obj \<Rightarrow> call \<Rightarrow> bool" where
  "writes ob c \<longleftrightarrow>
     (case c of
        TCreate ob' _ \<Rightarrow> objKind ob' = objKind ob
      | TUpdate ob' _ \<Rightarrow> objKind ob' = objKind ob
      | TGetObj _ _ \<Rightarrow> True
      | _ \<Rightarrow> False)"

text \<open>The annotator only sets annotations, and its errors are not answers of the API server.\<close>

definition annotatorOk :: "('w, 'c) env \<Rightarrow> bool" where
  "annotatorOk E \<longleftrightarrow>
     (\<forall>ob. case setLastApplied E ob of
        Inl err \<Rightarrow> \<not> IsAlreadyExists err \<and> \<not> IsNotFound err \<and> \<not> IsConflict err
      | Inr ob' \<Rightarrow> \<exists>a. ob' = setObjMeta ((objMeta ob)\<lparr>om_Annotations := a\<rparr>) ob)"

lemma annotatorOk_set:
  assumes "annotatorOk E" "setLastApplied E ob = Inr ob'"
  shows "\<exists>a. ob' = setObjMeta ((objMeta ob)\<lparr>om_Annotations := a\<rparr>) ob"
  using assms(1)[unfolded annotatorOk_def, rule_format, of ob] assms(2) by simp

lemma annotatorOk_err:
  assumes "annotatorOk E" "setLastApplied E ob = Inl err"
  shows "\<not> IsAlreadyExists err" "\<not> IsNotFound err" "\<not> IsConflict err"
  using assms(1)[unfolded annotatorOk_def, rule_format, of ob] assms(2) by simp_all

lemma annotatorOk_kind:
  "annotatorOk E \<Longrightarrow> setLastApplied E ob = Inr ob' \<Longrightarrow> objKind ob' = objKind ob"
  using annotatorOk_set[of E ob ob'] by auto

lemma obeys_Create:
  assumes "\<And>e0. setLastApplied E ob = Inl e0 \<Longrightarrow>
      P (Some (ErrWrap (''failed to set last applied annotation for '' @ describe ob) e0)) []"
    and "\<And>ob' e. setLastApplied E ob = Inr ob' \<Longrightarrow>
      P (map_option (ErrWrap (''failed to create '' @ describe ob)) e) [TCreate ob' e]"
  shows "obeys (Create E ob) P"
  unfolding Create_def call_defs by (intro obeys_intros assms)

lemma obeys_Update:
  assumes "\<And>e0. setLastApplied E ob = Inl e0 \<Longrightarrow>
      P (Some (ErrWrap (''failed to set last applied annotation for '' @ describe ob) e0)) []"
    and "\<And>ob' e. setLastApplied E ob = Inr ob' \<Longrightarrow>
      P (map_option (ErrWrap (''failed to update '' @ describe ob)) e) [TUpdate ob' e]"
  shows "obeys (Update E ob) P"
  unfolding Update_def call_defs by (intro obeys_intros assms)

text \<open>The same as rules for a sequence that starts with the call.\<close>

lemma obeys_bind_Create:
  assumes "\<And>e0. setLastApplied E ob = Inl e0 \<Longrightarrow>
      obeys (k (Some (ErrWrap (''failed to set last applied annotation for '' @ describe ob) e0))) P"
    and "\<And>ob' e. setLastApplied E ob = Inr ob' \<Longrightarrow>
      obeys (k (map_option (ErrWrap (''failed to create '' @ describe ob)) e))
        (\<lambda>y l. P y (TCreate ob' e # l))"
  shows "obeys (State_Monad.bind (Create E ob) k) P"
  by (rule obeys_bind[OF obeys_Create[where P = "\<lambda>r l. obeys (k r) (\<lambda>y l'. P y (l @ l'))"]])
    (simp_all only: append_Cons[where 'a = call] append_Nil[where 'a = call] assms)

lemma obeys_bind_Update:
  assumes "\<And>e0. setLastApplied E ob = Inl e0 \<Longrightarrow>
      obeys (k (Some (ErrWrap (''failed to set last applied annotation for '' @ describe ob) e0))) P"
    and "\<And>ob' e. setLastApplied E ob = Inr ob' \<Longrightarrow>
      obeys (k (map_option (ErrWrap (''failed to update '' @ describe ob)) e))
        (\<lambda>y l. P y (TUpdate ob' e # l))"
  shows "obeys (State_Monad.bind (Update E ob) k) P"
  by (rule obeys_bind[OF obeys_Update[where P = "\<lambda>r l. obeys (k r) (\<lambda>y l'. P y (l @ l'))"]])
    (simp_all only: append_Cons[where 'a = call] append_Nil[where 'a = call] assms)

end
