(* ===== verification/Status_Machine.thy ===== *)
theory Status_Machine
  imports Set_Lists
begin

text \<open>
  The status machine of \<open>controllers/apps/v2beta1/status_machine.go\<close>. The Go state objects are the
  constructors of \<open>machineStatus\<close>, their \<open>nextStatus\<close> methods the functions below; a machine is
  the custom resource with its current status. The sets the API server lists and the current time
  are arguments. A nil dereference is \<open>Panic\<close>.
\<close>

section \<open>The machine\<close>

datatype machineStatus =
    initialized
  | coreNodesProgressing
  | coreNodesReady
  | replicantNodesProgressing
  | replicantNodesReady
  | available
  | ready

type_synonym machine = "EMQX \<times> machineStatus"

definition trueCondition :: "string \<Rightarrow> string \<Rightarrow> string \<Rightarrow> condition" where
  "trueCondition t reason message =
     \<lparr>cd_Type = t, cd_Status = ConditionTrue, cd_Reason = reason, cd_Message = message,
      cd_LastTransitionTime = zeroTime\<rparr>"

definition setStatusCondition :: "time \<Rightarrow> EMQX \<Rightarrow> condition \<Rightarrow> EMQX" where
  "setStatusCondition now emqx c = emqx\<lparr>Status := SetCondition now (Status emqx) c\<rparr>"

definition removeStatusCondition :: "EMQX \<Rightarrow> string \<Rightarrow> EMQX" where
  "removeStatusCondition emqx t = emqx\<lparr>Status := RemoveCondition (Status emqx) t\<rparr>"

definition statusOfType :: "string \<Rightarrow> machineStatus" where
  "statusOfType t =
     (if t = CoreNodesProgressing then coreNodesProgressing
      else if t = CoreNodesReady then coreNodesReady
      else if t = ReplicantNodesProgressing then replicantNodesProgressing
      else if t = ReplicantNodesReady then replicantNodesReady
      else if t = Available then available
      else if t = Ready then ready
      else initialized)"

definition setCurrentStatus :: "time \<Rightarrow> EMQX \<Rightarrow> machine" where
  "setCurrentStatus now emqx =
     (case GetLastTrueCondition (Status emqx) of
        None \<Rightarrow>
          (setStatusCondition now emqx
             (trueCondition Initialized ''Initialized'' ''initialized EMQX cluster''),
           statusOfType Initialized)
      | Some condition \<Rightarrow> (emqx, statusOfType (cd_Type condition)))"

definition newEMQXStatusMachine :: "time \<Rightarrow> EMQX \<Rightarrow> machine" where
  "newEMQXStatusMachine now emqx = setCurrentStatus now emqx"

definition initializedNext :: "time \<Rightarrow> EMQX \<Rightarrow> machine" where
  "initializedNext now emqx =
     (let emqx = removeStatusCondition emqx Ready;
          emqx = removeStatusCondition emqx Available;
          emqx = removeStatusCondition emqx ReplicantNodesReady;
          emqx = removeStatusCondition emqx ReplicantNodesProgressing;
          emqx = removeStatusCondition emqx CoreNodesReady;
          emqx = removeStatusCondition emqx CoreNodesProgressing;
          emqx = setStatusCondition now emqx
            (trueCondition CoreNodesProgressing ''CoreNodesProgressing'' ''Core nodes progressing'')
      in setCurrentStatus now emqx)"

definition coreNodesProgressingNext :: "time \<Rightarrow> statefulSet list \<Rightarrow> EMQX \<Rightarrow> machine go" where
  "coreNodesProgressingNext now stsItems emqx =
     (case fst (getStateFulSetList stsItems emqx) of
        None \<Rightarrow> Ret (setCurrentStatus now emqx)
      | Some updateSts \<Rightarrow>
          if st_ReadyReplicas (sts_status updateSts) = 0 then Ret (setCurrentStatus now emqx)
          else (case t_Replicas (ct_Spec (CoreTemplate (Spec emqx))) of
                  None \<Rightarrow> Panic
                | Some replicas \<Rightarrow>
                    Ret (setCurrentStatus now
                      (if st_ReadyReplicas (sts_status updateSts) = replicas
                       then setStatusCondition now emqx
                              (trueCondition CoreNodesReady ''CoreNodesReady'' ''Core nodes is ready'')
                       else emqx))))"

definition codeNodesReadyNext :: "time \<Rightarrow> EMQX \<Rightarrow> machine" where
  "codeNodesReadyNext now emqx =
     (if IsExistReplicant emqx
      then setCurrentStatus now (setStatusCondition now emqx
             (trueCondition ReplicantNodesProgressing ReplicantNodesProgressing
                ''Replicant nodes progressing''))
      else setCurrentStatus now (setStatusCondition now emqx
             (trueCondition Available Available ''Cluster is available'')))"

definition replicantNodesProgressingNext :: "time \<Rightarrow> replicaSet list \<Rightarrow> EMQX \<Rightarrow> machine go" where
  "replicantNodesProgressingNext now rsItems emqx =
     (if \<not> IsExistReplicant emqx then Ret (initializedNext now emqx)
      else case fst (getReplicaSetList rsItems emqx) of
             None \<Rightarrow> Ret (setCurrentStatus now emqx)
           | Some updateRs \<Rightarrow>
               if st_ReadyReplicas (rs_status updateRs) = 0 then Ret (setCurrentStatus now emqx)
               else (case ReplicantTemplate (Spec emqx) of
                       None \<Rightarrow> Panic
                     | Some template \<Rightarrow>
                         (case t_Replicas (rt_Spec template) of
                            None \<Rightarrow> Panic
                          | Some replicas \<Rightarrow>
                              Ret (setCurrentStatus now
                                (if st_ReadyReplicas (rs_status updateRs) = replicas
                                 then setStatusCondition now emqx
                                        (trueCondition ReplicantNodesReady ReplicantNodesReady
                                           ''Replicant nodes ready'')
                                 else emqx)))))"

definition replicantNodesReadyNext :: "time \<Rightarrow> EMQX \<Rightarrow> machine" where
  "replicantNodesReadyNext now emqx =
     (if \<not> IsExistReplicant emqx then initializedNext now emqx
      else setCurrentStatus now (setStatusCondition now emqx
             (trueCondition Available Available ''Cluster is available'')))"

definition availableNext :: "time \<Rightarrow> EMQX \<Rightarrow> machine" where
  "availableNext now emqx =
     (let core = CoreNodesStatus (Status emqx); repl = ReplicantNodesStatus (Status emqx)
      in if ns_ReadyReplicas core \<noteq> ns_Replicas core \<or> ns_UpdateRevision core \<noteq> ns_CurrentRevision core
         then (emqx, available)
         else if IsExistReplicant emqx \<and>
                 (ns_ReadyReplicas repl \<noteq> ns_Replicas repl \<or>
                  ns_UpdateRevision repl \<noteq> ns_CurrentRevision repl)
         then (emqx, available)
         else setCurrentStatus now (setStatusCondition now emqx
                (trueCondition Ready Ready ''Cluster is ready'')))"

definition coreDegraded :: "statefulSet list \<Rightarrow> EMQX \<Rightarrow> bool" where
  "coreDegraded stsItems emqx =
     (case fst (getStateFulSetList stsItems emqx) of
        None \<Rightarrow> False
      | Some updateSts \<Rightarrow>
          st_ReadyReplicas (sts_status updateSts) \<noteq> ns_Replicas (CoreNodesStatus (Status emqx)))"

definition replicantDegraded :: "replicaSet list \<Rightarrow> EMQX \<Rightarrow> bool" where
  "replicantDegraded rsItems emqx =
     (IsExistReplicant emqx \<and>
      (case fst (getReplicaSetList rsItems emqx) of
         None \<Rightarrow> False
       | Some updateRs \<Rightarrow>
           st_ReadyReplicas (rs_status updateRs) \<noteq> ns_Replicas (ReplicantNodesStatus (Status emqx))))"

definition readyNext :: "time \<Rightarrow> statefulSet list \<Rightarrow> replicaSet list \<Rightarrow> EMQX \<Rightarrow> machine" where
  "readyNext now stsItems rsItems emqx =
     (if coreDegraded stsItems emqx then initializedNext now emqx
      else if replicantDegraded rsItems emqx then
        let emqx = removeStatusCondition emqx Ready;
            emqx = removeStatusCondition emqx Available;
            emqx = removeStatusCondition emqx ReplicantNodesReady;
            emqx = setStatusCondition now emqx
              (trueCondition ReplicantNodesProgressing ReplicantNodesProgressing
                 ''Replicant nodes progressing'')
        in setCurrentStatus now emqx
      else (emqx, ready))"

fun NextStatus :: "time \<Rightarrow> statefulSet list \<Rightarrow> replicaSet list \<Rightarrow> machine \<Rightarrow> machine go" where
  "NextStatus now stsItems rsItems (emqx, initialized) = Ret (initializedNext now emqx)"
| "NextStatus now stsItems rsItems (emqx, coreNodesProgressing) =
     coreNodesProgressingNext now stsItems emqx"
| "NextStatus now stsItems rsItems (emqx, coreNodesReady) = Ret (codeNodesReadyNext now emqx)"
| "NextStatus now stsItems rsItems (emqx, replicantNodesProgressing) =
     replicantNodesProgressingNext now rsItems emqx"
| "NextStatus now stsItems rsItems (emqx, replicantNodesReady) = Ret (replicantNodesReadyNext now emqx)"
| "NextStatus now stsItems rsItems (emqx, available) = Ret (availableNext now emqx)"
| "NextStatus now stsItems rsItems (emqx, ready) = Ret (readyNext now stsItems rsItems emqx)"

text \<open>The line of \<open>updateStatus.reconcile\<close> that builds a machine and advances it once.\<close>

definition advance ::
  "time \<Rightarrow> time \<Rightarrow> statefulSet list \<Rightarrow> replicaSet list \<Rightarrow> EMQX \<Rightarrow> machine go" where
  "advance now0 now stsItems rsItems emqx =
     NextStatus now stsItems rsItems (newEMQXStatusMachine now0 emqx)"

section \<open>Other writers of the conditions\<close>

text \<open>
  What \<open>updateEMQXStatus\<close> of \<open>add_emqx_core.go\<close> and \<open>add_emqx_repl.go\<close> does to the status
  before it is written back.
\<close>

definition coreProgressing :: "time \<Rightarrow> string \<Rightarrow> string \<Rightarrow> string \<Rightarrow> EMQX \<Rightarrow> EMQX" where
  "coreProgressing now reason message podTemplateHash emqx =
     (let emqx = setStatusCondition now emqx (trueCondition CoreNodesProgressing reason message);
          emqx = removeStatusCondition emqx Ready;
          emqx = removeStatusCondition emqx Available;
          emqx = removeStatusCondition emqx CoreNodesReady;
          s = Status emqx
      in emqx\<lparr>Status := s\<lparr>CoreNodesStatus := (CoreNodesStatus s)\<lparr>ns_UpdateRevision := podTemplateHash\<rparr>\<rparr>\<rparr>)"

definition replicantProgressing :: "time \<Rightarrow> string \<Rightarrow> string \<Rightarrow> string \<Rightarrow> EMQX \<Rightarrow> EMQX" where
  "replicantProgressing now reason message podTemplateHash emqx =
     (let emqx = setStatusCondition now emqx (trueCondition ReplicantNodesProgressing reason message);
          emqx = removeStatusCondition emqx Ready;
          emqx = removeStatusCondition emqx Available;
          emqx = removeStatusCondition emqx ReplicantNodesReady;
          s = Status emqx
      in emqx\<lparr>Status := s\<lparr>ReplicantNodesStatus :=
           (ReplicantNodesStatus s)\<lparr>ns_UpdateRevision := podTemplateHash\<rparr>\<rparr>\<rparr>)"

section \<open>The invariant of the conditions\<close>

text \<open>
  \<open>ladder\<close>: \<open>Ready\<close> stands only on \<open>Available\<close>, \<open>Available\<close> only on \<open>CoreNodesReady\<close>, and
  every status past the core nodes has \<open>CoreNodesReady\<close> under it.
\<close>

definition lastTrueType :: "EMQXStatus \<Rightarrow> string option" where
  "lastTrueType s = map_option cd_Type (GetLastTrueCondition s)"

definition pastCore :: "string set" where
  "pastCore = {CoreNodesReady, ReplicantNodesProgressing, ReplicantNodesReady, Available, Ready}"

definition ladder :: "EMQXStatus \<Rightarrow> bool" where
  "ladder s \<longleftrightarrow>
     (IsConditionTrue s Ready \<longrightarrow> IsConditionTrue s Available) \<and>
     (IsConditionTrue s Available \<longrightarrow> IsConditionTrue s CoreNodesReady) \<and>
     (\<forall>t. lastTrueType s = Some t \<longrightarrow> t \<in> pastCore \<longrightarrow> IsConditionTrue s CoreNodesReady)"

definition status_inv :: "EMQXStatus \<Rightarrow> bool" where
  "status_inv s \<longleftrightarrow> conditions_inv s \<and> ladder s"

section \<open>Reachable statuses\<close>

text \<open>
  The states of a custom resource the controller works on, starting without conditions: a step of
  the machine, the two other writers with their guards (\<open>addRepl\<close> runs only under
  \<open>CoreNodesReady\<close>), the write to the API server, which keeps times in whole seconds, and any
  change of the spec, the node lists and the counters. The clock of a
  step is later than every stored condition; the clock of the construction of the machine matters
  only when there is no true condition yet.
\<close>

definition clocked :: "time \<Rightarrow> time \<Rightarrow> EMQXStatus \<Rightarrow> bool" where
  "clocked now0 now s \<longleftrightarrow>
     beforeNow now s \<and> (GetLastTrueCondition s = None \<longrightarrow> beforeNow now0 s \<and> now0 < now)"

definition roundSeconds :: "condition \<Rightarrow> condition" where
  "roundSeconds c = c\<lparr>cd_LastTransitionTime :=
     (cd_LastTransitionTime c div nanosPerSecond) * nanosPerSecond\<rparr>"

inductive statusStep :: "EMQX \<Rightarrow> EMQX \<Rightarrow> bool" where
  advance_step:
    "clocked now0 now (Status x) \<Longrightarrow>
     advance now0 now stsItems rsItems x = Ret (y, m) \<Longrightarrow> statusStep x y"
| core_step:
    "beforeNow now (Status x) \<Longrightarrow> statusStep x (coreProgressing now reason message hash x)"
| replicant_step:
    "beforeNow now (Status x) \<Longrightarrow> IsConditionTrue (Status x) CoreNodesReady \<Longrightarrow>
     statusStep x (replicantProgressing now reason message hash x)"
| stored_step:
    "Conditions (Status y) = map roundSeconds (Conditions (Status x)) \<Longrightarrow> statusStep x y"
| other_step:
    "Conditions (Status y) = Conditions (Status x) \<Longrightarrow> statusStep x y"

inductive statusReachable :: "EMQX \<Rightarrow> bool" where
  start: "Conditions (Status x) = [] \<Longrightarrow> statusReachable x"
| step: "statusReachable x \<Longrightarrow> statusStep x y \<Longrightarrow> statusReachable y"

section \<open>Settled clusters\<close>

text \<open>
  A cluster with nothing left to do: the update sets exist with as many ready replicas as the spec
  asks for, the counters of the status agree with it, and the current revisions are the update
  revisions.
\<close>

definition nodesSettled :: "EMQXNodesStatus \<Rightarrow> int \<Rightarrow> bool" where
  "nodesSettled ns replicas \<longleftrightarrow>
     ns_Replicas ns = replicas \<and> ns_ReadyReplicas ns = replicas \<and>
     ns_UpdateRevision ns = ns_CurrentRevision ns"

definition settled :: "statefulSet list \<Rightarrow> replicaSet list \<Rightarrow> EMQX \<Rightarrow> bool" where
  "settled stsItems rsItems x \<longleftrightarrow>
     (case fst (getStateFulSetList stsItems x) of
        None \<Rightarrow> False
      | Some sts \<Rightarrow>
          st_ReadyReplicas (sts_status sts) \<noteq> 0 \<and>
          t_Replicas (ct_Spec (CoreTemplate (Spec x))) = Some (st_ReadyReplicas (sts_status sts)) \<and>
          nodesSettled (CoreNodesStatus (Status x)) (st_ReadyReplicas (sts_status sts))) \<and>
     (IsExistReplicant x \<longrightarrow>
       (case fst (getReplicaSetList rsItems x) of
          None \<Rightarrow> False
        | Some rs \<Rightarrow>
            map_option (\<lambda>t. t_Replicas (rt_Spec t)) (ReplicantTemplate (Spec x)) =
              Some (Some (st_ReadyReplicas (rs_status rs))) \<and>
            nodesSettled (ReplicantNodesStatus (Status x)) (st_ReadyReplicas (rs_status rs))))"

text \<open>The number of machine steps to \<open>Ready\<close>, with and without replicants.\<close>

definition stepsLeft :: "EMQX \<Rightarrow> nat" where
  "stepsLeft x =
     (let replicant = IsExistReplicant x; longest = (if replicant then 6 else 4)
      in case lastTrueType (Status x) of
           None \<Rightarrow> longest
         | Some t \<Rightarrow>
             (case statusOfType t of
                initialized \<Rightarrow> longest
              | coreNodesProgressing \<Rightarrow> longest - 1
              | coreNodesReady \<Rightarrow> longest - 2
              | replicantNodesProgressing \<Rightarrow> if replicant then 3 else longest
              | replicantNodesReady \<Rightarrow> if replicant then 2 else longest
              | available \<Rightarrow> 1
              | ready \<Rightarrow> 0))"

text \<open>Several reconciles in a row over the same sets, each with its two clock readings.\<close>

fun advanceAll ::
  "(time \<times> time) list \<Rightarrow> statefulSet list \<Rightarrow> replicaSet list \<Rightarrow> EMQX \<Rightarrow> EMQX go" where
  "advanceAll [] stsItems rsItems x = Ret x"
| "advanceAll ((now0, now) # clocks) stsItems rsItems x =
     (case advance now0 now stsItems rsItems x of
        Panic \<Rightarrow> Panic
      | Ret (y, _) \<Rightarrow> advanceAll clocks stsItems rsItems y)"

fun ticking :: "time \<Rightarrow> (time \<times> time) list \<Rightarrow> bool" where
  "ticking t [] = True"
| "ticking t ((now0, now) # clocks) = (t \<le> now0 \<and> now0 < now \<and> ticking (now + 1) clocks)"

section \<open>Lemmas\<close>

lemma condition_types_distinct [simp]:
  "Initialized \<noteq> CoreNodesProgressing" "Initialized \<noteq> CoreNodesReady" "Initialized \<noteq> Available"
  "Initialized \<noteq> Ready" "Initialized \<noteq> ReplicantNodesProgressing" "Initialized \<noteq> ReplicantNodesReady"
  "CoreNodesProgressing \<noteq> CoreNodesReady" "CoreNodesProgressing \<noteq> Available"
  "CoreNodesProgressing \<noteq> Ready" "CoreNodesProgressing \<noteq> ReplicantNodesProgressing"
  "CoreNodesProgressing \<noteq> ReplicantNodesReady" "CoreNodesReady \<noteq> Available"
  "CoreNodesReady \<noteq> Ready" "CoreNodesReady \<noteq> ReplicantNodesProgressing"
  "CoreNodesReady \<noteq> ReplicantNodesReady" "Available \<noteq> Ready"
  "Available \<noteq> ReplicantNodesProgressing" "Available \<noteq> ReplicantNodesReady"
  "Ready \<noteq> ReplicantNodesProgressing" "Ready \<noteq> ReplicantNodesReady"
  "ReplicantNodesProgressing \<noteq> ReplicantNodesReady"
  by (simp_all add: condition_type_defs)

lemmas condition_types_neq [simp] = condition_types_distinct[symmetric]

lemma trueCondition_simps [simp]:
  "cd_Type (trueCondition t r m) = t" "cd_Status (trueCondition t r m) = ConditionTrue"
  by (simp_all add: trueCondition_def)

lemma Status_set [simp]:
  "Status (setStatusCondition now x c) = SetCondition now (Status x) c"
  "Status (removeStatusCondition x t) = RemoveCondition (Status x) t"
  "Spec (setStatusCondition now x c) = Spec x" "Spec (removeStatusCondition x t) = Spec x"
  "Meta (setStatusCondition now x c) = Meta x" "Meta (removeStatusCondition x t) = Meta x"
  "IsExistReplicant (setStatusCondition now x c) = IsExistReplicant x"
  "IsExistReplicant (removeStatusCondition x t) = IsExistReplicant x"
  by (simp_all add: setStatusCondition_def removeStatusCondition_def)

lemma lastTrueType_Set:
  assumes "conditions_inv s" "beforeNow now s" "cd_Status c = ConditionTrue"
  shows "lastTrueType (SetCondition now s c) = Some (cd_Type c)"
  using GetLastTrueCondition_SetCondition[OF assms] by (simp add: lastTrueType_def)

lemma setCurrentStatus_after_Set:
  assumes "conditions_inv (Status x)" "beforeNow now (Status x)"
  shows "setCurrentStatus now' (setStatusCondition now x (trueCondition t r m)) =
    (setStatusCondition now x (trueCondition t r m), statusOfType t)"
  using GetLastTrueCondition_SetCondition[OF assms, of "trueCondition t r m"]
  by (simp add: setCurrentStatus_def)

lemma statusOfType_simps [simp]:
  "statusOfType CoreNodesProgressing = coreNodesProgressing"
  "statusOfType CoreNodesReady = coreNodesReady"
  "statusOfType ReplicantNodesProgressing = replicantNodesProgressing"
  "statusOfType ReplicantNodesReady = replicantNodesReady"
  "statusOfType Available = available" "statusOfType Ready = ready"
  "statusOfType Initialized = initialized"
  by (simp_all add: statusOfType_def)

lemma statusOfType_eq:
  "statusOfType t = coreNodesReady \<longleftrightarrow> t = CoreNodesReady"
  "statusOfType t = replicantNodesProgressing \<longleftrightarrow> t = ReplicantNodesProgressing"
  "statusOfType t = replicantNodesReady \<longleftrightarrow> t = ReplicantNodesReady"
  "statusOfType t = available \<longleftrightarrow> t = Available"
  "statusOfType t = ready \<longleftrightarrow> t = Ready"
  "statusOfType t = coreNodesProgressing \<longleftrightarrow> t = CoreNodesProgressing"
  by (auto simp: statusOfType_def)

lemmas remove_lemmas = RemoveCondition_inv beforeNow_RemoveCondition IsConditionTrue_RemoveCondition

lemma lastTrue_is_true:
  assumes "conditions_inv s" "lastTrueType s = Some t"
  shows "IsConditionTrue s t"
proof -
  from assms(2) obtain c where c: "find (\<lambda>c. cd_Status c = ConditionTrue) (Conditions s) = Some c"
    "cd_Type c = t" by (auto simp: lastTrueType_def GetLastTrueCondition_def)
  then have "c \<in> set (Conditions s)" "cd_Status c = ConditionTrue"
    by (auto simp: find_Some_iff)
  then have "conditionMap s t = Some c"
    using find_unique[of cd_Type "Conditions s" c] assms(1) c(2)
    by (auto simp: conditionMap_def)
  with \<open>cd_Status c = ConditionTrue\<close> show ?thesis by (simp add: IsConditionTrue_map)
qed

text \<open>A status whose newest condition was just set to true satisfies the invariant when its own rung holds.\<close>

lemma status_inv_Set:
  assumes "conditions_inv s" "beforeNow now s" "t \<in> pastCore \<Longrightarrow> t = CoreNodesReady \<or> IsConditionTrue s CoreNodesReady"
    and "IsConditionTrue s Ready \<Longrightarrow> t = Available \<or> IsConditionTrue s Available"
    and "IsConditionTrue s Available \<Longrightarrow> t = CoreNodesReady \<or> IsConditionTrue s CoreNodesReady"
    and "t = Ready \<Longrightarrow> IsConditionTrue s Available"
  shows "status_inv (SetCondition now s (trueCondition t r m))"
  using assms lastTrueType_Set[OF assms(1,2), of "trueCondition t r m"]
  by (auto simp: status_inv_def ladder_def condition_simps pastCore_def)

lemma initializedNext_status:
  assumes "conditions_inv (Status x)" "beforeNow now (Status x)"
  shows "snd (initializedNext now x) = coreNodesProgressing"
    and "status_inv (Status (fst (initializedNext now x)))"
    and "lastTrueType (Status (fst (initializedNext now x))) = Some CoreNodesProgressing"
proof -
  let ?r = "RemoveCondition (RemoveCondition (RemoveCondition (RemoveCondition (RemoveCondition
    (RemoveCondition (Status x) Ready) Available) ReplicantNodesReady) ReplicantNodesProgressing)
    CoreNodesReady) CoreNodesProgressing"
  let ?c = "trueCondition CoreNodesProgressing ''CoreNodesProgressing'' ''Core nodes progressing''"
  have r: "conditions_inv ?r" "beforeNow now ?r" "\<not> IsConditionTrue ?r Ready"
    "\<not> IsConditionTrue ?r Available"
    using assms by (simp_all add: remove_lemmas)
  have st: "Status (fst (initializedNext now x)) = SetCondition now ?r ?c"
    "snd (initializedNext now x) = coreNodesProgressing"
    using assms by (simp_all add: initializedNext_def Let_def setCurrentStatus_after_Set remove_lemmas)
  show "snd (initializedNext now x) = coreNodesProgressing" by (rule st(2))
  show "status_inv (Status (fst (initializedNext now x)))"
    unfolding st(1) using r by (intro status_inv_Set) (auto simp: pastCore_def)
  show "lastTrueType (Status (fst (initializedNext now x))) = Some CoreNodesProgressing"
    unfolding st(1) using lastTrueType_Set[OF r(1,2), of ?c] by simp
qed

lemma setCurrentStatus_inv:
  assumes "status_inv (Status x)" "beforeNow now (Status x)"
  shows "status_inv (Status (fst (setCurrentStatus now x)))"
proof (cases "GetLastTrueCondition (Status x)")
  case None
  have "conditions_inv (Status x)" "ladder (Status x)"
    using assms(1) by (simp_all add: status_inv_def)
  then have "status_inv (SetCondition now (Status x)
      (trueCondition Initialized ''Initialized'' ''initialized EMQX cluster''))"
    using assms(2) by (intro status_inv_Set) (auto simp: ladder_def pastCore_def)
  with None show ?thesis by (simp add: setCurrentStatus_def)
qed (simp add: setCurrentStatus_def assms)

text \<open>The machine is built for the last true condition.\<close>

lemma clockedI: "beforeNow now0 s \<Longrightarrow> now0 < now \<Longrightarrow> clocked now0 now s"
  using beforeNow_mono[of now0 s now] by (simp add: clocked_def)

lemma newMachine_status:
  assumes "status_inv (Status x)" "clocked now0 now (Status x)"
    and "newEMQXStatusMachine now0 x = (y, m)"
  shows "status_inv (Status y)"
    and "\<exists>t. lastTrueType (Status y) = Some t \<and> m = statusOfType t"
    and "beforeNow now (Status y)"
proof -
  have inv: "conditions_inv (Status x)" using assms(1) by (simp add: status_inv_def)
  have "status_inv (Status y) \<and> (\<exists>t. lastTrueType (Status y) = Some t \<and> m = statusOfType t) \<and>
      beforeNow now (Status y)"
  proof (cases "GetLastTrueCondition (Status x)")
    case None
    then have now0: "beforeNow now0 (Status x)" "now0 < now"
      using assms(2) by (simp_all add: clocked_def)
    show ?thesis
      using None assms(3) setCurrentStatus_inv[OF assms(1) now0(1)] beforeNow_SetCondition[OF inv now0]
        lastTrueType_Set[OF inv now0(1),
          of "trueCondition Initialized ''Initialized'' ''initialized EMQX cluster''"]
      by (auto simp: newEMQXStatusMachine_def setCurrentStatus_def)
  next
    case (Some c)
    then show ?thesis
      using assms by (auto simp: newEMQXStatusMachine_def setCurrentStatus_def lastTrueType_def clocked_def)
  qed
  then show "status_inv (Status y)" "\<exists>t. lastTrueType (Status y) = Some t \<and> m = statusOfType t"
    "beforeNow now (Status y)" by auto
qed

lemma setTrue_inv:
  assumes "status_inv (Status x)" "beforeNow now (Status x)"
    and "IsConditionTrue (Status x) CoreNodesReady \<or> t = CoreNodesReady"
    and "t = Ready \<Longrightarrow> IsConditionTrue (Status x) Available"
  shows "status_inv (Status (fst (setCurrentStatus now (setStatusCondition now x (trueCondition t r m)))))"
proof -
  have "conditions_inv (Status x)" "ladder (Status x)" using assms(1) by (simp_all add: status_inv_def)
  then have "status_inv (SetCondition now (Status x) (trueCondition t r m))"
    using assms by (intro status_inv_Set) (auto simp: ladder_def)
  with \<open>conditions_inv (Status x)\<close> assms(2) show ?thesis
    by (simp add: setCurrentStatus_after_Set)
qed

lemma NextStatus_inv:
  assumes "status_inv (Status x)" "beforeNow now (Status x)"
    and "lastTrueType (Status x) = Some t"
    and "NextStatus now stsItems rsItems (x, statusOfType t) = Ret (y, m)"
  shows "status_inv (Status y)"
proof -
  have inv: "conditions_inv (Status x)" and lad: "ladder (Status x)"
    using assms(1) by (simp_all add: status_inv_def)
  have now: "IsConditionTrue (Status x) t" using lastTrue_is_true[OF inv assms(3)] .
  have core: "IsConditionTrue (Status x) CoreNodesReady" if "t \<in> pastCore"
    using lad that assms(3) by (auto simp: ladder_def)
  have cur: "status_inv (Status (fst (setCurrentStatus now x)))"
    using setCurrentStatus_inv[OF assms(1,2)] .
  note set = setTrue_inv[OF assms(1,2)]
  note init = initializedNext_status(2)[OF inv assms(2)]
  have y: "y = fst (y, m)" by simp
  show ?thesis
  proof (cases "statusOfType t")
    case initialized
    then show ?thesis using assms(4) init by (metis NextStatus.simps(1) fst_conv go.inject)
  next
    case coreNodesProgressing
    have "status_inv (Status (fst (setCurrentStatus now (setStatusCondition now x
        (trueCondition CoreNodesReady ''CoreNodesReady'' ''Core nodes is ready'')))))"
      by (rule set) simp_all
    with cur assms(4) coreNodesProgressing show ?thesis
      by (auto simp: coreNodesProgressingNext_def split: option.splits if_splits)
  next
    case coreNodesReady
    then have t: "t = CoreNodesReady" by (simp add: statusOfType_eq)
    have "status_inv (Status (fst (codeNodesReadyNext now x)))"
      unfolding codeNodesReadyNext_def using core t by (auto simp: pastCore_def intro!: set)
    with assms(4) coreNodesReady show ?thesis by simp
  next
    case replicantNodesProgressing
    then have t: "t = ReplicantNodesProgressing" by (simp add: statusOfType_eq)
    have "status_inv (Status (fst (setCurrentStatus now (setStatusCondition now x
        (trueCondition ReplicantNodesReady ReplicantNodesReady ''Replicant nodes ready'')))))"
      using core t by (intro set) (auto simp: pastCore_def)
    with cur init assms(4) replicantNodesProgressing show ?thesis
      by (auto simp: replicantNodesProgressingNext_def split: option.splits if_splits)
  next
    case replicantNodesReady
    then have t: "t = ReplicantNodesReady" by (simp add: statusOfType_eq)
    have "status_inv (Status (fst (replicantNodesReadyNext now x)))"
      unfolding replicantNodesReadyNext_def using core t init by (auto simp: pastCore_def intro!: set)
    with assms(4) replicantNodesReady show ?thesis by simp
  next
    case available
    then have t: "t = Available" by (simp add: statusOfType_eq)
    have "status_inv (Status (fst (availableNext now x)))"
      unfolding availableNext_def Let_def using core t now assms(1) by (auto simp: pastCore_def intro!: set)
    with assms(4) available show ?thesis by simp
  next
    case ready
    then have t: "t = Ready" by (simp add: statusOfType_eq)
    let ?r = "RemoveCondition (RemoveCondition (RemoveCondition (Status x) Ready) Available)
      ReplicantNodesReady"
    have r: "conditions_inv ?r" "beforeNow now ?r" "IsConditionTrue ?r CoreNodesReady"
      "\<not> IsConditionTrue ?r Ready" "\<not> IsConditionTrue ?r Available"
      using inv assms(2) core t by (simp_all add: remove_lemmas pastCore_def)
    have "status_inv (SetCondition now ?r (trueCondition ReplicantNodesProgressing
        ReplicantNodesProgressing ''Replicant nodes progressing''))"
      using r by (intro status_inv_Set) auto
    then have "status_inv (Status (fst (readyNext now stsItems rsItems x)))"
      using inv assms(1,2) init
      by (simp add: readyNext_def Let_def setCurrentStatus_after_Set remove_lemmas)
    with assms(4) ready show ?thesis by simp
  qed
qed

lemma advance_inv:
  assumes "status_inv (Status x)" "clocked now0 now (Status x)"
    and "advance now0 now stsItems rsItems x = Ret (y, m)"
  shows "status_inv (Status y)"
proof -
  obtain z n where z: "newEMQXStatusMachine now0 x = (z, n)" by (cases "newEMQXStatusMachine now0 x")
  note ms = newMachine_status[OF assms(1,2) z]
  then obtain t where "lastTrueType (Status z) = Some t" "n = statusOfType t" by blast
  with ms assms(3) z show ?thesis
    by (intro NextStatus_inv[of z now t stsItems rsItems y m]) (auto simp: advance_def)
qed

lemma lastTrueType_Remove:
  assumes "conditions_inv s" "lastTrueType s = Some u" "u \<noteq> t"
  shows "lastTrueType (RemoveCondition s t) = Some u"
proof -
  have "find P (filter (\<lambda>c. cd_Type c \<noteq> t) cs) = Some c"
    if "find P cs = Some c" "cd_Type c \<noteq> t" for P cs and c :: condition
    using that by (induction cs) (auto split: if_splits)
  with assms show ?thesis
    by (auto simp: lastTrueType_def GetLastTrueCondition_def Conditions_RemoveCondition
        conditions_inv_distinct)
qed

lemma Status_cong_inv:
  assumes "Conditions s = Conditions s'"
  shows "status_inv s = status_inv s'" "conditions_inv s = conditions_inv s'"
    "IsConditionTrue s t = IsConditionTrue s' t" "lastTrueType s = lastTrueType s'"
proof -
  have "conditionMap s = conditionMap s'" "GetLastTrueCondition s = GetLastTrueCondition s'"
    using assms by (simp_all add: conditionMap_def GetLastTrueCondition_def)
  with assms show "status_inv s = status_inv s'" "conditions_inv s = conditions_inv s'"
    "IsConditionTrue s t = IsConditionTrue s' t" "lastTrueType s = lastTrueType s'"
    by (simp_all add: status_inv_def ladder_def conditions_inv_def IsConditionTrue_map lastTrueType_def)
qed

text \<open>The other writers: progressing is the last true condition and the rungs above it are gone.\<close>

lemma coreProgressing_inv:
  assumes "conditions_inv (Status x)" "beforeNow now (Status x)"
  shows "status_inv (Status (coreProgressing now r m h x))"
    and "lastTrueType (Status (coreProgressing now r m h x)) = Some CoreNodesProgressing"
proof -
  let ?s = "SetCondition now (Status x) (trueCondition CoreNodesProgressing r m)"
  let ?r = "RemoveCondition (RemoveCondition (RemoveCondition ?s Ready) Available) CoreNodesReady"
  have same: "Conditions (Status (coreProgressing now r m h x)) = Conditions ?r"
    by (simp add: coreProgressing_def Let_def)
  have inv: "conditions_inv ?s" using assms(1) by (simp add: condition_simps)
  have last: "lastTrueType ?r = Some CoreNodesProgressing"
    using lastTrueType_Set[OF assms, of "trueCondition CoreNodesProgressing r m"] inv
    by (simp add: lastTrueType_Remove remove_lemmas)
  have "status_inv ?r"
    using inv last by (simp add: status_inv_def ladder_def remove_lemmas pastCore_def)
  with last same show "status_inv (Status (coreProgressing now r m h x))"
    "lastTrueType (Status (coreProgressing now r m h x)) = Some CoreNodesProgressing"
    using Status_cong_inv[OF same] by simp_all
qed

lemma replicantProgressing_inv:
  assumes "conditions_inv (Status x)" "beforeNow now (Status x)"
    and "IsConditionTrue (Status x) CoreNodesReady"
  shows "status_inv (Status (replicantProgressing now r m h x))"
    and "lastTrueType (Status (replicantProgressing now r m h x)) = Some ReplicantNodesProgressing"
proof -
  let ?s = "SetCondition now (Status x) (trueCondition ReplicantNodesProgressing r m)"
  let ?r = "RemoveCondition (RemoveCondition (RemoveCondition ?s Ready) Available) ReplicantNodesReady"
  have same: "Conditions (Status (replicantProgressing now r m h x)) = Conditions ?r"
    by (simp add: replicantProgressing_def Let_def)
  have inv: "conditions_inv ?s" using assms(1) by (simp add: condition_simps)
  have last: "lastTrueType ?r = Some ReplicantNodesProgressing"
    using lastTrueType_Set[OF assms(1,2), of "trueCondition ReplicantNodesProgressing r m"] inv
    by (simp add: lastTrueType_Remove remove_lemmas)
  have "status_inv ?r"
    using inv last assms
    by (simp add: status_inv_def ladder_def remove_lemmas condition_simps pastCore_def)
  with last same show "status_inv (Status (replicantProgressing now r m h x))"
    "lastTrueType (Status (replicantProgressing now r m h x)) = Some ReplicantNodesProgressing"
    using Status_cong_inv[OF same] by simp_all
qed

lemma roundSeconds_simps [simp]:
  "cd_Type (roundSeconds c) = cd_Type c" "cd_Status (roundSeconds c) = cd_Status c"
  by (simp_all add: roundSeconds_def)

lemma roundSeconds_mono:
  "cd_LastTransitionTime a \<le> cd_LastTransitionTime b \<Longrightarrow>
   cd_LastTransitionTime (roundSeconds a) \<le> cd_LastTransitionTime (roundSeconds b)"
  by (simp add: roundSeconds_def nanosPerSecond_def zdiv_mono1)

lemma find_map_round:
  "(\<And>c. P (roundSeconds c) = P c) \<Longrightarrow> find P (map roundSeconds cs) = map_option roundSeconds (find P cs)"
  by (induction cs) auto

lemma stored_inv:
  assumes "Conditions s' = map roundSeconds (Conditions s)" "status_inv s"
  shows "status_inv s'"
proof -
  have "conditionMap s' t = map_option roundSeconds (conditionMap s t)"
    "GetLastTrueCondition s' = map_option roundSeconds (GetLastTrueCondition s)" for t
    using assms(1) by (simp_all add: conditionMap_def GetLastTrueCondition_def find_map_round)
  then have same: "IsConditionTrue s' = IsConditionTrue s" "lastTrueType s' = lastTrueType s"
    by (auto simp: IsConditionTrue_map lastTrueType_def fun_eq_iff option.map_comp comp_def
        split: option.splits)
  have "sorted_wrt (\<lambda>a b. cd_LastTransitionTime b \<le> cd_LastTransitionTime a) (Conditions s')"
    using assms unfolding sorted_wrt_map status_inv_def conditions_inv_def
    by (auto simp: sorted_wrt_map intro: sorted_wrt_mono_rel roundSeconds_mono
        elim!: sorted_wrt_mono_rel[rotated])
  moreover have "distinct (map cd_Type (Conditions s'))"
    using assms by (simp add: status_inv_def conditions_inv_def comp_def)
  ultimately show ?thesis
    using assms(2) same by (simp add: status_inv_def conditions_inv_def ladder_def)
qed

lemma statusStep_inv:
  assumes "statusStep x y" "status_inv (Status x)"
  shows "status_inv (Status y)"
  using assms
proof (induction rule: statusStep.induct)
  case (advance_step now0 x now stsItems rsItems y m)
  then show ?case using advance_inv by blast
next
  case (core_step now x reason message hash)
  then show ?case using coreProgressing_inv(1) by (simp add: status_inv_def)
next
  case (replicant_step now x reason message hash)
  then show ?case using replicantProgressing_inv(1) by (simp add: status_inv_def)
next
  case (stored_step y x)
  then show ?case using stored_inv by blast
next
  case (other_step y x)
  then show ?case using Status_cong_inv(1) by metis
qed

lemma statusReachable_inv: "statusReachable x \<Longrightarrow> status_inv (Status x)"
proof (induction rule: statusReachable.induct)
  case (start x)
  then show ?case
    by (simp add: status_inv_def conditions_inv_def ladder_def IsConditionTrue_map conditionMap_def
        lastTrueType_def GetLastTrueCondition_def)
qed (rule statusStep_inv)

section \<open>Lemmas: progress\<close>

text \<open>What a step of the machine leaves alone.\<close>

definition sameButConditions :: "EMQX \<Rightarrow> EMQX \<Rightarrow> bool" where
  "sameButConditions x y \<longleftrightarrow>
     Spec y = Spec x \<and> Meta y = Meta x \<and>
     CoreNodesStatus (Status y) = CoreNodesStatus (Status x) \<and>
     ReplicantNodesStatus (Status y) = ReplicantNodesStatus (Status x)"

lemma sameButConditions_trans:
  "sameButConditions x y \<Longrightarrow> sameButConditions y z \<Longrightarrow> sameButConditions x z"
  by (simp add: sameButConditions_def)

lemma sameButConditions_simps:
  assumes "sameButConditions x y"
  shows "IsExistReplicant y = IsExistReplicant x" "settled S R y = settled S R x"
  using assms
  by (simp_all add: sameButConditions_def IsExistReplicant_def settled_def getStateFulSetList_def
      getReplicaSetList_def cong: option.case_cong)

lemma set_step:
  assumes "conditions_inv (Status z)" "beforeNow now (Status z)"
  shows "lastTrueType (Status (setStatusCondition now z (trueCondition t r m))) = Some t"
    and "sameButConditions z (setStatusCondition now z (trueCondition t r m))"
    and "beforeNow (now + 1) (Status (setStatusCondition now z (trueCondition t r m)))"
  using lastTrueType_Set[OF assms, of "trueCondition t r m"]
    beforeNow_SetCondition[OF assms, of "now + 1"]
  by (simp_all add: sameButConditions_def)

lemma initializedNext_step:
  assumes "conditions_inv (Status z)" "beforeNow now (Status z)"
  shows "sameButConditions z (fst (initializedNext now z))"
    and "beforeNow (now + 1) (Status (fst (initializedNext now z)))"
  using assms
  by (simp_all add: initializedNext_def Let_def setCurrentStatus_after_Set remove_lemmas
      beforeNow_SetCondition sameButConditions_def)

lemma NextStatus_settled:
  assumes "conditions_inv (Status z)" "beforeNow now (Status z)" "settled S R z"
    and "lastTrueType (Status z) = Some t"
  shows "\<exists>y m. NextStatus now S R (z, statusOfType t) = Ret (y, m) \<and> sameButConditions z y \<and>
    beforeNow (now + 1) (Status y) \<and> (stepsLeft y < stepsLeft z \<or> stepsLeft y = 0)"
proof -
  note cur = setCurrentStatus_after_Set[OF assms(1,2)]
  note set = set_step[OF assms(1,2)]
  note same = sameButConditions_simps(1)[OF set(2)]
  note init = initializedNext_step[OF assms(1,2)] initializedNext_status(3)[OF assms(1,2)]
  have init_steps: "stepsLeft (fst (initializedNext now z)) = (if IsExistReplicant z then 5 else 3)"
    using init(3) sameButConditions_simps(1)[OF init(1)] by (simp add: stepsLeft_def)
  obtain y m where ym: "initializedNext now z = (y, m)" by (cases "initializedNext now z")
  have by_init: ?thesis
    if "NextStatus now S R (z, statusOfType t) = Ret (initializedNext now z)"
      "stepsLeft z = (if IsExistReplicant z then 6 else 4)"
    using that init init_steps ym by (auto intro!: exI[of _ y])
  have by_set: ?thesis
    if "NextStatus now S R (z, statusOfType t) =
        Ret (setCurrentStatus now (setStatusCondition now z (trueCondition u r c)))"
      "stepsLeft (setStatusCondition now z (trueCondition u r c)) < stepsLeft z" for u r c
    using that cur set by (intro exI) auto
  note steps = stepsLeft_def Let_def assms(4) same lastTrueType_Set[OF assms(1,2)]
  show ?thesis
  proof (cases "statusOfType t")
    case initialized
    then show ?thesis by (intro by_init) (simp_all add: steps)
  next
    case coreNodesProgressing
    from assms(3) show ?thesis
      by (intro by_set[of CoreNodesReady "''CoreNodesReady''" "''Core nodes is ready''"])
        (auto simp: coreNodesProgressing coreNodesProgressingNext_def settled_def steps
          split: option.splits)
  next
    case coreNodesReady
    show ?thesis
    proof (cases "IsExistReplicant z")
      case True
      then show ?thesis
        by (intro by_set[of ReplicantNodesProgressing ReplicantNodesProgressing
              "''Replicant nodes progressing''"])
          (simp_all add: coreNodesReady codeNodesReadyNext_def steps)
    next
      case False
      then show ?thesis
        by (intro by_set[of Available Available "''Cluster is available''"])
          (simp_all add: coreNodesReady codeNodesReadyNext_def steps)
    qed
  next
    case replicantNodesProgressing
    show ?thesis
    proof (cases "IsExistReplicant z")
      case True
      with assms(3) show ?thesis
        by (intro by_set[of ReplicantNodesReady ReplicantNodesReady "''Replicant nodes ready''"])
          (auto simp: replicantNodesProgressing replicantNodesProgressingNext_def settled_def steps
            IsExistReplicant_def split: option.splits)
    next
      case False
      then show ?thesis
        by (intro by_init)
          (simp_all add: replicantNodesProgressing replicantNodesProgressingNext_def steps)
    qed
  next
    case replicantNodesReady
    show ?thesis
    proof (cases "IsExistReplicant z")
      case True
      then show ?thesis
        by (intro by_set[of Available Available "''Cluster is available''"])
          (simp_all add: replicantNodesReady replicantNodesReadyNext_def steps)
    next
      case False
      then show ?thesis
        by (intro by_init) (simp_all add: replicantNodesReady replicantNodesReadyNext_def steps)
    qed
  next
    case available
    with assms(3) show ?thesis
      by (intro by_set[of Ready Ready "''Cluster is ready''"])
        (auto simp: availableNext_def Let_def settled_def nodesSettled_def steps split: option.splits)
  next
    case ready
    with assms have "readyNext now S R z = (z, ready)" "stepsLeft z = 0"
      by (auto simp: readyNext_def coreDegraded_def replicantDegraded_def settled_def
          nodesSettled_def steps split: option.splits)
    moreover have "beforeNow (now + 1) (Status z)" using beforeNow_mono[OF assms(2)] by simp
    ultimately show ?thesis using ready by (auto simp: sameButConditions_def)
  qed
qed

lemma newMachine_same:
  assumes "status_inv (Status x)" "clocked now0 now (Status x)" "newEMQXStatusMachine now0 x = (y, m)"
  shows "sameButConditions x y" "stepsLeft y \<le> stepsLeft x"
proof -
  have inv: "conditions_inv (Status x)" using assms(1) by (simp add: status_inv_def)
  show same: "sameButConditions x y"
    using assms(3) by (auto simp: newEMQXStatusMachine_def setCurrentStatus_def sameButConditions_def
        split: option.splits)
  show "stepsLeft y \<le> stepsLeft x"
  proof (cases "GetLastTrueCondition (Status x)")
    case None
    then have now0: "beforeNow now0 (Status x)" using assms(2) by (simp add: clocked_def)
    from None have "lastTrueType (Status y) = Some Initialized" "lastTrueType (Status x) = None"
      using assms(3) set_step(1)[OF inv now0]
      by (auto simp: newEMQXStatusMachine_def setCurrentStatus_def lastTrueType_def)
    then show ?thesis using sameButConditions_simps(1)[OF same] by (simp add: stepsLeft_def)
  next
    case (Some c)
    then show ?thesis using assms(3) by (simp add: newEMQXStatusMachine_def setCurrentStatus_def)
  qed
qed

lemma advance_settled:
  assumes "status_inv (Status x)" "clocked now0 now (Status x)" "settled S R x"
  shows "\<exists>y m. advance now0 now S R x = Ret (y, m) \<and> sameButConditions x y \<and>
    status_inv (Status y) \<and> beforeNow (now + 1) (Status y) \<and>
    (stepsLeft y < stepsLeft x \<or> stepsLeft y = 0)"
proof -
  obtain z n where z: "newEMQXStatusMachine now0 x = (z, n)" by (cases "newEMQXStatusMachine now0 x")
  note ms = newMachine_status[OF assms(1,2) z] and sm = newMachine_same[OF assms(1,2) z]
  obtain t where t: "lastTrueType (Status z) = Some t" "n = statusOfType t" using ms(2) by blast
  have "conditions_inv (Status z)" "beforeNow now (Status z)" "settled S R z"
    using ms(1,3) assms(3) sameButConditions_simps(2)[OF sm(1)] by (simp_all add: status_inv_def)
  from NextStatus_settled[OF this t(1)] obtain y m where
    y: "advance now0 now S R x = Ret (y, m)" "sameButConditions z y" "beforeNow (now + 1) (Status y)"
      "stepsLeft y < stepsLeft z \<or> stepsLeft y = 0"
    by (auto simp: advance_def z t(2))
  with sm advance_inv[OF assms(1,2) y(1)] show ?thesis
    using sameButConditions_trans by (metis le_trans less_le_trans order_less_le_trans)
qed

lemma advanceAll_ready:
  assumes "status_inv (Status x)" "beforeNow t (Status x)" "settled S R x" "ticking t clocks"
    and "stepsLeft x \<le> length clocks"
  shows "\<exists>y. advanceAll clocks S R x = Ret y \<and> stepsLeft y = 0 \<and> status_inv (Status y)"
  using assms
proof (induction clocks arbitrary: x t)
  case (Cons c clocks)
  obtain now0 now where c: "c = (now0, now)" by (cases c)
  have "clocked now0 now (Status x)"
    using Cons.prems(2,4) beforeNow_mono by (auto simp: c intro!: clockedI)
  from advance_settled[OF Cons.prems(1) this Cons.prems(3)] obtain y m where
    y: "advance now0 now S R x = Ret (y, m)" "sameButConditions x y" "status_inv (Status y)"
      "beforeNow (now + 1) (Status y)" "stepsLeft y < stepsLeft x \<or> stepsLeft y = 0" by blast
  have "\<exists>w. advanceAll clocks S R y = Ret w \<and> stepsLeft w = 0 \<and> status_inv (Status w)"
    using Cons.prems(3,4,5) y sameButConditions_simps(2)[OF y(2)]
    by (intro Cons.IH[of y "now + 1"]) (auto simp: c)
  then show ?case by (simp add: c y(1))
qed simp

lemma stepsLeft_bound: "stepsLeft x \<le> 6"
  by (auto simp: stepsLeft_def Let_def split: option.splits machineStatus.splits)

lemma stepsLeft_0: "stepsLeft x = 0 \<longleftrightarrow> lastTrueType (Status x) = Some Ready"
proof (cases "lastTrueType (Status x)")
  case (Some t)
  then show ?thesis
    by (cases "statusOfType t") (auto simp: stepsLeft_def Let_def statusOfType_eq)
qed (simp add: stepsLeft_def Let_def)

end
