(* ===== verification/Reads.thy ===== *)
theory Reads
  imports Requester Handler Status_Machine
begin

text \<open>
  What the sub-reconcilers of the EMQX controller share: their result type
  (\<open>emqx_controller.go\<close>), and the helpers of \<open>util.go\<close> as they run against the API server, each a
  list call followed by the pure function of \<open>Set_Lists\<close>. A sub-reconciler takes the custom
  resource and returns it with the changes made through the Go pointer.
\<close>

section \<open>Results\<close>

record ctrlResult =
  cr_Requeue :: bool
  cr_RequeueAfter :: int

record subResult =
  sub_err :: "goerr option"
  sub_result :: ctrlResult

definition zeroResult :: ctrlResult where
  "zeroResult = \<lparr>cr_Requeue = False, cr_RequeueAfter = 0\<rparr>"

definition IsZero :: "ctrlResult \<Rightarrow> bool" where
  "IsZero r = (\<not> cr_Requeue r \<and> cr_RequeueAfter r = 0)"

definition done_ok :: subResult where
  "done_ok = \<lparr>sub_err = None, sub_result = zeroResult\<rparr>"

definition done_err :: "goerr \<Rightarrow> subResult" where
  "done_err err = \<lparr>sub_err = Some err, sub_result = zeroResult\<rparr>"

definition done_requeue :: subResult where
  "done_requeue = \<lparr>sub_err = None, sub_result = \<lparr>cr_Requeue = True, cr_RequeueAfter = 0\<rparr>\<rparr>"

type_synonym ('w, 'c) handler =
  "('w, 'c) env \<Rightarrow> EMQX \<Rightarrow> Requester option \<Rightarrow> ('w, (subResult \<times> EMQX) go) op"

section \<open>Lists\<close>

definition readStatefulSets ::
  "('w, 'c) env \<Rightarrow> EMQX \<Rightarrow> ('w, statefulSet option \<times> statefulSet option \<times> statefulSet list) op" where
  "readStatefulSets E x = do {
     items \<leftarrow> listSts E (om_Namespace (Meta x)) (DefaultCoreLabels x);
     ret (getStateFulSetList items x) }"

definition readReplicaSets ::
  "('w, 'c) env \<Rightarrow> EMQX \<Rightarrow> ('w, replicaSet option \<times> replicaSet option \<times> replicaSet list) op" where
  "readReplicaSets E x = do {
     items \<leftarrow> listRs E (om_Namespace (Meta x)) (DefaultReplicantLabels x);
     ret (getReplicaSetList items x) }"

definition readRsPodMap :: "('w, 'c) env \<Rightarrow> EMQX \<Rightarrow> ('w, string \<rightharpoonup> pod list) op" where
  "readRsPodMap E x = do {
     pods \<leftarrow> listPods E (om_Namespace (Meta x)) (DefaultReplicantLabels x);
     items \<leftarrow> listRs E (om_Namespace (Meta x)) (DefaultReplicantLabels x);
     ret (getRsPodMap items pods) }"

definition getEventList :: "('w, 'c) env \<Rightarrow> objectMeta \<Rightarrow> ('w, event list) op" where
  "getEventList E m = do {
     items \<leftarrow> listEvents E (om_Namespace m) (om_Name m);
     ret (handlerEventList items) }"

text \<open>\<open>Labels[LabelsPodTemplateHashKey]\<close>: the empty string when the label is missing.\<close>

definition labelHash :: "objectMeta \<Rightarrow> string" where
  "labelHash m = (case mget (om_Labels m) LabelsPodTemplateHashKey of None \<Rightarrow> [] | Some h \<Rightarrow> h)"

text \<open>Writing the status back: the object the server answers with replaces the local one.\<close>

definition statusUpdate :: "('w, 'c) env \<Rightarrow> EMQX \<Rightarrow> ('w, goerr option \<times> EMQX) op" where
  "statusUpdate E x = do {
     answer \<leftarrow> statusEMQX E x;
     ret (case answer of Inl err \<Rightarrow> (Some err, x) | Inr y \<Rightarrow> (None, y)) }"

section \<open>The contract of a sub-reconciler\<close>

text \<open>A set that is observed, runs no pod, asks for none and is not being deleted.\<close>

definition idleSet :: "objectMeta \<Rightarrow> int option \<Rightarrow> setStatus \<Rightarrow> bool" where
  "idleSet m replicas st \<longleftrightarrow>
     st_Replicas st = 0 \<and> replicas = Some 0 \<and> om_Generation m \<le> st_ObservedGeneration st \<and>
     om_DeletionTimestamp m = None"

text \<open>
  What every sub-reconciler promises, whatever it is called with: it creates no pods, it deletes
  nothing but idle sets and volume claims, it does not touch \<open>Rebalance\<close> resources, and its result is a requeue request
  without an error, an error, or neither. So the loop of \<open>Reconcile\<close>, which looks at the result
  first, never drops an error.
\<close>

fun writeOk :: "('w, 'c) env \<Rightarrow> call \<Rightarrow> bool" where
  "writeOk E (TCreate ob _) = made E ob"
| "writeOk E (TDelete (OReplicaSet rs) _) = idleSet (rs_meta rs) (rs_Replicas rs) (rs_status rs)"
| "writeOk E (TDelete (OStatefulSet sts) _) = idleSet (sts_meta sts) (sts_Replicas sts) (sts_status sts)"
| "writeOk E (TDelete (OPvc p) _) = (om_DeletionTimestamp (pvc_meta p) = None)"
| "writeOk E (TDelete _ _) = False"
| "writeOk E (TUpdateRebalance _ _) = False"
| "writeOk E (TStatusRebalance _ _) = False"
| "writeOk E _ = True"

definition resultOk :: "(subResult \<times> EMQX) go \<Rightarrow> bool" where
  "resultOk res = (case res of Panic \<Rightarrow> True
     | Ret (sr, _) \<Rightarrow> sub_result sr = zeroResult \<or> sr = done_requeue)"

locale sub_reconciler =
  fixes sub :: "('w, 'c) handler"
  assumes law: "only (writeOk E) resultOk (sub E x r)"

section \<open>Lemmas\<close>

lemma resultOk_simps [simp]:
  "resultOk Panic" "resultOk (Ret (done_ok, y))" "resultOk (Ret (done_err e, y))"
  "resultOk (Ret (done_requeue, y))"
  by (simp_all add: resultOk_def done_ok_def done_err_def)

lemma only_reads [only_intros]:
  "onlyCalls (writeOk E) (readStatefulSets E x)" "onlyCalls (writeOk E) (readReplicaSets E x)"
  "onlyCalls (writeOk E) (readRsPodMap E x)" "onlyCalls (writeOk E) (getEventList E m)"
  "onlyCalls (writeOk E) (statusUpdate E x)" "onlyCalls (writeOk E) (Request E rq method u body header)"
  unfolding readStatefulSets_def readReplicaSets_def readRsPodMap_def getEventList_def statusUpdate_def
    Request_def call_defs
  by (intro only_intros; simp)+

lemma only_Create [only_intros]: "creatable ob \<Longrightarrow> onlyCalls (writeOk E) (Create E ob)"
  unfolding Create_def create_def by (intro only_intros) (auto intro: made_annotated)

lemma only_Update [only_intros]: "onlyCalls (writeOk E) (Update E ob)"
  unfolding Update_def update_def by (intro only_intros) simp_all

lemma only_CreateOrUpdate [only_intros]: "creatable ob \<Longrightarrow> onlyCalls (writeOk E) (CreateOrUpdate E m ob)"
  unfolding CreateOrUpdate_def CreateOrUpdateObj_def getObj_def by (intro only_intros) simp_all

lemma only_CreateOrUpdateList [only_intros]:
  "list_all creatable obs \<Longrightarrow> onlyCalls (writeOk E) (CreateOrUpdateList E m obs)"
  by (induction obs) (auto intro!: only_intros)

lemma IsZero_simps [simp]:
  "IsZero zeroResult" "sub_err done_ok = None" "sub_result done_ok = zeroResult"
  "sub_err (done_err e) = Some e" "sub_result (done_err e) = zeroResult"
  "sub_err done_requeue = None" "\<not> IsZero (sub_result done_requeue)"
  by (simp_all add: IsZero_def zeroResult_def done_ok_def done_err_def done_requeue_def)

lemma obeys_bind_readSts:
  "(\<And>items. obeys (k (getStateFulSetList items x))
      (\<lambda>y l. P y (TListSts (om_Namespace (Meta x)) (DefaultCoreLabels x) items # l))) \<Longrightarrow>
   obeys (State_Monad.bind (readStatefulSets E x) k) P"
  unfolding readStatefulSets_def listSts_def State_Monad.bind_assoc State_Monad.bind_left_identity
  by (rule obeys_bind_prim)

lemma obeys_bind_readRs:
  "(\<And>items. obeys (k (getReplicaSetList items x))
      (\<lambda>y l. P y (TListRs (om_Namespace (Meta x)) (DefaultReplicantLabels x) items # l))) \<Longrightarrow>
   obeys (State_Monad.bind (readReplicaSets E x) k) P"
  unfolding readReplicaSets_def listRs_def State_Monad.bind_assoc State_Monad.bind_left_identity
  by (rule obeys_bind_prim)

lemma obeys_bind_statusUpdate:
  assumes "\<And>err. obeys (k (Some err, x)) (\<lambda>y l. P y (TStatusEMQX x (Inl err) # l))"
    and "\<And>z. obeys (k (None, z)) (\<lambda>y l. P y (TStatusEMQX x (Inr z) # l))"
  shows "obeys (State_Monad.bind (statusUpdate E x) k) P"
  unfolding statusUpdate_def statusEMQX_def State_Monad.bind_assoc State_Monad.bind_left_identity
proof (rule obeys_bind_prim)
  fix a :: "goerr + EMQX"
  show "obeys (k (case a of Inl err \<Rightarrow> (Some err, x) | Inr y \<Rightarrow> (None, y)))
      (\<lambda>y l. P y (TStatusEMQX x a # l))"
    using assms by (cases a) simp_all
qed

end
