(* ===== verification/Examples.thy ===== *)
theory Examples
  imports Reads
begin

text \<open>
  Concrete data on which the theorems are exercised: a custom resource, the sets and pods of its
  cluster, and an environment whose answers are constant. The environment answers with what its
  arguments list; every write succeeds.
\<close>

section \<open>Custom resource\<close>

definition exCoreSpec :: "int \<Rightarrow> EMQXCoreTemplateSpec" where
  "exCoreSpec n = \<lparr>t_NodeSelector = None, t_NodeName = [], t_Affinity = None, t_ToleRations = [],
     t_Tolerations = [], t_TopologySpreadConstraints = [], t_Replicas = Some n, t_MinAvailable = None,
     t_MaxUnavailable = None, t_Command = [], t_Args = [], t_Ports = [], t_Env = [], t_EnvFrom = [],
     t_Resources = JNull, t_PodSecurityContext = None, t_ContainerSecurityContext = None,
     t_InitContainers = [], t_ExtraContainers = [], t_ExtraVolumes = [], t_ExtraVolumeMounts = [],
     t_LivenessProbe = None, t_ReadinessProbe = None, t_StartupProbe = None, t_Lifecycle = None,
     t_VolumeClaimTemplates = \<lparr>pvc_VolumeMode = None, pvc_other = JNull\<rparr>\<rparr>"

definition exReplicantSpec :: "int \<Rightarrow> EMQXReplicantTemplateSpec" where
  "exReplicantSpec n = EMQXReplicantTemplateSpec.truncate (exCoreSpec n)"

definition exMeta :: "string \<Rightarrow> objectMeta" where
  "exMeta name = emptyMeta\<lparr>om_Name := name, om_Namespace := ''ns'', om_UID := name @ ''-uid''\<rparr>"

definition exLabels :: "string \<Rightarrow> gomap" where
  "exLabels hash = Some [LabelsPodTemplateHashKey \<mapsto> hash]"

definition exSpec :: EMQXSpec where
  "exSpec = \<lparr>Image = ''emqx:5'', ImagePullPolicy = [], ImagePullSecrets = [], ServiceAccountName = [],
     BootstrapAPIKeys = [], SpecConfig = \<lparr>cfg_Mode = ''Merge'', cfg_Data = []\<rparr>,
     ClusterDomain = ''cluster.local'', RevisionHistoryLimit = Some 0,
     SpecUpdateStrategy = \<lparr>us_Type = ''Recreate'', us_InitialDelaySeconds = 0,
       us_EvacuationStrategy = \<lparr>es_WaitTakeover = 0, es_ConnEvictRate = 1, es_SessEvictRate = 1\<rparr>\<rparr>,
     CoreTemplate = \<lparr>ct_meta = emptyMeta, ct_Spec = exCoreSpec 1\<rparr>, ReplicantTemplate = None,
     DashboardServiceTemplate = None, ListenersServiceTemplate = None\<rparr>"

definition exNodesStatus :: "string \<Rightarrow> string \<Rightarrow> EMQXNodesStatus" where
  "exNodesStatus upd cur = \<lparr>ns_Replicas = 1, ns_ReadyReplicas = 1, ns_CurrentRevision = cur,
     ns_CurrentReplicas = 1, ns_UpdateRevision = upd, ns_UpdateReplicas = 1, ns_CollisionCount = None\<rparr>"

definition exStatus :: "condition list \<Rightarrow> string \<Rightarrow> string \<Rightarrow> EMQXStatus" where
  "exStatus cs upd cur = \<lparr>Conditions = cs, CoreNodes = [], CoreNodesStatus = exNodesStatus upd cur,
     ReplicantNodes = [], ReplicantNodesStatus = exNodesStatus [] [], NodeEvacuationsStatus = []\<rparr>"

definition exEMQX :: "condition list \<Rightarrow> string \<Rightarrow> string \<Rightarrow> EMQX" where
  "exEMQX cs upd cur = \<lparr>Meta = exMeta ''emqx'', Spec = exSpec, Status = exStatus cs upd cur\<rparr>"

definition exCondition :: "string \<Rightarrow> time \<Rightarrow> condition" where
  "exCondition t at = \<lparr>cd_Type = t, cd_Status = ConditionTrue, cd_Reason = t, cd_Message = [],
     cd_LastTransitionTime = at\<rparr>"

section \<open>Sets and pods\<close>

definition exTemplate :: podTemplateSpec where
  "exTemplate = \<lparr>pt_meta = emptyMeta, pt_spec = \<lparr>ps_ReadinessGates = [], ps_ImagePullSecrets = [],
     ps_ServiceAccountName = [], ps_SecurityContext = None, ps_Affinity = None, ps_Tolerations = [],
     ps_TopologySpreadConstraints = [], ps_NodeName = [], ps_NodeSelector = None, ps_InitContainers = [],
     ps_EphemeralContainers = [], ps_Containers = [], ps_Volumes = []\<rparr>\<rparr>"

definition exSelector :: labelSelector where
  "exSelector = \<lparr>sel_MatchLabels = None, sel_MatchExpressions = None\<rparr>"

definition exSetStatus :: "int \<Rightarrow> setStatus" where
  "exSetStatus n = emptySetStatus\<lparr>st_Replicas := n, st_ReadyReplicas := n\<rparr>"

definition exSts :: "string \<Rightarrow> string \<Rightarrow> int \<Rightarrow> statefulSet" where
  "exSts name hash n = \<lparr>sts_meta = (exMeta name)\<lparr>om_Labels := exLabels hash\<rparr>,
     sts_ServiceName = ''emqx-headless'', sts_Replicas = Some n, sts_Selector = exSelector,
     sts_PodManagementPolicy = ''Parallel'', sts_Template = exTemplate, sts_VolumeClaimTemplates = [],
     sts_status = exSetStatus n\<rparr>"

definition exRs :: "string \<Rightarrow> string \<Rightarrow> int \<Rightarrow> replicaSet" where
  "exRs name hash n = \<lparr>rs_meta = (exMeta name)\<lparr>om_Labels := exLabels hash\<rparr>, rs_Replicas = Some n,
     rs_Selector = exSelector, rs_Template = exTemplate, rs_status = exSetStatus n\<rparr>"

definition exPod :: "string \<Rightarrow> string \<Rightarrow> pod" where
  "exPod name controller = \<lparr>pod_meta = (exMeta name)\<lparr>om_controller := Some controller\<rparr>,
     pod_NodeName = [], pod_PodIP = ''10.0.0.1'', pod_Phase = ''Running'',
     pod_Conditions = [\<lparr>pc_Type = ''ContainersReady'', pc_Status = ConditionTrue,
       pc_LastTransitionTime = 0\<rparr>]\<rparr>"

definition exNode :: "string \<Rightarrow> string \<Rightarrow> string \<Rightarrow> EMQXNode" where
  "exNode node role edition = \<lparr>n_ControllerUID = [], n_PodUID = [], n_Node = node, n_NodeStatus = ''running'',
     n_OTPRelease = [], n_Version = ''5.8.0'', n_Role = role, n_Edition = edition, n_Session = 0,
     n_Connections = 0, n_Uptime = 1\<rparr>"

section \<open>Environment\<close>

definition exHocon :: "unit hoconLib" where
  "exHocon = \<lparr>h_ParseString = (\<lambda>_. Inr ()), h_GetString = (\<lambda>_ _. []), h_GetObject = (\<lambda>_ _. []),
     h_isObject = (\<lambda>_. True), h_fields = (\<lambda>_. []), h_object = (\<lambda>_. ()), h_String = (\<lambda>_. []),
     intstr_Parse = StrVal, intstr_IntValue = (\<lambda>v. case v of IntVal i \<Rightarrow> i | StrVal _ \<Rightarrow> 0)\<rparr>"

definition exHash :: hashLib where
  "exHash = \<lparr>hl_spew = (\<lambda>_. ''template''), hl_SafeEncodeString = (\<lambda>s. s)\<rparr>"

definition exOK :: "string \<Rightarrow> httpResponse" where
  "exOK body = \<lparr>resp_StatusCode = 200, resp_Status = ''200 OK'', resp_Body = body, resp_ReadErr = None\<rparr>"

definition exKeys :: secret where
  "exKeys = \<lparr>sec_meta = emptyMeta,
     sec_Data = Some [''bootstrap_api_key'' \<mapsto> ''emqx-operator-controller:pw''], sec_StringData = None\<rparr>"

text \<open>
  The world is the clock, which advances with every reading. The cluster is given by the stored
  resource, its sets and its pods; the EMQX API answers 200.
\<close>

record exCluster =
  ex_emqx :: "goerr + EMQX"
  ex_sts :: "statefulSet list"
  ex_rs :: "replicaSet list"
  ex_pods :: "pod list"
  ex_nodes :: "EMQXNode list"
  ex_rebalance :: "goerr + Rebalance"
  ex_created :: "goerr option"

definition exEnv :: "exCluster \<Rightarrow> (time, unit) env" where
  "exEnv C = \<lparr>hocon = exHocon, hashes = exHash, setControllerReference = (\<lambda>_ m. Inr m),
     semverLess = (\<lambda>_ _. Some False), calculateTemplate = (\<lambda>_ _. Inr True), calculate = (\<lambda>_ _. Inr True),
     setLastApplied = Inr, unmarshalNodes = (\<lambda>_. Inr (ex_nodes C)),
     unmarshalNode = (\<lambda>_. Inr (case ex_nodes C of [] \<Rightarrow> None | n # _ \<Rightarrow> Some n)),
     unmarshalEvacuations = (\<lambda>_. Inr []), unmarshalRebalances = (\<lambda>_. Inr []), 
     unmarshalNodes4 = (\<lambda>_. Inr []), unmarshalEvacuations4 = (\<lambda>_. Inr (Some [])),
     unmarshalListeners4 = (\<lambda>_. Inr []), unmarshalPlugins4 = (\<lambda>_. Inr []), validLabels = (\<lambda>_. True),
     mapFirst = (\<lambda>_. None), maxCollisions = 4,
     jsonGetPath = (\<lambda>m p. mget m (filter (\<lambda>c. c \<noteq> CHR 0x5C) p)),
     jsonSetPath = (\<lambda>m p v. Inr (mset_key m (filter (\<lambda>c. c \<noteq> CHR 0x5C) p) v)),
     gjsonString = (\<lambda>_ _. []),
     gjsonRaw = (\<lambda>_ _. []), errorText = (\<lambda>_. []), parseFloat = JStr, joinHostPort = (\<lambda>h p. h @ '':'' @ p),
     newRequestErr = (\<lambda>_. None), retrySteps = 1, w_now = (\<lambda>w. (w, w + 1)),
     w_listSts = (\<lambda>_ _ w. (ex_sts C, w)), w_listRs = (\<lambda>_ _ w. (ex_rs C, w)),
     w_listPods = (\<lambda>_ _ w. (ex_pods C, w)), w_listPvcs = (\<lambda>_ _ w. ([], w)),
     w_listEvents = (\<lambda>_ _ w. ([], w)),
     w_getPod = (\<lambda>_ _ w. (case ex_pods C of [] \<Rightarrow> Inl ErrNotFound | p # _ \<Rightarrow> Inr p, w)),
     w_getSecret = (\<lambda>_ _ w. (Inr exKeys, w)), w_getConfigMap = (\<lambda>_ _ w. (Inl ErrNotFound, w)),
     w_listStsE = (\<lambda>_ _ w. (Inr (ex_sts C), w)), w_listPodsE = (\<lambda>_ _ w. (Inr (ex_pods C), w)),
     w_listPlugins = (\<lambda>_ w. (Inr [], w)), w_listBrokers = (\<lambda>_ _ w. (Inr [], w)),
     w_listEnterprises = (\<lambda>_ _ w. (Inr [], w)), w_getSts = (\<lambda>_ _ w. (Inl ErrNotFound, w)),
     w_getBroker = (\<lambda>_ _ w. (Inl ErrNotFound, w)), w_getPlugin = (\<lambda>_ _ w. (Inl ErrNotFound, w)),
     w_statusEmqx = (\<lambda>x w. (Inr x, w)),
     w_getEMQX = (\<lambda>_ _ w. (ex_emqx C, w)), w_getEnterprise = (\<lambda>_ _ w. (Inl ErrNotFound, w)),
     w_getRebalance = (\<lambda>_ _ w. (ex_rebalance C, w)), w_getObj = (\<lambda>_ w. (Inl ErrNotFound, w)),
     w_create = (\<lambda>_ w. (ex_created C, w)), w_update = (\<lambda>_ w. (None, w)), w_delete = (\<lambda>_ w. (None, w)),
     w_updateEMQX = (\<lambda>x w. (Inr x, w)), w_statusEMQX = (\<lambda>x w. (Inr x, w)),
     w_updateRebalance = (\<lambda>x w. (Inr x, w)), w_statusRebalance = (\<lambda>x w. (Inr x, w)),
     w_patchPodStatus = (\<lambda>_ _ w. (None, w)), w_do = (\<lambda>_ w. (Inr (exOK []), w)),
     w_password = (\<lambda>w. (''pw'', w)), w_serverVersion = (\<lambda>w. (''1.28'', w))\<rparr>"

definition exEmpty :: exCluster where
  "exEmpty = \<lparr>ex_emqx = Inl ErrNotFound, ex_sts = [], ex_rs = [], ex_pods = [], ex_nodes = [],
     ex_rebalance = Inl ErrNotFound, ex_created = None\<rparr>"

definition exStart :: "time st" where
  "exStart = \<lparr>world = 1000 * nanosPerSecond, trace = []\<rparr>"

definition runOf :: "(time, 'a) op \<Rightarrow> call list" where
  "runOf m = trace (snd (run_state m exStart))"

text \<open>What a trace law says of one run.\<close>

lemma obeys_run: "obeys m P \<Longrightarrow> P (fst (run_state m exStart)) (runOf m)"
  unfolding obeys_def runOf_def by (metis append_Nil exStart_def st.select_convs(2))

text \<open>The objects a run updates, creates and deletes.\<close>

definition updatedObjs :: "call list \<Rightarrow> obj list" where
  "updatedObjs l = concat (map (\<lambda>c. case c of TUpdate ob _ \<Rightarrow> [ob] | _ \<Rightarrow> []) l)"

definition deletedObjs :: "call list \<Rightarrow> obj list" where
  "deletedObjs l = concat (map (\<lambda>c. case c of TDelete ob _ \<Rightarrow> [ob] | _ \<Rightarrow> []) l)"

lemma mem_updatedObjs: "ob \<in> set (updatedObjs l) \<longleftrightarrow> (\<exists>e. TUpdate ob e \<in> set l)"
proof -
  have "ob \<in> set (case c of TUpdate ob _ \<Rightarrow> [ob] | _ \<Rightarrow> []) \<longleftrightarrow> (\<exists>e. c = TUpdate ob e)" for c
    by (cases c) auto
  then show ?thesis by (auto simp: updatedObjs_def)
qed

lemma mem_deletedObjs: "ob \<in> set (deletedObjs l) \<longleftrightarrow> (\<exists>e. TDelete ob e \<in> set l)"
proof -
  have "ob \<in> set (case c of TDelete ob _ \<Rightarrow> [ob] | _ \<Rightarrow> []) \<longleftrightarrow> (\<exists>e. c = TDelete ob e)" for c
    by (cases c) auto
  then show ?thesis by (auto simp: deletedObjs_def)
qed

lemma exEnv_annotatorOk: "annotatorOk (exEnv C)"
proof -
  have "\<exists>a. ob = setObjMeta ((objMeta ob)\<lparr>om_Annotations := a\<rparr>) ob" for ob
    by (rule exI[of _ "om_Annotations (objMeta ob)"]) (cases ob; simp)
  then show ?thesis by (simp add: annotatorOk_def exEnv_def)
qed

end
