(* ===== verification/Update_Status.thy ===== *)
theory Update_Status
  imports Reads
begin

text \<open>
  The sub-reconciler \<open>updateStatus\<close> (\<open>controllers/apps/v2beta1/update_emqx_status.go\<close>): it elects
  the current revision, reads the nodes from the EMQX API, counts them, and advances the status
  machine by one step.
\<close>

section \<open>The EMQX API\<close>

definition urlString :: "url \<Rightarrow> string" where
  "urlString u = url_Scheme u @ ''://'' @ url_Host u @ ''/'' @ url_Path u @
     (if url_RawQuery u = [] then [] else ''?'' @ url_RawQuery u)"

definition badStatus :: "string \<Rightarrow> url \<Rightarrow> httpResponse \<Rightarrow> goerr" where
  "badStatus what u resp =
     ErrText (what @ urlString u @ '', status : '' @ resp_Status resp @ '', body: '' @ resp_Body resp)"

definition getEMQXNodesByAPI :: "('w, 'c) env \<Rightarrow> Requester \<Rightarrow> ('w, goerr + EMQXNode list) op" where
  "getEMQXNodesByAPI E r =
     (let u = GetURL r ''api/v5/nodes'' []
      in do {
        resp \<leftarrow> Request E r ''GET'' u JNull [];
        ret (case resp of
               Inl err \<Rightarrow> Inl (ErrWrap (''failed to get API '' @ urlString u) err)
             | Inr rp \<Rightarrow>
                 if resp_StatusCode rp \<noteq> 200 then Inl (badStatus ''failed to get API '' u rp)
                 else (case unmarshalNodes E (resp_Body rp) of
                         Inl err \<Rightarrow> Inl (ErrWrap ''failed to unmarshal node statuses'' err)
                       | Inr nodes \<Rightarrow> Inr nodes)) })"

definition getNodeEvacuationStatusByAPI ::
  "('w, 'c) env \<Rightarrow> Requester \<Rightarrow> ('w, goerr + NodeEvacuationStatus list) op" where
  "getNodeEvacuationStatusByAPI E r =
     (let u = GetURL r ''api/v5/load_rebalance/global_status'' []
      in do {
        resp \<leftarrow> Request E r ''GET'' u JNull [];
        ret (case resp of
               Inl err \<Rightarrow> Inl (ErrWrap (''failed to get API '' @ urlString u) err)
             | Inr rp \<Rightarrow>
                 if resp_StatusCode rp \<noteq> 200 then Inl (badStatus ''failed to get API '' u rp)
                 else (case unmarshalEvacuations E (resp_Body rp) of
                         Inl err \<Rightarrow> Inl (ErrWrap ''failed to unmarshal node statuses'' err)
                       | Inr statuses \<Rightarrow> Inr statuses)) })"

section \<open>Nodes and their pods\<close>

text \<open>The host part of a node name: what follows the first \<open>@\<close>, up to the first colon.\<close>

definition nodeHost :: "string \<Rightarrow> string" where
  "nodeHost node =
     hd (splitByte (CHR '':'')
       (case indexByte node (CHR ''@'') of None \<Rightarrow> node | Some i \<Rightarrow> drop (i + 1) node))"

text \<open>
  The inner loop over the pods for one node: the node keeps the UIDs it was given by an earlier
  pod, and is appended once for every pod that matches and has a controller.
\<close>

fun matchPods ::
  "EMQXNode \<Rightarrow> pod list \<Rightarrow> EMQXNode list \<Rightarrow> EMQXNode list \<Rightarrow> EMQXNode list \<times> EMQXNode list" where
  "matchPods node [] coreNodes replicantNodes = (coreNodes, replicantNodes)"
| "matchPods node (p # ps) coreNodes replicantNodes =
     (let host = nodeHost (n_Node node)
      in if n_Role node = ''core'' \<and> hasPrefix host (om_Name (pod_meta p)) then
           (let node1 = node\<lparr>n_PodUID := om_UID (pod_meta p)\<rparr>
            in case om_controller (pod_meta p) of
                 None \<Rightarrow> matchPods node1 ps coreNodes replicantNodes
               | Some uid \<Rightarrow>
                   (let node2 = node1\<lparr>n_ControllerUID := uid\<rparr>
                    in matchPods node2 ps (coreNodes @ [node2]) replicantNodes))
         else if n_Role node = ''replicant'' \<and> host = pod_PodIP p then
           (let node1 = node\<lparr>n_PodUID := om_UID (pod_meta p)\<rparr>
            in case om_controller (pod_meta p) of
                 None \<Rightarrow> matchPods node1 ps coreNodes replicantNodes
               | Some uid \<Rightarrow>
                   (let node2 = node1\<lparr>n_ControllerUID := uid\<rparr>
                    in matchPods node2 ps coreNodes (replicantNodes @ [node2])))
         else matchPods node ps coreNodes replicantNodes)"

fun matchNodes ::
  "EMQXNode list \<Rightarrow> pod list \<Rightarrow> EMQXNode list \<Rightarrow> EMQXNode list \<Rightarrow> EMQXNode list \<times> EMQXNode list" where
  "matchNodes [] pods coreNodes replicantNodes = (coreNodes, replicantNodes)"
| "matchNodes (node # nodes) pods coreNodes replicantNodes =
     (case matchPods node pods coreNodes replicantNodes of
        (cores, repls) \<Rightarrow> matchNodes nodes pods cores repls)"

definition lessUptime :: "EMQXNode \<Rightarrow> EMQXNode \<Rightarrow> bool" where
  "lessUptime a b = (n_Uptime a < n_Uptime b)"

definition assignNodes :: "EMQXNode list \<Rightarrow> pod list \<Rightarrow> EMQXNode list \<times> EMQXNode list" where
  "assignNodes nodes pods =
     (case matchNodes nodes pods [] [] of
        (coreNodes, replicantNodes) \<Rightarrow>
          (go_sort lessUptime coreNodes, go_sort lessUptime replicantNodes))"

definition getEMQXNodes ::
  "('w, 'c) env \<Rightarrow> EMQX \<Rightarrow> Requester \<Rightarrow> ('w, goerr + EMQXNode list \<times> EMQXNode list) op" where
  "getEMQXNodes E x r = do {
     nodes \<leftarrow> getEMQXNodesByAPI E r;
     (case nodes of
        Inl err \<Rightarrow> ret (Inl (ErrWrap ''failed to get node statues by API'' err))
      | Inr emqxNodes \<Rightarrow> do {
          pods \<leftarrow> listPods E (om_Namespace (Meta x)) (DefaultLabels x);
          ret (Inr (assignNodes emqxNodes pods)) }) }"

section \<open>Counters and revisions\<close>

definition countNodes :: "(EMQXNode \<Rightarrow> bool) \<Rightarrow> EMQXNode list \<Rightarrow> int" where
  "countNodes P nodes = int32 (int (length (filter P nodes)))"

definition countStatus ::
  "EMQXNode list \<Rightarrow> string option \<Rightarrow> string option \<Rightarrow> EMQXNodesStatus \<Rightarrow> EMQXNodesStatus" where
  "countStatus nodes currentUID updateUID ns =
     ns\<lparr>ns_ReadyReplicas := countNodes (\<lambda>n. n_NodeStatus n = ''running'') nodes,
        ns_CurrentReplicas := countNodes (\<lambda>n. Some (n_ControllerUID n) = currentUID) nodes,
        ns_UpdateReplicas := countNodes (\<lambda>n. Some (n_ControllerUID n) = updateUID) nodes\<rparr>"

definition defaultRevision :: "EMQXNodesStatus \<Rightarrow> EMQXNodesStatus" where
  "defaultRevision ns =
     (if ns_UpdateRevision ns \<noteq> [] \<and> ns_CurrentRevision ns = []
      then ns\<lparr>ns_CurrentRevision := ns_UpdateRevision ns\<rparr> else ns)"

definition startStatus :: "EMQX \<Rightarrow> EMQX go" where
  "startStatus x =
     (case t_Replicas (ct_Spec (CoreTemplate (Spec x))) of
        None \<Rightarrow> Panic
      | Some coreReplicas \<Rightarrow>
          let s = Status x;
              s1 = s\<lparr>CoreNodesStatus := (CoreNodesStatus s)\<lparr>ns_Replicas := coreReplicas\<rparr>\<rparr>;
              finish = (\<lambda>s. Ret (x\<lparr>Status := s\<lparr>CoreNodesStatus := defaultRevision (CoreNodesStatus s),
                                     ReplicantNodesStatus := defaultRevision (ReplicantNodesStatus s)\<rparr>\<rparr>))
          in case ReplicantTemplate (Spec x) of
               None \<Rightarrow> finish s1
             | Some t \<Rightarrow>
                 (case t_Replicas (rt_Spec t) of
                    None \<Rightarrow> Panic
                  | Some n \<Rightarrow>
                      finish (s1\<lparr>ReplicantNodesStatus := (ReplicantNodesStatus s1)\<lparr>ns_Replicas := n\<rparr>\<rparr>)))"

text \<open>
  The election of a current set: \<open>Some\<close> its metadata when the current set is gone, or is another
  set than the update set and has no replicas left. The oldest set with replicas is taken, else the
  update set.
\<close>

definition elect ::
  "('s \<Rightarrow> objectMeta) \<Rightarrow> ('s \<Rightarrow> setStatus) \<Rightarrow> 's option \<times> 's option \<times> 's list \<Rightarrow> 's option" where
  "elect meta st sets =
     (case sets of (updateSet, currentSet, oldList) \<Rightarrow>
        (case updateSet of
           None \<Rightarrow> None
         | Some upd \<Rightarrow>
             if (case currentSet of
                   None \<Rightarrow> True
                 | Some cur \<Rightarrow> om_UID (meta upd) \<noteq> om_UID (meta cur) \<and> st_Replicas (st cur) = 0)
             then Some (case find (\<lambda>s. st_Replicas (st s) > 0) oldList of Some s \<Rightarrow> s | None \<Rightarrow> upd)
             else None))"

definition setCoreRevision :: "EMQX \<Rightarrow> string \<Rightarrow> EMQX" where
  "setCoreRevision x h = x\<lparr>Status := (Status x)\<lparr>CoreNodesStatus :=
     (CoreNodesStatus (Status x))\<lparr>ns_CurrentRevision := h\<rparr>\<rparr>\<rparr>"

definition setReplicantRevision :: "EMQX \<Rightarrow> string \<Rightarrow> EMQX" where
  "setReplicantRevision x h = x\<lparr>Status := (Status x)\<lparr>ReplicantNodesStatus :=
     (ReplicantNodesStatus (Status x))\<lparr>ns_CurrentRevision := h\<rparr>\<rparr>\<rparr>"

section \<open>The machine against the API server\<close>

text \<open>
  \<open>newEMQXStatusMachine(u.Client, instance).NextStatus(ctx)\<close>: the sets are listed only where the
  current status asks for them. The clock is read once per step.
\<close>

definition nextStatusByAPI :: "('w, 'c) env \<Rightarrow> machine \<Rightarrow> ('w, machine go) op" where
  "nextStatusByAPI E mc =
     (case mc of (x, m) \<Rightarrow> do {
        now \<leftarrow> timeNow E;
        sts \<leftarrow> (if m = coreNodesProgressing \<or> m = ready
                then listSts E (om_Namespace (Meta x)) (DefaultCoreLabels x) else ret []);
        rs \<leftarrow> (if IsExistReplicant x \<and>
                  (m = replicantNodesProgressing \<or> (m = ready \<and> \<not> coreDegraded sts x))
               then listRs E (om_Namespace (Meta x)) (DefaultReplicantLabels x) else ret []);
        ret (NextStatus now sts rs mc) })"

definition advanceByAPI :: "('w, 'c) env \<Rightarrow> EMQX \<Rightarrow> ('w, machine go) op" where
  "advanceByAPI E x =
     (case GetLastTrueCondition (Status x) of
        None \<Rightarrow> do { now0 \<leftarrow> timeNow E; nextStatusByAPI E (newEMQXStatusMachine now0 x) }
      | Some _ \<Rightarrow> nextStatusByAPI E (newEMQXStatusMachine zeroTime x))"

section \<open>updateStatus\<close>

fun isEnterpriser :: "statefulSet option \<Rightarrow> EMQXNode list \<Rightarrow> bool go" where
  "isEnterpriser currentSts [] = Ret False"
| "isEnterpriser None (node # nodes) = Panic"
| "isEnterpriser (Some sts) (node # nodes) =
     (if n_ControllerUID node = om_UID (sts_meta sts) \<and> n_Edition node = ''Enterprise''
      then Ret True else isEnterpriser (Some sts) nodes)"

definition stsUID :: "statefulSet option \<Rightarrow> string option" where
  "stsUID s = map_option (\<lambda>s. om_UID (sts_meta s)) s"

definition rsUID :: "replicaSet option \<Rightarrow> string option" where
  "rsUID s = map_option (\<lambda>s. om_UID (rs_meta s)) s"

definition recordNodes ::
  "EMQX \<Rightarrow> EMQXNode list \<Rightarrow> EMQXNode list \<Rightarrow> string option \<Rightarrow> string option \<Rightarrow> string option \<Rightarrow>
   string option \<Rightarrow> EMQX" where
  "recordNodes x coreNodes replNodes currentSts updateSts currentRs updateRs =
     (let s = Status x
      in x\<lparr>Status := s\<lparr>CoreNodes := coreNodes,
             CoreNodesStatus := countStatus coreNodes currentSts updateSts (CoreNodesStatus s),
             ReplicantNodes := replNodes,
             ReplicantNodesStatus := countStatus replNodes currentRs updateRs (ReplicantNodesStatus s)\<rparr>\<rparr>)"

definition wrapStatusErr :: "goerr option \<times> EMQX \<Rightarrow> (subResult \<times> EMQX) go" where
  "wrapStatusErr res =
     (case res of
        (Some err, y) \<Rightarrow> Ret (done_err (ErrWrap ''failed to update status'' err), y)
      | (None, y) \<Rightarrow> Ret (done_ok, y))"

definition refreshNodes ::
  "('w, 'c) env \<Rightarrow> EMQX \<Rightarrow> Requester \<Rightarrow> statefulSet option \<Rightarrow> statefulSet option \<Rightarrow>
   replicaSet option \<Rightarrow> replicaSet option \<Rightarrow> ('w, (subResult \<times> EMQX) go) op" where
  "refreshNodes E x r currentSts updateSts currentRs updateRs = do {
     nodes \<leftarrow> getEMQXNodes E x r;
     _ \<leftarrow> (case nodes of
            Inl _ \<Rightarrow> recordEvent ''Warning'' ''FailedToGetNodeStatuses''
          | Inr _ \<Rightarrow> ret ());
     let (coreNodes, replNodes) = (case nodes of Inl _ \<Rightarrow> ([], []) | Inr ns \<Rightarrow> ns);
     let x1 = recordNodes x coreNodes replNodes (stsUID currentSts) (stsUID updateSts)
                (rsUID currentRs) (rsUID updateRs);
     (case isEnterpriser currentSts coreNodes of
        Panic \<Rightarrow> ret Panic
      | Ret enterprise \<Rightarrow> do {
          x2 \<leftarrow> (if enterprise then do {
                   evac \<leftarrow> getNodeEvacuationStatusByAPI E r;
                   _ \<leftarrow> (case evac of
                          Inl _ \<Rightarrow> recordEvent ''Warning'' ''FailedToGetNodeEvacuationStatuses''
                        | Inr _ \<Rightarrow> ret ());
                   ret (x1\<lparr>Status := (Status x1)\<lparr>NodeEvacuationsStatus :=
                          (case evac of Inl _ \<Rightarrow> [] | Inr e \<Rightarrow> e)\<rparr>\<rparr>) }
                 else ret x1);
          advanced \<leftarrow> advanceByAPI E x2;
          (case advanced of
             Panic \<Rightarrow> ret Panic
           | Ret (y, _) \<Rightarrow> do {
               res \<leftarrow> statusUpdate E y;
               ret (wrapStatusErr res) }) }) }"

definition updateStatus :: "('w, 'c) handler" where
  "updateStatus E instance r =
     (case startStatus instance of
        Panic \<Rightarrow> ret Panic
      | Ret x \<Rightarrow> do {
          stsSets \<leftarrow> readStatefulSets E x;
          (case elect sts_meta sts_status stsSets of
             Some sts \<Rightarrow> do {
               res \<leftarrow> statusUpdate E (setCoreRevision x (labelHash (sts_meta sts)));
               ret (wrapStatusErr res) }
           | None \<Rightarrow> do {
               rsSets \<leftarrow> readReplicaSets E x;
               (case elect rs_meta rs_status rsSets of
                  Some rs \<Rightarrow> do {
                    res \<leftarrow> statusUpdate E (setReplicantRevision x (labelHash (rs_meta rs)));
                    ret (wrapStatusErr res) }
                | None \<Rightarrow>
                    (case r of
                       None \<Rightarrow> ret (Ret (done_ok, x))
                     | Some rq \<Rightarrow>
                         refreshNodes E x rq (fst (snd stsSets)) (fst stsSets)
                           (fst (snd rsSets)) (fst rsSets))) }) })"

section \<open>Lemmas: nodes and pods\<close>

text \<open>The entry of a node on a pod.\<close>

definition onPod :: "EMQXNode \<Rightarrow> pod \<Rightarrow> EMQXNode \<Rightarrow> bool" where
  "onPod node p n \<longleftrightarrow>
     n_PodUID n = om_UID (pod_meta p) \<and> om_controller (pod_meta p) = Some (n_ControllerUID n) \<and>
     n = node\<lparr>n_PodUID := n_PodUID n, n_ControllerUID := n_ControllerUID n\<rparr>"

lemma onPod_update [simp]:
  "onPod (node\<lparr>n_PodUID := u\<rparr>) p n = onPod node p n"
  "onPod (node\<lparr>n_ControllerUID := c\<rparr>) p n = onPod node p n"
  by (auto simp: onPod_def)

definition coreEntry :: "EMQXNode \<Rightarrow> pod list \<Rightarrow> EMQXNode \<Rightarrow> bool" where
  "coreEntry node pods n \<longleftrightarrow>
     (\<exists>p \<in> set pods. onPod node p n \<and> n_Role node = ''core'' \<and>
        hasPrefix (nodeHost (n_Node node)) (om_Name (pod_meta p)))"

definition replicantEntry :: "EMQXNode \<Rightarrow> pod list \<Rightarrow> EMQXNode \<Rightarrow> bool" where
  "replicantEntry node pods n \<longleftrightarrow>
     (\<exists>p \<in> set pods. onPod node p n \<and> n_Role node = ''replicant'' \<and>
        nodeHost (n_Node node) = pod_PodIP p)"

lemma entry_simps [simp]:
  "\<not> coreEntry node [] n" "\<not> replicantEntry node [] n"
  "coreEntry (node\<lparr>n_PodUID := u\<rparr>) ps n = coreEntry node ps n"
  "coreEntry (node\<lparr>n_ControllerUID := c\<rparr>) ps n = coreEntry node ps n"
  "replicantEntry (node\<lparr>n_PodUID := u\<rparr>) ps n = replicantEntry node ps n"
  "replicantEntry (node\<lparr>n_ControllerUID := c\<rparr>) ps n = replicantEntry node ps n"
  by (simp_all add: coreEntry_def replicantEntry_def)

lemma entry_Cons:
  "coreEntry node (p # ps) n \<longleftrightarrow>
     (onPod node p n \<and> n_Role node = ''core'' \<and> hasPrefix (nodeHost (n_Node node)) (om_Name (pod_meta p))) \<or>
     coreEntry node ps n"
  "replicantEntry node (p # ps) n \<longleftrightarrow>
     (onPod node p n \<and> n_Role node = ''replicant'' \<and> nodeHost (n_Node node) = pod_PodIP p) \<or>
     replicantEntry node ps n"
  by (auto simp: coreEntry_def replicantEntry_def)

lemma onPod_set:
  "om_controller (pod_meta p) = Some uid \<Longrightarrow>
   onPod node p n \<longleftrightarrow> n = node\<lparr>n_PodUID := om_UID (pod_meta p), n_ControllerUID := uid\<rparr>"
  by (auto simp: onPod_def)

lemma onPod_None: "om_controller (pod_meta p) = None \<Longrightarrow> \<not> onPod node p n"
  by (simp add: onPod_def)

text \<open>The inner loop collects exactly the entries of the node.\<close>

lemma set_matchPods:
  "set (fst (matchPods node ps cs rs)) = set cs \<union> {n. coreEntry node ps n}"
  "set (snd (matchPods node ps cs rs)) = set rs \<union> {n. replicantEntry node ps n}"
proof (induction node ps cs rs rule: matchPods.induct)
  case (2 node p ps cs rs)
  {
    case 1
    show ?case
      using 2 by (cases "om_controller (pod_meta p)")
        (auto simp: Let_def entry_Cons onPod_set onPod_None)
  next
    case 2
    show ?case
      using "2.IH" by (cases "om_controller (pod_meta p)")
        (auto simp: Let_def entry_Cons onPod_set onPod_None)
  }
qed auto

lemma set_matchNodes:
  "set (fst (matchNodes nodes ps cs rs)) = set cs \<union> {n. \<exists>node \<in> set nodes. coreEntry node ps n}"
  "set (snd (matchNodes nodes ps cs rs)) = set rs \<union> {n. \<exists>node \<in> set nodes. replicantEntry node ps n}"
proof (induction nodes arbitrary: cs rs)
  case (Cons node nodes)
  {
    case 1
    show ?case
      using Cons.IH(1)[of "fst (matchPods node ps cs rs)" "snd (matchPods node ps cs rs)"]
        set_matchPods[of node ps cs rs]
      by (auto simp: split_beta)
  next
    case 2
    show ?case
      using Cons.IH(2)[of "fst (matchPods node ps cs rs)" "snd (matchPods node ps cs rs)"]
        set_matchPods[of node ps cs rs]
      by (auto simp: split_beta)
  }
qed simp_all

interpretation uptime: go_less lessUptime
  unfolding lessUptime_def by unfold_locales auto

lemma assignNodes_entries:
  "set (fst (assignNodes nodes pods)) = {n. \<exists>node \<in> set nodes. coreEntry node pods n}"
  "set (snd (assignNodes nodes pods)) = {n. \<exists>node \<in> set nodes. replicantEntry node pods n}"
  using set_matchNodes[of nodes pods "[]" "[]"] by (simp_all add: assignNodes_def split_beta)

lemma assignNodes_sorted:
  "sorted_wrt (\<lambda>a b. n_Uptime a \<le> n_Uptime b) (fst (assignNodes nodes pods))"
  "sorted_wrt (\<lambda>a b. n_Uptime a \<le> n_Uptime b) (snd (assignNodes nodes pods))"
proof -
  have "sorted_wrt (\<lambda>a b. n_Uptime a \<le> n_Uptime b) (go_sort lessUptime xs)" for xs
    using uptime.go_sort_sorted[of xs]
    by (rule sorted_wrt_mono_rel[rotated]) (simp add: lessUptime_def)
  then show "sorted_wrt (\<lambda>a b. n_Uptime a \<le> n_Uptime b) (fst (assignNodes nodes pods))"
    "sorted_wrt (\<lambda>a b. n_Uptime a \<le> n_Uptime b) (snd (assignNodes nodes pods))"
    by (simp_all add: assignNodes_def split_beta)
qed

section \<open>Lemmas: election\<close>

lemma elect_SomeD:
  assumes "elect meta st (updateSet, currentSet, oldList) = Some s"
  shows "updateSet = Some s \<or> (s \<in> set oldList \<and> st_Replicas (st s) > 0)"
  using assms
  by (auto simp: elect_def find_Some_iff split: option.splits if_splits)

section \<open>Lemmas: the calls of updateStatus\<close>

text \<open>The clock readings of a trace, and a clock that runs after every stored condition.\<close>

fun clockOf :: "call list \<Rightarrow> time list" where
  "clockOf [] = []"
| "clockOf (TNow t # l) = t # clockOf l"
| "clockOf (_ # l) = clockOf l"

definition clockAfter :: "EMQXStatus \<Rightarrow> call list \<Rightarrow> bool" where
  "clockAfter s l \<longleftrightarrow> sorted_wrt (<) (clockOf l) \<and> (\<forall>t \<in> set (clockOf l). beforeNow t s)"

lemma clockOf_append [simp]: "clockOf (l @ l') = clockOf l @ clockOf l'"
  by (induction l rule: clockOf.induct) auto

text \<open>A call that reads, or tells the user; and the status writes of a trace.\<close>

fun readOnly :: "call \<Rightarrow> bool" where
  "readOnly (TNow _) = True"
| "readOnly (TListSts _ _ _) = True"
| "readOnly (TListRs _ _ _) = True"
| "readOnly (TListPods _ _ _) = True"
| "readOnly (TListEvents _ _ _) = True"
| "readOnly (TGetPod _ _ _) = True"
| "readOnly (TGetSecret _ _ _) = True"
| "readOnly (TGetConfigMap _ _ _) = True"
| "readOnly (TGetObj _ _) = True"
| "readOnly (TEvent _ _) = True"
| "readOnly (TServerVersion _) = True"
| "readOnly (TPassword _) = True"
| "readOnly (THttp req _) = (hr_Method req = ''GET'')"
| "readOnly _ = False"

lemma hr_Method_build [simp]: "hr_Method (buildRequest r m u b h) = m"
  by (simp add: buildRequest_def)

lemma obeys_Request_GET:
  "obeys (Request E r ''GET'' u body header) (\<lambda>_ l. list_all readOnly l \<and> clockOf l = [])"
  by (rule obeys_Request) auto

lemma obeys_getEMQXNodesByAPI:
  "obeys (getEMQXNodesByAPI E r) (\<lambda>_ l. list_all readOnly l \<and> clockOf l = [])"
  unfolding getEMQXNodesByAPI_def Let_def
  by (rule obeys_bind[OF obeys_Request_GET]) (auto intro!: obeys_return)

lemma obeys_getNodeEvacuationStatusByAPI:
  "obeys (getNodeEvacuationStatusByAPI E r) (\<lambda>_ l. list_all readOnly l \<and> clockOf l = [])"
  unfolding getNodeEvacuationStatusByAPI_def Let_def
  by (rule obeys_bind[OF obeys_Request_GET]) (auto intro!: obeys_return)

lemma obeys_getEMQXNodes:
  "obeys (getEMQXNodes E x r) (\<lambda>_ l. list_all readOnly l \<and> clockOf l = [])"
  unfolding getEMQXNodes_def listPods_def
  by (intro obeys_bind[OF obeys_getEMQXNodesByAPI] obeys_intros) auto

lemma obeys_nextStatusByAPI:
  "obeys (nextStatusByAPI E mc)
     (\<lambda>res l. \<exists>now sts rs. res = NextStatus now sts rs mc \<and> clockOf l = [now] \<and> list_all readOnly l)"
proof -
  obtain x m where mc: "mc = (x, m)" by (cases mc)
  have a: "obeys (if b then listSts E ns ls else ret []) (\<lambda>_ l. list_all readOnly l \<and> clockOf l = [])"
    "obeys (if b then listRs E ns ls else ret []) (\<lambda>_ l. list_all readOnly l \<and> clockOf l = [])"
    for b ns ls
    by (auto simp: listSts_def listRs_def intro!: obeys_intros)
  show ?thesis
    unfolding nextStatusByAPI_def timeNow_def mc prod.case
    by (intro obeys_bind_prim obeys_bind[OF a(1)] obeys_bind[OF a(2)] obeys_return)
      (auto intro!: exI)
qed

lemma obeys_advanceByAPI:
  "obeys (advanceByAPI E x)
     (\<lambda>res l. \<exists>now0 now sts rs. res = advance now0 now sts rs x \<and> list_all readOnly l \<and>
        (clockAfter (Status x) l \<longrightarrow> clocked now0 now (Status x)))"
proof (cases "GetLastTrueCondition (Status x)")
  case None
  have "obeys (do { now0 \<leftarrow> timeNow E; nextStatusByAPI E (newEMQXStatusMachine now0 x) })
     (\<lambda>res l. \<exists>now0 now sts rs. res = advance now0 now sts rs x \<and> list_all readOnly l \<and>
        (clockAfter (Status x) l \<longrightarrow> clocked now0 now (Status x)))"
    unfolding timeNow_def
  proof (intro obeys_bind_prim obeys_mono[OF obeys_nextStatusByAPI], elim exE conjE)
    fix now0 res l now sts rs
    assume "res = NextStatus now sts rs (newEMQXStatusMachine now0 x)" "clockOf l = [now]"
      "list_all readOnly l"
    then have "res = advance now0 now sts rs x \<and> list_all readOnly (TNow now0 # l) \<and>
        (clockAfter (Status x) (TNow now0 # l) \<longrightarrow> clocked now0 now (Status x))"
      by (auto simp: advance_def clockAfter_def clocked_def)
    then show "\<exists>now0' now sts rs. res = advance now0' now sts rs x \<and>
        list_all readOnly (TNow now0 # l) \<and>
        (clockAfter (Status x) (TNow now0 # l) \<longrightarrow> clocked now0' now (Status x))" by blast
  qed
  with None show ?thesis by (simp add: advanceByAPI_def)
next
  case (Some c)
  have "\<exists>now0 now sts rs. res = advance now0 now sts rs x \<and> list_all readOnly l \<and>
        (clockAfter (Status x) l \<longrightarrow> clocked now0 now (Status x))"
    if "res = NextStatus now sts rs (newEMQXStatusMachine zeroTime x)" "clockOf l = [now]"
      "list_all readOnly l" for res l now sts rs
  proof -
    have "res = advance zeroTime now sts rs x \<and> list_all readOnly l \<and>
        (clockAfter (Status x) l \<longrightarrow> clocked zeroTime now (Status x))"
      using that Some by (auto simp: advance_def clockAfter_def clocked_def)
    then show ?thesis by blast
  qed
  then have "obeys (nextStatusByAPI E (newEMQXStatusMachine zeroTime x))
     (\<lambda>res l. \<exists>now0 now sts rs. res = advance now0 now sts rs x \<and> list_all readOnly l \<and>
        (clockAfter (Status x) l \<longrightarrow> clocked now0 now (Status x)))"
    by (intro obeys_mono[OF obeys_nextStatusByAPI]) blast
  with Some show ?thesis by (simp add: advanceByAPI_def)
qed

text \<open>
  The status \<open>updateStatus\<close> writes: reachable in the sense of \<open>Status_Machine\<close> when the one it
  started from is and the clock runs on.
\<close>

definition statusWrites :: "call list \<Rightarrow> EMQX list" where
  "statusWrites l = concat (map (\<lambda>c. case c of TStatusEMQX y _ \<Rightarrow> [y] | _ \<Rightarrow> []) l)"

lemma statusWrites_simps [simp]:
  "statusWrites [] = []" "statusWrites (l @ l') = statusWrites l @ statusWrites l'"
  "statusWrites (TStatusEMQX y a # l) = y # statusWrites l"
  by (simp_all add: statusWrites_def)

lemma statusWrites_readOnly: "list_all readOnly l \<Longrightarrow> statusWrites l = []"
  by (induction l) (auto simp: statusWrites_def split: call.splits)

definition writesReachable :: "EMQX \<Rightarrow> call list \<Rightarrow> bool" where
  "writesReachable x l \<longleftrightarrow>
     list_all (\<lambda>c. readOnly c \<or> (\<exists>y a. c = TStatusEMQX y a)) l \<and>
     length (statusWrites l) \<le> 1 \<and>
     (clockAfter (Status x) l \<longrightarrow> statusReachable x \<longrightarrow> list_all statusReachable (statusWrites l))"

lemma same_conditions:
  assumes "Conditions (Status y) = Conditions (Status x)"
  shows "statusReachable y = statusReachable x" "clockAfter (Status y) l = clockAfter (Status x) l"
proof -
  show "statusReachable y = statusReachable x"
    using assms statusReachable.step statusStep.other_step by metis
  show "clockAfter (Status y) l = clockAfter (Status x) l"
    using assms by (simp add: clockAfter_def beforeNow_def)
qed

lemma writesReachable_readOnly: "list_all readOnly l \<Longrightarrow> writesReachable x l"
  by (auto simp: writesReachable_def statusWrites_readOnly list_all_iff)

lemma clockAfter_mono: "clockAfter s (l @ l') \<Longrightarrow> clockAfter s l"
  "clockAfter s (l @ l') \<Longrightarrow> clockAfter s l'"
  by (auto simp: clockAfter_def sorted_wrt_append)

lemma writesReachable_write:
  assumes "list_all readOnly l" "clockAfter (Status x) l \<Longrightarrow> statusReachable x \<Longrightarrow> statusReachable y"
  shows "writesReachable x (l @ [TStatusEMQX y a])"
proof -
  have "clockAfter (Status x) (l @ [TStatusEMQX y a]) \<Longrightarrow> clockAfter (Status x) l"
    by (rule clockAfter_mono)
  with assms show ?thesis
    by (auto simp: writesReachable_def statusWrites_readOnly list_all_iff)
qed

lemma startStatus_conditions:
  "startStatus x = Ret y \<Longrightarrow> Conditions (Status y) = Conditions (Status x)"
  by (auto simp: startStatus_def Let_def split: option.splits)

lemma revision_conditions [simp]:
  "Conditions (Status (setCoreRevision x h)) = Conditions (Status x)"
  "Conditions (Status (setReplicantRevision x h)) = Conditions (Status x)"
  "Conditions (Status (recordNodes x cs rs a b c d)) = Conditions (Status x)"
  by (simp_all add: setCoreRevision_def setReplicantRevision_def recordNodes_def Let_def)

text \<open>Advancing the machine and writing the status: the last part of the handler.\<close>

lemma obeys_advance_write:
  assumes "Conditions (Status y) = Conditions (Status x)" "list_all readOnly pre"
  shows "obeys (do {
      advanced \<leftarrow> advanceByAPI E y;
      (case advanced of
         Panic \<Rightarrow> ret Panic
       | Ret (z, _) \<Rightarrow> do { res \<leftarrow> statusUpdate E z; ret (wrapStatusErr res) }) })
    (\<lambda>_ l. writesReachable x (pre @ l))"
proof (rule obeys_bind[OF obeys_advanceByAPI], elim exE conjE)
  fix adv l now0 now sts rs
  assume adv: "adv = advance now0 now sts rs y" "list_all readOnly l"
    "clockAfter (Status y) l \<longrightarrow> clocked now0 now (Status y)"
  show "obeys (case adv of Panic \<Rightarrow> ret Panic
      | Ret (z, _) \<Rightarrow> do { res \<leftarrow> statusUpdate E z; ret (wrapStatusErr res) })
      (\<lambda>_ l'. writesReachable x (pre @ l @ l'))"
  proof (cases adv)
    case Panic
    with adv(2) assms(2) show ?thesis by (auto intro!: obeys_return writesReachable_readOnly)
  next
    case (Ret zm)
    obtain z m where zm: "zm = (z, m)" by (cases zm)
    have "statusReachable z" if "clockAfter (Status x) (pre @ l)" "statusReachable x"
    proof -
      have "clocked now0 now (Status y)"
        using adv(3) clockAfter_mono(2)[OF that(1)] same_conditions(2)[OF assms(1)] by blast
      then have "statusStep y z"
        using adv(1) Ret zm by (intro statusStep.advance_step[of now0 now y sts rs z m]) simp_all
      with that(2) show ?thesis using same_conditions(1)[OF assms(1)] statusReachable.step by blast
    qed
    then have "writesReachable x ((pre @ l) @ [TStatusEMQX z a])" for a
      using adv(2) assms(2) by (intro writesReachable_write) auto
    then show ?thesis
      using Ret zm by (auto intro!: obeys_bind_statusUpdate obeys_return)
  qed
qed

lemma obeys_refreshNodes:
  assumes "Conditions (Status y) = Conditions (Status x)" "list_all readOnly pre"
  shows "obeys (refreshNodes E y r a b c d) (\<lambda>_ l. writesReachable x (pre @ l))"
proof -
  have ev: "obeys (case n of Inl _ \<Rightarrow> recordEvent k m | Inr _ \<Rightarrow> ret ())
      (\<lambda>_ l. list_all readOnly l)" for n :: "goerr + 'z" and k m
    by (auto simp: recordEvent_def intro!: obeys_intros)
  have evac: "obeys (if enterprise then do {
                   evac \<leftarrow> getNodeEvacuationStatusByAPI E r;
                   _ \<leftarrow> (case evac of
                          Inl _ \<Rightarrow> recordEvent ''Warning'' ''FailedToGetNodeEvacuationStatuses''
                        | Inr _ \<Rightarrow> ret ());
                   ret (z\<lparr>Status := (Status z)\<lparr>NodeEvacuationsStatus :=
                          (case evac of Inl _ \<Rightarrow> [] | Inr e \<Rightarrow> e)\<rparr>\<rparr>) }
                 else ret z)
      (\<lambda>w l. list_all readOnly l \<and> Conditions (Status w) = Conditions (Status z))"
    for enterprise and z :: EMQX
    by (intro obeys_if obeys_return obeys_bind[OF obeys_getNodeEvacuationStatusByAPI] obeys_bind[OF ev])
      auto
  show ?thesis
    unfolding refreshNodes_def Let_def
    by (intro obeys_bind[OF obeys_getEMQXNodes] obeys_bind[OF ev] obeys_case_prod obeys_case_go
        obeys_return obeys_bind[OF evac])
      (auto intro!: writesReachable_readOnly obeys_advance_write simp: assms append_assoc[symmetric]
        simp del: append_assoc)
qed

lemma obeys_updateStatus:
  "obeys (updateStatus E x r) (\<lambda>_ l. writesReachable x l)"
proof (cases "startStatus x")
  case Panic
  then show ?thesis
    by (auto simp: updateStatus_def intro!: obeys_return writesReachable_readOnly)
next
  case (Ret y)
  note same = startStatus_conditions[OF Ret]
  have written: "writesReachable x (l @ [TStatusEMQX z a])"
    if "list_all readOnly l" "Conditions (Status z) = Conditions (Status y)" for l z a
    using that same same_conditions(1)[of z x] by (intro writesReachable_write) auto
  show ?thesis
    unfolding updateStatus_def Ret go.case
    by (intro obeys_bind_readSts obeys_case_option obeys_bind_statusUpdate obeys_return obeys_bind_readRs)
      (auto intro: writesReachable_readOnly obeys_refreshNodes[of y x "[_, _]", simplified]
        written[of "[_]", simplified] written[of "[_, _]", simplified] simp: same)
qed

section \<open>The contract\<close>

lemma only_api [only_intros]:
  "onlyCalls (writeOk E) (getEMQXNodesByAPI E rq)" "onlyCalls (writeOk E) (getNodeEvacuationStatusByAPI E rq)"
  "onlyCalls (writeOk E) (getEMQXNodes E x rq)" "onlyCalls (writeOk E) (advanceByAPI E x)"
  unfolding getEMQXNodes_def getEMQXNodesByAPI_def getNodeEvacuationStatusByAPI_def advanceByAPI_def
    nextStatusByAPI_def call_defs
  by (intro only_intros; simp)+

lemma only_refreshNodes [only_intros]: "only (writeOk E) resultOk (refreshNodes E x rq a b c d)"
  unfolding refreshNodes_def recordEvent_def wrapStatusErr_def
  by (intro only_intros) (auto split: option.splits)

interpretation updateStatus_contract: sub_reconciler updateStatus
proof unfold_locales
  fix E :: "('w, 'c) env" and x r
  show "only (writeOk E) resultOk (updateStatus E x r)"
    unfolding updateStatus_def wrapStatusErr_def by (intro only_intros) (auto split: option.splits)
qed

end
