(* ===== verification/Status_Properties.thy ===== *)
theory Status_Properties
  imports Examples Update_Status
begin

text \<open>
  The properties of the conditions, of the status machine and of \<open>updateStatus\<close>, with the concrete
  runs that witness them.
\<close>

section \<open>Helper lemmas\<close>

lemma advanceAll_reachable:
  assumes "status_inv (Status x)" "beforeNow t (Status x)" "settled S R x" "ticking t clocks"
    and "statusReachable x" "advanceAll clocks S R x = Ret y"
  shows "statusReachable y"
  using assms
proof (induction clocks arbitrary: x t)
  case (Cons c clocks)
  obtain now0 now where c: "c = (now0, now)" by (cases c)
  have clk: "clocked now0 now (Status x)"
    using Cons.prems(2,4) beforeNow_mono by (auto simp: c intro!: clockedI)
  from advance_settled[OF Cons.prems(1) clk Cons.prems(3)] obtain z m where
    z: "advance now0 now S R x = Ret (z, m)" "sameButConditions x z" "status_inv (Status z)"
      "beforeNow (now + 1) (Status z)" by blast
  have "statusReachable z"
    using Cons.prems(5) advance_step[OF clk z(1)] statusReachable.step by blast
  then show ?case
    using Cons.prems(3,4,6) z sameButConditions_simps(2)[OF z(2)]
    by (intro Cons.IH[of z "now + 1"]) (auto simp: c z(1))
qed simp

lemma stepsLeft_Ready:
  assumes "status_inv (Status y)" "stepsLeft y = 0"
  shows "IsConditionTrue (Status y) Ready"
  using assms lastTrue_is_true[of "Status y" Ready] by (simp add: stepsLeft_0 status_inv_def)

definition exClocks :: "(time \<times> time) list" where
  "exClocks = [(1, 2), (4, 5), (7, 8), (10, 11), (13, 14), (16, 17)]"

definition exFresh :: EMQX where
  "exFresh = exEMQX [] ''h'' ''h''"

definition exStsList :: "statefulSet list" where
  "exStsList = [exSts ''emqx-core-h'' ''h'' 1]"

definition exUpdated :: "(time, unit) env" where
  "exUpdated = exEnv (exEmpty\<lparr>ex_sts := exStsList\<rparr>)"

definition exRequester :: Requester where
  "exRequester = \<lparr>rq_Schema = ''http'', rq_Host = ''10.0.0.1:18083'', rq_Username = ''u'', rq_Password = ''p''\<rparr>"

lemma exFresh_start: "statusReachable exFresh" "beforeNow 1 (Status exFresh)" "ticking 1 exClocks"
  "settled exStsList [] exFresh"
proof -
  show "statusReachable exFresh" by (rule statusReachable.start) (simp add: exFresh_def exEMQX_def exStatus_def)
  show "beforeNow 1 (Status exFresh)" by (simp add: beforeNow_def exFresh_def exEMQX_def exStatus_def)
  show "ticking 1 exClocks" by (simp add: exClocks_def)
  show "settled exStsList [] exFresh" by code_simp
qed

section \<open>Conditions\<close>

text \<open>
  C30. \<open>SetCondition\<close> refines an update of a map from condition type to condition: the condition is
  stored with the current time, every other type keeps its condition, and the list keeps one entry
  per type, newest first.
\<close>

theorem SetCondition_refines:
  assumes "conditions_inv s"
  shows "conditionMap (SetCondition now s c) =
      (conditionMap s)(cd_Type c \<mapsto> c\<lparr>cd_LastTransitionTime := now\<rparr>) \<and>
    conditions_inv (SetCondition now s c)"
  using assms by (simp add: conditionMap_SetCondition SetCondition_inv)

theorem SetCondition_refines_witness:
  "conditionMap (SetCondition 7 (exStatus [exCondition Available 3] [] []) (exCondition Ready 0)) =
     (conditionMap (exStatus [exCondition Available 3] [] []))(Ready \<mapsto> exCondition Ready 7) \<and>
   conditions_inv (SetCondition 7 (exStatus [exCondition Available 3] [] []) (exCondition Ready 0))"
proof -
  have "conditions_inv (exStatus [exCondition Available 3] [] [])"
    by (simp add: conditions_inv_def exStatus_def)
  from SetCondition_refines[OF this, of 7 "exCondition Ready 0"] show ?thesis
    by (simp add: exCondition_def)
qed

text \<open>
  \<open>RemoveCondition\<close> refines the deletion of a key: the type is gone, every other type keeps its
  condition, and the list keeps its invariant.
\<close>

theorem RemoveCondition_refines:
  assumes "conditions_inv s"
  shows "conditionMap (RemoveCondition s t) = (conditionMap s)(t := None) \<and>
    conditions_inv (RemoveCondition s t)"
  using assms by (simp add: conditionMap_RemoveCondition RemoveCondition_inv)

theorem RemoveCondition_refines_witness:
  "conditionMap (RemoveCondition (exStatus [exCondition Ready 5, exCondition Available 3] [] []) Ready) Available =
     Some (exCondition Available 3) \<and>
   conditionMap (RemoveCondition (exStatus [exCondition Ready 5, exCondition Available 3] [] []) Ready) Ready = None"
proof -
  have "conditions_inv (exStatus [exCondition Ready 5, exCondition Available 3] [] [])"
    by (simp add: conditions_inv_def exStatus_def exCondition_def)
  from RemoveCondition_refines[OF this, of Ready] show ?thesis
    by (simp add: conditionMap_def exStatus_def exCondition_def)
qed

text \<open>
  \<open>GetLastTrueCondition\<close> returns the true condition that was set last: no true condition is
  newer, and there is none at all when it returns nil.
\<close>

theorem GetLastTrueCondition_newest_true:
  assumes "conditions_inv s"
  shows "case GetLastTrueCondition s of
      None \<Rightarrow> (\<forall>d \<in> set (Conditions s). cd_Status d \<noteq> ConditionTrue)
    | Some c \<Rightarrow> c \<in> set (Conditions s) \<and> cd_Status c = ConditionTrue \<and>
        (\<forall>d \<in> set (Conditions s). cd_Status d = ConditionTrue \<longrightarrow>
           cd_LastTransitionTime d \<le> cd_LastTransitionTime c)"
proof (cases "GetLastTrueCondition s")
  case None
  then have "\<forall>d \<in> set (Conditions s). cd_Status d \<noteq> ConditionTrue"
    by (simp add: GetLastTrueCondition_def find_None_iff)
  with None show ?thesis by simp
next
  case (Some c)
  then have "c \<in> set (Conditions s)" "cd_Status c = ConditionTrue"
    by (auto simp: GetLastTrueCondition_def dest: find_SomeD)
  with Some GetLastTrueCondition_newest[OF assms Some] show ?thesis by simp
qed

theorem GetLastTrueCondition_newest_true_witness:
  "GetLastTrueCondition (exStatus [exCondition Ready 5, exCondition Available 3] [] []) =
     Some (exCondition Ready 5) \<and>
   list_all (\<lambda>d. cd_LastTransitionTime d \<le> 5)
     (Conditions (exStatus [exCondition Ready 5, exCondition Available 3] [] []))"
proof -
  have "conditions_inv (exStatus [exCondition Ready 5, exCondition Available 3] [] [])"
    by (simp add: conditions_inv_def exStatus_def exCondition_def)
  from GetLastTrueCondition_newest_true[OF this] show ?thesis
    by (simp add: GetLastTrueCondition_def exStatus_def exCondition_def)
qed

section \<open>The status machine\<close>

text \<open>
  C1. In every status the controller can bring about, \<open>Ready\<close> stands on \<open>Available\<close>,
  \<open>Available\<close> on \<open>CoreNodesReady\<close>, and no condition type occurs twice.
\<close>

theorem reachable_ladder:
  assumes "statusReachable x"
  shows "(IsConditionTrue (Status x) Ready \<longrightarrow> IsConditionTrue (Status x) Available) \<and>
    (IsConditionTrue (Status x) Available \<longrightarrow> IsConditionTrue (Status x) CoreNodesReady) \<and>
    distinct (map cd_Type (Conditions (Status x)))"
  using statusReachable_inv[OF assms] by (auto simp: status_inv_def ladder_def)

theorem reachable_ladder_witness:
  "\<exists>y. advanceAll exClocks exStsList [] exFresh = Ret y \<and> statusReachable y \<and>
     IsConditionTrue (Status y) Ready \<and> IsConditionTrue (Status y) CoreNodesReady"
proof -
  note ex = exFresh_start
  note inv = statusReachable_inv[OF ex(1)]
  have "stepsLeft exFresh \<le> length exClocks"
    using stepsLeft_bound[of exFresh] by (simp add: exClocks_def)
  from advanceAll_ready[OF inv ex(2,4,3) this] obtain y where
    y: "advanceAll exClocks exStsList [] exFresh = Ret y" "stepsLeft y = 0" "status_inv (Status y)"
    by blast
  have "statusReachable y" by (rule advanceAll_reachable[OF inv ex(2,4,3,1) y(1)])
  from y stepsLeft_Ready[OF y(3,2)] this reachable_ladder[OF this] show ?thesis by blast
qed

text \<open>
  C7. A settled cluster becomes \<open>Ready\<close>: from every reachable status, six runs of the machine over
  sets that have the replicas the spec asks for end with the condition \<open>Ready\<close> true, without a
  panic.
\<close>

theorem settled_becomes_ready:
  assumes "statusReachable x" "beforeNow t (Status x)" "settled stsItems rsItems x"
    and "ticking t clocks" "6 \<le> length clocks"
  shows "\<exists>y. advanceAll clocks stsItems rsItems x = Ret y \<and> IsConditionTrue (Status y) Ready"
proof -
  have "stepsLeft x \<le> length clocks" using stepsLeft_bound[of x] assms(5) by simp
  from advanceAll_ready[OF statusReachable_inv[OF assms(1)] assms(2-4) this] show ?thesis
    using stepsLeft_Ready by blast
qed

theorem settled_becomes_ready_witness:
  "\<exists>y. advanceAll exClocks exStsList [] exFresh = Ret y \<and> IsConditionTrue (Status y) Ready"
  by (rule settled_becomes_ready[OF exFresh_start(1,2,4,3)]) (simp add: exClocks_def)

text \<open>The edges of the machine, as the comments of \<open>status_machine.go\<close> draw them.\<close>

fun mayFollow :: "machineStatus \<Rightarrow> machineStatus \<Rightarrow> bool" where
  "mayFollow initialized m = (m = coreNodesProgressing)"
| "mayFollow coreNodesProgressing m = (m = coreNodesProgressing \<or> m = coreNodesReady)"
| "mayFollow coreNodesReady m = (m = replicantNodesProgressing \<or> m = available)"
| "mayFollow replicantNodesProgressing m =
     (m = replicantNodesProgressing \<or> m = replicantNodesReady \<or> m = coreNodesProgressing)"
| "mayFollow replicantNodesReady m = (m = available \<or> m = coreNodesProgressing)"
| "mayFollow available m = (m = available \<or> m = ready)"
| "mayFollow ready m = (m = ready \<or> m = coreNodesProgressing \<or> m = replicantNodesProgressing)"

lemma setCurrentStatus_same:
  "lastTrueType (Status x) = Some t \<Longrightarrow> setCurrentStatus now x = (x, statusOfType t)"
  by (auto simp: setCurrentStatus_def lastTrueType_def)

lemma NextStatus_edge:
  assumes "conditions_inv (Status x)" "beforeNow now (Status x)" "lastTrueType (Status x) = Some t"
    and "NextStatus now S R (x, statusOfType t) = Ret (y, m)"
  shows "mayFollow (statusOfType t) m \<and> (\<exists>u. lastTrueType (Status y) = Some u \<and> m = statusOfType u)"
proof -
  note set = setCurrentStatus_after_Set[OF assms(1,2)] set_step(1)[OF assms(1,2)]
  note same = setCurrentStatus_same[OF assms(3)]
  note init = initializedNext_status(1,3)[OF assms(1,2)]
  have byInit: ?thesis if "initializedNext now x = (y, m)" "mayFollow (statusOfType t) coreNodesProgressing"
    using init that by (auto intro!: exI[of _ CoreNodesProgressing])
  show ?thesis
  proof (cases "statusOfType t")
    case initialized
    with assms(4) have "initializedNext now x = (y, m)" by simp
    then show ?thesis by (rule byInit) (simp add: initialized)
  next
    case coreNodesProgressing
    with assms(3,4) set same show ?thesis
      by (auto simp: coreNodesProgressingNext_def split: option.splits if_splits)
  next
    case coreNodesReady
    with assms(4) set show ?thesis by (auto simp: codeNodesReadyNext_def split: if_splits)
  next
    case replicantNodesProgressing
    with assms(3,4) set same byInit show ?thesis
      by (auto simp: replicantNodesProgressingNext_def split: option.splits if_splits)
  next
    case replicantNodesReady
    with assms(4) set byInit show ?thesis by (auto simp: replicantNodesReadyNext_def split: if_splits)
  next
    case available
    then have "t = Available" by (simp add: statusOfType_eq)
    with available assms(3,4) set show ?thesis
      by (auto simp: availableNext_def Let_def split: if_splits)
  next
    case ready
    then have t: "t = Ready" by (simp add: statusOfType_eq)
    let ?x = "removeStatusCondition (removeStatusCondition (removeStatusCondition x Ready) Available)
      ReplicantNodesReady"
    have r: "conditions_inv (Status ?x)" "beforeNow now (Status ?x)"
      using assms(1,2) by (simp_all add: remove_lemmas)
    show ?thesis
      using ready t assms(3,4) byInit setCurrentStatus_after_Set[OF r] set_step(1)[OF r]
      by (auto simp: readyNext_def Let_def split: if_splits)
  qed
qed

text \<open>
  The machine moves only along its edges: whatever the sets of the cluster look like, one step
  goes from the status it was built in to one that may follow it, and the status it ends in is again
  the last true condition, so the next reconcile builds the same machine.
\<close>

theorem advance_edges:
  assumes "statusReachable x" "clocked now0 now (Status x)"
    and "advance now0 now stsItems rsItems x = Ret (y, m)"
  shows "mayFollow (snd (newEMQXStatusMachine now0 x)) m \<and> snd (newEMQXStatusMachine now y) = m"
proof -
  obtain z n where z: "newEMQXStatusMachine now0 x = (z, n)" by (cases "newEMQXStatusMachine now0 x")
  note ms = newMachine_status[OF statusReachable_inv[OF assms(1)] assms(2) z]
  from ms(2) obtain t where t: "lastTrueType (Status z) = Some t" "n = statusOfType t" by blast
  have "mayFollow (statusOfType t) m \<and> (\<exists>u. lastTrueType (Status y) = Some u \<and> m = statusOfType u)"
    using ms(1,3) t assms(3) z by (intro NextStatus_edge) (auto simp: advance_def status_inv_def)
  then show ?thesis
    using z t setCurrentStatus_same by (auto simp: newEMQXStatusMachine_def)
qed

theorem advance_edges_witness:
  "\<exists>y. advance 1 2 exStsList [] exFresh = Ret (y, coreNodesProgressing) \<and>
     snd (newEMQXStatusMachine 2 y) = coreNodesProgressing"
proof -
  have clk: "clocked 1 2 (Status exFresh)" by (rule clockedI[OF exFresh_start(2)]) simp
  have "(case advance 1 2 exStsList [] exFresh of Ret (y, m) \<Rightarrow> m = coreNodesProgressing | Panic \<Rightarrow> False)"
    by code_simp
  then obtain y where "advance 1 2 exStsList [] exFresh = Ret (y, coreNodesProgressing)"
    by (auto split: go.splits prod.splits)
  with advance_edges[OF exFresh_start(1) clk this] show ?thesis by blast
qed

definition allRunning :: "EMQXNodesStatus \<Rightarrow> bool" where
  "allRunning ns \<longleftrightarrow> ns_ReadyReplicas ns = ns_Replicas ns \<and> ns_UpdateRevision ns = ns_CurrentRevision ns"

lemma initializedNext_Ready:
  assumes "conditions_inv (Status x)" "beforeNow now (Status x)"
  shows "\<not> IsConditionTrue (Status (fst (initializedNext now x))) Ready"
    "\<not> IsConditionTrue (Status (fst (initializedNext now x))) Available"
  using assms
  by (simp_all add: initializedNext_def Let_def setCurrentStatus_after_Set remove_lemmas condition_simps)

lemma NextStatus_ready:
  assumes "conditions_inv (Status x)" "beforeNow now (Status x)" "lastTrueType (Status x) = Some t"
    and "NextStatus now S R (x, statusOfType t) = Ret (y, m)"
    and "IsConditionTrue (Status y) Ready" "\<not> IsConditionTrue (Status x) Ready"
  shows "allRunning (CoreNodesStatus (Status x)) \<and>
    (IsExistReplicant x \<longrightarrow> allRunning (ReplicantNodesStatus (Status x)))"
proof -
  note set = setCurrentStatus_after_Set[OF assms(1,2)]
  note same = setCurrentStatus_same[OF assms(3)]
  note init = initializedNext_Ready(1)[OF assms(1,2)]
  have noInit: False if "initializedNext now x = (y, m)" using init assms(5) that by simp
  show ?thesis
  proof (cases "statusOfType t")
    case initialized
    with assms(4) noInit show ?thesis by simp
  next
    case coreNodesProgressing
    with assms set same show ?thesis
      by (auto simp: coreNodesProgressingNext_def condition_simps split: option.splits if_splits)
  next
    case coreNodesReady
    with assms set show ?thesis by (auto simp: codeNodesReadyNext_def condition_simps split: if_splits)
  next
    case replicantNodesProgressing
    with assms set same noInit show ?thesis
      by (auto simp: replicantNodesProgressingNext_def condition_simps split: option.splits if_splits)
  next
    case replicantNodesReady
    with assms set noInit show ?thesis
      by (auto simp: replicantNodesReadyNext_def condition_simps split: if_splits)
  next
    case available
    with assms show ?thesis
      by (auto simp: availableNext_def allRunning_def Let_def split: if_splits)
  next
    case ready
    then have "t = Ready" by (simp add: statusOfType_eq)
    with lastTrue_is_true[OF assms(1,3)] assms(6) show ?thesis by simp
  qed
qed

text \<open>
  C9. The cluster is only reported \<open>Ready\<close> when it is: a step after which \<open>Ready\<close> is true and
  before which it was not starts from a status in which all core nodes run, of the revision the spec
  asks for, and all replicant nodes too when the cluster has replicants.
\<close>

theorem ready_only_when_running:
  assumes "statusReachable x" "clocked now0 now (Status x)"
    and "advance now0 now stsItems rsItems x = Ret (y, m)"
    and "IsConditionTrue (Status y) Ready" "\<not> IsConditionTrue (Status x) Ready"
  shows "allRunning (CoreNodesStatus (Status x)) \<and>
    (IsExistReplicant x \<longrightarrow> allRunning (ReplicantNodesStatus (Status x)))"
proof -
  note inv = statusReachable_inv[OF assms(1)]
  obtain z n where z: "newEMQXStatusMachine now0 x = (z, n)" by (cases "newEMQXStatusMachine now0 x")
  note ms = newMachine_status[OF inv assms(2) z] and same = newMachine_same(1)[OF inv assms(2) z]
  from ms(2) obtain t where t: "lastTrueType (Status z) = Some t" "n = statusOfType t" by blast
  have "\<not> IsConditionTrue (Status z) Ready"
    using assms(5) z inv
    by (auto simp: newEMQXStatusMachine_def setCurrentStatus_def status_inv_def condition_simps
        split: option.splits)
  then have "allRunning (CoreNodesStatus (Status z)) \<and>
      (IsExistReplicant z \<longrightarrow> allRunning (ReplicantNodesStatus (Status z)))"
    using ms(1,3) t assms(3,4) z by (intro NextStatus_ready) (auto simp: advance_def status_inv_def)
  with same show ?thesis by (simp add: sameButConditions_def sameButConditions_simps(1)[OF same])
qed

text \<open>The example cluster after three steps, and after four.\<close>

lemma exAvailable:
  obtains y w m where "advanceAll (take 3 exClocks) exStsList [] exFresh = Ret y" "statusReachable y"
    "clocked 10 11 (Status y)" "\<not> IsConditionTrue (Status y) Ready"
    "advance 10 11 exStsList [] y = Ret (w, m)" "IsConditionTrue (Status w) Ready"
    "statusReachable w" "beforeNow 12 (Status w)" "lastTrueType (Status w) = Some Ready"
proof -
  note ex = exFresh_start
  have run: "(case advanceAll (take 3 exClocks) exStsList [] exFresh of
      Ret y \<Rightarrow> beforeNow 10 (Status y) \<and> \<not> IsConditionTrue (Status y) Ready \<and>
        (case advance 10 11 exStsList [] y of
           Ret (w, m) \<Rightarrow> IsConditionTrue (Status w) Ready \<and> beforeNow 12 (Status w) \<and>
             lastTrueType (Status w) = Some Ready
         | Panic \<Rightarrow> False)
    | Panic \<Rightarrow> False)"
    by code_simp
  then obtain y where y: "advanceAll (take 3 exClocks) exStsList [] exFresh = Ret y"
      "beforeNow 10 (Status y)" "\<not> IsConditionTrue (Status y) Ready"
    by (auto split: go.splits)
  with run obtain w m where w: "advance 10 11 exStsList [] y = Ret (w, m)" "IsConditionTrue (Status w) Ready"
      "beforeNow 12 (Status w)" "lastTrueType (Status w) = Some Ready"
    by (auto split: go.splits prod.splits)
  have "statusReachable y"
    by (rule advanceAll_reachable[OF statusReachable_inv[OF ex(1)] ex(2,4) _ ex(1) y(1)])
      (simp add: exClocks_def)
  moreover have clk: "clocked 10 11 (Status y)" by (rule clockedI[OF y(2)]) simp
  ultimately show ?thesis
    using that[OF y(1) _ clk y(3) w(1,2) _ w(3,4)] advance_step[OF clk w(1)] statusReachable.step by blast
qed

theorem ready_only_when_running_witness:
  "\<exists>y w m. advanceAll (take 3 exClocks) exStsList [] exFresh = Ret y \<and>
     advance 10 11 exStsList [] y = Ret (w, m) \<and> IsConditionTrue (Status w) Ready \<and>
     allRunning (CoreNodesStatus (Status y))"
proof -
  obtain y w m where y: "advanceAll (take 3 exClocks) exStsList [] exFresh = Ret y" "statusReachable y"
    "clocked 10 11 (Status y)" "\<not> IsConditionTrue (Status y) Ready"
    "advance 10 11 exStsList [] y = Ret (w, m)" "IsConditionTrue (Status w) Ready"
    by (rule exAvailable)
  from ready_only_when_running[OF y(2,3,5,6,4)] y show ?thesis by blast
qed

text \<open>
  A ready cluster that loses a core node is reported so: when the update StatefulSet no longer has
  the ready replicas of the status, the next step takes \<open>Ready\<close> and \<open>Available\<close> away and starts
  again at \<open>CoreNodesProgressing\<close>.
\<close>

theorem degraded_cluster_leaves_ready:
  assumes "statusReachable x" "clocked now0 now (Status x)"
    and "lastTrueType (Status x) = Some Ready" "coreDegraded stsItems x"
  shows "\<exists>y. advance now0 now stsItems rsItems x = Ret (y, coreNodesProgressing) \<and>
    \<not> IsConditionTrue (Status y) Ready \<and> \<not> IsConditionTrue (Status y) Available \<and>
    lastTrueType (Status y) = Some CoreNodesProgressing"
proof -
  have inv: "conditions_inv (Status x)" "beforeNow now (Status x)"
    using statusReachable_inv[OF assms(1)] assms(2) by (simp_all add: status_inv_def clocked_def)
  have "newEMQXStatusMachine now0 x = (x, ready)"
    using assms(3) by (simp add: newEMQXStatusMachine_def setCurrentStatus_same)
  with assms(4) have "advance now0 now stsItems rsItems x = Ret (initializedNext now x)"
    by (simp add: advance_def readyNext_def)
  then show ?thesis
    using initializedNext_status(1,3)[OF inv] initializedNext_Ready[OF inv]
    by (cases "initializedNext now x") simp
qed

theorem degraded_cluster_leaves_ready_witness:
  "\<exists>x y. lastTrueType (Status x) = Some Ready \<and>
     advance 12 13 [exSts ''emqx-core-h'' ''h'' 0] [] x = Ret (y, coreNodesProgressing) \<and>
     \<not> IsConditionTrue (Status y) Ready"
proof -
  obtain y w m where w: "statusReachable w" "beforeNow 12 (Status w)" "lastTrueType (Status w) = Some Ready"
    "advance 10 11 exStsList [] y = Ret (w, m)" "advanceAll (take 3 exClocks) exStsList [] exFresh = Ret y"
    by (rule exAvailable)
  have clk: "clocked 12 13 (Status w)" by (rule clockedI[OF w(2)]) simp
  have "(case advanceAll (take 3 exClocks) exStsList [] exFresh of
      Ret y \<Rightarrow> (case advance 10 11 exStsList [] y of
           Ret (w, m) \<Rightarrow> coreDegraded [exSts ''emqx-core-h'' ''h'' 0] w | Panic \<Rightarrow> False)
    | Panic \<Rightarrow> False)"
    by code_simp
  then have "coreDegraded [exSts ''emqx-core-h'' ''h'' 0] w" using w by simp
  from degraded_cluster_leaves_ready[OF w(1) clk w(3) this] w(3) show ?thesis by blast
qed

text \<open>
  C10. \<open>updateStatus\<close> writes the status at most once per run and nothing else, and when the status it
  read is reachable and the clock runs on, the status it writes satisfies the ladder.
\<close>

theorem updateStatus_writes:
  "obeys (updateStatus E x r) (\<lambda>res l.
     length (statusWrites l) \<le> 1 \<and> (\<forall>c \<in> set l. k8sWrite c \<longrightarrow> (\<exists>y a. c = TStatusEMQX y a)) \<and>
     (statusReachable x \<and> clockAfter (Status x) l \<longrightarrow> (\<forall>y \<in> set (statusWrites l). status_inv (Status y))))"
proof -
  have "readOnly c \<Longrightarrow> \<not> k8sWrite c" for c by (cases c) auto
  then show ?thesis
    by (intro obeys_mono[OF obeys_updateStatus])
      (auto simp: writesReachable_def list_all_iff intro: statusReachable_inv)
qed

theorem updateStatus_writes_witness:
  "\<exists>y. statusWrites (runOf (updateStatus exUpdated exFresh (Some exRequester))) = [y] \<and>
     IsConditionTrue (Status y) CoreNodesProgressing \<and> status_inv (Status y)"
proof -
  let ?l = "runOf (updateStatus exUpdated exFresh (Some exRequester))"
  have "(case statusWrites ?l of [y] \<Rightarrow> IsConditionTrue (Status y) CoreNodesProgressing | _ \<Rightarrow> False) \<and>
      sorted_wrt (<) (clockOf ?l)"
    by code_simp
  then obtain y where y: "statusWrites ?l = [y]" "IsConditionTrue (Status y) CoreNodesProgressing"
      and clk: "sorted_wrt (<) (clockOf ?l)"
    by (auto split: list.splits)
  have "clockAfter (Status exFresh) ?l"
    using clk by (simp add: clockAfter_def beforeNow_def exFresh_def exEMQX_def exStatus_def)
  with obeys_run[OF updateStatus_writes, of exUpdated exFresh "Some exRequester"] exFresh_start(1) y
  show ?thesis by auto
qed

end
