(* ===== verification/Data_Properties.thy ===== *)
theory Data_Properties
  imports Examples
begin

text \<open>
  The properties of labels, ports, the classification of sets and the pod template hash, with their
  witnesses.
\<close>

section \<open>Labels\<close>

text \<open>
  \<open>CloneAndMergeMap\<close> never overrides: each key has the value of the first map that has it, the
  destination first.
\<close>

theorem CloneAndMergeMap_first:
  "mget (CloneAndMergeMap dst srcs) k =
     (case find (\<lambda>m. mget m k \<noteq> None) (dst # srcs) of Some m \<Rightarrow> mget m k | None \<Rightarrow> None)"
  by (rule mget_CloneAndMergeMap)

text \<open>
  The selectors of core and replicant objects are exclusive, of any two instances: no labels match
  both, so neither list of sets ever holds an object of the other.
\<close>

theorem core_and_replicant_selectors_exclusive:
  "\<not> (matchesLabels (DefaultCoreLabels x) labels \<and> matchesLabels (DefaultReplicantLabels y) labels)"
  by (rule core_replicant_disjoint)

section \<open>Ports\<close>

lemma trimByte_absent: "c \<notin> set s \<Longrightarrow> trimByte c s = s"
proof -
  assume "c \<notin> set s"
  moreover have "dropWhile (\<lambda>x. x = c) xs = xs" if "c \<notin> set xs" for xs
    using that by (cases xs) auto
  ultimately show ?thesis by (simp add: trimByte_def)
qed

text \<open>
  \<open>MergeServicePorts\<close> yields a list that the API server accepts and loses nothing without
  reason: no name and no port number twice, every port from one of the lists, every dropped port
  clashing in name or number with a kept one, and the first list kept as it is when it has no clash.
\<close>

theorem MergeServicePorts_correct:
  shows "unclashing sp_Name sp_Port (MergeServicePorts ps qs) \<and>
    set (MergeServicePorts ps qs) \<subseteq> set ps \<union> set qs \<and>
    (\<forall>p \<in> set ps \<union> set qs. sp_Name p \<in> sp_Name ` set (MergeServicePorts ps qs) \<or>
       sp_Port p \<in> sp_Port ` set (MergeServicePorts ps qs)) \<and>
    (unclashing sp_Name sp_Port ps \<longrightarrow> (\<exists>kept. MergeServicePorts ps qs = ps @ kept))"
proof (intro conjI ballI impI)
  show "unclashing sp_Name sp_Port (MergeServicePorts ps qs)"
    using mergeLoop_unclashing[of sp_Name sp_Port "[]"] by (simp add: MergeServicePorts_def unclashing_def)
  show "set (MergeServicePorts ps qs) \<subseteq> set ps \<union> set qs"
    using mergeLoop_subset[of sp_Name sp_Port "ps @ qs" "{}" "{}" "[]"] by (simp add: MergeServicePorts_def)
next
  fix p assume "p \<in> set ps \<union> set qs"
  then show "sp_Name p \<in> sp_Name ` set (MergeServicePorts ps qs) \<or>
      sp_Port p \<in> sp_Port ` set (MergeServicePorts ps qs)"
    using mergeLoop_covers[of p "ps @ qs" sp_Name sp_Port "[]"] by (simp add: MergeServicePorts_def)
next
  assume "unclashing sp_Name sp_Port ps"
  then show "\<exists>kept. MergeServicePorts ps qs = ps @ kept"
    using mergeLoop_keeps[of sp_Name sp_Port "[]" ps qs]
      mergeLoop_prefix[of sp_Name sp_Port qs "sp_Name ` set ps" "sp_Port ` set ps" ps]
    by (simp add: MergeServicePorts_def)
qed

theorem MergeServicePorts_correct_witness:
  "\<exists>kept. MergeServicePorts [tcpPort ''mqtt'' 1883] [tcpPort ''tcp'' 1883, tcpPort ''ws'' 8083] =
     tcpPort ''mqtt'' 1883 # kept"
proof -
  have "unclashing sp_Name sp_Port [tcpPort ''mqtt'' 1883]" by (simp add: unclashing_def)
  with MergeServicePorts_correct[of "[tcpPort ''mqtt'' 1883]" "[tcpPort ''tcp'' 1883, tcpPort ''ws'' 8083]"]
  show ?thesis by simp
qed



section \<open>Sets\<close>

text \<open>
  \<open>getStateFulSetList\<close> classifies the listed StatefulSets by their hash label: the update and the
  current set are the last listed ones of their revision, every other labelled set is old exactly
  once, and the old sets come oldest first.
\<close>

theorem getStateFulSetList_classifies:
  assumes "getStateFulSetList items x = (updateSts, currentSts, oldStsList)"
  shows "updateSts = find (\<lambda>s. stsHash s = Some (ns_UpdateRevision (CoreNodesStatus (Status x)))) (rev items) \<and>
    currentSts = find (\<lambda>s. stsHash s = Some (ns_CurrentRevision (CoreNodesStatus (Status x)))) (rev items) \<and>
    mset oldStsList = mset (filter (\<lambda>s. \<exists>h. stsHash s = Some h \<and>
       h \<noteq> ns_UpdateRevision (CoreNodesStatus (Status x)) \<and>
       h \<noteq> ns_CurrentRevision (CoreNodesStatus (Status x))) items) \<and>
    sorted_wrt (\<lambda>a b. om_CreationTimestamp (sts_meta a) \<le> om_CreationTimestamp (sts_meta b)) oldStsList"
proof -
  have old: "oldStsList = go_sort StatefulSetsByCreationTimestamp (filter (\<lambda>s. \<exists>h. stsHash s = Some h \<and>
       h \<noteq> ns_UpdateRevision (CoreNodesStatus (Status x)) \<and>
       h \<noteq> ns_CurrentRevision (CoreNodesStatus (Status x))) items)"
    using assms by (simp add: getStateFulSetList_simps)
  have "sorted_wrt (\<lambda>a b. om_CreationTimestamp (sts_meta a) \<le> om_CreationTimestamp (sts_meta b)) oldStsList"
    unfolding old using stsOrder.go_sort_sorted
    by (rule sorted_wrt_mono_rel[rotated]) (auto simp: StatefulSetsByCreationTimestamp_def split: if_splits)
  then show ?thesis using assms old by (simp add: getStateFulSetList_simps)
qed

theorem getStateFulSetList_classifies_witness:
  "fst (getStateFulSetList [exSts ''a'' ''h1'' 1, exSts ''b'' ''h2'' 1, exSts ''c'' ''h3'' 1]
      (exEMQX [] ''h3'' ''h2'')) = Some (exSts ''c'' ''h3'' 1)"
proof -
  let ?items = "[exSts ''a'' ''h1'' 1, exSts ''b'' ''h2'' 1, exSts ''c'' ''h3'' 1]"
  let ?x = "exEMQX [] ''h3'' ''h2''"
  obtain u c old where g: "getStateFulSetList ?items ?x = (u, c, old)"
    by (cases "getStateFulSetList ?items ?x")
  have h: "stsHash (exSts n k i) = Some k" for n k i by (simp add: stsHash_def exSts_def exLabels_def mget_def)
  have "ns_UpdateRevision (CoreNodesStatus (Status ?x)) = ''h3''"
    by (simp add: exEMQX_def exStatus_def exNodesStatus_def)
  with getStateFulSetList_classifies[OF g] show ?thesis by (simp add: g h)
qed

text \<open>
  C32. \<open>getRsPodMap\<close> maps each listed ReplicaSet to exactly the pods it controls, in their order, and
  no other UID to anything.
\<close>

theorem getRsPodMap_exact:
  "getRsPodMap rss pods uid =
     (if uid \<in> (\<lambda>rs. om_UID (rs_meta rs)) ` set rss
      then Some (filter (\<lambda>p. om_controller (pod_meta p) = Some uid) pods) else None)"
  by (rule getRsPodMap_lookup)

section \<open>The hash\<close>

text \<open>
  Raising the collision count changes the pod template hash, and with it the name of the next
  StatefulSet: the two counts differ in the first byte hashed and FNV-1a is a bijection from there
  on. \<open>SafeEncodeString\<close> maps different decimal numbers to different strings.
\<close>

theorem collision_changes_hash:
  assumes "0 \<le> c" "c mod 256 < 255" "c < 2 ^ 31 - 1"
    and "\<And>m n. hl_SafeEncodeString lib (natDigits m) = hl_SafeEncodeString lib (natDigits n) \<Longrightarrow> m = n"
  shows "computeHash lib template (Some (c + 1)) \<noteq> computeHash lib template (Some c)"
proof
  assume "computeHash lib template (Some (c + 1)) = computeHash lib template (Some c)"
  then have "unat (templateSum32 lib template (Some (c + 1))) = unat (templateSum32 lib template (Some c))"
    unfolding computeHash_def by (rule assms(4))
  then show False using templateSum32_Suc[OF assms(1-3), of lib template] word_unat_eq_iff by blast
qed

theorem collision_changes_hash_witness:
  "computeHash exHash exTemplate (Some 1) \<noteq> computeHash exHash exTemplate (Some 0)"
  using collision_changes_hash[of 0 exHash exTemplate] by (simp add: exHash_def natDigits_inj)

end
