(* ===== verification/Workloads.thy ===== *)
theory Workloads
  imports Reads
begin

text \<open>
  The workloads of an EMQX cluster: the StatefulSet of the core nodes
  (\<open>controllers/apps/v2beta1/add_emqx_core.go\<close>) and the ReplicaSet of the replicant nodes
  (\<open>add_emqx_repl.go\<close>), as they are generated from the custom resource, and the two
  sub-reconcilers that create or update them. A new set is named by the hash of its pod template;
  when the name is taken, the collision count enters the hash.
\<close>

section \<open>Pod templates\<close>

definition emptyContainer :: container where
  "emptyContainer = \<lparr>c_Name = [], c_Image = [], c_ImagePullPolicy = [], c_Command = [], c_Args = [],
     c_WorkingDir = [], c_Ports = [], c_Env = [], c_EnvFrom = [], c_Resources = JNull,
     c_VolumeMounts = [], c_VolumeDevices = [], c_SecurityContext = None, c_LivenessProbe = None,
     c_ReadinessProbe = None, c_StartupProbe = None, c_Lifecycle = None,
     c_TerminationMessagePath = [], c_TerminationMessagePolicy = [], c_Stdin = False,
     c_StdinOnce = False, c_TTY = False\<rparr>"

definition env :: "string \<Rightarrow> string \<Rightarrow> envVar" where
  "env name v = \<lparr>ev_Name = name, ev_Value = EnvValue v\<rparr>"

definition clusterDNSName :: "EMQX \<Rightarrow> string" where
  "clusterDNSName instance =
     snd (HeadlessServiceNamespacedName instance) @ ''.'' @ om_Namespace (Meta instance) @ ''.svc.'' @
     ClusterDomain (Spec instance)"

definition cookieEnv :: "EMQX \<Rightarrow> envVar" where
  "cookieEnv instance = \<lparr>ev_Name = ''EMQX_NODE__COOKIE'',
     ev_Value = EnvSecretKeyRef (snd (NodeCookieNamespacedName instance)) ''node_cookie''\<rparr>"

definition bootstrapFileEnv :: envVar where
  "bootstrapFileEnv = env ''EMQX_API_KEY__BOOTSTRAP_FILE''
     ([dquote] @ ''/opt/emqx/data/bootstrap_api_key'' @ [dquote])"

definition nodeMounts :: "string \<Rightarrow> volumeMount list" where
  "nodeMounts name =
     [\<lparr>vm_Name = ''bootstrap-api-key'', vm_MountPath = ''/opt/emqx/data/bootstrap_api_key'',
       vm_SubPath = ''bootstrap_api_key'', vm_ReadOnly = True\<rparr>,
      \<lparr>vm_Name = ''bootstrap-config'', vm_MountPath = ''/opt/emqx/etc/emqx.conf'',
       vm_SubPath = ''emqx.conf'', vm_ReadOnly = True\<rparr>,
      \<lparr>vm_Name = name @ ''-log'', vm_MountPath = ''/opt/emqx/log'', vm_SubPath = [], vm_ReadOnly = False\<rparr>,
      \<lparr>vm_Name = name @ ''-data'', vm_MountPath = ''/opt/emqx/data'', vm_SubPath = [], vm_ReadOnly = False\<rparr>]"

definition nodeVolumes :: "EMQX \<Rightarrow> string \<Rightarrow> volume list" where
  "nodeVolumes instance name =
     [\<lparr>vol_Name = ''bootstrap-api-key'',
       vol_Source = VolSecret (snd (BootstrapAPIKeyNamespacedName instance))\<rparr>,
      \<lparr>vol_Name = ''bootstrap-config'',
       vol_Source = VolConfigMap (snd (ConfigsNamespacedName instance))\<rparr>,
      \<lparr>vol_Name = name @ ''-log'', vol_Source = VolEmptyDir\<rparr>]"

text \<open>
  The pod template both kinds share: node name, environment and volumes apart, the Go code repeats
  the same fields for the core and the replicant template.
\<close>

definition nodePodTemplate ::
  "EMQX \<Rightarrow> objectMeta \<Rightarrow> gomap \<Rightarrow> ('x EMQXReplicantTemplateSpec_scheme) \<Rightarrow> string \<Rightarrow> envVar list \<Rightarrow>
   volume list \<Rightarrow> podTemplateSpec" where
  "nodePodTemplate instance meta labels spec name envs volumes =
     \<lparr>pt_meta = emptyMeta\<lparr>om_Annotations := om_Annotations meta, om_Labels := labels\<rparr>,
      pt_spec =
        \<lparr>ps_ReadinessGates = [PodOnServing],
         ps_ImagePullSecrets = ImagePullSecrets (Spec instance),
         ps_ServiceAccountName = ServiceAccountName (Spec instance),
         ps_SecurityContext = t_PodSecurityContext spec,
         ps_Affinity = t_Affinity spec,
         ps_Tolerations = t_Tolerations spec @ t_ToleRations spec,
         ps_TopologySpreadConstraints = t_TopologySpreadConstraints spec,
         ps_NodeName = t_NodeName spec,
         ps_NodeSelector = t_NodeSelector spec,
         ps_InitContainers = t_InitContainers spec,
         ps_EphemeralContainers = [],
         ps_Containers =
           emptyContainer
             \<lparr>c_Name := DefaultContainerName,
              c_Image := Image (Spec instance),
              c_ImagePullPolicy := ImagePullPolicy (Spec instance),
              c_Command := t_Command spec,
              c_Args := t_Args spec,
              c_Ports := t_Ports spec,
              c_Env := envs @ t_Env spec,
              c_EnvFrom := t_EnvFrom spec,
              c_Resources := t_Resources spec,
              c_SecurityContext := t_ContainerSecurityContext spec,
              c_LivenessProbe := t_LivenessProbe spec,
              c_ReadinessProbe := t_ReadinessProbe spec,
              c_StartupProbe := t_StartupProbe spec,
              c_Lifecycle := t_Lifecycle spec,
              c_VolumeMounts := nodeMounts name @ t_ExtraVolumeMounts spec\<rparr>
           # t_ExtraContainers spec,
         ps_Volumes = volumes @ t_ExtraVolumes spec\<rparr>\<rparr>"

definition coreEnv :: "EMQX \<Rightarrow> envVar list" where
  "coreEnv instance =
     [\<lparr>ev_Name = ''POD_NAME'', ev_Value = EnvFieldRef ''metadata.name''\<rparr>,
      env ''EMQX_CLUSTER__DISCOVERY_STRATEGY'' ''dns'',
      env ''EMQX_CLUSTER__DNS__RECORD_TYPE'' ''srv'',
      env ''EMQX_CLUSTER__DNS__NAME'' (clusterDNSName instance),
      env ''EMQX_HOST'' ''$(POD_NAME).$(EMQX_CLUSTER__DNS__NAME)'',
      env ''EMQX_NODE__DATA_DIR'' ''data'',
      env ''EMQX_NODE__ROLE'' ''core'',
      cookieEnv instance,
      bootstrapFileEnv]"

definition replicantEnv :: "EMQX \<Rightarrow> envVar list" where
  "replicantEnv instance =
     [env ''EMQX_CLUSTER__DISCOVERY_STRATEGY'' ''dns'',
      env ''EMQX_CLUSTER__DNS__RECORD_TYPE'' ''srv'',
      env ''EMQX_CLUSTER__DNS__NAME'' (clusterDNSName instance),
      \<lparr>ev_Name = ''EMQX_HOST'', ev_Value = EnvFieldRef ''status.podIP''\<rparr>,
      env ''EMQX_NODE__DATA_DIR'' ''data'',
      env ''EMQX_NODE__ROLE'' ''replicant'',
      cookieEnv instance,
      bootstrapFileEnv]"

section \<open>The StatefulSet of the core nodes\<close>

definition pvcIsZero :: "pvcSpec \<Rightarrow> bool" where
  "pvcIsZero p = (pvc_VolumeMode p = None \<and> pvc_other p = JNull)"

definition dataVolume :: "string \<Rightarrow> volume" where
  "dataVolume name = \<lparr>vol_Name = name @ ''-data'', vol_Source = VolEmptyDir\<rparr>"

definition generateStatefulSet :: "EMQX \<Rightarrow> statefulSet" where
  "generateStatefulSet instance =
     (let core = CoreTemplate (Spec instance);
          labels = CloneAndMergeMap (DefaultCoreLabels instance) [om_Labels (ct_meta core)];
          name = snd (CoreNamespacedName instance);
          template = nodePodTemplate instance (ct_meta core) labels (ct_Spec core) name
                       (coreEnv instance) (nodeVolumes instance name);
          claim = t_VolumeClaimTemplates (ct_Spec core);
          claim' = (if pvc_VolumeMode claim = None
                    then claim\<lparr>pvc_VolumeMode := Some ''Filesystem''\<rparr> else claim);
          sts = \<lparr>sts_meta = emptyMeta\<lparr>om_Namespace := om_Namespace (Meta instance), om_Name := name,
                   om_Annotations := om_Annotations (ct_meta core), om_Labels := labels\<rparr>,
                 sts_ServiceName = snd (HeadlessServiceNamespacedName instance),
                 sts_Replicas = t_Replicas (ct_Spec core),
                 sts_Selector = \<lparr>sel_MatchLabels = labels, sel_MatchExpressions = None\<rparr>,
                 sts_PodManagementPolicy = ''Parallel'',
                 sts_Template = template,
                 sts_VolumeClaimTemplates = [],
                 sts_status = emptySetStatus\<rparr>
      in if pvcIsZero claim
         then sts\<lparr>sts_Template := template\<lparr>pt_spec := (pt_spec template)
                    \<lparr>ps_Volumes := dataVolume name # ps_Volumes (pt_spec template)\<rparr>\<rparr>\<rparr>
         else sts\<lparr>sts_VolumeClaimTemplates :=
                    [\<lparr>pvc_meta = emptyMeta\<lparr>om_Name := name @ ''-data'',
                        om_Namespace := om_Namespace (Meta instance), om_Labels := labels\<rparr>,
                      pvc_spec = claim'\<rparr>]\<rparr>)"

text \<open>The dashboard ports become container ports and environment variables of the first container.\<close>

fun mapHead :: "('a \<Rightarrow> 'a) \<Rightarrow> 'a list \<Rightarrow> 'a list" where
  "mapHead f [] = []"
| "mapHead f (x # xs) = f x # xs"

fun dashboardEnv :: "containerPort list \<Rightarrow> envVar list \<Rightarrow> envVar list" where
  "dashboardEnv [] envs = envs"
| "dashboardEnv (p # ps) envs =
     (let envs1 = (if cp_Name p = ''dashboard''
                   then env ''EMQX_DASHBOARD__LISTENERS__HTTP__BIND'' (itoa (cp_ContainerPort p)) # envs
                   else envs);
          envs2 = (if cp_Name p = ''dashboard-https''
                   then env ''EMQX_DASHBOARD__LISTENERS__HTTPS__BIND'' (itoa (cp_ContainerPort p)) # envs1
                   else envs1)
      in dashboardEnv ps envs2)"

definition addDashboard :: "servicePort list \<Rightarrow> container \<Rightarrow> container" where
  "addDashboard svcPorts c =
     (let ports = MergeContainerPorts (c_Ports c) (TransServicePortsToContainerPorts svcPorts)
      in c\<lparr>c_Ports := ports, c_Env := dashboardEnv ports (c_Env c)\<rparr>)"

definition dashboardPorts :: "'c hoconLib \<Rightarrow> EMQX \<Rightarrow> servicePort list" where
  "dashboardPorts lib instance =
     (case GetDashboardServicePort lib (cfg_Data (SpecConfig (Spec instance))) of
        Inl _ \<Rightarrow> [] | Inr ports \<Rightarrow> ports)"

definition finishTemplate :: "string \<Rightarrow> servicePort list \<Rightarrow> podTemplateSpec \<Rightarrow> podTemplateSpec" where
  "finishTemplate hash svcPorts t =
     t\<lparr>pt_meta := (pt_meta t)\<lparr>om_Labels :=
          CloneAndAddLabel (om_Labels (pt_meta t)) LabelsPodTemplateHashKey hash\<rparr>,
       pt_spec := (pt_spec t)\<lparr>ps_Containers :=
          mapHead (addDashboard svcPorts) (ps_Containers (pt_spec t))\<rparr>\<rparr>"

definition finishMeta :: "string \<Rightarrow> objectMeta \<Rightarrow> objectMeta" where
  "finishMeta hash m =
     m\<lparr>om_Name := om_Name m @ ''-'' @ hash,
       om_Labels := CloneAndAddLabel (om_Labels m) LabelsPodTemplateHashKey hash\<rparr>"

definition getNewStatefulSet :: "'c hoconLib \<Rightarrow> hashLib \<Rightarrow> EMQX \<Rightarrow> statefulSet" where
  "getNewStatefulSet lib hl instance =
     (let preSts = generateStatefulSet instance;
          hash = computeHash hl (sts_Template preSts)
                   (ns_CollisionCount (CoreNodesStatus (Status instance)))
      in preSts\<lparr>sts_meta := finishMeta hash (sts_meta preSts),
                sts_Selector := CloneSelectorAndAddLabel (sts_Selector preSts) LabelsPodTemplateHashKey hash,
                sts_Template := finishTemplate hash (dashboardPorts lib instance) (sts_Template preSts)\<rparr>)"

section \<open>The ReplicaSet of the replicant nodes\<close>

definition generateReplicaSet :: "EMQX \<Rightarrow> EMQXReplicantTemplate \<Rightarrow> replicaSet" where
  "generateReplicaSet instance template =
     (let labels = CloneAndMergeMap (DefaultReplicantLabels instance) [om_Labels (rt_meta template)];
          name = snd (ReplicantNamespacedName instance)
      in \<lparr>rs_meta = emptyMeta\<lparr>om_Namespace := om_Namespace (Meta instance), om_Name := name,
            om_Annotations := om_Annotations (rt_meta template), om_Labels := labels\<rparr>,
          rs_Replicas = t_Replicas (rt_Spec template),
          rs_Selector = \<lparr>sel_MatchLabels = labels, sel_MatchExpressions = None\<rparr>,
          rs_Template = nodePodTemplate instance (rt_meta template) labels (rt_Spec template) name
            (replicantEnv instance) (nodeVolumes instance name @ [dataVolume name]),
          rs_status = emptySetStatus\<rparr>)"

definition getNewReplicaSet ::
  "'c hoconLib \<Rightarrow> hashLib \<Rightarrow> EMQX \<Rightarrow> EMQXReplicantTemplate \<Rightarrow> replicaSet" where
  "getNewReplicaSet lib hl instance template =
     (let preRs = generateReplicaSet instance template;
          hash = computeHash hl (rs_Template preRs)
                   (ns_CollisionCount (ReplicantNodesStatus (Status instance)))
      in preRs\<lparr>rs_meta := finishMeta hash (rs_meta preRs),
               rs_Selector := CloneSelectorAndAddLabel (rs_Selector preRs) LabelsPodTemplateHashKey hash,
               rs_Template := finishTemplate hash (dashboardPorts lib instance) (rs_Template preRs)\<rparr>)"

section \<open>addCore\<close>

definition addCore_updateEMQXStatus ::
  "('w, 'c) env \<Rightarrow> string \<Rightarrow> string \<Rightarrow> string \<Rightarrow> EMQX \<Rightarrow> ('w, goerr option \<times> EMQX) op" where
  "addCore_updateEMQXStatus E reason message podTemplateHash instance =
     retryOnConflict (retrySteps E) (\<lambda>x. do {
       got \<leftarrow> getEMQX E (om_Namespace (Meta x)) (om_Name (Meta x));
       now \<leftarrow> timeNow E;
       statusUpdate E (coreProgressing now reason message podTemplateHash
         (case got of Inl _ \<Rightarrow> x | Inr y \<Rightarrow> y)) }) instance"

definition bumpCollision :: "EMQXNodesStatus \<Rightarrow> EMQXNodesStatus" where
  "bumpCollision ns =
     ns\<lparr>ns_CollisionCount :=
          Some (int32 ((case ns_CollisionCount ns of None \<Rightarrow> 0 | Some c \<Rightarrow> c) + 1))\<rparr>"

definition bumpCoreCollision :: "EMQX \<Rightarrow> EMQX" where
  "bumpCoreCollision x =
     x\<lparr>Status := (Status x)\<lparr>CoreNodesStatus := bumpCollision (CoreNodesStatus (Status x))\<rparr>\<rparr>"

definition bumpReplicantCollision :: "EMQX \<Rightarrow> EMQX" where
  "bumpReplicantCollision x =
     x\<lparr>Status := (Status x)\<lparr>ReplicantNodesStatus := bumpCollision (ReplicantNodesStatus (Status x))\<rparr>\<rparr>"

text \<open>
  Whether a clash of names means that the spec was rolled back to the current revision before the
  update became available.
\<close>

definition rolledBack :: "EMQX \<Rightarrow> string \<Rightarrow> string \<Rightarrow> bool" where
  "rolledBack instance hash currentRevision =
     (case GetLastTrueCondition (Status instance) of
        None \<Rightarrow> False
      | Some cond \<Rightarrow> cd_Type cond \<noteq> Available \<and> cd_Type cond \<noteq> Ready \<and> hash = currentRevision)"

definition ownedBy :: "('w, 'c) env \<Rightarrow> EMQX \<Rightarrow> objectMeta \<Rightarrow> objectMeta" where
  "ownedBy E instance m =
     (case setControllerReference E (Meta instance) m of Inl _ \<Rightarrow> m | Inr m' \<Rightarrow> m')"

definition createStatefulSet ::
  "('w, 'c) env \<Rightarrow> EMQX \<Rightarrow> statefulSet \<Rightarrow> string \<Rightarrow> ('w, subResult \<times> EMQX) op" where
  "createStatefulSet E instance preSts hash = do {
     err \<leftarrow> Create E (OStatefulSet (preSts\<lparr>sts_meta := ownedBy E instance (sts_meta preSts)\<rparr>));
     (case err of
        Some e \<Rightarrow>
          if IsAlreadyExists (Cause e) then
            if rolledBack instance hash (ns_CurrentRevision (CoreNodesStatus (Status instance))) then do {
              (_, x) \<leftarrow> addCore_updateEMQXStatus E ''RevertStatefulSet'' ''Revert to current statefulSet''
                          hash instance;
              ret (done_ok, x) }
            else do {
              (_, x) \<leftarrow> statusUpdate E (bumpCoreCollision instance);
              ret (done_requeue, x) }
          else ret (done_err (ErrWrap ''failed to create statefulSet'' e), instance)
      | None \<Rightarrow> do {
          (_, x) \<leftarrow> addCore_updateEMQXStatus E ''CreateNewStatefulSet'' ''Create new statefulSet''
                      hash instance;
          ret (done_ok, x) }) }"

text \<open>The closure of \<open>retry.RetryOnConflict\<close>: the latest resource version, then the update.\<close>

definition updateStored :: "('w, 'c) env \<Rightarrow> obj \<Rightarrow> ('w, goerr option \<times> obj) op" where
  "updateStored E ob = do {
     got \<leftarrow> getObj E ob;
     let version = (case got of Inl _ \<Rightarrow> [] | Inr storage \<Rightarrow> om_ResourceVersion (objMeta storage));
     let ob' = setObjMeta ((objMeta ob)\<lparr>om_ResourceVersion := version\<rparr>) ob;
     err \<leftarrow> Update E ob';
     ret (err, ob') }"

definition adoptStatefulSet :: "statefulSet \<Rightarrow> statefulSet \<Rightarrow> statefulSet" where
  "adoptStatefulSet updateSts preSts =
     preSts\<lparr>sts_meta := sts_meta updateSts,
            sts_Template := (sts_Template preSts)\<lparr>pt_meta := pt_meta (sts_Template updateSts)\<rparr>,
            sts_Selector := sts_Selector updateSts\<rparr>"

definition addCore :: "('w, 'c) handler" where
  "addCore E instance r =
     (let preSts = getNewStatefulSet (hocon E) (hashes E) instance;
          hash = labelHash (sts_meta preSts)
      in do {
        (updateSts, _, _) \<leftarrow> readStatefulSets E instance;
        (case updateSts of
           None \<Rightarrow> do { res \<leftarrow> createStatefulSet E instance preSts hash; ret (Ret res) }
         | Some storage \<Rightarrow>
             (case calculateTemplate E (OStatefulSet storage)
                     (justCheckPodTemplate (sts_Template storage) (sts_Template preSts)) of
                Inl _ \<Rightarrow> ret Panic
              | Inr isEmpty \<Rightarrow>
                  if \<not> isEmpty then do {
                    res \<leftarrow> createStatefulSet E instance preSts hash; ret (Ret res) }
                  else
                    let adopted = adoptStatefulSet storage preSts
                    in (case calculate E (OStatefulSet storage) (OStatefulSet adopted) of
                          Inl _ \<Rightarrow> ret Panic
                        | Inr same \<Rightarrow>
                            if same then ret (Ret (done_ok, instance))
                            else do {
                              (err, _) \<leftarrow> retryOnConflict (retrySteps E) (updateStored E)
                                            (OStatefulSet adopted);
                              (case err of
                                 Some e \<Rightarrow>
                                   ret (Ret (done_err (ErrWrap ''failed to update statefulSet'' e), instance))
                               | None \<Rightarrow> do {
                                   (_, x) \<leftarrow> addCore_updateEMQXStatus E ''UpdateStatefulSet''
                                               ''Update exist statefulSet'' hash instance;
                                   ret (Ret (done_ok, x)) }) }))) })"

section \<open>addRepl\<close>

definition addRepl_updateEMQXStatus ::
  "('w, 'c) env \<Rightarrow> string \<Rightarrow> string \<Rightarrow> string \<Rightarrow> EMQX \<Rightarrow> ('w, goerr option \<times> EMQX) op" where
  "addRepl_updateEMQXStatus E reason message podTemplateHash instance =
     retryOnConflict (retrySteps E) (\<lambda>x. do {
       got \<leftarrow> getEMQX E (om_Namespace (Meta x)) (om_Name (Meta x));
       now \<leftarrow> timeNow E;
       statusUpdate E (replicantProgressing now reason message podTemplateHash
         (case got of Inl _ \<Rightarrow> x | Inr y \<Rightarrow> y)) }) instance"

definition createReplicaSet ::
  "('w, 'c) env \<Rightarrow> EMQX \<Rightarrow> replicaSet \<Rightarrow> string \<Rightarrow> ('w, subResult \<times> EMQX) op" where
  "createReplicaSet E instance preRs hash = do {
     err \<leftarrow> Create E (OReplicaSet (preRs\<lparr>rs_meta := ownedBy E instance (rs_meta preRs)\<rparr>));
     (case err of
        Some e \<Rightarrow>
          if IsAlreadyExists (Cause e) then
            if rolledBack instance hash (ns_CurrentRevision (ReplicantNodesStatus (Status instance))) then do {
              (_, x) \<leftarrow> addRepl_updateEMQXStatus E ''RevertReplicaSet'' ''Revert to current replicaSet''
                          hash instance;
              ret (done_ok, x) }
            else do {
              (_, x) \<leftarrow> statusUpdate E (bumpReplicantCollision instance);
              ret (done_requeue, x) }
          else ret (done_err (ErrWrap ''failed to create replicaSet'' e), instance)
      | None \<Rightarrow> do {
          (_, x) \<leftarrow> addRepl_updateEMQXStatus E ''CreateReplicaSet'' ''Create new replicaSet''
                      hash instance;
          ret (done_ok, x) }) }"

definition adoptReplicaSet :: "replicaSet \<Rightarrow> replicaSet \<Rightarrow> replicaSet" where
  "adoptReplicaSet updateRs preRs =
     preRs\<lparr>rs_meta := rs_meta updateRs,
           rs_Template := (rs_Template preRs)\<lparr>pt_meta := pt_meta (rs_Template updateRs)\<rparr>,
           rs_Selector := rs_Selector updateRs\<rparr>"

definition addRepl :: "('w, 'c) handler" where
  "addRepl E instance r =
     (case ReplicantTemplate (Spec instance) of
        None \<Rightarrow> ret (Ret (done_ok, instance))
      | Some template \<Rightarrow>
          if \<not> IsConditionTrue (Status instance) CoreNodesReady then ret (Ret (done_ok, instance))
          else
            let preRs = getNewReplicaSet (hocon E) (hashes E) instance template;
                hash = labelHash (rs_meta preRs)
            in do {
              (updateRs, _, _) \<leftarrow> readReplicaSets E instance;
              (case updateRs of
                 None \<Rightarrow> do { res \<leftarrow> createReplicaSet E instance preRs hash; ret (Ret res) }
               | Some storage \<Rightarrow>
                   (case calculateTemplate E (OReplicaSet storage)
                           (justCheckPodTemplate (rs_Template storage) (rs_Template preRs)) of
                      Inl _ \<Rightarrow> ret Panic
                    | Inr isEmpty \<Rightarrow>
                        if \<not> isEmpty then do {
                          res \<leftarrow> createReplicaSet E instance preRs hash; ret (Ret res) }
                        else
                          let adopted = adoptReplicaSet storage preRs
                          in (case calculate E (OReplicaSet storage) (OReplicaSet adopted) of
                                Inl _ \<Rightarrow> ret Panic
                              | Inr same \<Rightarrow>
                                  if same then ret (Ret (done_ok, instance))
                                  else do {
                                    (err, _) \<leftarrow> retryOnConflict (retrySteps E) (updateStored E)
                                                  (OReplicaSet adopted);
                                    (case err of
                                       Some e \<Rightarrow>
                                         ret (Ret (done_err (ErrWrap ''failed to update replicaSet'' e),
                                                   instance))
                                     | None \<Rightarrow> do {
                                         (_, x) \<leftarrow> addRepl_updateEMQXStatus E ''UpdateReplicaSet''
                                                     ''Update exist replicaSet'' hash instance;
                                         ret (Ret (done_ok, x)) }) }))) })"

section \<open>Lemmas: the generated sets\<close>

lemma sts_getNew:
  "sts_meta (getNewStatefulSet lib hl x) =
     finishMeta (computeHash hl (sts_Template (generateStatefulSet x))
       (ns_CollisionCount (CoreNodesStatus (Status x)))) (sts_meta (generateStatefulSet x))"
  by (simp add: getNewStatefulSet_def Let_def)

lemma generateStatefulSet_simps [simp]:
  "om_Labels (sts_meta (generateStatefulSet x)) =
     CloneAndMergeMap (DefaultCoreLabels x) [om_Labels (ct_meta (CoreTemplate (Spec x)))]"
  "om_Labels (pt_meta (sts_Template (generateStatefulSet x))) =
     CloneAndMergeMap (DefaultCoreLabels x) [om_Labels (ct_meta (CoreTemplate (Spec x)))]"
  "sel_MatchLabels (sts_Selector (generateStatefulSet x)) =
     CloneAndMergeMap (DefaultCoreLabels x) [om_Labels (ct_meta (CoreTemplate (Spec x)))]"
  "om_Name (sts_meta (generateStatefulSet x)) = om_Name (Meta x) @ ''-core''"
  "om_Namespace (sts_meta (generateStatefulSet x)) = om_Namespace (Meta x)"
  "sts_Replicas (generateStatefulSet x) = t_Replicas (ct_Spec (CoreTemplate (Spec x)))"
  by (simp_all add: generateStatefulSet_def Let_def nodePodTemplate_def emptyMeta_def name_defs)

lemma generateReplicaSet_simps [simp]:
  "om_Labels (rs_meta (generateReplicaSet x t)) =
     CloneAndMergeMap (DefaultReplicantLabels x) [om_Labels (rt_meta t)]"
  "om_Labels (pt_meta (rs_Template (generateReplicaSet x t))) =
     CloneAndMergeMap (DefaultReplicantLabels x) [om_Labels (rt_meta t)]"
  "sel_MatchLabels (rs_Selector (generateReplicaSet x t)) =
     CloneAndMergeMap (DefaultReplicantLabels x) [om_Labels (rt_meta t)]"
  "om_Name (rs_meta (generateReplicaSet x t)) = om_Name (Meta x) @ ''-replicant''"
  "om_Namespace (rs_meta (generateReplicaSet x t)) = om_Namespace (Meta x)"
  "rs_Replicas (generateReplicaSet x t) = t_Replicas (rt_Spec t)"
  by (simp_all add: generateReplicaSet_def Let_def nodePodTemplate_def emptyMeta_def name_defs)

lemma labelHash_finishMeta [simp]: "labelHash (finishMeta hash m) = hash"
  by (simp add: labelHash_def finishMeta_def)

lemma mget_finishMeta:
  "mget (om_Labels (finishMeta hash m)) k =
     (if k = LabelsPodTemplateHashKey then Some hash else mget (om_Labels m) k)"
  by (simp add: finishMeta_def)

lemma mget_finishTemplate:
  "mget (om_Labels (pt_meta (finishTemplate hash ps t))) k =
     (if k = LabelsPodTemplateHashKey then Some hash else mget (om_Labels (pt_meta t)) k)"
  by (simp add: finishTemplate_def)

lemma mget_CloneSelector:
  "k0 \<noteq> [] \<Longrightarrow> mget (sel_MatchLabels (CloneSelectorAndAddLabel sel k0 v)) k =
     (if k = k0 then Some v else mget (sel_MatchLabels sel) k)"
  by (simp add: CloneSelectorAndAddLabel_def mget_mentries)

lemma matchesLabels_defaults:
  "matchesLabels (DefaultCoreLabels x) (om_Labels (finishMeta hash (sts_meta (generateStatefulSet x))))"
  "matchesLabels (DefaultReplicantLabels x) (om_Labels (finishMeta hash (rs_meta (generateReplicaSet x t))))"
  by (auto simp: matchesLabels_def mget_finishMeta mget_DefaultCoreLabels mget_DefaultReplicantLabels
      mget_DefaultLabels split: if_splits)

text \<open>The comparison of pod templates does not see the hash label.\<close>

lemma getPodTemplate_finishTemplate:
  "getPodTemplate (finishTemplate hash ps t) =
     (finishTemplate hash ps t)\<lparr>pt_meta := (pt_meta t)\<lparr>om_Labels :=
       Some ((mentries (om_Labels (pt_meta t)))(LabelsPodTemplateHashKey := None))\<rparr>\<rparr>"
  by (simp add: getPodTemplate_def mget_finishTemplate)
    (simp add: finishTemplate_def CloneAndRemoveLabel_def CloneAndAddLabel_def)

lemma getPodTemplate_hash_irrelevant:
  "getPodTemplate (finishTemplate hash ps t) = getPodTemplate (finishTemplate hash' ps t)"
  unfolding getPodTemplate_finishTemplate by (simp add: finishTemplate_def)

text \<open>The generated sets do not depend on the status, only the names of new sets do.\<close>

lemma status_irrelevant:
  shows "Spec (x\<lparr>Status := s\<rparr>) = Spec x" "Meta (x\<lparr>Status := s\<rparr>) = Meta x" "HeadlessServiceNamespacedName (x\<lparr>Status := s\<rparr>) = HeadlessServiceNamespacedName x"
    "CoreNamespacedName (x\<lparr>Status := s\<rparr>) = CoreNamespacedName x" "ReplicantNamespacedName (x\<lparr>Status := s\<rparr>) = ReplicantNamespacedName x"
    "coreEnv (x\<lparr>Status := s\<rparr>) = coreEnv x" "replicantEnv (x\<lparr>Status := s\<rparr>) = replicantEnv x" "nodeVolumes (x\<lparr>Status := s\<rparr>) = nodeVolumes x"
    "DefaultCoreLabels (x\<lparr>Status := s\<rparr>) = DefaultCoreLabels x" "DefaultReplicantLabels (x\<lparr>Status := s\<rparr>) = DefaultReplicantLabels x"
    "nodePodTemplate (x\<lparr>Status := s\<rparr>) = nodePodTemplate x"
  by (simp_all add: fun_eq_iff coreEnv_def replicantEnv_def nodeVolumes_def clusterDNSName_def
      cookieEnv_def name_defs DefaultCoreLabels_def DefaultReplicantLabels_def DefaultLabels_def
      nodePodTemplate_def)

lemma generateStatefulSet_status_irrelevant [simp]:
  "generateStatefulSet (x\<lparr>Status := s\<rparr>) = generateStatefulSet x"
  by (simp only: generateStatefulSet_def status_irrelevant)

lemma generateReplicaSet_status_irrelevant [simp]:
  "generateReplicaSet (x\<lparr>Status := s\<rparr>) t = generateReplicaSet x t"
  by (simp only: generateReplicaSet_def status_irrelevant)

lemma dashboardPorts_status_irrelevant [simp]:
  "dashboardPorts lib (x\<lparr>Status := s\<rparr>) = dashboardPorts lib x"
  by (simp add: dashboardPorts_def)

section \<open>Lemmas: the calls of addCore and addRepl\<close>

text \<open>
  A status written by \<open>updateEMQXStatus\<close>: some version of the object with the progressing
  condition set and the update revision moved to the hash.
\<close>

definition coreProgressCall :: "string \<Rightarrow> call \<Rightarrow> bool" where
  "coreProgressCall hash c \<longleftrightarrow>
     (case c of
        TGetEMQX _ _ _ \<Rightarrow> True
      | TNow _ \<Rightarrow> True
      | TStatusEMQX y _ \<Rightarrow> (\<exists>now reason message z. y = coreProgressing now reason message hash z)
      | _ \<Rightarrow> False)"

definition replicantProgressCall :: "string \<Rightarrow> call \<Rightarrow> bool" where
  "replicantProgressCall hash c \<longleftrightarrow>
     (case c of
        TGetEMQX _ _ _ \<Rightarrow> True
      | TNow _ \<Rightarrow> True
      | TStatusEMQX y _ \<Rightarrow> (\<exists>now reason message z. y = replicantProgressing now reason message hash z)
      | _ \<Rightarrow> False)"

definition storedUpdateCall :: "string \<Rightarrow> call \<Rightarrow> bool" where
  "storedUpdateCall kind c \<longleftrightarrow>
     (case c of
        TGetObj _ _ \<Rightarrow> True
      | TUpdate ob _ \<Rightarrow> objKind ob = kind
      | _ \<Rightarrow> False)"

lemma obeys_statusUpdate:
  assumes "\<And>err. P (Some err, x) [TStatusEMQX x (Inl err)]"
    and "\<And>z. P (None, z) [TStatusEMQX x (Inr z)]"
  shows "obeys (statusUpdate E x) P"
  using obeys_bind_statusUpdate[of ret x P E] assms
  by (simp add: State_Monad.bind_right_identity obeys_return)

lemma obeys_addCore_updateEMQXStatus:
  "obeys (addCore_updateEMQXStatus E reason message hash x) (\<lambda>r l. list_all (coreProgressCall hash) l)"
proof -
  let ?body = "\<lambda>x. do {
       got \<leftarrow> getEMQX E (om_Namespace (Meta x)) (om_Name (Meta x));
       now \<leftarrow> timeNow E;
       statusUpdate E (coreProgressing now reason message hash
         (case got of Inl _ \<Rightarrow> x | Inr y \<Rightarrow> y)) }"
  have body: "obeys (?body y) (\<lambda>r l. True \<and> list_all (coreProgressCall hash) l)" for y
    unfolding getEMQX_def timeNow_def
    by (intro obeys_bind_prim obeys_statusUpdate) (auto simp: coreProgressCall_def)
  show ?thesis
    using obeys_retry[where I = "\<lambda>_. True" and fn = ?body, OF body]
    by (simp add: addCore_updateEMQXStatus_def)
qed

lemma obeys_addRepl_updateEMQXStatus:
  "obeys (addRepl_updateEMQXStatus E reason message hash x)
     (\<lambda>r l. list_all (replicantProgressCall hash) l)"
proof -
  let ?body = "\<lambda>x. do {
       got \<leftarrow> getEMQX E (om_Namespace (Meta x)) (om_Name (Meta x));
       now \<leftarrow> timeNow E;
       statusUpdate E (replicantProgressing now reason message hash
         (case got of Inl _ \<Rightarrow> x | Inr y \<Rightarrow> y)) }"
  have body: "obeys (?body y) (\<lambda>r l. True \<and> list_all (replicantProgressCall hash) l)" for y
    unfolding getEMQX_def timeNow_def
    by (intro obeys_bind_prim obeys_statusUpdate) (auto simp: replicantProgressCall_def)
  show ?thesis
    using obeys_retry[where I = "\<lambda>_. True" and fn = ?body, OF body]
    by (simp add: addRepl_updateEMQXStatus_def)
qed

lemma obeys_updateStored:
  assumes "annotatorOk E"
  shows "obeys (retryOnConflict n (updateStored E) ob) (\<lambda>r l. list_all (storedUpdateCall (objKind ob)) l)"
proof -
  have body: "obeys (updateStored E ob')
      (\<lambda>r l. objKind (snd r) = objKind ob \<and> list_all (storedUpdateCall (objKind ob)) l)"
    if "objKind ob' = objKind ob" for ob'
    unfolding updateStored_def getObj_def
  proof (intro obeys_bind_prim obeys_Let)
    fix got :: "goerr + obj"
    let ?ob' = "setObjMeta ((objMeta ob')\<lparr>om_ResourceVersion :=
      case got of Inl _ \<Rightarrow> [] | Inr storage \<Rightarrow> om_ResourceVersion (objMeta storage)\<rparr>) ob'"
    have "obeys (Update E ?ob') (\<lambda>r l. list_all (storedUpdateCall (objKind ob)) l)"
      using assms that
      by (intro obeys_Update) (auto simp: storedUpdateCall_def dest: annotatorOk_kind)
    then show "obeys (do { err \<leftarrow> Update E ?ob'; ret (err, ?ob') })
        (\<lambda>y l. objKind (snd y) = objKind ob \<and>
          list_all (storedUpdateCall (objKind ob)) (TGetObj ob' got # l))"
      by (rule obeys_bind) (auto intro!: obeys_return simp: storedUpdateCall_def that)
  qed
  show ?thesis
    using obeys_retry[where I = "\<lambda>y. objKind y = objKind ob" and fn = "updateStored E", OF body]
    by (rule obeys_mono) auto
qed

text \<open>
  Every call of \<open>addCore\<close>: the list, the one StatefulSet generated from the spec, updates of
  StatefulSets, and the two kinds of status writes.
\<close>

definition addCoreCall :: "('w, 'c) env \<Rightarrow> EMQX \<Rightarrow> call \<Rightarrow> bool" where
  "addCoreCall E x c \<longleftrightarrow>
     (let new = getNewStatefulSet (hocon E) (hashes E) x
      in case c of
           TListSts ns labels _ \<Rightarrow> ns = om_Namespace (Meta x) \<and> labels = DefaultCoreLabels x
         | TCreate ob _ \<Rightarrow>
             (\<exists>a. ob = OStatefulSet (new\<lparr>sts_meta := (ownedBy E x (sts_meta new))\<lparr>om_Annotations := a\<rparr>\<rparr>))
         | TStatusEMQX y _ \<Rightarrow>
             y = bumpCoreCollision x \<or>
             (\<exists>now reason message z. y = coreProgressing now reason message (labelHash (sts_meta new)) z)
         | TUpdate ob _ \<Rightarrow> objKind ob = ''StatefulSet''
         | TGetObj _ _ \<Rightarrow> True
         | TGetEMQX _ _ _ \<Rightarrow> True
         | TNow _ \<Rightarrow> True
         | _ \<Rightarrow> False)"

definition isCreate :: "call \<Rightarrow> bool" where
  "isCreate c = (case c of TCreate _ _ \<Rightarrow> True | _ \<Rightarrow> False)"

text \<open>A create call answered with \<open>AlreadyExists\<close>.\<close>

definition nameTaken :: "call list \<Rightarrow> bool" where
  "nameTaken l \<longleftrightarrow> (\<exists>ob e. TCreate ob (Some e) \<in> set l \<and> IsAlreadyExists e)"

definition setOutcome :: "EMQX \<Rightarrow> bool \<Rightarrow> subResult \<Rightarrow> call list \<Rightarrow> bool" where
  "setOutcome bumped rolled sr l \<longleftrightarrow>
     length (filter isCreate l) \<le> 1 \<and>
     (\<not> IsZero (sub_result sr) \<longleftrightarrow> nameTaken l \<and> \<not> rolled) \<and>
     (nameTaken l \<and> \<not> rolled \<longrightarrow> (\<exists>ans. TStatusEMQX bumped ans \<in> set l))"

lemma IsAlreadyExists_wrap [simp]:
  "IsAlreadyExists (ErrWrap m e) = IsAlreadyExists e" "IsAlreadyExists (Cause e) = IsAlreadyExists e"
  by (simp_all add: IsAlreadyExists_def)

lemma no_create_simps:
  assumes "list_all (\<lambda>c. \<not> isCreate c) l"
  shows "filter isCreate l = []" "nameTaken (pre @ l) = nameTaken pre"
    "nameTaken (c # l) = nameTaken [c]" "\<not> nameTaken l"
  using assms by (auto simp: nameTaken_def list_all_iff isCreate_def filter_empty_conv)

lemma progressCall_no_create:
  "list_all (coreProgressCall hash) l \<Longrightarrow> list_all (\<lambda>c. \<not> isCreate c) l"
  "list_all (replicantProgressCall hash) l \<Longrightarrow> list_all (\<lambda>c. \<not> isCreate c) l"
  "list_all (storedUpdateCall kind) l \<Longrightarrow> list_all (\<lambda>c. \<not> isCreate c) l"
  unfolding list_all_iff coreProgressCall_def replicantProgressCall_def storedUpdateCall_def isCreate_def
  by (auto split: call.splits)

lemma coreProgress_addCoreCall:
  "list_all (coreProgressCall (labelHash (sts_meta (getNewStatefulSet (hocon E) (hashes E) x)))) l \<Longrightarrow>
   list_all (addCoreCall E x) l"
  unfolding list_all_iff coreProgressCall_def addCoreCall_def Let_def by (auto split: call.splits)

lemma storedUpdate_addCoreCall:
  "list_all (storedUpdateCall ''StatefulSet'') l \<Longrightarrow> list_all (addCoreCall E x) l"
  unfolding list_all_iff storedUpdateCall_def addCoreCall_def Let_def by (auto split: call.splits)

lemma created_sts:
  assumes "annotatorOk E" "setLastApplied E (OStatefulSet (s\<lparr>sts_meta := m\<rparr>)) = Inr ob"
  shows "\<exists>a. ob = OStatefulSet (s\<lparr>sts_meta := m\<lparr>om_Annotations := a\<rparr>\<rparr>)"
  using annotatorOk_set[OF assms] by simp

lemma obeys_bind_addCore_status:
  "(\<And>res l. list_all (coreProgressCall hash) l \<Longrightarrow> obeys (k res) (\<lambda>y l'. P y (l @ l'))) \<Longrightarrow>
   obeys (State_Monad.bind (addCore_updateEMQXStatus E reason message hash x) k) P"
  by (rule obeys_bind[OF obeys_addCore_updateEMQXStatus])

lemma obeys_bind_addRepl_status:
  "(\<And>res l. list_all (replicantProgressCall hash) l \<Longrightarrow> obeys (k res) (\<lambda>y l'. P y (l @ l'))) \<Longrightarrow>
   obeys (State_Monad.bind (addRepl_updateEMQXStatus E reason message hash x) k) P"
  by (rule obeys_bind[OF obeys_addRepl_updateEMQXStatus])

lemma obeys_bind_updateStored:
  "annotatorOk E \<Longrightarrow>
   (\<And>res l. list_all (storedUpdateCall (objKind ob)) l \<Longrightarrow> obeys (k res) (\<lambda>y l'. P y (l @ l'))) \<Longrightarrow>
   obeys (State_Monad.bind (retryOnConflict n (updateStored E) ob) k) P"
  by (rule obeys_bind[OF obeys_updateStored])

lemmas workload_rules = obeys_bind_Create obeys_bind_addCore_status obeys_bind_addRepl_status
  obeys_bind_updateStored obeys_bind_statusUpdate

text \<open>The outcome of a create call followed by calls that create nothing.\<close>

lemma setOutcome_Cons:
  assumes "list_all (\<lambda>c. \<not> isCreate c) l"
  shows "setOutcome bumped rolled sr (TCreate ob e # l) \<longleftrightarrow>
    (\<not> IsZero (sub_result sr) \<longleftrightarrow> nameTaken [TCreate ob e] \<and> \<not> rolled) \<and>
    (nameTaken [TCreate ob e] \<and> \<not> rolled \<longrightarrow> (\<exists>ans. TStatusEMQX bumped ans \<in> set l))"
  using no_create_simps[OF assms] by (auto simp: setOutcome_def isCreate_def)

lemma setOutcome_nothing:
  assumes "list_all (\<lambda>c. \<not> isCreate c) l" "IsZero (sub_result sr)"
  shows "setOutcome bumped rolled sr l"
  using no_create_simps[OF assms(1)] assms(2) by (simp add: setOutcome_def)

lemma nameTaken_simps [simp]:
  "nameTaken [TCreate ob (Some e)] = IsAlreadyExists e" "\<not> nameTaken [TCreate ob None]" "\<not> nameTaken []"
  by (simp_all add: nameTaken_def)

lemma obeys_createStatefulSet:
  fixes E :: "('w, 'c) env" and x :: EMQX
  defines "new \<equiv> getNewStatefulSet (hocon E) (hashes E) x"
  defines "hash \<equiv> labelHash (sts_meta new)"
  assumes ok: "annotatorOk E"
  shows "obeys (createStatefulSet E x new hash)
    (\<lambda>r l. list_all (addCoreCall E x) l \<and>
       setOutcome (bumpCoreCollision x)
         (rolledBack x hash (ns_CurrentRevision (CoreNodesStatus (Status x)))) (fst r) l)"
proof -
  let ?own = "OStatefulSet (new\<lparr>sts_meta := ownedBy E x (sts_meta new)\<rparr>)"
  have call: "addCoreCall E x (TCreate ob e)" if "setLastApplied E ?own = Inr ob" for ob e
    using created_sts[OF ok that] by (auto simp: addCoreCall_def new_def)
  have bump: "addCoreCall E x (TStatusEMQX (bumpCoreCollision x) ans)" for ans
    by (simp add: addCoreCall_def)
  note progress = coreProgress_addCoreCall[of E x, folded new_def, folded hash_def]
  note no_err = annotatorOk_err(1)[OF ok]
  show ?thesis
    unfolding createStatefulSet_def
    by (intro workload_rules obeys_intros)
      (auto simp: setOutcome_Cons setOutcome_nothing call bump progress
        setOutcome_Cons[OF progressCall_no_create(1), of hash] isCreate_def dest!: no_err)
qed

lemma obeys_addCore:
  assumes ok: "annotatorOk E"
  shows "obeys (addCore E x r)
    (\<lambda>res l. list_all (addCoreCall E x) l \<and>
       (\<forall>sr y. res = Ret (sr, y) \<longrightarrow>
          setOutcome (bumpCoreCollision x)
            (rolledBack x (labelHash (sts_meta (getNewStatefulSet (hocon E) (hashes E) x)))
               (ns_CurrentRevision (CoreNodesStatus (Status x)))) sr l))"
proof -
  let ?new = "getNewStatefulSet (hocon E) (hashes E) x"
  let ?hash = "labelHash (sts_meta ?new)"
  have list: "addCoreCall E x (TListSts (om_Namespace (Meta x)) (DefaultCoreLabels x) items)" for items
    by (simp add: addCoreCall_def)
  have cons: "setOutcome b rl sr (TListSts n ls items # l) = setOutcome b rl sr l"
    for b rl sr n ls items l
    by (simp add: setOutcome_def nameTaken_def isCreate_def)
  have none: "setOutcome b rl done_ok l" "setOutcome b rl (done_err e) l"
    if "list_all (\<lambda>c. \<not> isCreate c) l" for b rl l e
    using setOutcome_nothing[OF that] by simp_all
  note create = obeys_bind[OF obeys_createStatefulSet[OF ok]]
  show ?thesis
    unfolding addCore_def Let_def
    by (intro obeys_bind_readSts create workload_rules ok obeys_intros)
      (use progressCall_no_create[of ?hash] progressCall_no_create(3)[of "''StatefulSet''"] in
        \<open>auto simp: cons list none coreProgress_addCoreCall storedUpdate_addCoreCall\<close>)
qed

text \<open>The same for \<open>addRepl\<close>.\<close>

definition addReplCall :: "('w, 'c) env \<Rightarrow> EMQX \<Rightarrow> EMQXReplicantTemplate \<Rightarrow> call \<Rightarrow> bool" where
  "addReplCall E x t c \<longleftrightarrow>
     (let new = getNewReplicaSet (hocon E) (hashes E) x t
      in case c of
           TListRs ns labels _ \<Rightarrow> ns = om_Namespace (Meta x) \<and> labels = DefaultReplicantLabels x
         | TCreate ob _ \<Rightarrow>
             (\<exists>a. ob = OReplicaSet (new\<lparr>rs_meta := (ownedBy E x (rs_meta new))\<lparr>om_Annotations := a\<rparr>\<rparr>))
         | TStatusEMQX y _ \<Rightarrow>
             y = bumpReplicantCollision x \<or>
             (\<exists>now reason message z. y = replicantProgressing now reason message (labelHash (rs_meta new)) z)
         | TUpdate ob _ \<Rightarrow> objKind ob = ''ReplicaSet''
         | TGetObj _ _ \<Rightarrow> True
         | TGetEMQX _ _ _ \<Rightarrow> True
         | TNow _ \<Rightarrow> True
         | _ \<Rightarrow> False)"

lemma replicantProgress_addReplCall:
  "list_all (replicantProgressCall (labelHash (rs_meta (getNewReplicaSet (hocon E) (hashes E) x t)))) l \<Longrightarrow>
   list_all (addReplCall E x t) l"
  unfolding list_all_iff replicantProgressCall_def addReplCall_def Let_def by (auto split: call.splits)

lemma storedUpdate_addReplCall:
  "list_all (storedUpdateCall ''ReplicaSet'') l \<Longrightarrow> list_all (addReplCall E x t) l"
  unfolding list_all_iff storedUpdateCall_def addReplCall_def Let_def by (auto split: call.splits)

lemma created_rs:
  assumes "annotatorOk E" "setLastApplied E (OReplicaSet (s\<lparr>rs_meta := m\<rparr>)) = Inr ob"
  shows "\<exists>a. ob = OReplicaSet (s\<lparr>rs_meta := m\<lparr>om_Annotations := a\<rparr>\<rparr>)"
  using annotatorOk_set[OF assms] by simp

lemma obeys_createReplicaSet:
  fixes E :: "('w, 'c) env" and x :: EMQX and t :: EMQXReplicantTemplate
  defines "new \<equiv> getNewReplicaSet (hocon E) (hashes E) x t"
  defines "hash \<equiv> labelHash (rs_meta new)"
  assumes ok: "annotatorOk E"
  shows "obeys (createReplicaSet E x new hash)
    (\<lambda>r l. list_all (addReplCall E x t) l \<and>
       setOutcome (bumpReplicantCollision x)
         (rolledBack x hash (ns_CurrentRevision (ReplicantNodesStatus (Status x)))) (fst r) l)"
proof -
  let ?own = "OReplicaSet (new\<lparr>rs_meta := ownedBy E x (rs_meta new)\<rparr>)"
  have call: "addReplCall E x t (TCreate ob e)" if "setLastApplied E ?own = Inr ob" for ob e
    using created_rs[OF ok that] by (auto simp: addReplCall_def new_def)
  have bump: "addReplCall E x t (TStatusEMQX (bumpReplicantCollision x) ans)" for ans
    by (simp add: addReplCall_def)
  note progress = replicantProgress_addReplCall[of E x t, folded new_def, folded hash_def]
  note no_err = annotatorOk_err(1)[OF ok]
  show ?thesis
    unfolding createReplicaSet_def
    by (intro workload_rules obeys_intros)
      (auto simp: setOutcome_Cons setOutcome_nothing call bump progress
        setOutcome_Cons[OF progressCall_no_create(2), of hash] isCreate_def dest!: no_err)
qed

lemma obeys_addRepl:
  assumes ok: "annotatorOk E" and t: "ReplicantTemplate (Spec x) = Some t"
  shows "obeys (addRepl E x r)
    (\<lambda>res l. list_all (addReplCall E x t) l \<and>
       (\<forall>sr y. res = Ret (sr, y) \<longrightarrow>
          setOutcome (bumpReplicantCollision x)
            (rolledBack x (labelHash (rs_meta (getNewReplicaSet (hocon E) (hashes E) x t)))
               (ns_CurrentRevision (ReplicantNodesStatus (Status x)))) sr l))"
proof -
  let ?hash = "labelHash (rs_meta (getNewReplicaSet (hocon E) (hashes E) x t))"
  have list: "addReplCall E x t (TListRs (om_Namespace (Meta x)) (DefaultReplicantLabels x) items)" for items
    by (simp add: addReplCall_def)
  have cons: "setOutcome b rl sr (TListRs n ls items # l) = setOutcome b rl sr l"
    for b rl sr n ls items l
    by (simp add: setOutcome_def nameTaken_def isCreate_def)
  have none: "setOutcome b rl done_ok l" "setOutcome b rl (done_err e) l"
    if "list_all (\<lambda>c. \<not> isCreate c) l" for b rl l e
    using setOutcome_nothing[OF that] by simp_all
  note create = obeys_bind[OF obeys_createReplicaSet[OF ok]]
  show ?thesis
    unfolding addRepl_def Let_def t option.case
    by (intro obeys_bind_readRs create workload_rules ok obeys_intros)
      (use progressCall_no_create(2)[of ?hash] progressCall_no_create(3)[of "''ReplicaSet''"] in
        \<open>auto simp: cons list none replicantProgress_addReplCall storedUpdate_addReplCall\<close>)
qed

lemma addRepl_idle:
  assumes "ReplicantTemplate (Spec x) = None \<or> \<not> IsConditionTrue (Status x) CoreNodesReady"
  shows "addRepl E x r = ret (Ret (done_ok, x))"
  using assms by (auto simp: addRepl_def split: option.splits)

section \<open>The contract\<close>

lemma only_progressStatus [only_intros]:
  "onlyCalls (writeOk E) (addCore_updateEMQXStatus E reason message hash x)"
  "onlyCalls (writeOk E) (addRepl_updateEMQXStatus E reason message hash x)"
  unfolding addCore_updateEMQXStatus_def addRepl_updateEMQXStatus_def call_defs
  by (intro only_intros; simp)+

lemma only_updateStored [only_intros]: "onlyCalls (writeOk E) (updateStored E ob)"
  unfolding updateStored_def getObj_def by (intro only_intros) simp_all

lemma only_createSets:
  "only (writeOk E) (\<lambda>(sr, _). sub_result sr = zeroResult \<or> sr = done_requeue) (createStatefulSet E x sts hash)"
  "only (writeOk E) (\<lambda>(sr, _). sub_result sr = zeroResult \<or> sr = done_requeue) (createReplicaSet E x rs hash)"
  unfolding createStatefulSet_def createReplicaSet_def
  by (intro only_intros; simp)+

interpretation addCore_contract: sub_reconciler addCore
proof unfold_locales
  fix E :: "('w, 'c) env" and x r
  show "only (writeOk E) resultOk (addCore E x r)"
    unfolding addCore_def
    by (intro only_bind_result[OF only_createSets(1)] only_intros) (auto simp: resultOk_def split: option.splits)
qed

interpretation addRepl_contract: sub_reconciler addRepl
proof unfold_locales
  fix E :: "('w, 'c) env" and x r
  show "only (writeOk E) resultOk (addRepl E x r)"
    unfolding addRepl_def
    by (intro only_bind_result[OF only_createSets(2)] only_intros) (auto simp: resultOk_def split: option.splits)
qed

end
