(* ===== verification/Bootstrap.thy ===== *)
theory Bootstrap
  imports Reads
begin

text \<open>
  The secrets a cluster starts with (\<open>controllers/apps/v2beta1/add_bootstrap_resource.go\<close>): the
  node cookie and the API keys, and how the operator reads its own key back
  (\<open>getBootstrapAPIKey\<close> and \<open>newRequester\<close> of \<open>emqx_controller.go\<close>).
\<close>

section \<open>addBootstrap\<close>

definition readSecret :: "('w, 'c) env \<Rightarrow> string \<Rightarrow> string \<Rightarrow> string \<Rightarrow> ('w, goerr + string) op" where
  "readSecret E namespace name key = do {
     got \<leftarrow> getSecret E namespace name;
     ret (case got of
            Inl err \<Rightarrow> Inl (ErrWrap ''failed to get secret'' err)
          | Inr secret \<Rightarrow>
              (case mget (sec_Data secret) key of
                 None \<Rightarrow> Inl (ErrText ''secret does not contain the key'')
               | Some v \<Rightarrow> Inr v)) }"

definition apiKeyLine :: "string \<Rightarrow> string \<Rightarrow> string" where
  "apiKeyLine key secret = key @ '':'' @ secret @ newline"

fun apiKeyLoop ::
  "('w, 'c) env \<Rightarrow> string \<Rightarrow> BootstrapAPIKey list \<Rightarrow> string \<Rightarrow> ('w, goerr + string) op" where
  "apiKeyLoop E ns [] acc = ret (Inr acc)"
| "apiKeyLoop E ns (apiKey # apiKeys) acc =
     (case bak_SecretRef apiKey of
        None \<Rightarrow> apiKeyLoop E ns apiKeys (acc @ apiKeyLine (bak_Key apiKey) (bak_Secret apiKey))
      | Some ref \<Rightarrow> do {
          keyValue \<leftarrow> readSecret E ns (kr_SecretName (sr_Key ref)) (kr_SecretKey (sr_Key ref));
          (case keyValue of
             Inl err \<Rightarrow> do { _ \<leftarrow> recordEvent ''Warning'' ''GetBootStrapSecretRef''; ret (Inl err) }
           | Inr kv \<Rightarrow> do {
               secretValue \<leftarrow> readSecret E ns (kr_SecretName (sr_Secret ref)) (kr_SecretKey (sr_Secret ref));
               (case secretValue of
                  Inl err \<Rightarrow> do { _ \<leftarrow> recordEvent ''Warning'' ''GetBootStrapSecretRef''; ret (Inl err) }
                | Inr sv \<Rightarrow> apiKeyLoop E ns apiKeys (acc @ apiKeyLine kv sv)) }) })"

definition getAPIKeyString :: "('w, 'c) env \<Rightarrow> EMQX \<Rightarrow> ('w, goerr + string) op" where
  "getAPIKeyString E instance =
     apiKeyLoop E (om_Namespace (Meta instance)) (BootstrapAPIKeys (Spec instance)) []"

definition bootstrapSecret :: "EMQX \<Rightarrow> string \<Rightarrow> string \<Rightarrow> string \<Rightarrow> secret" where
  "bootstrapSecret instance name key v =
     \<lparr>sec_meta = emptyMeta\<lparr>om_Namespace := om_Namespace (Meta instance), om_Name := name,
        om_Labels := CloneAndMergeMap (DefaultLabels instance) [om_Labels (Meta instance)]\<rparr>,
      sec_Data = None, sec_StringData = Some [key \<mapsto> v]\<rparr>"

definition generateBootstrapAPIKeySecret :: "('w, 'c) env \<Rightarrow> EMQX \<Rightarrow> string \<Rightarrow> ('w, secret) op" where
  "generateBootstrapAPIKeySecret E instance bootstrapAPIKeys = do {
     defPassword \<leftarrow> generatePassword E;
     ret (bootstrapSecret instance (snd (BootstrapAPIKeyNamespacedName instance)) ''bootstrap_api_key''
            (bootstrapAPIKeys @ DefaultBootstrapAPIKey @ '':'' @ defPassword)) }"

definition generateNodeCookieSecret :: "('w, 'c) env \<Rightarrow> EMQX \<Rightarrow> ('w, secret go) op" where
  "generateNodeCookieSecret E instance =
     (case h_ParseString (hocon E) (cfg_Data (SpecConfig (Spec instance))) of
        Inl _ \<Rightarrow> ret Panic
      | Inr config \<Rightarrow> do {
          cookie \<leftarrow> (let c = h_GetString (hocon E) config ''node.cookie''
                     in if c = [] then generatePassword E else ret c);
          ret (Ret (bootstrapSecret instance (snd (NodeCookieNamespacedName instance)) ''node_cookie''
                 cookie)) })"

fun createBootstrap :: "('w, 'c) env \<Rightarrow> EMQX \<Rightarrow> secret list \<Rightarrow> ('w, subResult) op" where
  "createBootstrap E instance [] = ret done_ok"
| "createBootstrap E instance (resource # resources) =
     (case setControllerReference E (Meta instance) (sec_meta resource) of
        Inl err \<Rightarrow> ret (done_err (ErrWrap ''failed to set controller reference'' err))
      | Inr m \<Rightarrow> do {
          err \<leftarrow> Create E (OSecret (resource\<lparr>sec_meta := m\<rparr>));
          (case err of
             None \<Rightarrow> createBootstrap E instance resources
           | Some e \<Rightarrow>
               if \<not> IsAlreadyExists e
               then ret (done_err (ErrWrap ''failed to create bootstrap configMap'' e))
               else createBootstrap E instance resources) })"

definition addBootstrap :: "('w, 'c) handler" where
  "addBootstrap E instance r = do {
     keys \<leftarrow> getAPIKeyString E instance;
     (case keys of
        Inl err \<Rightarrow> ret (Ret (done_err (ErrWrap ''failed to get bootstrap api keys'' err), instance))
      | Inr bootstrapAPIKeys \<Rightarrow> do {
          cookie \<leftarrow> generateNodeCookieSecret E instance;
          (case cookie of
             Panic \<Rightarrow> ret Panic
           | Ret cookieSecret \<Rightarrow> do {
               keySecret \<leftarrow> generateBootstrapAPIKeySecret E instance bootstrapAPIKeys;
               res \<leftarrow> createBootstrap E instance [cookieSecret, keySecret];
               ret (Ret (res, instance)) }) }) }"

section \<open>Reading the key back\<close>

fun findUser :: "string \<Rightarrow> string list \<Rightarrow> (string \<times> string) option" where
  "findUser def [] = None"
| "findUser def (user # users) =
     (case indexByte user (CHR '':'') of
        None \<Rightarrow> findUser def users
      | Some index \<Rightarrow>
          if index > 0 \<and> take index user = def
          then Some (take index user, drop (index + 1) user) else findUser def users)"

definition parseBootstrapKeys :: "string \<Rightarrow> (string \<times> string) option" where
  "parseBootstrapKeys keyData = findUser DefaultBootstrapAPIKey (splitByte (CHR 0x0A) keyData)"

definition getBootstrapAPIKey :: "('w, 'c) env \<Rightarrow> EMQX \<Rightarrow> ('w, goerr + string \<times> string) op" where
  "getBootstrapAPIKey E instance = do {
     got \<leftarrow> getSecret E (om_Namespace (Meta instance)) (om_Name (Meta instance) @ ''-bootstrap-api-key'');
     ret (case got of
            Inl err \<Rightarrow> Inl (ErrWrap ''get secret failed'' err)
          | Inr secret \<Rightarrow>
              (case mget (sec_Data secret) ''bootstrap_api_key'' of
                 None \<Rightarrow> Inl (ErrText ''the secret does not contain the bootstrap_api_key'')
               | Some keyData \<Rightarrow>
                   (case parseBootstrapKeys keyData of
                      None \<Rightarrow> Inl (ErrText ''the secret does not contain the bootstrap_api_key'')
                    | Some user \<Rightarrow> Inr user))) }"

section \<open>The requester\<close>

text \<open>The scheme and port of the dashboard API: plain HTTP wins when both are configured.\<close>

definition dashboardEndpoint :: "(string \<rightharpoonup> int) \<Rightarrow> string \<times> string" where
  "dashboardEndpoint portMap =
     (let https = (case portMap ''dashboard-https'' of
                     None \<Rightarrow> ([], []) | Some p \<Rightarrow> (''https'', itoa p))
      in case portMap ''dashboard'' of None \<Rightarrow> https | Some p \<Rightarrow> (''http'', itoa p))"

definition olderPod :: "pod \<Rightarrow> pod \<Rightarrow> bool" where
  "olderPod a b = (om_CreationTimestamp (pod_meta a) < om_CreationTimestamp (pod_meta b))"

definition podServes :: "pod \<Rightarrow> bool" where
  "podServes p \<longleftrightarrow>
     om_DeletionTimestamp (pod_meta p) = None \<and> pod_PodIP p \<noteq> [] \<and>
     (\<exists>c \<in> set (pod_Conditions p). pc_Type c = ''ContainersReady'' \<and> pc_Status c = ConditionTrue)"

definition newRequester :: "('w, 'c) env \<Rightarrow> EMQX \<Rightarrow> ('w, goerr + Requester option) op" where
  "newRequester E instance = do {
     key \<leftarrow> getBootstrapAPIKey E instance;
     (case key of
        Inl err \<Rightarrow> ret (Inl err)
      | Inr (username, password) \<Rightarrow>
          (case GetDashboardPortMap (hocon E) (cfg_Data (SpecConfig (Spec instance))) of
             Inl err \<Rightarrow> ret (Inl err)
           | Inr portMap \<Rightarrow>
               let (schema, port) = dashboardEndpoint portMap
               in do {
                 pods \<leftarrow> listPods E (om_Namespace (Meta instance)) (DefaultCoreLabels instance);
                 ret (Inr (map_option
                   (\<lambda>p. \<lparr>rq_Schema = schema, rq_Host = joinHostPort E (pod_PodIP p) port,
                         rq_Username = username, rq_Password = password\<rparr>)
                   (find podServes (go_sort olderPod pods)))) })) }"

section \<open>Lemmas\<close>

interpretation olderPod: go_less olderPod
  unfolding olderPod_def by unfold_locales auto

text \<open>The text \<open>findUser\<close> accepts as the operator's entry.\<close>

definition opEntry :: "string \<Rightarrow> bool" where
  "opEntry line \<longleftrightarrow> hasPrefix line (DefaultBootstrapAPIKey @ '':'')"

lemma default_key [simp]: "DefaultBootstrapAPIKey \<noteq> []" "CHR '':'' \<notin> set DefaultBootstrapAPIKey"
  "CHR 0x0A \<notin> set DefaultBootstrapAPIKey"
  by (simp_all add: DefaultBootstrapAPIKey_def)

lemma findUser_skip:
  assumes "\<forall>line \<in> set ls. \<not> opEntry line"
  shows "findUser DefaultBootstrapAPIKey (ls @ rest) = findUser DefaultBootstrapAPIKey rest"
  using assms
proof (induction ls)
  case (Cons line ls)
  have "take i line \<noteq> DefaultBootstrapAPIKey" if i: "indexByte line (CHR '':'') = Some i" for i
  proof
    assume "take i line = DefaultBootstrapAPIKey"
    moreover have "line = take i line @ CHR '':'' # drop (Suc i) line"
      using indexByte_SomeD[OF i] by (metis id_take_nth_drop)
    ultimately have "line = (DefaultBootstrapAPIKey @ '':'') @ drop (Suc i) line" by simp
    then have "opEntry line" unfolding opEntry_def hasPrefix_iff by blast
    with Cons.prems show False by simp
  qed
  with Cons show ?case by (auto split: option.splits)
qed simp

lemma findUser_hit:
  "findUser DefaultBootstrapAPIKey ((DefaultBootstrapAPIKey @ CHR '':'' # pw) # ls) =
     Some (DefaultBootstrapAPIKey, pw)"
  by (simp add: indexByte_append)

lemma splitByte_append_general:
  "splitByte c (s @ c # t) = splitByte c s @ splitByte c t"
proof (induction s)
  case (Cons x s)
  then show ?case by (cases "splitByte c s") auto
qed simp

lemma splitByte_last_newline: "splitByte c (s @ [c]) = splitByte c s @ [[]]"
  using splitByte_append_general[of c s "[]"] by simp

section \<open>The contract\<close>

lemma only_apiKeyLoop [only_intros]: "onlyCalls (writeOk E) (apiKeyLoop E ns keys acc)"
  by (induction keys arbitrary: acc)
    (auto simp: readSecret_def getSecret_def recordEvent_def intro!: only_intros)

lemma only_createBootstrap:
  "only (writeOk E) (\<lambda>sr. sub_result sr = zeroResult) (createBootstrap E x resources)"
  by (induction resources) (auto intro!: only_intros)

interpretation addBootstrap_contract: sub_reconciler addBootstrap
proof unfold_locales
  fix E :: "('w, 'c) env" and x r
  show "only (writeOk E) resultOk (addBootstrap E x r)"
    unfolding addBootstrap_def getAPIKeyString_def generateNodeCookieSecret_def
      generateBootstrapAPIKeySecret_def generatePassword_def
    by (intro only_bind_result[OF only_createBootstrap] only_intros) (simp_all add: resultOk_def)
qed

end
