(* ===== verification/Pod_Conditions.thy ===== *)
theory Pod_Conditions
  imports Bootstrap
begin

text \<open>
  The sub-reconciler \<open>updatePodConditions\<close>
  (\<open>controllers/apps/v2beta1/update_pod_conditions.go\<close>): the readiness gate
  \<open>apps.emqx.io/on-serving\<close> of every pod, true while its node serves in the cluster, false once its
  set is being replaced.
\<close>

section \<open>Checks\<close>

definition checkRebalanceStatus ::
  "('w, 'c) env \<Rightarrow> EMQX \<Rightarrow> Requester option \<Rightarrow> pod \<Rightarrow> ('w, conditionStatus) op" where
  "checkRebalanceStatus E instance r p =
     (case r of
        None \<Rightarrow> ret ConditionFalse
      | Some rq \<Rightarrow>
          let portMap = (case GetDashboardPortMap (hocon E) (cfg_Data (SpecConfig (Spec instance))) of
                           Inl _ \<Rightarrow> Map.empty | Inr m \<Rightarrow> m);
              (schema, port) = dashboardEndpoint portMap;
              requester = \<lparr>rq_Schema = schema, rq_Host = joinHostPort E (pod_PodIP p) port,
                           rq_Username = rq_Username rq, rq_Password = rq_Password rq\<rparr>
          in do {
            resp \<leftarrow> Request E requester ''GET''
                      (GetURL requester ''api/v5/load_rebalance/availability_check'' []) JNull [];
            ret (case resp of
                   Inl _ \<Rightarrow> ConditionUnknown
                 | Inr rp \<Rightarrow> if resp_StatusCode rp \<noteq> 200 then ConditionFalse else ConditionTrue) })"

definition clusterNodes :: "EMQX \<Rightarrow> EMQXNode list" where
  "clusterNodes instance =
     (if IsExistReplicant instance then CoreNodes (Status instance) @ ReplicantNodes (Status instance)
      else CoreNodes (Status instance))"

definition checkInCluster ::
  "('w, 'c) env \<Rightarrow> EMQX \<Rightarrow> Requester option \<Rightarrow> pod \<Rightarrow> ('w, conditionStatus go) op" where
  "checkInCluster E instance r p =
     (case find (\<lambda>n. om_UID (pod_meta p) = n_PodUID n) (clusterNodes instance) of
        None \<Rightarrow> ret (Ret ConditionFalse)
      | Some node \<Rightarrow>
          if n_Edition node = ''Enterprise'' then
            (case semverLess E (n_Version node) ''5.0.3'' of
               None \<Rightarrow> ret Panic
             | Some older \<Rightarrow>
                 if \<not> older then do { c \<leftarrow> checkRebalanceStatus E instance r p; ret (Ret c) }
                 else ret (Ret ConditionTrue))
          else ret (Ret ConditionTrue))"

section \<open>One pod\<close>

text \<open>The condition as it is now: the last entry of the type wins.\<close>

definition onServingCondition :: "pod \<Rightarrow> podCondition" where
  "onServingCondition p =
     foldl (\<lambda>on c. if pc_Type c = PodOnServing
                   then on\<lparr>pc_Status := pc_Status c, pc_LastTransitionTime := pc_LastTransitionTime c\<rparr>
                   else on)
       \<lparr>pc_Type = PodOnServing, pc_Status = StatusUnset, pc_LastTransitionTime = zeroTime\<rparr>
       (pod_Conditions p)"

definition containersReady :: "pod \<Rightarrow> bool" where
  "containersReady p \<longleftrightarrow>
     (\<exists>c \<in> set (pod_Conditions p). pc_Type c = ''ContainersReady'' \<and> pc_Status c = ConditionTrue)"

definition setServing ::
  "('w, 'c) env \<Rightarrow> conditionStatus \<Rightarrow> podCondition \<Rightarrow> ('w, podCondition) op" where
  "setServing E status on =
     (if status \<noteq> pc_Status on then do {
        now \<leftarrow> timeNow E;
        ret (on\<lparr>pc_Status := status, pc_LastTransitionTime := now\<rparr>) }
      else ret on)"

definition servingCondition ::
  "('w, 'c) env \<Rightarrow> EMQX \<Rightarrow> Requester option \<Rightarrow> string set \<Rightarrow> string set \<Rightarrow> string \<Rightarrow> pod \<Rightarrow>
   ('w, podCondition go) op" where
  "servingCondition E instance r updateUIDs currentUIDs controller p =
     (let on = onServingCondition p
      in if controller \<in> updateUIDs then
           if containersReady p then do {
             status \<leftarrow> checkInCluster E instance r p;
             (case status of
                Panic \<Rightarrow> ret Panic
              | Ret st \<Rightarrow> do { on' \<leftarrow> setServing E st on; ret (Ret on') }) }
           else ret (Ret on)
         else if controller \<in> currentUIDs then
           if IsConditionTrue (Status instance) Available \<and> containersReady p
           then do { on' \<leftarrow> setServing E ConditionFalse on; ret (Ret on') }
           else ret (Ret on)
         else ret (Ret on))"

fun podConditionLoop ::
  "('w, 'c) env \<Rightarrow> EMQX \<Rightarrow> Requester option \<Rightarrow> string set \<Rightarrow> string set \<Rightarrow> pod list \<Rightarrow>
   ('w, unit go) op" where
  "podConditionLoop E instance r updateUIDs currentUIDs [] = ret (Ret ())"
| "podConditionLoop E instance r updateUIDs currentUIDs (p # ps) =
     (case om_controller (pod_meta p) of
        None \<Rightarrow> podConditionLoop E instance r updateUIDs currentUIDs ps
      | Some controller \<Rightarrow> do {
          cond \<leftarrow> servingCondition E instance r updateUIDs currentUIDs controller p;
          (case cond of
             Panic \<Rightarrow> ret Panic
           | Ret on \<Rightarrow> do {
               _ \<leftarrow> patchPodStatus E p on;
               podConditionLoop E instance r updateUIDs currentUIDs ps }) })"

section \<open>updatePodConditions\<close>

definition uidOr :: "('s \<Rightarrow> objectMeta) \<Rightarrow> 's option \<Rightarrow> string" where
  "uidOr meta s = (case s of None \<Rightarrow> [] | Some x \<Rightarrow> om_UID (meta x))"

definition updatePodConditions :: "('w, 'c) handler" where
  "updatePodConditions E instance r = do {
     (updateRs, currentRs, _) \<leftarrow> readReplicaSets E instance;
     (updateSts, currentSts, _) \<leftarrow> readStatefulSets E instance;
     pods \<leftarrow> listPods E (om_Namespace (Meta instance)) (DefaultLabels instance);
     res \<leftarrow> podConditionLoop E instance r
              {uidOr sts_meta updateSts, uidOr rs_meta updateRs}
              {uidOr sts_meta currentSts, uidOr rs_meta currentRs} pods;
     ret (case res of Panic \<Rightarrow> Panic | Ret _ \<Rightarrow> Ret (done_ok, instance)) }"

section \<open>Lemmas\<close>

text \<open>The patches of a trace: pod and condition.\<close>

definition patches :: "call list \<Rightarrow> (pod \<times> podCondition) list" where
  "patches l = concat (map (\<lambda>c. case c of TPatchPodStatus p on _ \<Rightarrow> [(p, on)] | _ \<Rightarrow> []) l)"

lemma patches_simps [simp]:
  "patches [] = []" "patches (l @ l') = patches l @ patches l'"
  "patches (TPatchPodStatus p on a # l) = (p, on) # patches l"
  "patches (TNow t # l) = patches l" "patches (THttp q b # l) = patches l"
  "patches (TListSts x1 x2 x3 # l) = patches l" "patches (TListRs x1 x2 x4 # l) = patches l"
  "patches (TListPods x1 x2 x5 # l) = patches l"
  by (simp_all add: patches_def)

text \<open>
  What may be patched onto a pod: serving is switched on only for a pod of an update set whose
  containers are ready and whose node is in the cluster, and switched off for the pods of the
  current set once the cluster is available.
\<close>

definition servingOk ::
  "EMQX \<Rightarrow> string set \<Rightarrow> string set \<Rightarrow> pod \<Rightarrow> podCondition \<Rightarrow> bool" where
  "servingOk instance updateUIDs currentUIDs p on \<longleftrightarrow>
     pc_Type on = PodOnServing \<and>
     (pc_Status on \<noteq> pc_Status (onServingCondition p) \<longrightarrow>
        containersReady p \<and>
        (\<exists>controller. om_controller (pod_meta p) = Some controller \<and>
           (controller \<in> updateUIDs \<or>
            (controller \<in> currentUIDs \<and> IsConditionTrue (Status instance) Available \<and>
             pc_Status on = ConditionFalse)) \<and>
           (pc_Status on = ConditionTrue \<longrightarrow>
              controller \<in> updateUIDs \<and>
              (\<exists>n \<in> set (clusterNodes instance). n_PodUID n = om_UID (pod_meta p)))))"

lemma onServing_type [simp]: "pc_Type (onServingCondition p) = PodOnServing"
proof -
  have "pc_Type (foldl (\<lambda>on c. if pc_Type c = PodOnServing
      then on\<lparr>pc_Status := pc_Status c, pc_LastTransitionTime := pc_LastTransitionTime c\<rparr> else on)
      on cs) = pc_Type on" for on :: podCondition and cs :: "podCondition list"
    by (induction cs arbitrary: on) auto
  then show ?thesis by (simp add: onServingCondition_def)
qed

lemma obeys_checkInCluster:
  "obeys (checkInCluster E x r p)
     (\<lambda>res l. patches l = [] \<and>
        (res = Ret ConditionTrue \<longrightarrow> (\<exists>n \<in> set (clusterNodes x). n_PodUID n = om_UID (pod_meta p))))"
proof (cases "find (\<lambda>n. om_UID (pod_meta p) = n_PodUID n) (clusterNodes x)")
  case None
  then show ?thesis by (simp add: checkInCluster_def obeys_return)
next
  case (Some node)
  then have n: "\<exists>n \<in> set (clusterNodes x). n_PodUID n = om_UID (pod_meta p)"
    using find_SomeD by fastforce
  have "obeys (checkRebalanceStatus E x r p) (\<lambda>_ l. patches l = [])"
    unfolding checkRebalanceStatus_def Let_def
    by (intro obeys_case_option obeys_return obeys_case_prod obeys_bind[OF obeys_Request[where
          P = "\<lambda>_ l. patches l = []"]]) auto
  with n Some show ?thesis
    unfolding checkInCluster_def Some option.case
    by (intro obeys_if obeys_case_option obeys_return obeys_bind[of "checkRebalanceStatus E x r p"]) auto
qed

lemma obeys_setServing:
  "obeys (setServing E st on)
     (\<lambda>on' l. patches l = [] \<and> pc_Type on' = pc_Type on \<and> pc_Status on' = st)"
  unfolding setServing_def timeNow_def by (intro obeys_intros) auto

lemma obeys_servingCondition:
  assumes "om_controller (pod_meta p) = Some controller"
  shows "obeys (servingCondition E x r U C controller p)
    (\<lambda>res l. patches l = [] \<and> (\<forall>on. res = Ret on \<longrightarrow> servingOk x U C p on))"
  unfolding servingCondition_def Let_def
  by (intro obeys_if obeys_bind[OF obeys_checkInCluster] obeys_case_go obeys_return
      obeys_bind[OF obeys_setServing])
    (auto simp: servingOk_def assms)

lemma obeys_podConditionLoop:
  "obeys (podConditionLoop E x r U C pods)
     (\<lambda>_ l. \<forall>(p, on) \<in> set (patches l). p \<in> set pods \<and> servingOk x U C p on)"
proof (induction pods)
  case (Cons p ps)
  show ?case
  proof (cases "om_controller (pod_meta p)")
    case None
    then show ?thesis by (auto intro: obeys_mono[OF Cons])
  next
    case (Some controller)
    then show ?thesis
      unfolding podConditionLoop.simps Some option.case patchPodStatus_def
      by (intro obeys_bind[OF obeys_servingCondition[OF Some]] obeys_case_go obeys_return
          obeys_bind_prim obeys_mono[OF Cons]) auto
  qed
qed (simp add: obeys_return)

section \<open>The contract\<close>

lemma only_servingCondition [only_intros]:
  "onlyCalls (writeOk E) (servingCondition E x r updateUIDs currentUIDs controller p)"
  unfolding servingCondition_def checkInCluster_def checkRebalanceStatus_def setServing_def call_defs
  by (intro only_intros) simp_all

lemma only_podConditionLoop [only_intros]:
  "onlyCalls (writeOk E) (podConditionLoop E x r updateUIDs currentUIDs ps)"
  by (induction ps) (auto simp: patchPodStatus_def intro!: only_intros)

interpretation updatePodConditions_contract: sub_reconciler updatePodConditions
proof unfold_locales
  fix E :: "('w, 'c) env" and x r
  show "only (writeOk E) resultOk (updatePodConditions E x r)"
    unfolding updatePodConditions_def listPods_def
    by (intro only_intros) (auto split: go.splits)
qed

end
