(* ===== verification/Services.thy ===== *)
theory Services
  imports Reads
begin

text \<open>
  The services and disruption budgets of a cluster:
  \<open>controllers/apps/v2beta1/add_headless_svc.go\<close>, \<open>add_svc.go\<close> and \<open>add_pdb.go\<close>. The generated
  objects are handed to the handler of \<open>Handler\<close>; a nil dereference is \<open>Panic\<close>.
\<close>

section \<open>The headless service\<close>

definition objectLabels :: "EMQX \<Rightarrow> gomap" where
  "objectLabels instance = CloneAndMergeMap (DefaultLabels instance) [om_Labels (Meta instance)]"

definition generateHeadlessService :: "EMQX \<Rightarrow> service" where
  "generateHeadlessService instance =
     \<lparr>svc_APIVersion = ''v1'', svc_Kind = ''Service'',
      svc_meta = emptyMeta\<lparr>om_Namespace := om_Namespace (Meta instance),
        om_Name := snd (HeadlessServiceNamespacedName instance),
        om_Labels := objectLabels instance\<rparr>,
      svc_spec = emptyServiceSpec\<lparr>ss_Type := ''ClusterIP'', ss_ClusterIP := ''None'',
        ss_SessionAffinity := ''None'', ss_PublishNotReadyAddresses := True,
        ss_Selector := DefaultCoreLabels instance,
        ss_Ports := [tcpPort ''erlang-dist'' 4370, tcpPort ''gen-rpc'' 5369]\<rparr>\<rparr>"

definition addHeadlessSvc :: "('w, 'c) handler" where
  "addHeadlessSvc E instance r = do {
     err \<leftarrow> CreateOrUpdateList E (Meta instance) [OService (generateHeadlessService instance)];
     ret (Ret (case err of
                 Some e \<Rightarrow> (done_err (ErrWrap ''failed to create or update services'' e), instance)
               | None \<Rightarrow> (done_ok, instance))) }"

section \<open>The dashboard and listener services\<close>

definition getEMQXConfigsByAPI :: "('w, 'c) env \<Rightarrow> Requester \<Rightarrow> ('w, goerr + string) op" where
  "getEMQXConfigsByAPI E r =
     (let u = GetURL r ''api/v5/configs'' []
      in do {
        resp \<leftarrow> Request E r ''GET'' u JNull [(''Accept'', ''text/plain'')];
        ret (case resp of
               Inl err \<Rightarrow> Inl (ErrWrap (''failed to get API '' @ url_Path u) err)
             | Inr rp \<Rightarrow>
                 if resp_StatusCode rp \<noteq> 200
                 then Inl (ErrText (''failed to get API '' @ url_Path u @ '', status : '' @
                        resp_Status rp @ '', body: '' @ resp_Body rp))
                 else Inr (resp_Body rp)) })"

text \<open>The template of a service: its metadata and spec, \<open>None\<close> when it is switched off.\<close>

definition serviceTemplate :: "ServiceTemplate option \<Rightarrow> (objectMeta \<times> serviceSpec) option go" where
  "serviceTemplate t =
     (case t of
        None \<Rightarrow> Ret (Some (emptyMeta, emptyServiceSpec))
      | Some template \<Rightarrow>
          (case stpl_Enabled template of
             None \<Rightarrow> Panic
           | Some enabled \<Rightarrow>
               if \<not> enabled then Ret None
               else Ret (Some (stpl_meta template, stpl_Spec template))))"

definition clusterService :: "EMQX \<Rightarrow> string \<Rightarrow> objectMeta \<Rightarrow> serviceSpec \<Rightarrow> service" where
  "clusterService instance name meta spec =
     \<lparr>svc_APIVersion = ''v1'', svc_Kind = ''Service'',
      svc_meta = emptyMeta\<lparr>om_Namespace := om_Namespace (Meta instance), om_Name := name,
        om_Labels := CloneAndMergeMap (DefaultLabels instance) [om_Labels meta],
        om_Annotations := om_Annotations meta\<rparr>,
      svc_spec = spec\<rparr>"

definition generateDashboardService :: "'c hoconLib \<Rightarrow> EMQX \<Rightarrow> string \<Rightarrow> service option go" where
  "generateDashboardService lib instance configStr =
     (case serviceTemplate (DashboardServiceTemplate (Spec instance)) of
        Panic \<Rightarrow> Panic
      | Ret None \<Rightarrow> Ret None
      | Ret (Some (meta, spec)) \<Rightarrow>
          let ports = (case GetDashboardServicePort lib configStr of Inl _ \<Rightarrow> [] | Inr ps \<Rightarrow> ps)
          in if ports = [] then Ret None
             else Ret (Some (clusterService instance (snd (DashboardServiceNamespacedName instance)) meta
                    (spec\<lparr>ss_Ports := MergeServicePorts (ss_Ports spec) ports,
                          ss_Selector := DefaultCoreLabels instance\<rparr>))))"

definition defaultListenerPorts :: "servicePort list" where
  "defaultListenerPorts =
     [tcpPort ''tcp-default'' 1883, tcpPort ''ssl-default'' 8883, tcpPort ''ws-default'' 8083,
      tcpPort ''wss-default'' 8084]"

definition listenerSelector :: "EMQX \<Rightarrow> gomap" where
  "listenerSelector instance =
     (if IsExistReplicant instance \<and> ns_ReadyReplicas (ReplicantNodesStatus (Status instance)) > 0
      then DefaultReplicantLabels instance else DefaultCoreLabels instance)"

definition generateListenerService :: "'c hoconLib \<Rightarrow> EMQX \<Rightarrow> string \<Rightarrow> service option go" where
  "generateListenerService lib instance configStr =
     (case serviceTemplate (ListenersServiceTemplate (Spec instance)) of
        Panic \<Rightarrow> Panic
      | Ret None \<Rightarrow> Ret None
      | Ret (Some (meta, spec)) \<Rightarrow>
          (case GetListenersServicePorts lib configStr of
             Panic \<Rightarrow> Panic
           | Ret parsed \<Rightarrow>
               let ports = (case parsed of Inl _ \<Rightarrow> [] | Inr ps \<Rightarrow> ps);
                   ports' = (if ports = [] then defaultListenerPorts else ports)
               in Ret (Some (clusterService instance (snd (ListenersServiceNamespacedName instance)) meta
                    (spec\<lparr>ss_Ports := MergeServicePorts (ss_Ports spec) ports',
                          ss_Selector := listenerSelector instance\<rparr>)))))"

definition optService :: "service option \<Rightarrow> obj list" where
  "optService s = (case s of None \<Rightarrow> [] | Some svc \<Rightarrow> [OService svc])"

definition addSvc :: "('w, 'c) handler" where
  "addSvc E instance r =
     (case r of
        None \<Rightarrow> ret (Ret (done_ok, instance))
      | Some rq \<Rightarrow>
          if \<not> IsConditionTrue (Status instance) CoreNodesReady then ret (Ret (done_ok, instance))
          else do {
            config \<leftarrow> getEMQXConfigsByAPI E rq;
            (case config of
               Inl err \<Rightarrow>
                 ret (Ret (done_err (ErrWrap ''failed to get emqx configs by api'' err), instance))
             | Inr configStr \<Rightarrow>
                 (case generateDashboardService (hocon E) instance configStr of
                    Panic \<Rightarrow> ret Panic
                  | Ret dashboard \<Rightarrow>
                      (case generateListenerService (hocon E) instance configStr of
                         Panic \<Rightarrow> ret Panic
                       | Ret listeners \<Rightarrow> do {
                           err \<leftarrow> CreateOrUpdateList E (Meta instance)
                                    (optService dashboard @ optService listeners);
                           ret (Ret (case err of
                                 Some e \<Rightarrow>
                                   (done_err (ErrWrap ''failed to create or update services'' e), instance)
                               | None \<Rightarrow> (done_ok, instance))) }))) })"

section \<open>Disruption budgets\<close>

definition corePdb :: "string \<Rightarrow> EMQX \<Rightarrow> pdb" where
  "corePdb apiVersion instance =
     (let core = CoreTemplate (Spec instance)
      in \<lparr>pdb_APIVersion = apiVersion,
          pdb_meta = emptyMeta\<lparr>om_Namespace := om_Namespace (Meta instance),
            om_Name := snd (CoreNamespacedName instance), om_Labels := objectLabels instance\<rparr>,
          pdb_Selector = \<lparr>sel_MatchLabels =
              CloneAndMergeMap (DefaultCoreLabels instance) [om_Labels (ct_meta core)],
            sel_MatchExpressions = None\<rparr>,
          pdb_MinAvailable = t_MinAvailable (ct_Spec core),
          pdb_MaxUnavailable = t_MaxUnavailable (ct_Spec core)\<rparr>)"

definition replicantPdb :: "EMQX \<Rightarrow> pdb \<Rightarrow> pdb option" where
  "replicantPdb instance core =
     (case ReplicantTemplate (Spec instance) of
        None \<Rightarrow> None
      | Some t \<Rightarrow>
          if \<not> IsExistReplicant instance then None
          else Some (core\<lparr>pdb_meta := (pdb_meta core)\<lparr>om_Name := snd (ReplicantNamespacedName instance)\<rparr>,
                 pdb_Selector := (pdb_Selector core)\<lparr>sel_MatchLabels :=
                   CloneAndMergeMap (DefaultReplicantLabels instance) [om_Labels (rt_meta t)]\<rparr>,
                 pdb_MinAvailable := t_MinAvailable (rt_Spec t),
                 pdb_MaxUnavailable := t_MaxUnavailable (rt_Spec t)\<rparr>))"

definition generatePodDisruptionBudget :: "EMQX \<Rightarrow> pdb \<times> pdb option" where
  "generatePodDisruptionBudget instance =
     (let core = corePdb ''policy/v1'' instance in (core, replicantPdb instance core))"

text \<open>The variant for old servers also writes the API version \<open>policy/v1\<close>.\<close>

definition generatePodDisruptionBudgetV1beta1 :: "EMQX \<Rightarrow> pdb \<times> pdb option" where
  "generatePodDisruptionBudgetV1beta1 instance =
     (let core = corePdb ''policy/v1'' instance in (core, replicantPdb instance core))"

definition addPdb :: "('w, 'c) handler" where
  "addPdb E instance r = do {
     version \<leftarrow> serverVersion E;
     (case semverLess E version ''1.21'' of
        None \<Rightarrow> ret Panic
      | Some old \<Rightarrow>
          let (core, repl) = (if old then generatePodDisruptionBudgetV1beta1 instance
                              else generatePodDisruptionBudget instance);
              pdbList = OPdb core # (case repl of None \<Rightarrow> [] | Some p \<Rightarrow> [OPdb p])
          in do {
            err \<leftarrow> CreateOrUpdateList E (Meta instance) pdbList;
            ret (Ret (case err of
                        Some e \<Rightarrow> (done_err (ErrWrap ''failed to create or update PDBs'' e), instance)
                      | None \<Rightarrow> (done_ok, instance))) }) }"

section \<open>Lemmas\<close>

lemma serviceTemplate_simps [simp]:
  "serviceTemplate None = Ret (Some (emptyMeta, emptyServiceSpec))"
  by (simp add: serviceTemplate_def)

lemma listenerSelector_cases:
  "listenerSelector x = DefaultCoreLabels x \<or>
   (listenerSelector x = DefaultReplicantLabels x \<and>
    0 < ns_ReadyReplicas (ReplicantNodesStatus (Status x)))"
  by (simp add: listenerSelector_def)

lemma generateListenerService_SomeD:
  assumes "generateListenerService lib x config = Ret (Some svc)"
  shows "\<exists>given ports. ss_Ports (svc_spec svc) = MergeServicePorts given ports \<and> ports \<noteq> [] \<and>
    ss_Selector (svc_spec svc) = listenerSelector x \<and>
    om_Name (svc_meta svc) = om_Name (Meta x) @ ''-listeners'' \<and>
    matchesLabels (DefaultLabels x) (om_Labels (svc_meta svc))"
  using assms
  by (auto simp: generateListenerService_def Let_def clusterService_def name_defs emptyMeta_def
      matchesLabels_merge defaultListenerPorts_def
      split: go.splits option.splits if_splits prod.splits intro!: exI)

lemma generateDashboardService_SomeD:
  assumes "generateDashboardService lib x config = Ret (Some svc)"
  shows "\<exists>given ports. ss_Ports (svc_spec svc) = MergeServicePorts given ports \<and> ports \<noteq> [] \<and>
    ss_Selector (svc_spec svc) = DefaultCoreLabels x \<and>
    om_Name (svc_meta svc) = om_Name (Meta x) @ ''-dashboard'' \<and>
    matchesLabels (DefaultLabels x) (om_Labels (svc_meta svc))"
  using assms
  by (auto simp: generateDashboardService_def Let_def clusterService_def name_defs emptyMeta_def
      matchesLabels_merge
      split: go.splits option.splits if_splits prod.splits intro!: exI)

section \<open>The contract\<close>

lemma only_getConfigs [only_intros]: "onlyCalls (writeOk E) (getEMQXConfigsByAPI E rq)"
  unfolding getEMQXConfigsByAPI_def by (intro only_intros) simp_all

interpretation addHeadlessSvc_contract: sub_reconciler addHeadlessSvc
proof unfold_locales
  fix E :: "('w, 'c) env" and x r
  show "only (writeOk E) resultOk (addHeadlessSvc E x r)"
    unfolding addHeadlessSvc_def by (intro only_intros) (auto split: option.splits)
qed

interpretation addSvc_contract: sub_reconciler addSvc
proof unfold_locales
  fix E :: "('w, 'c) env" and x r
  show "only (writeOk E) resultOk (addSvc E x r)"
    unfolding addSvc_def call_defs by (intro only_intros) (auto simp: optService_def split: option.splits)
qed

interpretation addPdb_contract: sub_reconciler addPdb
proof unfold_locales
  fix E :: "('w, 'c) env" and x r
  show "only (writeOk E) resultOk (addPdb E x r)"
    unfolding addPdb_def call_defs by (intro only_intros) (auto split: option.splits)
qed

end
