(* ===== verification/Workload_Properties.thy ===== *)
theory Workload_Properties
  imports Examples Workloads Update_Status Pod_Conditions Bootstrap Services
begin

text \<open>
  The properties of the objects the controller keeps in the cluster: the sets of nodes, the pods'
  serving condition, the bootstrap key and the services, with the concrete runs that witness them.
\<close>

section \<open>Helper lemmas and data\<close>

lemma labelHash_getNew:
  "labelHash (sts_meta (getNewStatefulSet lib hl x)) =
     computeHash hl (sts_Template (generateStatefulSet x)) (ns_CollisionCount (CoreNodesStatus (Status x)))"
  by (simp add: sts_getNew)

lemma stsHash_getNew:
  "stsHash (getNewStatefulSet lib hl x) = Some (labelHash (sts_meta (getNewStatefulSet lib hl x)))"
  by (simp add: stsHash_def labelHash_def sts_getNew mget_finishMeta)

lemma hash_key [simp]: "LabelsPodTemplateHashKey \<noteq> []"
  by (simp add: LabelsPodTemplateHashKey_def)

lemma selector_matches_template:
  "matchesLabels (sel_MatchLabels (sts_Selector (getNewStatefulSet lib hl x)))
     (om_Labels (pt_meta (sts_Template (getNewStatefulSet lib hl x))))"
  by (simp add: getNewStatefulSet_def Let_def matchesLabels_def mget_CloneSelector mget_finishTemplate)

lemma coreProgressing_UpdateRevision:
  "ns_UpdateRevision (CoreNodesStatus (Status (coreProgressing now reason message h x))) = h"
  by (simp add: coreProgressing_def Let_def)

section \<open>The sets of nodes\<close>

text \<open>
  C29. The StatefulSet that \<open>addCore\<close> creates is found again: its name and its hash label carry the
  hash of its pod template, its selector accepts the pods of its own template, the labels the
  controller lists by accept it, and once the status names its revision the next list classifies it
  as the set to update to.
\<close>

theorem new_statefulset_found_again:
  fixes x :: EMQX and lib :: "'c hoconLib" and hl :: hashLib
  defines "new \<equiv> getNewStatefulSet lib hl x"
  defines "h \<equiv> computeHash hl (sts_Template (generateStatefulSet x)) (ns_CollisionCount (CoreNodesStatus (Status x)))"
  assumes others: "\<forall>s \<in> set items. stsHash s \<noteq> Some h"
  shows "om_Name (sts_meta new) = om_Name (Meta x) @ ''-core-'' @ h \<and>
    matchesLabels (sel_MatchLabels (sts_Selector new)) (om_Labels (pt_meta (sts_Template new))) \<and>
    matchesLabels (DefaultCoreLabels x) (om_Labels (sts_meta new)) \<and>
    fst (getStateFulSetList (pre @ new # items) (coreProgressing now reason message h x)) = Some new"
proof (intro conjI)
  show "om_Name (sts_meta new) = om_Name (Meta x) @ ''-core-'' @ h"
    by (simp add: new_def h_def sts_getNew finishMeta_def)
  show "matchesLabels (sel_MatchLabels (sts_Selector new)) (om_Labels (pt_meta (sts_Template new)))"
    unfolding new_def by (rule selector_matches_template)
  show "matchesLabels (DefaultCoreLabels x) (om_Labels (sts_meta new))"
    unfolding new_def sts_getNew by (rule matchesLabels_defaults)
  have hash: "stsHash new = Some h" by (simp add: new_def h_def stsHash_getNew labelHash_getNew)
  have "find (\<lambda>s. stsHash s = Some h) (rev items) = None"
    using others by (simp add: find_None_iff)
  then have "find (\<lambda>s. stsHash s = Some h) (rev (pre @ new # items)) = Some new"
    by (induction items rule: rev_induct) (simp_all add: hash split: if_splits)
  then show "fst (getStateFulSetList (pre @ new # items) (coreProgressing now reason message h x)) = Some new"
    by (simp add: getStateFulSetList_simps coreProgressing_UpdateRevision)
qed

theorem new_statefulset_found_again_witness:
  "fst (getStateFulSetList
     [exSts ''emqx-core-old'' ''old'' 1, getNewStatefulSet exHocon exHash (exEMQX [] [] [])]
     (coreProgressing 7 [] []
       (computeHash exHash (sts_Template (generateStatefulSet (exEMQX [] [] []))) None) (exEMQX [] [] []))) =
   Some (getNewStatefulSet exHocon exHash (exEMQX [] [] []))"
proof -
  have "ns_CollisionCount (CoreNodesStatus (Status (exEMQX [] [] []))) = None" by code_simp
  with new_statefulset_found_again[of "[]" exHash "exEMQX [] [] []" exHocon "[exSts ''emqx-core-old'' ''old'' 1]"]
  show ?thesis by simp
qed

text \<open>
  A change of the status alone never rolls the cluster over: what \<open>justCheckPodTemplate\<close> leaves
  of the StatefulSet generated before and after the change is the same, whatever hash and collision
  count the two carry.
\<close>

theorem status_change_keeps_template:
  "justCheckPodTemplate (sts_Template (getNewStatefulSet lib hl x))
     (sts_Template (getNewStatefulSet lib hl (x\<lparr>Status := s\<rparr>))) =
   (getPodTemplate (sts_Template (getNewStatefulSet lib hl x)),
    getPodTemplate (sts_Template (getNewStatefulSet lib hl x)))"
  by (simp add: justCheckPodTemplate_def getNewStatefulSet_def Let_def)
    (rule getPodTemplate_hash_irrelevant)

text \<open>
  C23. \<open>addCore\<close> touches nothing but the core sets and the status: it creates at most the one
  StatefulSet generated from the spec, and it asks to be run again exactly when that name was taken
  and the spec was not rolled back, after the collision count in the status was raised.
\<close>

theorem addCore_creates_generated_set:
  assumes "annotatorOk E"
  shows "obeys (addCore E x r)
    (\<lambda>res l. list_all (addCoreCall E x) l \<and>
       (case res of Panic \<Rightarrow> True | Ret (sr, y) \<Rightarrow>
          setOutcome (bumpCoreCollision x)
            (rolledBack x (labelHash (sts_meta (getNewStatefulSet (hocon E) (hashes E) x)))
               (ns_CurrentRevision (CoreNodesStatus (Status x)))) sr l))"
  by (rule obeys_mono[OF obeys_addCore[OF assms]]) (auto split: go.splits)

definition exTaken :: "(time, unit) env" where
  "exTaken = exEnv (exEmpty\<lparr>ex_created := Some ErrAlreadyExists\<rparr>)"

theorem addCore_creates_generated_set_witness:
  "\<exists>sr y. fst (run_state (addCore exTaken (exEMQX [] [] []) None) exStart) = Ret (sr, y) \<and>
     sr = done_requeue \<and> list_all (addCoreCall exTaken (exEMQX [] [] [])) (runOf (addCore exTaken (exEMQX [] [] []) None)) \<and>
     nameTaken (runOf (addCore exTaken (exEMQX [] [] []) None))"
proof -
  let ?m = "addCore exTaken (exEMQX [] [] []) None"
  have ok: "annotatorOk exTaken" unfolding exTaken_def by (rule exEnv_annotatorOk)
  have no: "\<not> rolledBack (exEMQX [] [] []) hash cur" for hash cur
    by (simp add: rolledBack_def exEMQX_def exStatus_def GetLastTrueCondition_def)
  obtain sr y where run: "fst (run_state ?m exStart) = Ret (sr, y)" and sr: "sr = done_requeue"
    by (simp add: no IsAlreadyExists_def addCore_def createStatefulSet_def Create_def call_defs prim_def exTaken_def exEnv_def
        exEmpty_def readStatefulSets_def getStateFulSetList_simps statusUpdate_def exStart_def Let_def)
  from obeys_run[OF addCore_creates_generated_set[OF ok], of "exEMQX [] [] []" None]
  show ?thesis using sr unfolding run by (auto simp: setOutcome_def done_requeue_def IsZero_def zeroResult_def)
qed


definition exReplicated :: "condition list \<Rightarrow> EMQX" where
  "exReplicated cs = (exEMQX cs ''h'' ''h'')\<lparr>Spec := exSpec\<lparr>ReplicantTemplate :=
     Some \<lparr>rt_meta = emptyMeta, rt_Spec = exReplicantSpec 1\<rparr>\<rparr>\<rparr>"


section \<open>Nodes and pods\<close>

text \<open>
  The status lists exactly the nodes the EMQX API reports and that run on a pod of the cluster
  with a controller: core nodes by pod name, replicant nodes by pod IP, each with the UIDs of its pod
  and of the set that owns the pod, and both lists by uptime.
\<close>

theorem assignNodes_exact:
  "set (fst (assignNodes nodes pods)) =
     {n. \<exists>node \<in> set nodes. \<exists>p \<in> set pods. onPod node p n \<and> n_Role node = ''core'' \<and>
        hasPrefix (nodeHost (n_Node node)) (om_Name (pod_meta p))} \<and>
   set (snd (assignNodes nodes pods)) =
     {n. \<exists>node \<in> set nodes. \<exists>p \<in> set pods. onPod node p n \<and> n_Role node = ''replicant'' \<and>
        nodeHost (n_Node node) = pod_PodIP p} \<and>
   sorted_wrt (\<lambda>a b. n_Uptime a \<le> n_Uptime b) (fst (assignNodes nodes pods)) \<and>
   sorted_wrt (\<lambda>a b. n_Uptime a \<le> n_Uptime b) (snd (assignNodes nodes pods))"
  unfolding assignNodes_entries coreEntry_def replicantEntry_def by (simp add: assignNodes_sorted)

text \<open>
  Pod names that are prefixes of each other confuse the node list: when the name of one pod
  extends the name of another, as \<open>emqx-core-1\<close> and \<open>emqx-core-10\<close> do, the node on the longer one is
  listed twice, once with the UID of the wrong pod.
\<close>

theorem prefix_lists_node_twice:
  assumes "n_Role node = ''core''" "nodeHost (n_Node node) = om_Name (pod_meta q) @ rest"
    and "om_Name (pod_meta q) = om_Name (pod_meta p) @ suffix"
    and "om_controller (pod_meta p) = Some cp" "om_controller (pod_meta q) = Some cq"
  shows "length (fst (assignNodes [node] [p, q])) = 2 \<and>
    om_UID (pod_meta p) \<in> n_PodUID ` set (fst (assignNodes [node] [p, q]))"
proof -
  have pre: "hasPrefix (nodeHost (n_Node node)) (om_Name (pod_meta p))"
    "hasPrefix (nodeHost (n_Node node)) (om_Name (pod_meta q))"
    using assms(2,3) by (auto simp: hasPrefix_iff)
  have list: "fst (assignNodes [node] [p, q]) = go_sort lessUptime
      [node\<lparr>n_PodUID := om_UID (pod_meta p), n_ControllerUID := cp\<rparr>,
       node\<lparr>n_PodUID := om_UID (pod_meta q), n_ControllerUID := cq\<rparr>]"
    by (simp add: assignNodes_def Let_def assms(1,4,5) pre)
  show ?thesis unfolding list by simp
qed

theorem prefix_lists_node_twice_witness:
  "length (fst (assignNodes [exNode ''emqx@emqx-core-10.emqx-headless'' ''core'' ''Enterprise'']
     [exPod ''emqx-core-1'' ''sts'', exPod ''emqx-core-10'' ''sts''])) = 2"
proof -
  let ?n = "exNode ''emqx@emqx-core-10.emqx-headless'' ''core'' ''Enterprise''"
  have "nodeHost (n_Node ?n) = om_Name (pod_meta (exPod ''emqx-core-10'' ''sts'')) @ ''.emqx-headless''"
    by code_simp
  with prefix_lists_node_twice[of ?n "exPod ''emqx-core-10'' ''sts''" "''.emqx-headless''"
      "exPod ''emqx-core-1'' ''sts''" "''0''" "''sts''" "''sts''"]
  show ?thesis by (simp add: exNode_def exPod_def exMeta_def)
qed

text \<open>
  C22. A pod is switched to serving only when it belongs to a set of the update revision, its
  containers are ready and its node is in the cluster; a pod of the current revision is only ever
  switched off, and only once the cluster is available; no other pod is changed.
\<close>

theorem serving_only_in_cluster:
  "obeys (updatePodConditions E x r)
     (\<lambda>res l. \<exists>rsItems stsItems pods rest.
        l = TListRs (om_Namespace (Meta x)) (DefaultReplicantLabels x) rsItems #
            TListSts (om_Namespace (Meta x)) (DefaultCoreLabels x) stsItems #
            TListPods (om_Namespace (Meta x)) (DefaultLabels x) pods # rest \<and>
        (case (getReplicaSetList rsItems x, getStateFulSetList stsItems x) of
           ((updateRs, currentRs, _), (updateSts, currentSts, _)) \<Rightarrow>
             list_all (\<lambda>(p, on). p \<in> set pods \<and>
               servingOk x {uidOr sts_meta updateSts, uidOr rs_meta updateRs}
                 {uidOr sts_meta currentSts, uidOr rs_meta currentRs} p on) (patches l)))"
  unfolding updatePodConditions_def listPods_def list_all_iff
  by (intro obeys_bind_readRs obeys_bind_readSts obeys_case_prod obeys_bind_prim
      obeys_bind[OF obeys_podConditionLoop] obeys_return) (auto split: prod.splits)

section \<open>The bootstrap key\<close>

definition plainKey :: "BootstrapAPIKey \<Rightarrow> bool" where
  "plainKey k \<longleftrightarrow> bak_SecretRef k = None \<and> CHR 0x0A \<notin> set (bak_Key k) \<and> CHR 0x0A \<notin> set (bak_Secret k) \<and>
     \<not> opEntry (bak_Key k @ '':'' @ bak_Secret k)"

lemma apiKeyLoop_plain:
  "list_all plainKey keys \<Longrightarrow>
   apiKeyLoop E ns keys acc = ret (Inr (acc @ concat (map (\<lambda>k. apiKeyLine (bak_Key k) (bak_Secret k)) keys)))"
  by (induction keys arbitrary: acc) (simp_all add: plainKey_def)

lemma parse_keys:
  "list_all plainKey keys \<Longrightarrow> CHR 0x0A \<notin> set pw \<Longrightarrow>
   parseBootstrapKeys (concat (map (\<lambda>k. apiKeyLine (bak_Key k) (bak_Secret k)) keys) @
     DefaultBootstrapAPIKey @ '':'' @ pw) = Some (DefaultBootstrapAPIKey, pw)"
proof (induction keys)
  case Nil
  then show ?case
    using findUser_hit[of pw "[]"] by (simp add: parseBootstrapKeys_def splitByte_single)
next
  case (Cons k keys)
  let ?line = "bak_Key k @ '':'' @ bak_Secret k"
  have "CHR 0x0A \<notin> set ?line" and no: "\<not> opEntry ?line" using Cons.prems(1) by (auto simp: plainKey_def)
  then have "splitByte (CHR 0x0A) (apiKeyLine (bak_Key k) (bak_Secret k) @ t) =
      [?line] @ splitByte (CHR 0x0A) t" for t
    using splitByte_append_sep[of "CHR 0x0A" ?line t] by (simp add: apiKeyLine_def newline_def)
  with Cons no show ?case
    using findUser_skip[of "[?line]"] by (simp add: parseBootstrapKeys_def)
qed

text \<open>
  C31. The operator can log in with the key it stored: when the keys of the spec are given inline, have
  no line break and do not themselves begin with the operator's name, the secret that
  \<open>addBootstrap\<close> builds from them is read back by \<open>getBootstrapAPIKey\<close> as the operator's name and the
  generated password.
\<close>

theorem bootstrap_key_roundtrip:
  assumes "list_all plainKey (BootstrapAPIKeys (Spec x))"
  shows "obeys (State_Monad.bind (getAPIKeyString E x) (\<lambda>keys. case keys of
        Inl err \<Rightarrow> ret None
      | Inr ks \<Rightarrow> State_Monad.bind (generateBootstrapAPIKeySecret E x ks) (\<lambda>s. ret (Some s))))
    (\<lambda>res l. \<exists>pw s keyData. l = [TPassword pw] \<and> res = Some s \<and>
       mget (sec_StringData s) ''bootstrap_api_key'' = Some keyData \<and>
       (CHR 0x0A \<notin> set pw \<longrightarrow> parseBootstrapKeys keyData = Some (DefaultBootstrapAPIKey, pw)))"
proof -
  have parse: "CHR 0x0A \<notin> set pw \<Longrightarrow> parseBootstrapKeys
      (concat (map (\<lambda>k. apiKeyLine (bak_Key k) (bak_Secret k)) (BootstrapAPIKeys (Spec x))) @
        DefaultBootstrapAPIKey @ '':'' @ pw) = Some (DefaultBootstrapAPIKey, pw)" for pw
    by (rule parse_keys[OF assms])
  show ?thesis
    unfolding getAPIKeyString_def apiKeyLoop_plain[OF assms] generateBootstrapAPIKeySecret_def
      generatePassword_def
    by (simp, intro obeys_bind_prim obeys_return)
      (use parse in \<open>auto simp: bootstrapSecret_def mget_def\<close>)
qed

definition exKeyed :: EMQX where
  "exKeyed = (exEMQX [] [] [])\<lparr>Spec := exSpec\<lparr>BootstrapAPIKeys :=
     [\<lparr>bak_Key = ''alice'', bak_Secret = ''s3cret'', bak_SecretRef = None\<rparr>]\<rparr>\<rparr>"

theorem bootstrap_key_roundtrip_witness:
  "\<exists>s keyData. fst (run_state (State_Monad.bind (getAPIKeyString (exEnv exEmpty) exKeyed) (\<lambda>keys. case keys of
        Inl err \<Rightarrow> ret None
      | Inr ks \<Rightarrow> State_Monad.bind (generateBootstrapAPIKeySecret (exEnv exEmpty) exKeyed ks) (\<lambda>s. ret (Some s)))) exStart) = Some s \<and>
     mget (sec_StringData s) ''bootstrap_api_key'' = Some keyData \<and>
     parseBootstrapKeys keyData = Some (''emqx-operator-controller'', ''pw'')"
proof -
  let ?m = "State_Monad.bind (getAPIKeyString (exEnv exEmpty) exKeyed) (\<lambda>keys. case keys of
        Inl err \<Rightarrow> ret None
      | Inr ks \<Rightarrow> State_Monad.bind (generateBootstrapAPIKeySecret (exEnv exEmpty) exKeyed ks) (\<lambda>s. ret (Some s)))"
  have plain: "list_all plainKey (BootstrapAPIKeys (Spec exKeyed))" by code_simp
  have "case runOf ?m of TPassword pw # _ \<Rightarrow> pw = ''pw'' | _ \<Rightarrow> False" by code_simp
  with obeys_run[OF bootstrap_key_roundtrip[OF plain], of "exEnv exEmpty"] show ?thesis
    by (auto simp: DefaultBootstrapAPIKey_def)
qed

section \<open>Services\<close>

lemma find_rev_distinct:
  assumes "distinct (map f xs)" "q \<in> set xs"
  shows "find (\<lambda>p. f p = f q) (rev xs) = Some q"
proof -
  obtain p where p: "find (\<lambda>p. f p = f q) (rev xs) = Some p"
    using assms(2) by (cases "find (\<lambda>p. f p = f q) (rev xs)") (auto simp: find_None_iff)
  then have "p \<in> set xs" "f p = f q" using find_rev_SomeD by fastforce+
  with p assms show ?thesis by (simp add: distinct_map inj_on_def)
qed

definition assigned :: "servicePort \<Rightarrow> servicePort \<Rightarrow> bool" where
  "assigned p q \<longleftrightarrow> q = p\<lparr>sp_NodePort := sp_NodePort q\<rparr> \<and> (sp_NodePort p \<noteq> 0 \<longrightarrow> q = p)"

lemma keepNodePort_assigned:
  assumes "distinct (map sp_Name qs)" "q \<in> set qs" "assigned p q"
  shows "keepNodePort (nodePortMap qs) p = q"
proof -
  have "sp_Name q = sp_Name p" using assms(3) unfolding assigned_def by (metis servicePort.ext_inject servicePort.surjective servicePort.update_convs)
  then have "nodePortMap qs (sp_Name p) = Some (sp_NodePort q)"
    using find_rev_distinct[OF assms(1,2)] by (simp add: nodePortMap_lookup)
  with assms(3) show ?thesis by (auto simp: keepNodePort_def assigned_def)
qed

text \<open>
  A service the operator generates again keeps the addresses the API server assigned: the
  cluster IP of a \<open>ClusterIP\<close> service, and every node port of a \<open>NodePort\<close> or
  \<open>LoadBalancer\<close> service whose ports have distinct names, so that an unchanged spec does not change
  the service.
\<close>

theorem service_keeps_assigned_addresses:
  assumes "distinct (map sp_Name (ss_Ports stored))" "list_all2 assigned (ss_Ports wanted) (ss_Ports stored)"
    and "ss_ClusterIP stored \<noteq> []"
  shows "if ss_Type wanted = ''NodePort'' \<or> ss_Type wanted = ''LoadBalancer''
    then ss_Ports (adoptService stored wanted) = ss_Ports stored
    else ss_Type wanted = [] \<or> ss_Type wanted = ''ClusterIP'' \<longrightarrow>
      ss_ClusterIP (adoptService stored wanted) = ss_ClusterIP stored"
proof -
  have "map (keepNodePort (nodePortMap (ss_Ports stored))) (ss_Ports wanted) = ss_Ports stored"
    using assms(1,2) keepNodePort_assigned[OF assms(1)]
    by (auto simp: list_all2_conv_all_nth intro!: nth_equalityI)
  then show ?thesis using assms(3) by (auto simp: adoptService_def Let_def)
qed

definition exService :: "string \<Rightarrow> string \<Rightarrow> int \<Rightarrow> serviceSpec" where
  "exService type ip nodePort = emptyServiceSpec\<lparr>ss_Type := type, ss_ClusterIP := ip,
     ss_Ports := [\<lparr>sp_Name = ''dashboard'', sp_Protocol = ''TCP'', sp_Port = 18083,
       sp_TargetPort = IntVal 18083, sp_NodePort = nodePort\<rparr>]\<rparr>"

theorem service_keeps_assigned_addresses_witness:
  "ss_Ports (adoptService (exService ''NodePort'' ''10.96.0.7'' 30083) (exService ''NodePort'' [] 0)) =
     ss_Ports (exService ''NodePort'' ''10.96.0.7'' 30083) \<and>
   ss_ClusterIP (adoptService (exService ''ClusterIP'' ''10.96.0.7'' 0) (exService [] [] 0)) = ''10.96.0.7''"
  using service_keeps_assigned_addresses[of "exService ''NodePort'' ''10.96.0.7'' 30083" "exService ''NodePort'' [] 0"]
    service_keeps_assigned_addresses[of "exService ''ClusterIP'' ''10.96.0.7'' 0" "exService [] [] 0"]
  by (simp add: exService_def assigned_def emptyServiceSpec_def)

end
