(* ===== verification/Sync_Config.thy ===== *)
theory Sync_Config
  imports Update_Status
begin

text \<open>
  The sub-reconciler \<open>syncConfig\<close> (\<open>controllers/apps/v2beta1/sync_emqx_config.go\<close>): the ConfigMap
  of the cluster, the annotation that remembers the last configuration, and the call that hands a
  changed configuration to the running nodes.
\<close>

definition mergeDefaultConfig :: "string \<Rightarrow> string" where
  "mergeDefaultConfig config =
     ''listeners.tcp.default.bind = 1883'' @ newline @
     ''listeners.ssl.default.bind = 8883'' @ newline @
     ''listeners.ws.default.bind  = 8083'' @ newline @
     ''listeners.wss.default.bind = 8084'' @ newline @ newline @ config"

definition generateConfigMap :: "EMQX \<Rightarrow> string \<Rightarrow> configMap" where
  "generateConfigMap instance conf =
     \<lparr>cm_meta = emptyMeta\<lparr>om_Name := snd (ConfigsNamespacedName instance),
        om_Namespace := om_Namespace (Meta instance),
        om_Labels := CloneAndMergeMap (DefaultLabels instance) [om_Labels (Meta instance)]\<rparr>,
      cm_Data = Some [''emqx.conf'' \<mapsto> conf]\<rparr>"

definition toLowerChar :: "char \<Rightarrow> char" where
  "toLowerChar c = (let n = (of_char c :: nat) in if 65 \<le> n \<and> n \<le> 90 then char_of (n + 32) else c)"

definition toLower :: "string \<Rightarrow> string" where
  "toLower s = map toLowerChar s"

definition putEMQXConfigsByAPI ::
  "('w, 'c) env \<Rightarrow> Requester \<Rightarrow> string \<Rightarrow> string \<Rightarrow> ('w, goerr option) op" where
  "putEMQXConfigsByAPI E r mode config =
     (let u = GetURL r ''api/v5/configs'' [''mode='' @ toLower mode, ''ignore_readonly=true'']
      in do {
        resp \<leftarrow> Request E r ''PUT'' u (JStr config) [(''Content-Type'', ''text/plain'')];
        ret (case resp of
               Inl err \<Rightarrow> Some (ErrWrap (''failed to put API '' @ urlString u) err)
             | Inr rp \<Rightarrow>
                 if resp_StatusCode rp \<noteq> 200 then Some (badStatus ''failed to put API '' u rp)
                 else None) })"

text \<open>The keys that a node before 5.7.0 refuses, removed from the root object with an event each.\<close>

definition readOnlyKeys :: "string list" where
  "readOnlyKeys = [''node'', ''cluster'', ''dashboard'', ''rpc'']"

fun dropReadOnly ::
  "string list \<Rightarrow> (string \<times> 'c) list \<Rightarrow> ('w, (string \<times> 'c) list) op" where
  "dropReadOnly [] flds = ret flds"
| "dropReadOnly (k # ks) flds =
     (if k \<in> fst ` set flds then do {
        _ \<leftarrow> recordEvent ''Normal'' ''WontUpdateReadOnlyConfig'';
        dropReadOnly ks (filter (\<lambda>f. fst f \<noteq> k) flds) }
      else dropReadOnly ks flds)"

definition writableConfig :: "('w, 'c) env \<Rightarrow> string \<Rightarrow> string \<Rightarrow> ('w, string go) op" where
  "writableConfig E version confStr =
     (case semverLess E version ''5.7.0'' of
        None \<Rightarrow> ret Panic
      | Some older \<Rightarrow>
          if \<not> older then ret (Ret confStr)
          else (case h_ParseString (hocon E) confStr of
                  Inl _ \<Rightarrow> ret Panic
                | Inr hoconConfig \<Rightarrow>
                    if \<not> h_isObject (hocon E) hoconConfig then ret Panic
                    else do {
                      flds \<leftarrow> dropReadOnly readOnlyKeys (h_fields (hocon E) hoconConfig);
                      ret (Ret (h_String (hocon E) (h_object (hocon E) flds))) }))"

definition setLastConfig :: "EMQX \<Rightarrow> EMQX" where
  "setLastConfig x =
     x\<lparr>Meta := (Meta x)\<lparr>om_Annotations :=
          mset_key (om_Annotations (Meta x)) AnnotationsLastEMQXConfigKey (cfg_Data (SpecConfig (Spec x)))\<rparr>\<rparr>"

definition saveLastConfig :: "('w, 'c) env \<Rightarrow> EMQX \<Rightarrow> ('w, subResult \<times> EMQX) op" where
  "saveLastConfig E instance = do {
     answer \<leftarrow> updateEMQX E (setLastConfig instance);
     ret (case answer of
            Inl err \<Rightarrow> (done_err (ErrWrap ''failed to update emqx instance annotation'' err),
                        setLastConfig instance)
          | Inr y \<Rightarrow> (done_ok, y)) }"

definition pushConfig ::
  "('w, 'c) env \<Rightarrow> EMQX \<Rightarrow> Requester option \<Rightarrow> string \<Rightarrow> ('w, (subResult \<times> EMQX) go) op" where
  "pushConfig E instance r confStr =
     (case CoreNodes (Status instance) of
        [] \<Rightarrow> ret Panic
      | node # _ \<Rightarrow> do {
          conf \<leftarrow> writableConfig E (n_Version node) confStr;
          (case conf of
             Panic \<Rightarrow> ret Panic
           | Ret conf' \<Rightarrow>
               (case r of
                  None \<Rightarrow> ret Panic
                | Some rq \<Rightarrow> do {
                    err \<leftarrow> putEMQXConfigsByAPI E rq (cfg_Mode (SpecConfig (Spec instance))) conf';
                    (case err of
                       Some e \<Rightarrow> ret (Ret (done_err (ErrWrap ''failed to put emqx config'' e), instance))
                     | None \<Rightarrow> do {
                         err \<leftarrow> update E (OConfigMap (generateConfigMap instance conf'));
                         (case err of
                            Some e \<Rightarrow>
                              ret (Ret (done_err (ErrWrap ''failed to update configMap'' e), instance))
                          | None \<Rightarrow> do { res \<leftarrow> saveLastConfig E instance; ret (Ret res) }) }) })) })"

definition syncConfig :: "('w, 'c) handler" where
  "syncConfig E instance r =
     (let confStr = mergeDefaultConfig (cfg_Data (SpecConfig (Spec instance)))
      in do {
        got \<leftarrow> getConfigMap E (om_Namespace (Meta instance)) (snd (ConfigsNamespacedName instance));
        (case got of
           Inl err \<Rightarrow>
             if IsNotFound err then
               let cm = generateConfigMap instance confStr
               in (case setControllerReference E (Meta instance) (cm_meta cm) of
                     Inl e \<Rightarrow>
                       ret (Ret (done_err (ErrWrap ''failed to set controller reference for configMap'' e),
                                 instance))
                   | Inr m \<Rightarrow> do {
                       err \<leftarrow> create E (OConfigMap (cm\<lparr>cm_meta := m\<rparr>));
                       ret (Ret (case err of
                             Some e \<Rightarrow> (done_err (ErrWrap ''failed to create configMap'' e), instance)
                           | None \<Rightarrow> (done_ok, instance))) })
             else ret (Ret (done_err (ErrWrap ''failed to get configMap'' err), instance))
         | Inr _ \<Rightarrow>
             (case mget (om_Annotations (Meta instance)) AnnotationsLastEMQXConfigKey of
                None \<Rightarrow> do { res \<leftarrow> saveLastConfig E instance; ret (Ret res) }
              | Some lastConfigStr \<Rightarrow>
                  if lastConfigStr \<noteq> cfg_Data (SpecConfig (Spec instance)) then
                    if \<not> IsConditionTrue (Status instance) CoreNodesReady
                    then ret (Ret (done_ok, instance))
                    else pushConfig E instance r confStr
                  else ret (Ret (done_ok, instance)))) })"

section \<open>Lemmas\<close>

lemma dropReadOnly_events:
  "obeys (dropReadOnly ks flds)
     (\<lambda>fs l. fs = filter (\<lambda>f. fst f \<notin> set ks) flds \<and> (\<forall>c \<in> set l. \<exists>k m. c = TEvent k m))"
proof (induction ks arbitrary: flds)
  case (Cons k ks)
  have same: "filter (\<lambda>f. fst f \<notin> set ks) (filter (\<lambda>f. fst f \<noteq> k) flds) =
      filter (\<lambda>f. fst f \<notin> set (k # ks)) flds"
    by (simp add: conj_commute)
  have skip: "filter (\<lambda>f. fst f \<notin> set ks) flds = filter (\<lambda>f. fst f \<notin> set (k # ks)) flds"
    if "k \<notin> fst ` set flds"
    using that by (intro filter_cong) auto
  show ?case
    unfolding dropReadOnly.simps recordEvent_def
    by (intro obeys_if obeys_bind_prim obeys_mono[OF Cons]) (auto simp: same skip simp del: filter_filter)
qed (simp add: obeys_return)

text \<open>
  The order of the writes of \<open>syncConfig\<close>: the nodes accept the configuration before the ConfigMap
  changes, and the ConfigMap changes before the annotation does.
\<close>

fun configOrder :: "call list \<Rightarrow> bool \<Rightarrow> bool \<Rightarrow> bool" where
  "configOrder [] put stored = True"
| "configOrder (THttp req (Inr rp) # l) put stored =
     configOrder l (put \<or> (hr_Method req = ''PUT'' \<and> resp_StatusCode rp = 200)) stored"
| "configOrder (TUpdate (OConfigMap _) err # l) put stored = (put \<and> configOrder l put (stored \<or> err = None))"
| "configOrder (TUpdateEMQX _ _ # l) put stored = (stored \<and> configOrder l put stored)"
| "configOrder (_ # l) put stored = configOrder l put stored"

lemma configOrder_events:
  "\<forall>c \<in> set l. \<exists>k m. c = TEvent k m \<Longrightarrow> configOrder (l @ l') a b = configOrder l' a b"
  by (induction l) auto

lemma obeys_writableConfig:
  "obeys (writableConfig E v conf) (\<lambda>_ l. \<forall>c \<in> set l. \<exists>k m. c = TEvent k m)"
  unfolding writableConfig_def
  by (intro obeys_case_option obeys_case_sum obeys_if obeys_return obeys_bind[OF dropReadOnly_events]) auto

lemma obeys_putEMQXConfigsByAPI:
  "obeys (putEMQXConfigsByAPI E r mode config)
     (\<lambda>err l. (l = [] \<or> (\<exists>q a. l = [THttp q a])) \<and>
        (err = None \<longrightarrow> (\<exists>q rp. l = [THttp q (Inr rp)] \<and> hr_Method q = ''PUT'' \<and> resp_StatusCode rp = 200)))"
  unfolding putEMQXConfigsByAPI_def Let_def
proof (rule obeys_bind[OF obeys_Request[where P = "\<lambda>resp l.
    (l = [] \<or> (\<exists>q a. l = [THttp q a])) \<and>
    (\<forall>rp. resp = Inr rp \<longrightarrow> (\<exists>q. l = [THttp q (Inr rp)] \<and> hr_Method q = ''PUT''))"]])
  fix resp l
  assume "l = [] \<or> (\<exists>ans. l = [THttp (buildRequest r ''PUT''
      (GetURL r ''api/v5/configs'' [''mode='' @ toLower mode, ''ignore_readonly=true''])
      (JStr config) [(''Content-Type'', ''text/plain'')]) ans])"
    "\<forall>rp. resp = Inr rp \<longrightarrow> l = [THttp (buildRequest r ''PUT''
      (GetURL r ''api/v5/configs'' [''mode='' @ toLower mode, ''ignore_readonly=true''])
      (JStr config) [(''Content-Type'', ''text/plain'')]) (Inr rp)]"
  then show "(l = [] \<or> (\<exists>q a. l = [THttp q a])) \<and>
      (\<forall>rp. resp = Inr rp \<longrightarrow> (\<exists>q. l = [THttp q (Inr rp)] \<and> hr_Method q = ''PUT''))"
    by fastforce
qed (auto intro!: obeys_return split: sum.splits if_splits)

lemma configOrder_http [simp]: "configOrder [THttp q a] put stored"
  by (cases a) simp_all

lemma configOrder_put:
  "(l = [] \<or> (\<exists>q a. l = [THttp q a])) \<and>
   (err = None \<longrightarrow> (\<exists>q rp. l = [THttp q (Inr rp)] \<and> hr_Method q = ''PUT'' \<and> resp_StatusCode rp = 200)) \<Longrightarrow>
   err \<noteq> None \<or> configOrder l' True False \<Longrightarrow> err = None \<or> l' = [] \<Longrightarrow>
   configOrder (l @ l') False False"
  by (auto split: sum.splits)

lemma obeys_saveLastConfig:
  "obeys (saveLastConfig E x) (\<lambda>res l. \<exists>a. l = [TUpdateEMQX (setLastConfig x) a])"
  unfolding saveLastConfig_def updateEMQX_def by (intro obeys_bind_prim obeys_return) auto

lemma obeys_pushConfig:
  "obeys (pushConfig E x r conf) (\<lambda>_ l. configOrder l False False)"
proof -
  have events: "obeys m (\<lambda>y l'. configOrder (l @ l') False False)"
    if "\<forall>c \<in> set l. \<exists>k m. c = TEvent k m" "obeys m (\<lambda>y l'. configOrder l' False False)"
    for m :: "('a, (subResult \<times> EMQX) go) op" and l
    using that by (simp add: configOrder_events)
  have put: "obeys m (\<lambda>y l'. configOrder (l @ l') False False)"
    if "(l = [] \<or> (\<exists>q a. l = [THttp q a])) \<and>
       (err = None \<longrightarrow> (\<exists>q rp. l = [THttp q (Inr rp)] \<and> hr_Method q = ''PUT'' \<and> resp_StatusCode rp = 200))"
      "obeys m (\<lambda>y l'. (err \<noteq> None \<or> configOrder l' True False) \<and> (err = None \<or> l' = []))"
    for m :: "('a, (subResult \<times> EMQX) go) op" and l and err :: "goerr option"
    by (rule obeys_mono[OF that(2)]) (use configOrder_put[OF that(1)] in auto)
  show ?thesis
    unfolding pushConfig_def update_def
    apply (rule obeys_case_list)
    apply (intro obeys_return, simp)
    apply (rule obeys_bind[OF obeys_writableConfig])
    apply (erule events)
    apply (intro obeys_case_go obeys_return obeys_case_option)
    apply (simp, simp)
    apply (rule obeys_bind[OF obeys_putEMQXConfigsByAPI])
    apply (erule put)
    apply (intro obeys_case_go obeys_return obeys_case_option obeys_bind_prim
        obeys_bind[OF obeys_saveLastConfig])
    by auto
qed

theorem syncConfig_calls:
  "obeys (syncConfig E x r) (\<lambda>res l.
     \<exists>got l'. l = TGetConfigMap (om_Namespace (Meta x)) (snd (ConfigsNamespacedName x)) got # l' \<and>
       (case got of
          Inl err \<Rightarrow> l' = [] \<or> (\<exists>cm e. IsNotFound err \<and> l' = [TCreate (OConfigMap cm) e] \<and>
              cm_Data cm = Some [''emqx.conf'' \<mapsto> mergeDefaultConfig (cfg_Data (SpecConfig (Spec x)))])
        | Inr _ \<Rightarrow>
            (case mget (om_Annotations (Meta x)) AnnotationsLastEMQXConfigKey of
               None \<Rightarrow> \<exists>a. l' = [TUpdateEMQX (setLastConfig x) a]
             | Some old \<Rightarrow>
                 if old \<noteq> cfg_Data (SpecConfig (Spec x)) \<and> IsConditionTrue (Status x) CoreNodesReady
                 then configOrder l' False False else l' = [])))"
  unfolding syncConfig_def getConfigMap_def create_def Let_def
  by (intro obeys_bind_prim obeys_case_sum obeys_case_option obeys_if obeys_return
      obeys_bind[OF obeys_saveLastConfig] obeys_mono[OF obeys_pushConfig])
    (auto simp: generateConfigMap_def)

section \<open>The contract\<close>

lemma only_dropReadOnly [only_intros]: "onlyCalls (writeOk E) (dropReadOnly ks flds)"
  by (induction ks arbitrary: flds) (auto simp: recordEvent_def intro!: only_intros)

lemma only_writableConfig [only_intros]: "onlyCalls (writeOk E) (writableConfig E v conf)"
  unfolding writableConfig_def by (intro only_intros) simp_all

lemma only_saveLastConfig:
  "only (writeOk E) (\<lambda>(sr, _). sub_result sr = zeroResult) (saveLastConfig E x)"
  unfolding saveLastConfig_def updateEMQX_def by (intro only_intros) (auto split: sum.splits)

interpretation syncConfig_contract: sub_reconciler syncConfig
proof unfold_locales
  fix E :: "('w, 'c) env" and x r
  show "only (writeOk E) resultOk (syncConfig E x r)"
    unfolding syncConfig_def pushConfig_def putEMQXConfigsByAPI_def call_defs
    by (intro only_bind_result[OF only_saveLastConfig] only_intros)
      (auto simp: resultOk_def split: option.splits)
qed

end
