(* ===== verification/Sync_Pods.thy ===== *)
theory Sync_Pods
  imports Update_Status
begin

text \<open>
  The sub-reconciler \<open>syncPods\<close> (\<open>controllers/apps/v2beta1/sync_pods.go\<close>): while an update is
  rolled out, the old ReplicaSet and then the old StatefulSet lose one pod at a time, after the
  sessions of its node have been evacuated.
\<close>

section \<open>The EMQX API\<close>

text \<open>A 404 counts as a stopped node; \<open>None\<close> is the nil pointer a JSON \<open>null\<close> decodes to.\<close>

definition emptyNode :: EMQXNode where
  "emptyNode = \<lparr>n_ControllerUID = [], n_PodUID = [], n_Node = [], n_NodeStatus = [],
     n_OTPRelease = [], n_Version = [], n_Role = [], n_Edition = [], n_Session = 0,
     n_Connections = 0, n_Uptime = 0\<rparr>"

definition getEMQXNodeInfoByAPI ::
  "('w, 'c) env \<Rightarrow> Requester \<Rightarrow> string \<Rightarrow> ('w, goerr + EMQXNode option) op" where
  "getEMQXNodeInfoByAPI E r nodeName =
     (let u = GetURL r (''api/v5/nodes/'' @ nodeName) []
      in do {
        resp \<leftarrow> Request E r ''GET'' u JNull [];
        ret (case resp of
               Inl err \<Rightarrow> Inl (ErrWrap ''failed to get API api/v5/nodes'' err)
             | Inr rp \<Rightarrow>
                 if resp_StatusCode rp = 404
                 then Inr (Some (emptyNode\<lparr>n_Node := nodeName, n_NodeStatus := ''stopped''\<rparr>))
                 else if resp_StatusCode rp \<noteq> 200 then Inl (badStatus ''failed to get API '' u rp)
                 else (case unmarshalNode E (resp_Body rp) of
                         Inl err \<Rightarrow> Inl (ErrWrap ''failed to unmarshal node statuses'' err)
                       | Inr nodeInfo \<Rightarrow> Inr nodeInfo)) })"

definition evacuationBody :: "EMQX \<Rightarrow> string list \<Rightarrow> json" where
  "evacuationBody instance migrateTo =
     (let es = us_EvacuationStrategy (SpecUpdateStrategy (Spec instance))
      in JObj ([(''conn_evict_rate'', JInt (es_ConnEvictRate es)),
                (''migrate_to'', JArr (map JStr migrateTo)),
                (''sess_evict_rate'', JInt (es_SessEvictRate es))] @
               (if es_WaitTakeover es > 0 then [(''wait_takeover'', JInt (es_WaitTakeover es))] else [])))"

definition startEvacuationByAPI ::
  "('w, 'c) env \<Rightarrow> Requester \<Rightarrow> EMQX \<Rightarrow> string list \<Rightarrow> string \<Rightarrow> ('w, goerr option) op" where
  "startEvacuationByAPI E r instance migrateTo nodeName =
     (let path = ''api/v5/load_rebalance/'' @ nodeName @ ''/evacuation/start'';
          u = GetURL r path []
      in do {
        resp \<leftarrow> Request E r ''POST'' u (evacuationBody instance migrateTo) [];
        ret (case resp of
               Inl err \<Rightarrow> Some (ErrWrap (''failed to request API '' @ path) err)
             | Inr rp \<Rightarrow>
                 if resp_StatusCode rp = 400 \<and> containsStr (resp_Body rp) ''already_started'' then None
                 else if resp_StatusCode rp \<noteq> 200
                 then Some (badStatus ''failed to request API '' u rp)
                 else None) })"

section \<open>Which pod may go\<close>

definition podDeletionCost :: string where
  "podDeletionCost = ''controller.kubernetes.io/pod-deletion-cost''"

text \<open>The loop labelled \<open>FindPod\<close>: the first replicant node of that name with a pod of the old set.\<close>

fun findEvacuatedPod :: "string \<Rightarrow> EMQXNode list \<Rightarrow> pod list \<Rightarrow> (pod \<times> EMQXNode) option" where
  "findEvacuatedPod emqxNode [] pods = None"
| "findEvacuatedPod emqxNode (node # nodes) pods =
     (if n_Node node = emqxNode then
        (case find (\<lambda>p. om_UID (pod_meta p) = n_PodUID node) pods of
           Some p \<Rightarrow> Some (p, node)
         | None \<Rightarrow> findEvacuatedPod emqxNode nodes pods)
      else findEvacuatedPod emqxNode nodes pods)"

definition alreadyGoing :: "pod \<Rightarrow> bool" where
  "alreadyGoing p \<longleftrightarrow>
     om_DeletionTimestamp (pod_meta p) \<noteq> None \<or> mget (om_Annotations (pod_meta p)) podDeletionCost \<noteq> None"

text \<open>
  The end that \<open>canBeScaleDownRs\<close> and \<open>canBeScaleDownSts\<close> share: a node of an enterprise edition
  with sessions is evacuated first, any other one waits for the takeover delay. \<open>Inr True\<close> lets the
  pod go.
\<close>

definition drained ::
  "('w, 'c) env \<Rightarrow> EMQX \<Rightarrow> Requester \<Rightarrow> objectMeta \<Rightarrow> string list \<Rightarrow> EMQXNode \<Rightarrow> ('w, goerr + bool) op" where
  "drained E instance r old targets info =
     (if n_Edition info = ''Enterprise'' \<and> n_Session info > 0 then do {
        err \<leftarrow> startEvacuationByAPI E r instance targets (n_Node info);
        (case err of
           Some e \<Rightarrow> ret (Inl (ErrWrap ''failed to start node evacuation'' e))
         | None \<Rightarrow> do { _ \<leftarrow> recordEvent ''Normal'' ''NodeEvacuation''; ret (Inr False) }) }
      else do {
        eList \<leftarrow> getEventList E old;
        now \<leftarrow> timeNow E;
        ret (Inr (checkWaitTakeoverReady now instance eList)) })"

definition drainPod ::
  "('w, 'c) env \<Rightarrow> EMQX \<Rightarrow> Requester \<Rightarrow> replicaSet \<Rightarrow> string list \<Rightarrow> pod \<Rightarrow> EMQXNode \<Rightarrow>
   ('w, (goerr + pod option) go) op" where
  "drainPod E instance r oldRs targets p info = do {
     ok \<leftarrow> drained E instance r (rs_meta oldRs) targets info;
     ret (Ret (case ok of Inl e \<Rightarrow> Inl e | Inr b \<Rightarrow> Inr (if b then Some p else None))) }"

text \<open>No evacuation is running: the pod with the greatest name, unless one is already going.\<close>

definition pickRsPod ::
  "('w, 'c) env \<Rightarrow> EMQX \<Rightarrow> Requester \<Rightarrow> replicaSet \<Rightarrow> string list \<Rightarrow> pod list \<Rightarrow>
   ('w, (goerr + pod option) go) op" where
  "pickRsPod E instance r oldRs targets oldRsPods =
     (let sorted = go_sort PodsByNameOlder oldRsPods;
          shouldDeletePod = hd sorted
      in case find alreadyGoing sorted of
           Some p \<Rightarrow> ret (Ret (Inr (Some p)))
         | None \<Rightarrow> do {
             info \<leftarrow> getEMQXNodeInfoByAPI E r (''emqx@'' @ pod_PodIP shouldDeletePod);
             (case info of
                Inl e \<Rightarrow> ret (Ret (Inl (ErrWrap ''failed to get node info by API'' e)))
              | Inr None \<Rightarrow> ret Panic
              | Inr (Some i) \<Rightarrow>
                  if n_NodeStatus i = ''stopped'' then ret (Ret (Inr (Some shouldDeletePod)))
                  else drainPod E instance r oldRs targets shouldDeletePod i) })"

definition canBeScaleDownRs ::
  "('w, 'c) env \<Rightarrow> EMQX \<Rightarrow> Requester \<Rightarrow> replicaSet \<Rightarrow> string list \<Rightarrow> ('w, (goerr + pod option) go) op" where
  "canBeScaleDownRs E instance r oldRs targets = do {
     now \<leftarrow> timeNow E;
     if \<not> checkInitialDelaySecondsReady now instance then ret (Ret (Inr None))
     else do {
       rsMap \<leftarrow> readRsPodMap E instance;
       let oldRsPods = (case rsMap (om_UID (rs_meta oldRs)) of None \<Rightarrow> [] | Some ps \<Rightarrow> ps) in
       if oldRsPods = [] then ret (Ret (Inr None))
       else (case NodeEvacuationsStatus (Status instance) of
               ev # _ \<Rightarrow>
                 if ne_State ev \<noteq> ''prohibiting'' then ret (Ret (Inr None))
                 else (case findEvacuatedPod (ne_Node ev) (ReplicantNodes (Status instance)) oldRsPods of
                         None \<Rightarrow> ret Panic
                       | Some (p, info) \<Rightarrow> drainPod E instance r oldRs targets p info)
             | [] \<Rightarrow> pickRsPod E instance r oldRs targets oldRsPods) } }"

definition oldStsNode :: "statefulSet \<Rightarrow> pod \<Rightarrow> string" where
  "oldStsNode oldSts p =
     ''emqx@'' @ om_Name (pod_meta p) @ ''.'' @ sts_ServiceName oldSts @ ''.'' @
     om_Namespace (sts_meta oldSts) @ ''.svc.cluster.local''"

definition canBeScaleDownSts ::
  "('w, 'c) env \<Rightarrow> EMQX \<Rightarrow> Requester \<Rightarrow> statefulSet \<Rightarrow> string list \<Rightarrow> ('w, (goerr + bool) go) op" where
  "canBeScaleDownSts E instance r oldSts targets =
     (if IsExistReplicant instance \<and>
         ns_CurrentRevision (ReplicantNodesStatus (Status instance)) \<noteq>
         ns_UpdateRevision (ReplicantNodesStatus (Status instance))
      then ret (Ret (Inr False))
      else do {
        now \<leftarrow> timeNow E;
        if \<not> checkInitialDelaySecondsReady now instance then ret (Ret (Inr False))
        else if (case NodeEvacuationsStatus (Status instance) of
                   [] \<Rightarrow> False | ev # _ \<Rightarrow> ne_State ev \<noteq> ''prohibiting'') then ret (Ret (Inr False))
        else if st_Replicas (sts_status oldSts) = 0 then ret (Ret (Inr False))
        else (case sts_Replicas oldSts of
                None \<Rightarrow> ret Panic
              | Some n \<Rightarrow> do {
                  got \<leftarrow> getPod E (om_Namespace (Meta instance))
                            (om_Name (sts_meta oldSts) @ ''-'' @ itoa (int32 (n - 1)));
                  (case got of
                     Inl err \<Rightarrow>
                       ret (Ret (if IsNotFound err then Inr False
                                 else Inl (ErrWrap ''failed to get should delete pod'' err)))
                   | Inr p \<Rightarrow>
                       if om_DeletionTimestamp (pod_meta p) \<noteq> None then ret (Ret (Inr False))
                       else do {
                         info \<leftarrow> getEMQXNodeInfoByAPI E r (oldStsNode oldSts p);
                         (case info of
                            Inl e \<Rightarrow> ret (Ret (Inl (ErrWrap ''failed to get node info by API'' e)))
                          | Inr None \<Rightarrow> ret Panic
                          | Inr (Some i) \<Rightarrow>
                              if n_NodeStatus i = ''stopped'' then ret (Ret (Inr True))
                              else do {
                                ok \<leftarrow> drained E instance r (sts_meta oldSts) targets i;
                                ret (Ret ok) }) }) }) })"

section \<open>syncPods\<close>

definition nodesOf :: "string \<Rightarrow> EMQXNode list \<Rightarrow> string list" where
  "nodesOf uid nodes = map n_Node (filter (\<lambda>n. n_ControllerUID n = uid) nodes)"

definition targetedEMQXNodesName :: "EMQX \<Rightarrow> statefulSet option \<Rightarrow> replicaSet option \<Rightarrow> string list" where
  "targetedEMQXNodesName instance updateSts updateRs =
     (if IsExistReplicant instance then
        (case updateRs of
           None \<Rightarrow> [] | Some rs \<Rightarrow> nodesOf (om_UID (rs_meta rs)) (ReplicantNodes (Status instance)))
      else
        (case updateSts of
           None \<Rightarrow> [] | Some sts \<Rightarrow> nodesOf (om_UID (sts_meta sts)) (CoreNodes (Status instance))))"

definition markPod :: "pod \<Rightarrow> pod" where
  "markPod p = p\<lparr>pod_meta := (pod_meta p)\<lparr>om_Annotations :=
     mset_key (om_Annotations (pod_meta p)) podDeletionCost ''-99999''\<rparr>\<rparr>"

definition scaleDownRs :: "('w, 'c) env \<Rightarrow> replicaSet \<Rightarrow> pod \<Rightarrow> ('w, subResult go) op" where
  "scaleDownRs E currentRs p = do {
     err \<leftarrow> update E (OPod (markPod p));
     (case err of
        Some e \<Rightarrow> ret (Ret (done_err (ErrWrap ''failed update pod deletion cost'' e)))
      | None \<Rightarrow> do {
          got \<leftarrow> getPod E (om_Namespace (pod_meta p)) (om_Name (pod_meta p));
          (case got of
             Inl e \<Rightarrow>
               if \<not> IsNotFound e then ret (Ret (done_err (ErrWrap ''failed to get should delete pod'' e)))
               else ret (Ret done_ok)
           | Inr q \<Rightarrow>
               if mget (om_Annotations (pod_meta q)) podDeletionCost = None then ret (Ret done_ok)
               else (case rs_Replicas currentRs of
                       None \<Rightarrow> ret Panic
                     | Some n \<Rightarrow> do {
                         err \<leftarrow> update E (OReplicaSet (currentRs\<lparr>rs_Replicas := Some (int32 (n - 1))\<rparr>));
                         ret (Ret (case err of
                               Some e \<Rightarrow> done_err (ErrWrap ''failed to scale down old replicaSet'' e)
                             | None \<Rightarrow> done_ok)) })) }) }"

definition scaleDownSts :: "('w, 'c) env \<Rightarrow> statefulSet \<Rightarrow> ('w, subResult go) op" where
  "scaleDownSts E currentSts =
     (case sts_Replicas currentSts of
        None \<Rightarrow> ret Panic
      | Some n \<Rightarrow> do {
          err \<leftarrow> update E (OStatefulSet (currentSts\<lparr>sts_Replicas := Some (int32 (n - 1))\<rparr>));
          ret (Ret (case err of
                Some e \<Rightarrow> done_err (ErrWrap ''failed to scale down old statefulSet'' e)
              | None \<Rightarrow> done_ok)) })"

text \<open>The old set of an unfinished rollout, when there is one.\<close>

definition replaced :: "('s \<Rightarrow> objectMeta) \<Rightarrow> 's option \<Rightarrow> 's option \<Rightarrow> 's option" where
  "replaced meta updateSet currentSet =
     (case (updateSet, currentSet) of
        (Some upd, Some cur) \<Rightarrow> if om_UID (meta upd) \<noteq> om_UID (meta cur) then Some cur else None
      | _ \<Rightarrow> None)"

definition syncPodsWith ::
  "('w, 'c) env \<Rightarrow> EMQX \<Rightarrow> Requester \<Rightarrow> statefulSet option \<Rightarrow> replicaSet option \<Rightarrow> string list \<Rightarrow>
   ('w, subResult go) op" where
  "syncPodsWith E instance r oldSts oldRs targets =
     (case oldRs of
        Some currentRs \<Rightarrow>
          bindGo (canBeScaleDownRs E instance r currentRs targets) (\<lambda>res.
            (case res of
               Inl e \<Rightarrow> ret (Ret (done_err (ErrWrap ''failed to check if pod can be scale down'' e)))
             | Inr None \<Rightarrow> ret (Ret done_ok)
             | Inr (Some p) \<Rightarrow>
                 if om_DeletionTimestamp (pod_meta p) \<noteq> None then ret (Ret done_ok)
                 else scaleDownRs E currentRs p))
      | None \<Rightarrow>
          (case oldSts of
             Some currentSts \<Rightarrow>
               bindGo (canBeScaleDownSts E instance r currentSts targets) (\<lambda>res.
                 (case res of
                    Inl e \<Rightarrow> ret (Ret (done_err (ErrWrap ''failed to check if sts can be scale down'' e)))
                  | Inr ok \<Rightarrow> if ok then scaleDownSts E currentSts else ret (Ret done_ok)))
           | None \<Rightarrow> ret (Ret done_ok)))"

definition syncPods :: "('w, 'c) handler" where
  "syncPods E instance r =
     (case r of
        None \<Rightarrow> ret (Ret (done_ok, instance))
      | Some rq \<Rightarrow>
          if \<not> IsConditionTrue (Status instance) Available then ret (Ret (done_ok, instance))
          else do {
            (updateSts, currentSts, _) \<leftarrow> readStatefulSets E instance;
            (updateRs, currentRs, _) \<leftarrow> readReplicaSets E instance;
            bindGo (syncPodsWith E instance rq (replaced sts_meta updateSts currentSts)
                      (replaced rs_meta updateRs currentRs)
                      (targetedEMQXNodesName instance updateSts updateRs))
              (\<lambda>res. ret (Ret (res, instance))) })"

section \<open>What justifies a scale-down\<close>

definition nodeRequest :: "Requester \<Rightarrow> string \<Rightarrow> httpRequest" where
  "nodeRequest r nodeName =
     buildRequest r ''GET'' (GetURL r (''api/v5/nodes/'' @ nodeName) []) JNull []"

text \<open>A node without sessions to lose, and an answer of the EMQX API that reports such a node.\<close>

definition noSessions :: "EMQXNode \<Rightarrow> bool" where
  "noSessions i \<longleftrightarrow> \<not> (n_Edition i = ''Enterprise'' \<and> n_Session i > 0)"

definition mayStop :: "('w, 'c) env \<Rightarrow> httpResponse \<Rightarrow> bool" where
  "mayStop E rp =
     (if resp_StatusCode rp = 404 then True
      else resp_StatusCode rp = 200 \<and>
        (case unmarshalNode E (resp_Body rp) of
           Inr (Some i) \<Rightarrow> n_NodeStatus i = ''stopped'' \<or> noSessions i
         | _ \<Rightarrow> False))"

definition evacuationsSettled :: "EMQX \<Rightarrow> bool" where
  "evacuationsSettled x =
     (case NodeEvacuationsStatus (Status x) of [] \<Rightarrow> True | ev # _ \<Rightarrow> ne_State ev = ''prohibiting'')"

definition delayPassed :: "EMQX \<Rightarrow> call list \<Rightarrow> bool" where
  "delayPassed x l \<longleftrightarrow> (\<exists>now. TNow now \<in> set l \<and> checkInitialDelaySecondsReady now x)"

definition stsMayShrink :: "('w, 'c) env \<Rightarrow> EMQX \<Rightarrow> Requester \<Rightarrow> statefulSet \<Rightarrow> call list \<Rightarrow> bool" where
  "stsMayShrink E x r old l \<longleftrightarrow>
     (IsExistReplicant x \<longrightarrow>
        ns_CurrentRevision (ReplicantNodesStatus (Status x)) =
        ns_UpdateRevision (ReplicantNodesStatus (Status x))) \<and>
     delayPassed x l \<and> evacuationsSettled x \<and> st_Replicas (sts_status old) \<noteq> 0 \<and>
     (\<exists>n p rp. sts_Replicas old = Some n \<and>
        TGetPod (om_Namespace (Meta x)) (om_Name (sts_meta old) @ ''-'' @ itoa (int32 (n - 1))) (Inr p) \<in> set l \<and>
        om_DeletionTimestamp (pod_meta p) = None \<and>
        THttp (nodeRequest r (oldStsNode old p)) (Inr rp) \<in> set l \<and> mayStop E rp)"

definition podOfSet :: "EMQX \<Rightarrow> replicaSet \<Rightarrow> pod \<Rightarrow> call list \<Rightarrow> bool" where
  "podOfSet x old p l \<longleftrightarrow>
     (\<exists>pods sets ps. TListPods (om_Namespace (Meta x)) (DefaultReplicantLabels x) pods \<in> set l \<and>
        TListRs (om_Namespace (Meta x)) (DefaultReplicantLabels x) sets \<in> set l \<and>
        getRsPodMap sets pods (om_UID (rs_meta old)) = Some ps \<and> p \<in> set ps)"

definition rsPodMayGo ::
  "('w, 'c) env \<Rightarrow> EMQX \<Rightarrow> Requester \<Rightarrow> replicaSet \<Rightarrow> pod \<Rightarrow> call list \<Rightarrow> bool" where
  "rsPodMayGo E x r old p l \<longleftrightarrow>
     delayPassed x l \<and> evacuationsSettled x \<and>
     podOfSet x old p l \<and>
     (alreadyGoing p \<or>
      (\<exists>node \<in> set (ReplicantNodes (Status x)). n_PodUID node = om_UID (pod_meta p) \<and> noSessions node) \<or>
      (\<exists>rp. THttp (nodeRequest r (''emqx@'' @ pod_PodIP p)) (Inr rp) \<in> set l \<and> mayStop E rp))"

text \<open>A change of a workload: the replica count of a StatefulSet or a ReplicaSet.\<close>

fun setUpdate :: "call \<Rightarrow> bool" where
  "setUpdate (TUpdate (OStatefulSet _) _) = True"
| "setUpdate (TUpdate (OReplicaSet _) _) = True"
| "setUpdate _ = False"

section \<open>Lemmas\<close>

lemma obeys_nodeInfo:
  "obeys (getEMQXNodeInfoByAPI E r nodeName)
     (\<lambda>res l. (\<forall>c \<in> set l. \<not> k8sWrite c) \<and>
        (\<forall>i. res = Inr (Some i) \<longrightarrow>
           (\<exists>rp. THttp (nodeRequest r nodeName) (Inr rp) \<in> set l \<and>
              (n_NodeStatus i = ''stopped'' \<or> noSessions i \<longrightarrow> mayStop E rp))))"
  unfolding getEMQXNodeInfoByAPI_def Let_def
  by (intro obeys_bind[OF obeys_Request[where P = "\<lambda>resp l. (\<forall>c \<in> set l. \<not> k8sWrite c) \<and>
        (\<forall>rp. resp = Inr rp \<longrightarrow> l = [THttp (nodeRequest r nodeName) (Inr rp)])"]] obeys_return)
    (auto simp: nodeRequest_def mayStop_def split: sum.splits if_splits option.splits)

lemma obeys_startEvacuation:
  "obeys (startEvacuationByAPI E r x targets nodeName) (\<lambda>res l. \<forall>c \<in> set l. \<not> k8sWrite c)"
  unfolding startEvacuationByAPI_def Let_def
  by (intro obeys_bind[OF obeys_Request[where P = "\<lambda>resp l. \<forall>c \<in> set l. \<not> k8sWrite c"]] obeys_return)
    auto

lemma obeys_drained:
  "obeys (drained E x r old targets info)
     (\<lambda>res l. (\<forall>c \<in> set l. \<not> k8sWrite c) \<and> (res = Inr True \<longrightarrow> noSessions info))"
  unfolding drained_def call_defs getEventList_def State_Monad.bind_assoc
  by (intro obeys_bind[OF obeys_startEvacuation] obeys_intros) (auto simp: noSessions_def)

lemma obeys_canBeScaleDownSts:
  "obeys (canBeScaleDownSts E x r old targets)
     (\<lambda>res l. (\<forall>c \<in> set l. \<not> k8sWrite c) \<and> (res = Ret (Inr True) \<longrightarrow> stsMayShrink E x r old l))"
  unfolding canBeScaleDownSts_def call_defs
  apply (intro obeys_bind[OF obeys_nodeInfo] obeys_bind[OF obeys_drained] obeys_intros)
  apply (auto simp: stsMayShrink_def delayPassed_def evacuationsSettled_def split: list.splits)
  done

lemma obeys_drainPod:
  "obeys (drainPod E x r old targets p info)
     (\<lambda>res l. (\<forall>c \<in> set l. \<not> k8sWrite c) \<and>
        (\<forall>q. res = Ret (Inr (Some q)) \<longrightarrow> q = p \<and> noSessions info))"
  unfolding drainPod_def
  by (intro obeys_bind[OF obeys_drained] obeys_return) (auto split: sum.splits if_splits)

lemma findEvacuatedPod_SomeD:
  "findEvacuatedPod name nodes pods = Some (p, node) \<Longrightarrow>
   p \<in> set pods \<and> node \<in> set nodes \<and> n_Node node = name \<and> n_PodUID node = om_UID (pod_meta p)"
  by (induction nodes) (auto split: if_splits option.splits simp: find_Some_iff)

lemma obeys_pickRsPod:
  assumes "pods \<noteq> []"
  shows "obeys (pickRsPod E x r old targets pods)
     (\<lambda>res l. (\<forall>c \<in> set l. \<not> k8sWrite c) \<and>
        (\<forall>p. res = Ret (Inr (Some p)) \<longrightarrow> p \<in> set pods \<and>
           (alreadyGoing p \<or>
            (\<exists>rp. THttp (nodeRequest r (''emqx@'' @ pod_PodIP p)) (Inr rp) \<in> set l \<and> mayStop E rp))))"
proof -
  have hd: "hd (go_sort PodsByNameOlder pods) \<in> set pods"
    using assms by (metis hd_in_set length_0_conv length_go_sort set_go_sort)
  show ?thesis
    unfolding pickRsPod_def Let_def
    by (intro obeys_bind[OF obeys_nodeInfo] obeys_mono[OF obeys_drainPod] obeys_intros)
      (auto simp: hd dest: find_SomeD)
qed

lemma podOfSetI:
  "p \<in> set (case getRsPodMap sets pods (om_UID (rs_meta old)) of None \<Rightarrow> [] | Some ps \<Rightarrow> ps) \<Longrightarrow>
   podOfSet x old p (c # TListPods (om_Namespace (Meta x)) (DefaultReplicantLabels x) pods #
     TListRs (om_Namespace (Meta x)) (DefaultReplicantLabels x) sets # l)"
  unfolding podOfSet_def
  by (rule exI[of _ pods], rule exI[of _ sets])
    (cases "getRsPodMap sets pods (om_UID (rs_meta old))"; simp)

lemma obeys_canBeScaleDownRs:
  "obeys (canBeScaleDownRs E x r old targets)
     (\<lambda>res l. (\<forall>c \<in> set l. \<not> k8sWrite c) \<and>
        (\<forall>p. res = Ret (Inr (Some p)) \<longrightarrow> rsPodMayGo E x r old p l))"
  unfolding canBeScaleDownRs_def readRsPodMap_def call_defs State_Monad.bind_assoc
    State_Monad.bind_left_identity
  by (intro obeys_mono[OF obeys_pickRsPod] obeys_mono[OF obeys_drainPod] obeys_intros)
    (auto simp: rsPodMayGo_def delayPassed_def evacuationsSettled_def podOfSetI
      dest!: findEvacuatedPod_SomeD)

text \<open>The two writes: one pod marked, one set shrunk by one.\<close>

lemma obeys_scaleDownRs:
  "obeys (scaleDownRs E old p) (\<lambda>res l.
     (\<forall>c \<in> set l. k8sWrite c \<longrightarrow>
        (\<exists>e. c = TUpdate (OPod (markPod p)) e) \<or>
        (\<exists>n e. rs_Replicas old = Some n \<and> c = TUpdate (OReplicaSet (old\<lparr>rs_Replicas := Some (int32 (n - 1))\<rparr>)) e \<and>
           TUpdate (OPod (markPod p)) None \<in> set l)) \<and>
     length (filter setUpdate l) \<le> 1)"
  unfolding scaleDownRs_def call_defs by (intro obeys_intros) auto

lemma obeys_scaleDownSts:
  "obeys (scaleDownSts E old) (\<lambda>res l.
     (\<forall>c \<in> set l. k8sWrite c \<longrightarrow>
        (\<exists>n e. sts_Replicas old = Some n \<and>
           c = TUpdate (OStatefulSet (old\<lparr>sts_Replicas := Some (int32 (n - 1))\<rparr>)) e)) \<and>
     length (filter setUpdate l) \<le> 1)"
  unfolding scaleDownSts_def call_defs by (intro obeys_intros) auto

text \<open>
  What one run of \<open>syncPodsWith\<close> does to the cluster: at most one set is changed, and every write
  is one of the two with its justification in the trace.
\<close>

inductive justified ::
  "('w, 'c) env \<Rightarrow> EMQX \<Rightarrow> Requester \<Rightarrow> statefulSet option \<Rightarrow> replicaSet option \<Rightarrow> call list \<Rightarrow> call \<Rightarrow> bool"
  for E x r oldSts oldRs l where
  markOne: "oldRs = Some old \<Longrightarrow> om_DeletionTimestamp (pod_meta p) = None \<Longrightarrow>
    rsPodMayGo E x r old p l \<Longrightarrow> justified E x r oldSts oldRs l (TUpdate (OPod (markPod p)) e)"
| shrinkRs: "oldRs = Some old \<Longrightarrow> rs_Replicas old = Some n \<Longrightarrow>
    TUpdate (OPod (markPod p)) None \<in> set l \<Longrightarrow> rsPodMayGo E x r old p l \<Longrightarrow>
    justified E x r oldSts oldRs l (TUpdate (OReplicaSet (old\<lparr>rs_Replicas := Some (int32 (n - 1))\<rparr>)) e)"
| shrinkSts: "oldRs = None \<Longrightarrow> oldSts = Some old \<Longrightarrow> sts_Replicas old = Some n \<Longrightarrow>
    stsMayShrink E x r old l \<Longrightarrow>
    justified E x r oldSts oldRs l (TUpdate (OStatefulSet (old\<lparr>sts_Replicas := Some (int32 (n - 1))\<rparr>)) e)"

inductive_cases justified_StsE: "justified E x r oldSts oldRs l (TUpdate (OStatefulSet sts) e)"
inductive_cases justified_RsE: "justified E x r oldSts oldRs l (TUpdate (OReplicaSet rs) e)"

lemma grows:
  "set l \<subseteq> set l' \<Longrightarrow> stsMayShrink E x r old l \<Longrightarrow> stsMayShrink E x r old l'"
  "set l \<subseteq> set l' \<Longrightarrow> rsPodMayGo E x r old' p l \<Longrightarrow> rsPodMayGo E x r old' p l'"
  unfolding stsMayShrink_def rsPodMayGo_def podOfSet_def delayPassed_def
  by (meson subsetD)+

lemma justified_mono:
  "justified E x r oldSts oldRs l c \<Longrightarrow> set l \<subseteq> set l' \<Longrightarrow> justified E x r oldSts oldRs l' c"
  by (induction rule: justified.induct) (auto intro: justified.intros grows)

lemma justified_rs:
  assumes "(\<exists>e. c = TUpdate (OPod (markPod p)) e) \<or>
      (\<exists>n e. rs_Replicas old = Some n \<and>
         c = TUpdate (OReplicaSet (old\<lparr>rs_Replicas := Some (int32 (n - 1))\<rparr>)) e \<and>
         TUpdate (OPod (markPod p)) None \<in> set l')"
    and "om_DeletionTimestamp (pod_meta p) = None" "rsPodMayGo E x r old p l"
  shows "justified E x r oldSts (Some old) (l @ l') c"
proof -
  have "rsPodMayGo E x r old p (l @ l')" by (rule grows(2)[OF _ assms(3)]) simp
  with assms(1,2) show ?thesis by (auto intro: markOne shrinkRs[where p = p])
qed

lemma justified_sts:
  assumes "\<exists>n e. sts_Replicas old = Some n \<and>
      c = TUpdate (OStatefulSet (old\<lparr>sts_Replicas := Some (int32 (n - 1))\<rparr>)) e"
    and "stsMayShrink E x r old l"
  shows "justified E x r (Some old) None (l @ l') c"
proof -
  have "stsMayShrink E x r old (l @ l')" by (rule grows(1)[OF _ assms(2)]) simp
  with assms(1) show ?thesis by (auto intro: shrinkSts)
qed

lemma justified_Cons:
  "justified E x r oldSts oldRs l c \<Longrightarrow> justified E x r oldSts oldRs (a # l) c"
  by (rule justified_mono) auto

lemma no_setUpdate: "\<forall>c \<in> set l. \<not> k8sWrite c \<Longrightarrow> filter setUpdate l = []"
  by (auto simp: filter_empty_conv elim!: setUpdate.elims)

lemma obeys_syncPodsWith:
  "obeys (syncPodsWith E x r oldSts oldRs targets)
     (\<lambda>res l. (\<forall>c \<in> set l. k8sWrite c \<longrightarrow> justified E x r oldSts oldRs l c) \<and>
        length (filter setUpdate l) \<le> 1)"
  unfolding syncPodsWith_def
proof (intro obeys_case_option obeys_return; (simp; fail)?)
  fix old assume old: "oldRs = Some old"
  show "obeys (bindGo (canBeScaleDownRs E x r old targets) (\<lambda>res.
      (case res of
         Inl e \<Rightarrow> ret (Ret (done_err (ErrWrap ''failed to check if pod can be scale down'' e)))
       | Inr None \<Rightarrow> ret (Ret done_ok)
       | Inr (Some p) \<Rightarrow> if om_DeletionTimestamp (pod_meta p) \<noteq> None then ret (Ret done_ok)
                         else scaleDownRs E old p)))
     (\<lambda>res l. (\<forall>c \<in> set l. k8sWrite c \<longrightarrow> justified E x r oldSts oldRs l c) \<and>
        length (filter setUpdate l) \<le> 1)"
    by (intro obeys_bindGo[OF obeys_canBeScaleDownRs] obeys_case_sum obeys_case_option obeys_if
        obeys_return obeys_mono[OF obeys_scaleDownRs])
      (auto simp: no_setUpdate old intro!: justified_rs)
next
  fix old assume old: "oldRs = None" "oldSts = Some old"
  show "obeys (bindGo (canBeScaleDownSts E x r old targets) (\<lambda>res.
      (case res of
         Inl e \<Rightarrow> ret (Ret (done_err (ErrWrap ''failed to check if sts can be scale down'' e)))
       | Inr ok \<Rightarrow> if ok then scaleDownSts E old else ret (Ret done_ok))))
     (\<lambda>res l. (\<forall>c \<in> set l. k8sWrite c \<longrightarrow> justified E x r oldSts oldRs l c) \<and>
        length (filter setUpdate l) \<le> 1)"
    by (intro obeys_bindGo[OF obeys_canBeScaleDownSts] obeys_case_sum obeys_case_option obeys_if
        obeys_return obeys_mono[OF obeys_scaleDownSts])
      (auto simp: no_setUpdate old intro!: justified_sts)
qed

theorem syncPods_writes:
  "obeys (syncPods E x r) (\<lambda>res l.
     length (filter setUpdate l) \<le> 1 \<and>
     (\<forall>c \<in> set l. k8sWrite c \<longrightarrow>
        IsConditionTrue (Status x) Available \<and>
        (\<exists>rq stss rss. r = Some rq \<and>
           TListSts (om_Namespace (Meta x)) (DefaultCoreLabels x) stss \<in> set l \<and>
           TListRs (om_Namespace (Meta x)) (DefaultReplicantLabels x) rss \<in> set l \<and>
           (case (getStateFulSetList stss x, getReplicaSetList rss x) of
              ((updSts, curSts, _), (updRs, curRs, _)) \<Rightarrow>
                justified E x rq (replaced sts_meta updSts curSts) (replaced rs_meta updRs curRs) l c))))"
  unfolding syncPods_def
  apply (intro obeys_case_option obeys_if obeys_return obeys_bind_readSts obeys_bind_readRs
      obeys_case_prod obeys_bindGo[OF obeys_syncPodsWith])
  apply simp_all
  subgoal by (intro conjI ballI impI exI[of _ _]) (auto intro!: justified_Cons)
  subgoal by (intro conjI ballI impI exI[of _ _]) (auto intro!: justified_Cons)
  done

section \<open>The contract\<close>

lemma only_nodeApi [only_intros]:
  "onlyCalls (writeOk E) (getEMQXNodeInfoByAPI E rq nodeName)"
  "onlyCalls (writeOk E) (startEvacuationByAPI E rq x targets nodeName)"
  unfolding getEMQXNodeInfoByAPI_def startEvacuationByAPI_def
  by (intro only_intros; simp)+

lemma only_scaleDown [only_intros]:
  "only (writeOk E) (\<lambda>r. case r of Panic \<Rightarrow> True | Ret sr \<Rightarrow> sub_result sr = zeroResult) (scaleDownRs E rs p)"
  "only (writeOk E) (\<lambda>r. case r of Panic \<Rightarrow> True | Ret sr \<Rightarrow> sub_result sr = zeroResult) (scaleDownSts E sts)"
  unfolding scaleDownRs_def scaleDownSts_def call_defs
  by (intro only_intros; simp split: option.splits)+

lemma only_drained [only_intros]: "onlyCalls (writeOk E) (drained E x rq old targets info)"
  unfolding drained_def call_defs by (intro only_intros) simp_all

lemma only_canBeScaleDown [only_intros]:
  "onlyCalls (writeOk E) (canBeScaleDownRs E x rq rs targets)"
  "onlyCalls (writeOk E) (canBeScaleDownSts E x rq sts targets)"
  unfolding canBeScaleDownRs_def canBeScaleDownSts_def pickRsPod_def drainPod_def call_defs
  by (intro only_intros; simp)+

lemma only_syncPodsWith:
  "only (writeOk E) (\<lambda>r. case r of Panic \<Rightarrow> True | Ret sr \<Rightarrow> sub_result sr = zeroResult)
     (syncPodsWith E x rq oldSts oldRs targets)"
  unfolding syncPodsWith_def by (intro only_intros) simp_all

interpretation syncPods_contract: sub_reconciler syncPods
proof unfold_locales
  fix E :: "('w, 'c) env" and x r
  show "only (writeOk E) resultOk (syncPods E x r)"
    unfolding syncPods_def
    by (intro only_bindGo_result[OF only_syncPodsWith] only_intros) (simp_all add: resultOk_def)
qed

end
