(* ===== verification/Sync_Sets.thy ===== *)
theory Sync_Sets
  imports Reads
begin

text \<open>
  The sub-reconciler \<open>syncSets\<close> (\<open>controllers/apps/v2beta1/sync_sets.go\<close>): once the cluster is
  ready, old ReplicaSets and StatefulSets beyond \<open>spec.revisionHistoryLimit\<close> are deleted, oldest
  first, and with a StatefulSet its volume claims.
\<close>

text \<open>The guard of both loops; the replica count is only dereferenced when the status shows none.\<close>

definition keepSet :: "objectMeta \<Rightarrow> int option \<Rightarrow> setStatus \<Rightarrow> bool go" where
  "keepSet m replicas st =
     (if st_Replicas st \<noteq> 0 then Ret True
      else (case replicas of
              None \<Rightarrow> Panic
            | Some n \<Rightarrow> Ret (n \<noteq> 0 \<or> om_Generation m > st_ObservedGeneration st \<or>
                             om_DeletionTimestamp m \<noteq> None)))"

definition deleteIgnoringNotFound :: "('w, 'c) env \<Rightarrow> obj \<Rightarrow> ('w, goerr option) op" where
  "deleteIgnoringNotFound E ob = do {
     err \<leftarrow> delete E ob;
     ret (case err of None \<Rightarrow> None | Some e \<Rightarrow> if IsNotFound e then None else Some e) }"

fun cleanupRs :: "('w, 'c) env \<Rightarrow> nat \<Rightarrow> replicaSet list \<Rightarrow> ('w, goerr option go) op" where
  "cleanupRs E 0 rss = ret (Ret None)"
| "cleanupRs E (Suc n) [] = ret Panic"
| "cleanupRs E (Suc n) (rs # rss) =
     (case keepSet (rs_meta rs) (rs_Replicas rs) (rs_status rs) of
        Panic \<Rightarrow> ret Panic
      | Ret keep \<Rightarrow>
          if keep then cleanupRs E n rss
          else do {
            err \<leftarrow> deleteIgnoringNotFound E (OReplicaSet rs);
            (case err of Some e \<Rightarrow> ret (Ret (Some e)) | None \<Rightarrow> cleanupRs E n rss) })"

fun cleanupPvcs :: "('w, 'c) env \<Rightarrow> persistentVolumeClaim list \<Rightarrow> ('w, goerr option) op" where
  "cleanupPvcs E [] = ret None"
| "cleanupPvcs E (p # ps) =
     (if om_DeletionTimestamp (pvc_meta p) \<noteq> None then cleanupPvcs E ps
      else do {
        err \<leftarrow> deleteIgnoringNotFound E (OPvc p);
        (case err of Some e \<Rightarrow> ret (Some e) | None \<Rightarrow> cleanupPvcs E ps) })"

fun cleanupSts :: "('w, 'c) env \<Rightarrow> string \<Rightarrow> nat \<Rightarrow> statefulSet list \<Rightarrow> ('w, goerr option go) op" where
  "cleanupSts E ns 0 stss = ret (Ret None)"
| "cleanupSts E ns (Suc n) [] = ret Panic"
| "cleanupSts E ns (Suc n) (sts # stss) =
     (case keepSet (sts_meta sts) (sts_Replicas sts) (sts_status sts) of
        Panic \<Rightarrow> ret Panic
      | Ret keep \<Rightarrow>
          if keep then cleanupSts E ns n stss
          else do {
            err \<leftarrow> deleteIgnoringNotFound E (OStatefulSet sts);
            (case err of
               Some e \<Rightarrow> ret (Ret (Some e))
             | None \<Rightarrow> do {
                 pvcs \<leftarrow> listPvcs E ns (sel_MatchLabels (sts_Selector sts));
                 err \<leftarrow> cleanupPvcs E pvcs;
                 (case err of Some e \<Rightarrow> ret (Ret (Some e)) | None \<Rightarrow> cleanupSts E ns n stss) }) })"

text \<open>\<open>int32(len(list)) - *limit\<close>, the number of loop iterations when it is positive.\<close>

definition surplus :: "'s list \<Rightarrow> int \<Rightarrow> nat" where
  "surplus oldList limit = nat (int32 (int32 (int (length oldList)) - limit))"

definition syncSets :: "('w, 'c) handler" where
  "syncSets E instance r =
     (if \<not> IsConditionTrue (Status instance) Ready then ret (Ret (done_ok, instance))
      else do {
        (_, _, oldRsList) \<leftarrow> readReplicaSets E instance;
        (case RevisionHistoryLimit (Spec instance) of
           None \<Rightarrow> ret Panic
         | Some limit \<Rightarrow>
             bindGo (cleanupRs E (surplus oldRsList limit) oldRsList) (\<lambda>err.
               (case err of
                  Some e \<Rightarrow> ret (Ret (done_err e, instance))
                | None \<Rightarrow> do {
                    (_, _, oldStsList) \<leftarrow> readStatefulSets E instance;
                    bindGo (cleanupSts E (om_Namespace (Meta instance))
                              (surplus oldStsList limit) oldStsList) (\<lambda>err.
                      (case err of
                         Some e \<Rightarrow> ret (Ret (done_err e, instance))
                       | None \<Rightarrow> ret (Ret (done_ok, instance)))) }))) })"

section \<open>What may be deleted\<close>

inductive deletable ::
  "EMQX \<Rightarrow> replicaSet list \<Rightarrow> statefulSet list \<Rightarrow> call list \<Rightarrow> obj \<Rightarrow> bool" for x rss stss l where
  delRs: "rs \<in> set rss \<Longrightarrow> idleSet (rs_meta rs) (rs_Replicas rs) (rs_status rs) \<Longrightarrow>
    deletable x rss stss l (OReplicaSet rs)"
| delSts: "sts \<in> set stss \<Longrightarrow> idleSet (sts_meta sts) (sts_Replicas sts) (sts_status sts) \<Longrightarrow>
    deletable x rss stss l (OStatefulSet sts)"
| delPvc: "TDelete (OStatefulSet sts) err \<in> set l \<Longrightarrow> (\<forall>e. err = Some e \<longrightarrow> IsNotFound e) \<Longrightarrow>
    TListPvcs (om_Namespace (Meta x)) (sel_MatchLabels (sts_Selector sts)) pvcs \<in> set l \<Longrightarrow>
    p \<in> set pvcs \<Longrightarrow> om_DeletionTimestamp (pvc_meta p) = None \<Longrightarrow> deletable x rss stss l (OPvc p)"

section \<open>Lemmas\<close>

lemma keepSet_False: "keepSet m n st = Ret False \<longleftrightarrow> idleSet m n st"
  by (auto simp: keepSet_def idleSet_def split: option.splits)

lemma obeys_bind_delete:
  assumes "\<And>err. \<forall>e. err = Some e \<longrightarrow> IsNotFound e \<Longrightarrow> obeys (k None) (\<lambda>y l. P y (TDelete ob err # l))"
    and "\<And>e. \<not> IsNotFound e \<Longrightarrow> obeys (k (Some e)) (\<lambda>y l. P y (TDelete ob (Some e) # l))"
  shows "obeys (State_Monad.bind (deleteIgnoringNotFound E ob) k) P"
  unfolding deleteIgnoringNotFound_def delete_def State_Monad.bind_assoc State_Monad.bind_left_identity
proof (rule obeys_bind_prim)
  fix err :: "goerr option"
  show "obeys (k (case err of None \<Rightarrow> None | Some e \<Rightarrow> if IsNotFound e then None else Some e))
      (\<lambda>y l. P y (TDelete ob err # l))"
    using assms by (cases err) auto
qed

lemma deletable_mono:
  assumes "deletable x rss stss l ob" "set rss \<subseteq> set rss'" "set stss \<subseteq> set stss'" "set l \<subseteq> set l'"
  shows "deletable x rss' stss' l' ob"
  using assms by (induction rule: deletable.induct) (blast intro: deletable.intros)+

lemma deletable_append:
  "deletable x rss stss l ob \<Longrightarrow> deletable x rss stss (l @ l') ob"
  "deletable x rss stss l' ob \<Longrightarrow> deletable x rss stss (l @ l') ob"
  by (erule deletable_mono; simp)+

definition deletions :: "EMQX \<Rightarrow> replicaSet list \<Rightarrow> statefulSet list \<Rightarrow> call list \<Rightarrow> bool" where
  "deletions x rss stss l \<longleftrightarrow>
     (\<forall>ob err. TDelete ob err \<in> set l \<longrightarrow> deletable x rss stss l ob) \<and>
     (\<forall>c \<in> set l. k8sWrite c \<longrightarrow> (\<exists>ob err. c = TDelete ob err))"

lemma deletions_Nil [simp]: "deletions x rss stss []"
  by (simp add: deletions_def)

lemma deletions_append:
  "deletions x rss stss l \<Longrightarrow> deletions x rss stss l' \<Longrightarrow> deletions x rss stss (l @ l')"
  unfolding deletions_def by (auto intro: deletable_append)

lemma deletions_read: "\<not> k8sWrite c \<Longrightarrow> deletions x rss stss [c]"
  by (auto simp: deletions_def)

lemma deletions_rs:
  "rs \<in> set rss \<Longrightarrow> idleSet (rs_meta rs) (rs_Replicas rs) (rs_status rs) \<Longrightarrow>
   deletions x rss stss [TDelete (OReplicaSet rs) err]"
  by (auto simp: deletions_def intro: delRs)

lemma deletions_sts:
  "sts \<in> set stss \<Longrightarrow> idleSet (sts_meta sts) (sts_Replicas sts) (sts_status sts) \<Longrightarrow>
   deletions x rss stss [TDelete (OStatefulSet sts) err]"
  by (auto simp: deletions_def intro: delSts)

lemma deletions_pvcs:
  assumes "sts \<in> set stss" "idleSet (sts_meta sts) (sts_Replicas sts) (sts_status sts)"
    and err: "\<forall>e. err = Some e \<longrightarrow> IsNotFound e"
    and l: "\<forall>c \<in> set l. \<exists>p err. c = TDelete (OPvc p) err \<and> p \<in> set pvcs \<and>
       om_DeletionTimestamp (pvc_meta p) = None"
  shows "deletions x rss stss (TDelete (OStatefulSet sts) err #
     TListPvcs (om_Namespace (Meta x)) (sel_MatchLabels (sts_Selector sts)) pvcs # l)"
proof -
  let ?l = "TDelete (OStatefulSet sts) err #
     TListPvcs (om_Namespace (Meta x)) (sel_MatchLabels (sts_Selector sts)) pvcs # l"
  have "deletable x rss stss ?l (OPvc p)"
    if "p \<in> set pvcs" "om_DeletionTimestamp (pvc_meta p) = None" for p
    by (rule delPvc[of sts err _ x pvcs]) (use err that in auto)
  then show ?thesis
    using assms(1,2) l unfolding deletions_def by (fastforce intro: delSts)
qed

lemma obeys_cleanupRs:
  "set (take n rss) \<subseteq> set rss0 \<Longrightarrow> obeys (cleanupRs E n rss) (\<lambda>res l. deletions x rss0 stss l)"
proof (induction E n rss rule: cleanupRs.induct)
  case (3 E n rs rss)
  have more: "deletions x rss0 stss (TDelete (OReplicaSet rs) err # l)"
    if "keepSet (rs_meta rs) (rs_Replicas rs) (rs_status rs) = Ret False" "deletions x rss0 stss l" for err l
    using deletions_append[OF deletions_rs that(2)] that(1) 3(3) by (simp add: keepSet_False)
  show ?case
  proof (cases "keepSet (rs_meta rs) (rs_Replicas rs) (rs_status rs)")
    case (Ret keep)
    have IH: "obeys (cleanupRs E n rss) (\<lambda>res l. deletions x rss0 stss l)"
      using 3 Ret by (cases keep) auto
    have "obeys (cleanupRs E n rss) (\<lambda>res l. deletions x rss0 stss (TDelete (OReplicaSet rs) err # l))"
      if "\<not> keep" for err
      using obeys_mono[OF IH] more Ret that by simp
    then show ?thesis
      using Ret IH more by (cases keep) (auto intro!: obeys_return obeys_bind_delete)
  qed (simp add: obeys_return)
qed (auto intro: obeys_return)

lemma obeys_cleanupPvcs:
  "obeys (cleanupPvcs E ps) (\<lambda>res l. \<forall>c \<in> set l. \<exists>p err. c = TDelete (OPvc p) err \<and>
     p \<in> set ps \<and> om_DeletionTimestamp (pvc_meta p) = None)"
proof (induction ps)
  case (Cons p ps)
  show ?case
    unfolding cleanupPvcs.simps
    by (intro obeys_if obeys_return obeys_bind_delete obeys_case_option obeys_mono[OF Cons]) auto
qed (simp add: obeys_return)

lemma obeys_cleanupSts:
  "set (take n stss) \<subseteq> set stss0 \<Longrightarrow>
   obeys (cleanupSts E (om_Namespace (Meta x)) n stss) (\<lambda>res l. deletions x rss stss0 l)"
proof (induction E "om_Namespace (Meta x)" n stss rule: cleanupSts.induct)
  case (3 E n sts stss)
  show ?case
  proof (cases "keepSet (sts_meta sts) (sts_Replicas sts) (sts_status sts)")
    case (Ret keep)
    show ?thesis
    proof (cases keep)
      case False
      have idle: "sts \<in> set stss0" "idleSet (sts_meta sts) (sts_Replicas sts) (sts_status sts)"
        using Ret False 3(3) by (simp_all add: keepSet_False)
      have IH: "obeys (cleanupSts E (om_Namespace (Meta x)) n stss) (\<lambda>res l. deletions x rss stss0 l)"
        using 3 Ret False by auto
      have "obeys (cleanupSts E (om_Namespace (Meta x)) n stss)
          (\<lambda>y l'. deletions x rss stss0 (TDelete (OStatefulSet sts) err #
             TListPvcs (om_Namespace (Meta x)) (sel_MatchLabels (sts_Selector sts)) pvcs # l @ l'))"
        if "\<forall>e. err = Some e \<longrightarrow> IsNotFound e" "\<forall>c \<in> set l. \<exists>p err. c = TDelete (OPvc p) err \<and>
           p \<in> set pvcs \<and> om_DeletionTimestamp (pvc_meta p) = None" for err pvcs l
        using deletions_append[OF deletions_pvcs[OF idle that]] by (auto intro: obeys_mono[OF IH])
      then show ?thesis
        using idle Ret False unfolding cleanupSts.simps listPvcs_def
        by (auto intro!: obeys_return obeys_bind_delete obeys_bind_prim obeys_case_option
            obeys_bind[OF obeys_cleanupPvcs] deletions_pvcs intro: deletions_sts)
    qed (use 3 Ret in auto)
  qed (simp add: obeys_return)
qed (auto intro: obeys_return)

text \<open>The sets a run may delete: the surplus at the front of the old sets, oldest first.\<close>

definition surplusRs :: "EMQX \<Rightarrow> int \<Rightarrow> replicaSet list \<Rightarrow> replicaSet list" where
  "surplusRs x limit items =
     (case getReplicaSetList items x of (_, _, old) \<Rightarrow> take (surplus old limit) old)"

definition surplusSts :: "EMQX \<Rightarrow> int \<Rightarrow> statefulSet list \<Rightarrow> statefulSet list" where
  "surplusSts x limit items =
     (case getStateFulSetList items x of (_, _, old) \<Rightarrow> take (surplus old limit) old)"

definition cleaned :: "EMQX \<Rightarrow> call list \<Rightarrow> bool" where
  "cleaned x l \<longleftrightarrow>
     (\<forall>c \<in> set l. \<not> k8sWrite c) \<or>
     IsConditionTrue (Status x) Ready \<and>
     (\<exists>limit rss stss. RevisionHistoryLimit (Spec x) = Some limit \<and>
        TListRs (om_Namespace (Meta x)) (DefaultReplicantLabels x) rss \<in> set l \<and>
        (stss = [] \<or> TListSts (om_Namespace (Meta x)) (DefaultCoreLabels x) stss \<in> set l) \<and>
        deletions x (surplusRs x limit rss) (surplusSts x limit stss) l)"

lemma deletions_Cons_read: "deletions x R S l \<Longrightarrow> \<not> k8sWrite c \<Longrightarrow> deletions x R S (c # l)"
  using deletions_append[of x R S "[c]" l] by (simp add: deletions_read)

lemma deletions_weaken: "deletions x R [] l \<Longrightarrow> deletions x R S l" "deletions x [] S l \<Longrightarrow> deletions x R S l"
  unfolding deletions_def by (auto elim!: deletable_mono)

lemma cleanedI:
  "IsConditionTrue (Status x) Ready \<Longrightarrow> RevisionHistoryLimit (Spec x) = Some limit \<Longrightarrow>
   TListRs (om_Namespace (Meta x)) (DefaultReplicantLabels x) rss \<in> set l \<Longrightarrow>
   stss = [] \<or> TListSts (om_Namespace (Meta x)) (DefaultCoreLabels x) stss \<in> set l \<Longrightarrow>
   deletions x (surplusRs x limit rss) (surplusSts x limit stss) l \<Longrightarrow> cleaned x l"
  unfolding cleaned_def by blast

lemma cleaned_rs:
  assumes "IsConditionTrue (Status x) Ready" "RevisionHistoryLimit (Spec x) = Some limit"
    and "deletions x (surplusRs x limit rss) [] l"
  shows "cleaned x (TListRs (om_Namespace (Meta x)) (DefaultReplicantLabels x) rss # l)"
  by (rule cleanedI[OF assms(1,2), of rss _ "[]"])
    (simp_all add: deletions_Cons_read deletions_weaken(1)[OF assms(3)])

lemma cleaned_sts:
  assumes "IsConditionTrue (Status x) Ready" "RevisionHistoryLimit (Spec x) = Some limit"
    and "deletions x (surplusRs x limit rss) [] l" "deletions x [] (surplusSts x limit stss) l'"
  shows "cleaned x (TListRs (om_Namespace (Meta x)) (DefaultReplicantLabels x) rss # l @
     TListSts (om_Namespace (Meta x)) (DefaultCoreLabels x) stss # l')"
  by (rule cleanedI[OF assms(1,2), of rss _ stss])
    (simp_all add: deletions_Cons_read deletions_append deletions_weaken(1)[OF assms(3)]
      deletions_weaken(2)[OF assms(4)])

lemma cleaned_reads [simp]:
  "cleaned x []" "cleaned x [TListRs ns labels rss]"
  by (simp_all add: cleaned_def)

lemma obeys_syncSets: "obeys (syncSets E x r) (\<lambda>res l. cleaned x l)"
  unfolding syncSets_def
  by (intro obeys_if obeys_return obeys_bind_readRs obeys_case_prod obeys_case_option
      obeys_bindGo[OF obeys_cleanupRs[OF subset_refl, where x = x and stss = "[]"]]
      obeys_bind_readSts
      obeys_bindGo[OF obeys_cleanupSts[OF subset_refl, where x = x and rss = "[]"]])
    (auto intro: cleaned_rs cleaned_sts simp: surplusRs_def surplusSts_def)

section \<open>The contract\<close>

lemma only_delete: "writeOk E (TDelete ob None) \<Longrightarrow> onlyCalls (writeOk E) (deleteIgnoringNotFound E ob)"
  unfolding deleteIgnoringNotFound_def delete_def
  by (intro only_intros) (cases ob; simp)+

lemma only_cleanupRs [only_intros]: "onlyCalls (writeOk E) (cleanupRs E n rss)"
proof (induction E n rss rule: cleanupRs.induct)
  case (3 E n rs rss)
  show ?case
    by (cases "keepSet (rs_meta rs) (rs_Replicas rs) (rs_status rs)")
      (auto simp: keepSet_False intro!: only_intros only_delete intro: 3)
qed (auto intro: only_intros)

lemma only_cleanupPvcs [only_intros]: "onlyCalls (writeOk E) (cleanupPvcs E ps)"
  by (induction ps) (auto intro!: only_intros only_delete)

lemma only_cleanupSts [only_intros]: "onlyCalls (writeOk E) (cleanupSts E ns n stss)"
proof (induction E ns n stss rule: cleanupSts.induct)
  case (3 E ns n sts stss)
  show ?case
    by (cases "keepSet (sts_meta sts) (sts_Replicas sts) (sts_status sts)")
      (auto simp: keepSet_False listPvcs_def intro!: only_intros only_delete intro: 3)
qed (auto intro: only_intros)

interpretation syncSets_contract: sub_reconciler syncSets
proof unfold_locales
  fix E :: "('w, 'c) env" and x r
  show "only (writeOk E) resultOk (syncSets E x r)"
    unfolding syncSets_def by (intro only_intros) simp_all
qed

end
