(* ===== verification/Rollout_Properties.thy ===== *)
theory Rollout_Properties
  imports Examples Workloads Sync_Config Sync_Pods Sync_Sets
begin

text \<open>
  The properties of a rollout, with the concrete runs that witness them: when old nodes are taken
  down, what is cleaned up afterwards, and how a changed configuration reaches the nodes.
\<close>

section \<open>Taking down the old nodes\<close>

definition exAvailable :: "string \<Rightarrow> string \<Rightarrow> EMQX" where
  "exAvailable upd cur = exEMQX [exCondition Available 0, exCondition CoreNodesReady 0] upd cur"

definition exRq :: Requester where
  "exRq = \<lparr>rq_Schema = ''http'', rq_Host = ''10.0.0.1:18083'', rq_Username = ''u'', rq_Password = ''p''\<rparr>"

definition exRollout :: "(time, unit) env" where
  "exRollout = exEnv (exEmpty\<lparr>ex_sts := [exSts ''emqx-core-a'' ''a'' 1, exSts ''emqx-core-b'' ''b'' 1],
     ex_pods := [exPod ''emqx-core-a-0'' ''emqx-core-a-uid''],
     ex_nodes := [exNode ''emqx@emqx-core-a-0.emqx-headless.ns.svc.cluster.local'' ''core'' ''Enterprise'']\<rparr>)"

text \<open>The sets an unfinished rollout replaces, as the lists of a trace show them.\<close>

definition rollout :: "EMQX \<Rightarrow> call list \<Rightarrow> statefulSet option \<Rightarrow> replicaSet option \<Rightarrow> bool" where
  "rollout x l oldSts oldRs \<longleftrightarrow>
     (\<exists>stss rss updSts curSts olds updRs curRs olds'.
        TListSts (om_Namespace (Meta x)) (DefaultCoreLabels x) stss \<in> set l \<and>
        TListRs (om_Namespace (Meta x)) (DefaultReplicantLabels x) rss \<in> set l \<and>
        getStateFulSetList stss x = (updSts, curSts, olds) \<and> oldSts = replaced sts_meta updSts curSts \<and>
        getReplicaSetList rss x = (updRs, curRs, olds') \<and> oldRs = replaced rs_meta updRs curRs)"

lemma rolloutI:
  "TListSts (om_Namespace (Meta x)) (DefaultCoreLabels x) stss \<in> set l \<Longrightarrow>
   TListRs (om_Namespace (Meta x)) (DefaultReplicantLabels x) rss \<in> set l \<Longrightarrow>
   getStateFulSetList stss x = (updSts, curSts, olds) \<Longrightarrow> getReplicaSetList rss x = (updRs, curRs, olds') \<Longrightarrow>
   rollout x l (replaced sts_meta updSts curSts) (replaced rs_meta updRs curRs)"
  unfolding rollout_def by blast

lemma syncPods_justified:
  "obeys (syncPods E x r) (\<lambda>res l.
     length (filter setUpdate l) \<le> 1 \<and>
     (\<forall>c \<in> set l. k8sWrite c \<longrightarrow> IsConditionTrue (Status x) Available \<and>
        (\<exists>rq oldSts oldRs. r = Some rq \<and> rollout x l oldSts oldRs \<and> justified E x rq oldSts oldRs l c)))"
proof -
  have "\<exists>oldSts oldRs. rollout x l oldSts oldRs \<and> justified E x rq oldSts oldRs l c"
    if "TListSts (om_Namespace (Meta x)) (DefaultCoreLabels x) stss \<in> set l"
      "TListRs (om_Namespace (Meta x)) (DefaultReplicantLabels x) rss \<in> set l"
      "case (getStateFulSetList stss x, getReplicaSetList rss x) of
         ((updSts, curSts, _), (updRs, curRs, _)) \<Rightarrow>
           justified E x rq (replaced sts_meta updSts curSts) (replaced rs_meta updRs curRs) l c"
    for stss rss l rq c
    using that
    by (cases "getStateFulSetList stss x"; cases "getReplicaSetList rss x") (auto dest: rolloutI)
  then show ?thesis by (intro obeys_mono[OF syncPods_writes]) metis
qed




definition exReplicating :: EMQX where
  "exReplicating = (exAvailable ''h'' ''h'')\<lparr>Status :=
     (Status (exAvailable ''h'' ''h''))\<lparr>ReplicantNodesStatus := exNodesStatus ''b'' ''a''\<rparr>\<rparr>"

definition exReplicants :: "(time, unit) env" where
  "exReplicants = exEnv (exEmpty\<lparr>
     ex_rs := [exRs ''emqx-replicant-a'' ''a'' 1, exRs ''emqx-replicant-b'' ''b'' 1],
     ex_pods := [markPod (exPod ''emqx-replicant-a-xyz'' ''emqx-replicant-a-uid'')],
     ex_nodes := [exNode ''emqx@10.0.0.1'' ''replicant'' ''Enterprise'']\<rparr>)"


text \<open>
  A run of \<open>syncPods\<close> changes at most one set, and nothing at all unless the cluster is
  available.
\<close>

theorem one_set_changes_at_a_time:
  "obeys (syncPods E x r) (\<lambda>res l.
     length (filter setUpdate l) \<le> 1 \<and>
     (IsConditionTrue (Status x) Available \<or> filter k8sWrite l = []))"
  by (rule obeys_mono[OF syncPods_justified]) (auto simp: filter_empty_conv)


section \<open>Cleaning up\<close>


definition exHistory :: "(time, unit) env" where
  "exHistory = exEnv (exEmpty\<lparr>ex_sts := [exSts ''emqx-core-old'' ''old'' 0, exSts ''emqx-core-h'' ''h'' 1]\<rparr>)"


section \<open>Configuration\<close>


lemma generateConfigMap_unowned: "om_controller (cm_meta (generateConfigMap x conf)) = None"
  by (simp add: generateConfigMap_def emptyMeta_def)

text \<open>
  C39. The ConfigMap loses its owner: the one \<open>syncConfig\<close> creates is owned by the EMQX resource, and
  every update it makes later writes one without owner, so that deleting the resource leaves the
  ConfigMap behind.
\<close>

theorem config_update_drops_owner:
  "obeys (syncConfig E x r) (\<lambda>res l.
     (\<forall>cm e. TCreate (OConfigMap cm) e \<in> set l \<longrightarrow> (\<exists>m. setControllerReference E (Meta x) m = Inr (cm_meta cm))) \<and>
     (\<forall>cm e. TUpdate (OConfigMap cm) e \<in> set l \<longrightarrow> om_controller (cm_meta cm) = None))"
proof -
  have push: "obeys (pushConfig E x r conf) (\<lambda>res l.
      (\<forall>cm e. TCreate (OConfigMap cm) e \<notin> set l) \<and>
      (\<forall>cm e. TUpdate (OConfigMap cm) e \<in> set l \<longrightarrow> om_controller (cm_meta cm) = None))" for conf
  proof -
    have put: "obeys (putEMQXConfigsByAPI E rq mode config) (\<lambda>_ l. \<forall>cm e. TUpdate (OConfigMap cm) e \<notin> set l \<and>
        TCreate (OConfigMap cm) e \<notin> set l)" for rq mode config
      by (rule obeys_mono[OF obeys_putEMQXConfigsByAPI]) auto
    have writable: "obeys (writableConfig E v conf) (\<lambda>_ l. \<forall>cm e. TUpdate (OConfigMap cm) e \<notin> set l \<and>
        TCreate (OConfigMap cm) e \<notin> set l)" for v
      by (rule obeys_mono[OF obeys_writableConfig]) blast
    show ?thesis
      unfolding pushConfig_def update_def
      by (intro obeys_case_list obeys_return obeys_bind[OF writable] obeys_case_go obeys_case_option
          obeys_bind[OF put] obeys_bind_prim obeys_bind[OF obeys_saveLastConfig])
        (auto simp: generateConfigMap_unowned)
  qed
  show ?thesis
    unfolding syncConfig_def getConfigMap_def create_def Let_def
    by (intro obeys_bind_prim obeys_case_sum obeys_case_option obeys_if obeys_return
        obeys_bind[OF obeys_saveLastConfig] obeys_mono[OF push]) auto
qed

definition exConfigured :: "(time, unit) env" where
  "exConfigured = (exEnv exEmpty)\<lparr>w_getConfigMap :=
     (\<lambda>_ _ w. (Inr \<lparr>cm_meta = (exMeta ''emqx-configs'')\<lparr>om_controller := Some ''emqx-uid''\<rparr>, cm_Data = None\<rparr>, w))\<rparr>"

definition exReconfigured :: EMQX where
  "exReconfigured = \<lparr>Meta = (exMeta ''emqx'')\<lparr>om_Annotations := Some [AnnotationsLastEMQXConfigKey \<mapsto> ''a = 1'']\<rparr>,
     Spec = exSpec, Status = (exStatus [exCondition CoreNodesReady 0] ''h'' ''h'')\<lparr>CoreNodes := [exNode ''emqx@n'' ''core'' ''Enterprise'']\<rparr>\<rparr>"

theorem config_update_drops_owner_witness:
  "\<exists>cm. OConfigMap cm \<in> set (updatedObjs (runOf (syncConfig exConfigured exReconfigured (Some exRq)))) \<and>
     om_controller (cm_meta cm) = None"
proof -
  let ?l = "runOf (syncConfig exConfigured exReconfigured (Some exRq))"
  have "case updatedObjs ?l of OConfigMap _ # _ \<Rightarrow> True | _ \<Rightarrow> False" by code_simp
  then obtain cm where "OConfigMap cm \<in> set (updatedObjs ?l)"
    by (auto split: list.splits obj.splits)
  with obeys_run[OF config_update_drops_owner, of exConfigured exReconfigured "Some exRq"]
  show ?thesis unfolding mem_updatedObjs by blast
qed

end
