(* ===== verification/Rebalance_Controller.thy ===== *)
theory Rebalance_Controller
  imports Bootstrap
begin

text \<open>
  The reconciler of the \<open>Rebalance\<close> resource (\<open>controllers/apps/v2beta1/rebalance_controller.go\<close>):
  the phases of a rebalance job, the calls that start, poll and stop it on the EMQX nodes, and the
  finalizer that stops a running job before the resource goes. The target is an \<open>EMQX\<close> cluster of
  v2beta1 or an \<open>EmqxEnterprise\<close> of v1beta4, whose requester is \<open>NewRequesterByPod\<close> of
  \<open>controllers/apps/v1beta4/emqx_controller.go\<close>.
\<close>

section \<open>The requester of v1beta4\<close>

definition defUsername :: string where
  "defUsername = ''emqx_operator_controller''"

definition getBootstrapUser :: "('w, 'c) env \<Rightarrow> objectMeta \<Rightarrow> ('w, goerr + string \<times> string) op" where
  "getBootstrapUser E m = do {
     got \<leftarrow> getSecret E (om_Namespace m) (om_Name m @ ''-bootstrap-user'');
     ret (case got of
            Inl err \<Rightarrow> Inl (ErrWrap ''get secret failed'' err)
          | Inr bootstrapUser \<Rightarrow>
              (case mget (sec_Data bootstrapUser) ''bootstrap_user'' of
                 None \<Rightarrow> Inl (ErrText ''the secret does not contain the bootstrap_user'')
               | Some userData \<Rightarrow>
                   (case findUser defUsername (splitByte (CHR 0x0A) userData) of
                      None \<Rightarrow> Inl (ErrText ''the secret does not contain the bootstrap_user'')
                    | Some user \<Rightarrow> Inr user))) }"

definition podReady :: "pod \<Rightarrow> bool" where
  "podReady p \<longleftrightarrow> (\<exists>c \<in> set (pod_Conditions p). pc_Type c = ''Ready'' \<and> pc_Status c = ConditionTrue)"

definition NewRequesterByPod ::
  "('w, 'c) env \<Rightarrow> objectMeta \<Rightarrow> gomap \<Rightarrow> ('w, goerr + Requester) op" where
  "NewRequesterByPod E m labels = do {
     user \<leftarrow> getBootstrapUser E m;
     (case user of
        Inl err \<Rightarrow> ret (Inl err)
      | Inr (username, password) \<Rightarrow> do {
          pods \<leftarrow> listPods E (om_Namespace m) labels;
          ret (case find podReady pods of
                 None \<Rightarrow> Inl (ErrText ''failed to get ready pod'')
               | Some p \<Rightarrow> Inr \<lparr>rq_Schema = [], rq_Host = pod_PodIP p @ '':8081'',
                               rq_Username = username, rq_Password = password\<rparr>) }) }"

section \<open>Targets, URLs and the request\<close>

datatype target = TargetEnterprise EmqxEnterprise | TargetEMQX EMQX

definition ApiRebalanceV4 :: string where
  "ApiRebalanceV4 = ''api/v4/load_rebalance''"

definition ApiRebalanceV5 :: string where
  "ApiRebalanceV5 = ''api/v5/load_rebalance''"

fun getEmqxNodes :: "target \<Rightarrow> string list" where
  "getEmqxNodes (TargetEnterprise e) = map n4_Node (st4_EmqxNodes (en_Status e))"
| "getEmqxNodes (TargetEMQX e) =
     (if ReplicantNodes (Status e) = [] then map n_Node (CoreNodes (Status e))
      else map n_Node (ReplicantNodes (Status e)))"

fun rebalanceApi :: "target \<Rightarrow> string" where
  "rebalanceApi (TargetEnterprise _) = ApiRebalanceV4"
| "rebalanceApi (TargetEMQX _) = ApiRebalanceV5"

definition rebalanceStartUrl :: "target \<Rightarrow> string \<Rightarrow> string" where
  "rebalanceStartUrl emqx node = rebalanceApi emqx @ ''/'' @ node @ ''/start''"

definition rebalanceStopUrl :: "target \<Rightarrow> string \<Rightarrow> string" where
  "rebalanceStopUrl emqx node = rebalanceApi emqx @ ''/'' @ node @ ''/stop''"

definition rebalanceStatusUrl :: "target \<Rightarrow> string" where
  "rebalanceStatusUrl emqx = rebalanceApi emqx @ ''/global_status''"

text \<open>The keys in the order in which \<open>json.Marshal\<close> prints a map.\<close>

definition getRequestBytes :: "('w, 'c) env \<Rightarrow> Rebalance \<Rightarrow> string list \<Rightarrow> json" where
  "getRequestBytes E rebalance nodes =
     (let s = rb_RebalanceStrategy (rb_Spec rebalance)
      in JObj ([(''abs_conn_threshold'', JInt (rst_AbsConnThreshold s)),
                (''abs_sess_threshold'', JInt (rst_AbsSessThreshold s)),
                (''conn_evict_rate'', JInt (rst_ConnEvictRate s)),
                (''nodes'', JArr (map JStr nodes))] @
               (if rst_RelConnThreshold s \<noteq> []
                then [(''rel_conn_threshold'', parseFloat E (rst_RelConnThreshold s))] else []) @
               (if rst_RelSessThreshold s \<noteq> []
                then [(''rel_sess_threshold'', parseFloat E (rst_RelSessThreshold s))] else []) @
               [(''sess_evict_rate'', JInt (rst_SessEvictRate s)),
                (''wait_health_check'', JInt (rst_WaitHealthCheck s)),
                (''wait_takeover'', JInt (rst_WaitTakeover s))]))"

section \<open>The calls on the nodes\<close>

text \<open>A request through a nil requester panics.\<close>

definition requestBy ::
  "('w, 'c) env \<Rightarrow> Requester option \<Rightarrow> string \<Rightarrow> string \<Rightarrow> json \<Rightarrow> ('w, (goerr + httpResponse) go) op" where
  "requestBy E requester method path body =
     (case requester of
        None \<Rightarrow> ret Panic
      | Some rq \<Rightarrow> do { resp \<leftarrow> Request E rq method (GetURL rq path []) body []; ret (Ret resp) })"

text \<open>The answer to a start or stop request: an error, or a body whose code is 400.\<close>

definition commandError :: "('w, 'c) env \<Rightarrow> goerr + httpResponse \<Rightarrow> goerr option" where
  "commandError E resp =
     (case resp of
        Inl err \<Rightarrow> Some err
      | Inr rp \<Rightarrow>
          if resp_StatusCode rp \<noteq> 200 then Some (ErrText (''request api failed: '' @ resp_Status rp))
          else if gjsonString E (resp_Body rp) ''code'' = ''400''
          then Some (ErrText (gjsonString E (resp_Body rp) ''message''))
          else None)"

definition startRebalance ::
  "('w, 'c) env \<Rightarrow> target \<Rightarrow> Requester option \<Rightarrow> Rebalance \<Rightarrow> ('w, goerr option go) op" where
  "startRebalance E emqx requester rebalance =
     (case getEmqxNodes emqx of
        [] \<Rightarrow> ret Panic
      | node # nodes \<Rightarrow>
          bindGo (requestBy E requester ''POST'' (rebalanceStartUrl emqx node)
                    (getRequestBytes E rebalance (node # nodes)))
            (\<lambda>resp. ret (Ret (commandError E resp))))"

definition getRebalanceStatus ::
  "('w, 'c) env \<Rightarrow> target \<Rightarrow> Requester option \<Rightarrow> ('w, (goerr + RebalanceState list) go) op" where
  "getRebalanceStatus E emqx requester =
     bindGo (requestBy E requester ''GET'' (rebalanceStatusUrl emqx) JNull) (\<lambda>resp.
       ret (Ret (case resp of
         Inl err \<Rightarrow> Inl err
       | Inr rp \<Rightarrow>
           if resp_StatusCode rp \<noteq> 200 then Inl (ErrText (''request api failed: '' @ resp_Status rp))
           else (case unmarshalRebalances E (gjsonRaw E (resp_Body rp) ''rebalances'') of
                   Inl err \<Rightarrow> Inl (ErrWrap ''failed to unmarshal rebalances'' err)
                 | Inr states \<Rightarrow> Inr states))))"

definition stopRebalance ::
  "('w, 'c) env \<Rightarrow> target \<Rightarrow> Requester option \<Rightarrow> Rebalance \<Rightarrow> ('w, goerr option go) op" where
  "stopRebalance E emqx requester rebalance =
     (case rb_RebalanceStates (rb_Status rebalance) of
        [] \<Rightarrow> ret Panic
      | state # _ \<Rightarrow>
          bindGo (requestBy E requester ''POST'' (rebalanceStopUrl emqx (rbs_CoordinatorNode state)) JNull)
            (\<lambda>resp. ret (Ret (commandError E resp))))"

section \<open>The phase handler\<close>

definition rebalanceCondition :: "string \<Rightarrow> string \<Rightarrow> RebalanceCondition" where
  "rebalanceCondition t message =
     \<lparr>rc_Type = t, rc_Status = ConditionTrue, rc_LastUpdateTime = zeroTime,
      rc_LastTransitionTime = zeroTime, rc_Reason = [], rc_Message = message\<rparr>"

definition failWith :: "time \<Rightarrow> string \<Rightarrow> RebalanceStatus \<Rightarrow> RebalanceStatus" where
  "failWith now message s = fst (SetFailed now s (rebalanceCondition RebalanceConditionFailed message))"

text \<open>
  What the handler makes of the status, for the answer to a start request and to a status request.
  The setters refuse to leave a final phase, so at most one of them takes effect and the clock is
  read once.
\<close>

definition startedStatus ::
  "('w, 'c) env \<Rightarrow> time \<Rightarrow> RebalanceStatus \<Rightarrow> goerr option \<Rightarrow> RebalanceStatus" where
  "startedStatus E now s err =
     (let s1 = (case err of
                  None \<Rightarrow> s
                | Some e \<Rightarrow>
                    (failWith now (''Failed to start rebalance: '' @ errorText E e) s)\<lparr>rb_RebalanceStates := []\<rparr>)
      in fst (SetProcessing now s1 (rebalanceCondition RebalanceConditionProcessing [])))"

definition polledStatus ::
  "('w, 'c) env \<Rightarrow> time \<Rightarrow> RebalanceStatus \<Rightarrow> goerr + RebalanceState list \<Rightarrow> RebalanceStatus" where
  "polledStatus E now s res =
     (let states = (case res of Inl _ \<Rightarrow> [] | Inr ss \<Rightarrow> ss);
          s1 = (case res of
                  Inl e \<Rightarrow> failWith now (''Failed to get rebalance status: '' @ errorText E e) s
                | Inr _ \<Rightarrow> s);
          s2 = (if states = []
                then (fst (SetCompleted now s1 (rebalanceCondition RebalanceConditionCompleted [])))
                       \<lparr>rb_RebalanceStates := []\<rparr>
                else s1);
          s3 = fst (SetProcessing now s2 (rebalanceCondition RebalanceConditionProcessing []))
      in s3\<lparr>rb_RebalanceStates := states\<rparr>)"

definition rebalanceStatusHandler ::
  "('w, 'c) env \<Rightarrow> RebalanceStatus \<Rightarrow> ('w, goerr option go) op \<Rightarrow>
   ('w, (goerr + RebalanceState list) go) op \<Rightarrow> ('w, RebalanceStatus go) op" where
  "rebalanceStatusHandler E s startFun getRebalanceStatusFun =
     (if rb_Phase s = [] then
        bindGo startFun (\<lambda>err. do { now \<leftarrow> timeNow E; ret (Ret (startedStatus E now s err)) })
      else if rb_Phase s = RebalancePhaseProcessing then
        bindGo getRebalanceStatusFun (\<lambda>res. do { now \<leftarrow> timeNow E; ret (Ret (polledStatus E now s res)) })
      else if rb_Phase s = RebalancePhaseFailed \<or> rb_Phase s = RebalancePhaseCompleted then
        ret (Ret (s\<lparr>rb_RebalanceStates := []\<rparr>))
      else ret Panic)"

section \<open>Reconcile\<close>

definition finalizer :: string where
  "finalizer = ''apps.emqx.io/finalizer''"

definition beingDeleted :: "objectMeta \<Rightarrow> bool" where
  "beingDeleted m = (case om_DeletionTimestamp m of None \<Rightarrow> False | Some t \<Rightarrow> t \<noteq> zeroTime)"

definition RemoveFinalizer :: "Rebalance \<Rightarrow> Rebalance" where
  "RemoveFinalizer r = r\<lparr>rb_meta := (rb_meta r)\<lparr>om_Finalizers :=
     filter (\<lambda>f. f \<noteq> finalizer) (om_Finalizers (rb_meta r))\<rparr>\<rparr>"

definition AddFinalizer :: "Rebalance \<Rightarrow> Rebalance" where
  "AddFinalizer r = r\<lparr>rb_meta := (rb_meta r)\<lparr>om_Finalizers := om_Finalizers (rb_meta r) @ [finalizer]\<rparr>\<rparr>"

definition sumErr :: "goerr + 'a \<Rightarrow> goerr option" where
  "sumErr x = (case x of Inl e \<Rightarrow> Some e | Inr _ \<Rightarrow> None)"

text \<open>The result of a reconcile: an early return, or the target and its requester.\<close>

type_synonym outcome = "(ctrlResult \<times> goerr option) go"

definition stop :: "goerr option \<Rightarrow> outcome" where
  "stop err = Ret (\<lparr>cr_Requeue = False, cr_RequeueAfter = 0\<rparr>, err)"

definition failRebalance :: "('w, 'c) env \<Rightarrow> Rebalance \<Rightarrow> string \<Rightarrow> ('w, outcome + 'a) op" where
  "failRebalance E rebalance message = do {
     now \<leftarrow> timeNow E;
     answer \<leftarrow> statusRebalance E (rebalance\<lparr>rb_Status := failWith now message (rb_Status rebalance)\<rparr>);
     ret (Inl (stop (sumErr answer))) }"

definition releaseRebalance :: "('w, 'c) env \<Rightarrow> Rebalance \<Rightarrow> ('w, outcome) op" where
  "releaseRebalance E rebalance = do {
     answer \<leftarrow> updateRebalance E (RemoveFinalizer rebalance);
     ret (stop (sumErr answer)) }"

definition targetEnterprise ::
  "('w, 'c) env \<Rightarrow> Rebalance \<Rightarrow> ('w, outcome + target \<times> Requester option) op" where
  "targetEnterprise E rebalance =
     (let name = rb_InstanceName (rb_Spec rebalance)
      in do {
        got \<leftarrow> getEnterprise E (om_Namespace (rb_meta rebalance)) name;
        (case got of
           Inl err \<Rightarrow>
             if \<not> IsNotFound err then ret (Inl (stop (Some (ErrWrap ''failed to get EMQX Enterprise'' err))))
             else if beingDeleted (rb_meta rebalance)
             then do { res \<leftarrow> releaseRebalance E rebalance; ret (Inl res) }
             else failRebalance E rebalance (''EMQX Enterprise '' @ name @ '' is not found'')
         | Inr emqx \<Rightarrow>
             if \<not> IsConditionTrue4 (en_Status emqx) ConditionRunning
             then failRebalance E rebalance (''EMQX Enterprise '' @ name @ '' is not ready'')
             else do {
               rq \<leftarrow> NewRequesterByPod E (en_meta emqx) (om_Labels (et_meta (sp4_Template (en_Spec emqx))));
               ret (case rq of
                      Inl _ \<Rightarrow> Inl (stop (Some (ErrText ''failed to get create emqx http API'')))
                    | Inr r \<Rightarrow> Inr (TargetEnterprise emqx, Some r)) }) })"

definition targetEMQX ::
  "('w, 'c) env \<Rightarrow> Rebalance \<Rightarrow> ('w, outcome + target \<times> Requester option) op" where
  "targetEMQX E rebalance =
     (let name = rb_InstanceName (rb_Spec rebalance)
      in do {
        got \<leftarrow> getEMQX E (om_Namespace (rb_meta rebalance)) name;
        (case got of
           Inl err \<Rightarrow>
             if \<not> IsNotFound err then ret (Inl (stop (Some err)))
             else if beingDeleted (rb_meta rebalance)
             then do { res \<leftarrow> releaseRebalance E rebalance; ret (Inl res) }
             else failRebalance E rebalance (''EMQX '' @ name @ '' is not found'')
         | Inr emqx \<Rightarrow>
             if \<not> IsConditionTrue (Status emqx) Ready
             then failRebalance E rebalance (''EMQX '' @ name @ '' is not ready'')
             else (case CoreNodes (Status emqx) of
                     [] \<Rightarrow> ret (Inl Panic)
                   | node # _ \<Rightarrow>
                       if n_Edition node \<noteq> ''Enterprise''
                       then failRebalance E rebalance ''Only enterprise edition can be rebalanced''
                       else do {
                         rq \<leftarrow> newRequester E emqx;
                         ret (case rq of
                                Inl _ \<Rightarrow> Inl (stop (Some (ErrText ''failed to get create emqx http API'')))
                              | Inr r \<Rightarrow> Inr (TargetEMQX emqx, r)) })) })"

definition finishRebalance :: "Rebalance \<Rightarrow> ('w, outcome) op" where
  "finishRebalance rebalance =
     (let phase = rb_Phase (rb_Status rebalance)
      in if phase = ''Failed'' then do { _ \<leftarrow> recordEvent ''Warning'' ''Rebalance''; ret (stop None) }
         else if phase = ''Completed'' then do { _ \<leftarrow> recordEvent ''Normal'' ''Rebalance''; ret (stop None) }
         else if phase = ''Processing'' then do {
           _ \<leftarrow> recordEvent ''Normal'' ''Rebalance'';
           ret (Ret (\<lparr>cr_Requeue = False, cr_RequeueAfter = 5 * nanosPerSecond\<rparr>, None)) }
         else ret Panic)"

definition runRebalance ::
  "('w, 'c) env \<Rightarrow> Rebalance \<Rightarrow> target \<Rightarrow> Requester option \<Rightarrow> ('w, outcome) op" where
  "runRebalance E rebalance emqx requester =
     (if beingDeleted (rb_meta rebalance) then
        if rb_Phase (rb_Status rebalance) = RebalancePhaseProcessing
        then bindGo (stopRebalance E emqx requester rebalance) (\<lambda>_. releaseRebalance E rebalance)
        else releaseRebalance E rebalance
      else do {
        added \<leftarrow> (if finalizer \<in> set (om_Finalizers (rb_meta rebalance)) then ret (Inr rebalance)
                  else updateRebalance E (AddFinalizer rebalance));
        (case added of
           Inl err \<Rightarrow> ret (stop (Some err))
         | Inr rb \<Rightarrow>
             bindGo (rebalanceStatusHandler E (rb_Status rb) (startRebalance E emqx requester rb)
                       (getRebalanceStatus E emqx requester)) (\<lambda>s. do {
               answer \<leftarrow> statusRebalance E (rb\<lparr>rb_Status := s\<rparr>);
               (case answer of
                  Inl err \<Rightarrow> ret (stop (Some err))
                | Inr stored \<Rightarrow> finishRebalance stored) })) })"

definition ReconcileRebalance :: "('w, 'c) env \<Rightarrow> string \<Rightarrow> string \<Rightarrow> ('w, outcome) op" where
  "ReconcileRebalance E namespace name = do {
     got \<leftarrow> getRebalance E namespace name;
     (case got of
        Inl err \<Rightarrow> ret (stop (if IsNotFound err then None else Some err))
      | Inr rebalance \<Rightarrow> do {
          found \<leftarrow> (if rb_InstanceKind (rb_Spec rebalance) = ''EmqxEnterprise''
                    then targetEnterprise E rebalance else targetEMQX E rebalance);
          (case found of
             Inl res \<Rightarrow> ret res
           | Inr (emqx, requester) \<Rightarrow> runRebalance E rebalance emqx requester) }) }"

section \<open>The phases of a job\<close>

text \<open>
  The changes a reconcile makes to the status: a start from the empty phase, a poll while the job is
  processing, a failure found before the job is looked at (at any phase), and the clearing of the
  states in a final phase.
\<close>

inductive rebalanceStep :: "('w, 'c) env \<Rightarrow> RebalanceStatus \<Rightarrow> RebalanceStatus \<Rightarrow> bool" for E where
  startStep: "rb_Phase s = [] \<Longrightarrow> rebalanceStep E s (startedStatus E now s err)"
| pollStep: "rb_Phase s = RebalancePhaseProcessing \<Longrightarrow> rebalanceStep E s (polledStatus E now s res)"
| failStep: "rebalanceStep E s (failWith now message s)"
| finalStep: "rb_Phase s = RebalancePhaseFailed \<or> rb_Phase s = RebalancePhaseCompleted \<Longrightarrow>
    rebalanceStep E s (s\<lparr>rb_RebalanceStates := []\<rparr>)"

inductive rebalanceReachable :: "('w, 'c) env \<Rightarrow> RebalanceStatus \<Rightarrow> bool" for E where
  fresh: "rb_Conditions s = [] \<Longrightarrow> rb_Phase s = [] \<Longrightarrow> rb_RebalanceStates s = [] \<Longrightarrow>
    rebalanceReachable E s"
| step: "rebalanceReachable E s \<Longrightarrow> rebalanceStep E s s' \<Longrightarrow> rebalanceReachable E s'"

text \<open>The phase is the type of a condition that is true, and only a job that ran has states.\<close>

definition conditionIsTrue :: "RebalanceStatus \<Rightarrow> string \<Rightarrow> bool" where
  "conditionIsTrue s t = (map_option rc_Status (rebalanceConditionMap s t) = Some ConditionTrue)"

definition rebalance_inv :: "RebalanceStatus \<Rightarrow> bool" where
  "rebalance_inv s \<longleftrightarrow>
     rebalance_conditions_inv s \<and>
     rb_Phase s \<in> {[], RebalancePhaseProcessing, RebalancePhaseCompleted, RebalancePhaseFailed} \<and>
     (rb_Phase s = [] \<longrightarrow> rb_Conditions s = []) \<and>
     (rb_Phase s \<noteq> [] \<longrightarrow> conditionIsTrue s (rb_Phase s)) \<and>
     (rb_Phase s = RebalancePhaseCompleted \<longrightarrow> conditionIsTrue s RebalanceConditionProcessing) \<and>
     (rb_RebalanceStates s \<noteq> [] \<longrightarrow> conditionIsTrue s RebalanceConditionProcessing)"

section \<open>Lemmas\<close>

lemma rebalance_phases [simp]:
  "RebalancePhaseProcessing \<noteq> []" "RebalancePhaseCompleted \<noteq> []" "RebalancePhaseFailed \<noteq> []"
  "RebalancePhaseProcessing \<noteq> RebalancePhaseCompleted" "RebalancePhaseProcessing \<noteq> RebalancePhaseFailed"
  "RebalancePhaseCompleted \<noteq> RebalancePhaseFailed" "RebalancePhaseCompleted \<noteq> RebalancePhaseProcessing"
  "RebalancePhaseFailed \<noteq> RebalancePhaseProcessing" "RebalancePhaseFailed \<noteq> RebalancePhaseCompleted"
  "RebalanceConditionProcessing = RebalancePhaseProcessing"
  "RebalanceConditionCompleted = RebalancePhaseCompleted" "RebalanceConditionFailed = RebalancePhaseFailed"
  by (simp_all add: rebalance_consts)

lemmas rebalance_phases_sym [simp] = rebalance_phases(1-3)[symmetric]

lemma rebalanceCondition_simps [simp]:
  "rc_Type (rebalanceCondition t m) = t" "rc_Status (rebalanceCondition t m) = ConditionTrue"
  by (simp_all add: rebalanceCondition_def)

lemma conditions_cong [simp]:
  "rebalance_conditions_inv (s\<lparr>rb_Phase := p\<rparr>) = rebalance_conditions_inv s"
  "rebalance_conditions_inv (s\<lparr>rb_RebalanceStates := ss\<rparr>) = rebalance_conditions_inv s"
  "rebalance_conditions_inv (s\<lparr>rb_StartedTime := now\<rparr>) = rebalance_conditions_inv s"
  "rebalance_conditions_inv (s\<lparr>rb_CompletedTime := now\<rparr>) = rebalance_conditions_inv s"
  "conditionIsTrue (s\<lparr>rb_Phase := p\<rparr>) t = conditionIsTrue s t"
  "conditionIsTrue (s\<lparr>rb_RebalanceStates := ss\<rparr>) t = conditionIsTrue s t"
  "conditionIsTrue (s\<lparr>rb_StartedTime := now\<rparr>) t = conditionIsTrue s t"
  "conditionIsTrue (s\<lparr>rb_CompletedTime := now\<rparr>) t = conditionIsTrue s t"
  by (simp_all add: rebalance_conditions_inv_def conditionIsTrue_def rebalanceConditionMap_def)

lemma conditionIsTrue_Set [simp]:
  "rebalance_conditions_inv s \<Longrightarrow>
   conditionIsTrue (SetRebalanceCondition now s (rebalanceCondition t m)) u \<longleftrightarrow> u = t \<or> conditionIsTrue s u"
  by (auto simp: conditionIsTrue_def rebalanceConditionMap_Set)

lemma Set_conditions_nonempty [simp]: "rb_Conditions (SetRebalanceCondition now s c) \<noteq> []"
proof
  assume "rb_Conditions (SetRebalanceCondition now s c) = []"
  then have "length (placed rc_Type (rb_Conditions s) (storedCondition now s c)) = 0"
    using length_go_sort[of updatedLater] by (metis rb_Conditions_Set list.size(3))
  then show False
    by (auto simp: placed_def split: option.splits)
qed

lemma failWith_simps:
  "failWith now m s = SetRebalanceCondition now (s\<lparr>rb_Phase := RebalancePhaseFailed\<rparr>)
     (rebalanceCondition RebalancePhaseFailed m)"
  by (simp add: failWith_def SetFailed_def)

text \<open>The outcome of a start and of a poll, setter by setter.\<close>

lemma startedStatus_None:
  "rb_Phase s = [] \<Longrightarrow> startedStatus E now s None =
     SetRebalanceCondition now (s\<lparr>rb_Phase := RebalancePhaseProcessing,
        rb_StartedTime := (if rb_StartedTime s = zeroTime then now else rb_StartedTime s)\<rparr>)
       (rebalanceCondition RebalancePhaseProcessing [])"
  by (simp add: startedStatus_def SetProcessing_def)

lemma startedStatus_Some:
  "startedStatus E now s (Some e) =
     (failWith now (''Failed to start rebalance: '' @ errorText E e) s)\<lparr>rb_RebalanceStates := []\<rparr>"
  by (simp add: startedStatus_def SetProcessing_def failWith_simps)

lemma polledStatus_Inl:
  "polledStatus E now s (Inl e) =
     (failWith now (''Failed to get rebalance status: '' @ errorText E e) s)\<lparr>rb_RebalanceStates := []\<rparr>"
  by (simp add: polledStatus_def SetProcessing_def SetCompleted_def failWith_simps)

lemma polledStatus_done:
  "rb_Phase s = RebalancePhaseProcessing \<Longrightarrow> polledStatus E now s (Inr []) =
     (SetRebalanceCondition now (s\<lparr>rb_Phase := RebalancePhaseCompleted, rb_CompletedTime := now\<rparr>)
       (rebalanceCondition RebalancePhaseCompleted []))\<lparr>rb_RebalanceStates := []\<rparr>"
  by (simp add: polledStatus_def SetProcessing_def SetCompleted_def)

lemma polledStatus_more:
  "rb_Phase s = RebalancePhaseProcessing \<Longrightarrow> ss \<noteq> [] \<Longrightarrow> polledStatus E now s (Inr ss) =
     (SetRebalanceCondition now (s\<lparr>rb_Phase := RebalancePhaseProcessing,
        rb_StartedTime := (if rb_StartedTime s = zeroTime then now else rb_StartedTime s)\<rparr>)
       (rebalanceCondition RebalancePhaseProcessing []))\<lparr>rb_RebalanceStates := ss\<rparr>"
  by (simp add: polledStatus_def SetProcessing_def)

lemmas status_changes = startedStatus_None startedStatus_Some polledStatus_Inl polledStatus_done
  polledStatus_more failWith_simps

lemma rebalanceStep_inv:
  assumes "rebalanceStep E s s'" "rebalance_inv s"
  shows "rebalance_inv s'"
  using assms
proof (induction rule: rebalanceStep.induct)
  case (startStep s now err)
  then show ?case
    by (cases err) (auto simp: rebalance_inv_def status_changes SetRebalanceCondition_inv)
next
  case (pollStep s now res)
  then show ?case
    by (cases res; cases "projr res") (auto simp: rebalance_inv_def status_changes SetRebalanceCondition_inv)
next
  case (failStep s now message)
  then show ?case by (auto simp: rebalance_inv_def status_changes SetRebalanceCondition_inv)
qed (auto simp: rebalance_inv_def)

lemma rebalanceReachable_inv: "rebalanceReachable E s \<Longrightarrow> rebalance_inv s"
proof (induction rule: rebalanceReachable.induct)
  case (fresh s)
  then show ?case by (simp add: rebalance_inv_def rebalance_conditions_inv_def)
qed (rule rebalanceStep_inv)

section \<open>Lemmas: what a reconcile writes\<close>

text \<open>
  The writes a reconcile of \<open>rb\<close> may make: status changes that are steps of the job, the finalizer
  added to a live resource, and the finalizer removed from a deleted one. A job that is processing is
  asked to stop before that, unless its target is gone.
\<close>

definition stopRequest :: "target \<Rightarrow> Requester \<Rightarrow> RebalanceState \<Rightarrow> httpRequest" where
  "stopRequest emqx rq state =
     buildRequest rq ''POST'' (GetURL rq (rebalanceStopUrl emqx (rbs_CoordinatorNode state)) []) JNull []"

definition stopAsked :: "('w, 'c) env \<Rightarrow> Rebalance \<Rightarrow> call list \<Rightarrow> bool" where
  "stopAsked E rb l \<longleftrightarrow>
     (\<exists>emqx rq state states. rb_RebalanceStates (rb_Status rb) = state # states \<and>
        (newRequestErr E (stopRequest emqx rq state) \<noteq> None \<or>
         (\<exists>ans. THttp (stopRequest emqx rq state) ans \<in> set l)))"

definition targetGone :: "call list \<Rightarrow> bool" where
  "targetGone l \<longleftrightarrow> (\<exists>ns n e. IsNotFound e \<and>
     (TGetEMQX ns n (Inl e) \<in> set l \<or> TGetEnterprise ns n (Inl e) \<in> set l))"

inductive rebalanceWrite :: "('w, 'c) env \<Rightarrow> Rebalance \<Rightarrow> call list \<Rightarrow> call \<Rightarrow> bool" for E rb l where
  writeStatus: "r = rb \<or> TUpdateRebalance (AddFinalizer rb) (Inr r) \<in> set l \<Longrightarrow>
    rebalanceStep E (rb_Status r) s \<Longrightarrow> rebalanceWrite E rb l (TStatusRebalance (r\<lparr>rb_Status := s\<rparr>) ans)"
| writeAdd: "\<not> beingDeleted (rb_meta rb) \<Longrightarrow> finalizer \<notin> set (om_Finalizers (rb_meta rb)) \<Longrightarrow>
    rebalanceWrite E rb l (TUpdateRebalance (AddFinalizer rb) ans)"
| writeRemove: "beingDeleted (rb_meta rb) \<Longrightarrow>
    rb_Phase (rb_Status rb) \<noteq> RebalancePhaseProcessing \<or> targetGone l \<or> stopAsked E rb l \<Longrightarrow>
    rebalanceWrite E rb l (TUpdateRebalance (RemoveFinalizer rb) ans)"

inductive_cases rebalanceWriteE: "rebalanceWrite E rb l c"

lemma rebalanceWrite_mono:
  assumes "rebalanceWrite E rb l c" "set l \<subseteq> set l'"
  shows "rebalanceWrite E rb l' c"
  using assms
proof (induction rule: rebalanceWrite.induct)
  case (writeRemove ans)
  then have "targetGone l \<Longrightarrow> targetGone l'" "stopAsked E rb l \<Longrightarrow> stopAsked E rb l'"
    unfolding targetGone_def stopAsked_def by (meson subsetD)+
  with writeRemove show ?case by (auto intro: rebalanceWrite.writeRemove)
qed (auto intro: rebalanceWrite.intros)

definition writesOf :: "('w, 'c) env \<Rightarrow> Rebalance \<Rightarrow> call list \<Rightarrow> bool" where
  "writesOf E rb l \<longleftrightarrow> (\<forall>c \<in> set l. k8sWrite c \<longrightarrow> rebalanceWrite E rb l c)"

lemma writesOf_append:
  assumes "writesOf E rb l" "\<forall>c \<in> set l'. k8sWrite c \<longrightarrow> rebalanceWrite E rb (l @ l') c"
  shows "writesOf E rb (l @ l')"
  using assms rebalanceWrite_mono[of E rb l _ "l @ l'"] by (auto simp: writesOf_def)

lemma writesOf_reads: "\<forall>c \<in> set l. \<not> k8sWrite c \<Longrightarrow> writesOf E rb l"
  by (auto simp: writesOf_def)

abbreviation noWrite :: "call \<Rightarrow> bool" where
  "noWrite c \<equiv> \<not> k8sWrite c"

lemma only_Request_noWrite [only_intros]: "onlyCalls noWrite (Request E rq method u body header)"
  unfolding Request_def httpDo_def by (intro only_intros) simp_all

lemma only_requestBy [only_intros]: "onlyCalls noWrite (requestBy E rq method path body)"
  unfolding requestBy_def by (intro only_intros) simp_all

lemma only_rebalance_calls [only_intros]:
  "onlyCalls noWrite (startRebalance E emqx rq rb)" "onlyCalls noWrite (getRebalanceStatus E emqx rq)"
  unfolding startRebalance_def getRebalanceStatus_def by (intro only_intros; simp)+

lemma only_requesters [only_intros]:
  "onlyCalls noWrite (NewRequesterByPod E m labels)" "onlyCalls noWrite (newRequester E x)"
  unfolding NewRequesterByPod_def getBootstrapUser_def newRequester_def getBootstrapAPIKey_def call_defs
  by (intro only_intros; simp)+

lemma only_statusHandler:
  assumes "onlyCalls noWrite startFun" "onlyCalls noWrite getFun"
  shows "only noWrite (\<lambda>res. \<forall>s'. res = Ret s' \<longrightarrow> rebalanceStep E s s') (rebalanceStatusHandler E s startFun getFun)"
  using assms unfolding rebalanceStatusHandler_def timeNow_def
  by (intro only_intros) (auto intro: rebalanceStep.intros)

lemma only_finishRebalance: "onlyCalls noWrite (finishRebalance rb)"
  unfolding finishRebalance_def recordEvent_def by (intro only_intros) simp_all

lemma obeys_stopRebalance:
  "obeys (stopRebalance E emqx rq rb)
     (\<lambda>res l. (\<forall>c \<in> set l. \<not> k8sWrite c) \<and> (res \<noteq> Panic \<longrightarrow> stopAsked E rb l))"
proof (cases "rb_RebalanceStates (rb_Status rb)")
  case Nil
  then show ?thesis by (simp add: stopRebalance_def obeys_return)
next
  case (Cons state states)
  show ?thesis
  proof (cases rq)
    case None
    then show ?thesis
      by (simp add: stopRebalance_def Cons requestBy_def bindGo_def State_Monad.bind_left_identity
          obeys_return)
  next
    case (Some r)
    let ?req = "stopRequest emqx r state"
    have asked: "stopAsked E rb l" if "newRequestErr E ?req \<noteq> None \<or> (\<exists>ans. THttp ?req ans \<in> set l)" for l
      unfolding stopAsked_def using Cons that by blast
    show ?thesis
    proof (cases "newRequestErr E ?req")
      case None
      then show ?thesis
        using asked
        unfolding stopRebalance_def Cons list.case requestBy_def Some option.case bindGo_def Request_def
          httpDo_def Let_def stopRequest_def State_Monad.bind_assoc State_Monad.bind_left_identity go.case
        by (auto intro!: obeys_bind_prim obeys_return)
    next
      case (Some e)
      then show ?thesis
        using asked
        unfolding stopRebalance_def Cons list.case requestBy_def \<open>rq = Some r\<close> option.case bindGo_def
          Request_def Let_def stopRequest_def State_Monad.bind_assoc State_Monad.bind_left_identity go.case
        by (auto intro!: obeys_return simp: State_Monad.bind_left_identity)
    qed
  qed
qed

lemma writesOf_status:
  assumes "writesOf E rb l" "r = rb \<or> TUpdateRebalance (AddFinalizer rb) (Inr r) \<in> set l"
    "rebalanceStep E (rb_Status r) s"
  shows "writesOf E rb (l @ [TStatusRebalance (r\<lparr>rb_Status := s\<rparr>) ans])"
  using assms by (intro writesOf_append) (auto intro: writeStatus)

lemma writesOf_remove:
  assumes "writesOf E rb l" "beingDeleted (rb_meta rb)"
    "rb_Phase (rb_Status rb) \<noteq> RebalancePhaseProcessing \<or> targetGone l \<or> stopAsked E rb l"
  shows "writesOf E rb (l @ [TUpdateRebalance (RemoveFinalizer rb) ans])"
proof -
  have "rebalanceWrite E rb (l @ [TUpdateRebalance (RemoveFinalizer rb) ans])
      (TUpdateRebalance (RemoveFinalizer rb) ans)"
    using assms(2,3) by (intro writeRemove) (auto simp: targetGone_def stopAsked_def)
  with assms(1) show ?thesis by (intro writesOf_append) auto
qed

lemma obeys_releaseRebalance:
  assumes "writesOf E rb l" "beingDeleted (rb_meta rb)"
    "rb_Phase (rb_Status rb) \<noteq> RebalancePhaseProcessing \<or> targetGone l \<or> stopAsked E rb l"
  shows "obeys (releaseRebalance E rb) (\<lambda>res l'. writesOf E rb (l @ l'))"
  unfolding releaseRebalance_def updateRebalance_def
  by (intro obeys_bind_prim obeys_return) (use writesOf_remove[OF assms] in auto)

lemma obeys_failRebalance:
  assumes "writesOf E rb l"
  shows "obeys (failRebalance E rb message) (\<lambda>res l'. writesOf E rb (l @ l'))"
proof -
  have "writesOf E rb (l @ [TNow now, TStatusRebalance (rb\<lparr>rb_Status := failWith now message (rb_Status rb)\<rparr>) ans])"
    for now ans
  proof -
    have "writesOf E rb (l @ [TNow now])" using assms by (intro writesOf_append) simp_all
    from writesOf_status[OF this _ failStep, of rb now message ans] show ?thesis by simp
  qed
  then show ?thesis
    unfolding failRebalance_def timeNow_def statusRebalance_def
    by (intro obeys_bind_prim obeys_return) auto
qed

text \<open>Looking for the target, and running the job.\<close>

lemma only_noWriteD: "onlyCalls noWrite m \<Longrightarrow> obeys m (\<lambda>_ l. \<forall>c \<in> set l. \<not> k8sWrite c)"
  unfolding only_def by (rule obeys_mono) (auto simp: list_all_iff)

lemma obeys_targetEMQX: "obeys (targetEMQX E rb) (\<lambda>res l. writesOf E rb l)"
  unfolding targetEMQX_def getEMQX_def
  by (intro obeys_Let obeys_bind_prim obeys_case_sum obeys_if obeys_case_list obeys_return
      obeys_failRebalance[of E rb "[_]", simplified]
      obeys_bind[OF obeys_releaseRebalance[of E rb "[_]", simplified]]
      obeys_bind[OF only_noWriteD[OF only_requesters(2)]])
    (auto simp: targetGone_def writesOf_def)

lemma obeys_targetEnterprise: "obeys (targetEnterprise E rb) (\<lambda>res l. writesOf E rb l)"
  unfolding targetEnterprise_def getEnterprise_def
  by (intro obeys_Let obeys_bind_prim obeys_case_sum obeys_if obeys_case_list obeys_return
      obeys_failRebalance[of E rb "[_]", simplified]
      obeys_bind[OF obeys_releaseRebalance[of E rb "[_]", simplified]]
      obeys_bind[OF only_noWriteD[OF only_requesters(1)]])
    (auto simp: targetGone_def writesOf_def)

lemma obeys_runRebalance:
  assumes "writesOf E rb pre"
  shows "obeys (runRebalance E rb emqx rq) (\<lambda>res l. writesOf E rb (pre @ l))"
proof (cases "beingDeleted (rb_meta rb)")
  case True
  have "obeys (bindGo (stopRebalance E emqx rq rb) (\<lambda>_. releaseRebalance E rb)) (\<lambda>res l. writesOf E rb (pre @ l))"
  proof (rule obeys_bindGo[OF obeys_stopRebalance])
    fix x l
    assume l: "(\<forall>c \<in> set l. \<not> k8sWrite c) \<and> (Ret x \<noteq> Panic \<longrightarrow> stopAsked E rb l)"
    then have "stopAsked E rb (pre @ l)"
      unfolding stopAsked_def by (metis Un_iff go.distinct(1) set_append)
    moreover have "writesOf E rb (pre @ l)" using assms l by (intro writesOf_append) auto
    ultimately show "obeys (releaseRebalance E rb) (\<lambda>res l'. writesOf E rb (pre @ l @ l'))"
      using obeys_releaseRebalance[of E rb "pre @ l"] True by simp
  qed (use assms in \<open>auto intro!: writesOf_append\<close>)
  then show ?thesis
    using True obeys_releaseRebalance[OF assms] by (auto simp: runRebalance_def)
next
  case False
  have run: "obeys (bindGo (rebalanceStatusHandler E (rb_Status r) (startRebalance E emqx rq r)
        (getRebalanceStatus E emqx rq)) (\<lambda>s. do {
          answer \<leftarrow> statusRebalance E (r\<lparr>rb_Status := s\<rparr>);
          (case answer of Inl err \<Rightarrow> ret (stop (Some err)) | Inr stored \<Rightarrow> finishRebalance stored) }))
      (\<lambda>res l'. writesOf E rb (pre @ l @ l'))"
    if l: "writesOf E rb (pre @ l)" "r = rb \<or> TUpdateRebalance (AddFinalizer rb) (Inr r) \<in> set l" for r l
  proof (rule obeys_bindGo[OF onlyD[OF only_statusHandler[OF only_rebalance_calls]]])
    fix s l' assume s: "list_all noWrite l' \<and> (\<forall>s'. Ret s = Ret s' \<longrightarrow> rebalanceStep E (rb_Status r) s')"
    have "writesOf E rb (pre @ l @ l' @ TStatusRebalance (r\<lparr>rb_Status := s\<rparr>) ans # l'')"
      if "\<forall>c \<in> set l''. \<not> k8sWrite c" for ans l''
    proof -
      have "writesOf E rb (pre @ l @ l')"
        using writesOf_append[OF l(1), of l'] s by (auto simp: list_all_iff)
      then have "writesOf E rb ((pre @ l @ l') @ [TStatusRebalance (r\<lparr>rb_Status := s\<rparr>) ans])"
        using l(2) s by (intro writesOf_status) auto
      then have "writesOf E rb (((pre @ l @ l') @ [TStatusRebalance (r\<lparr>rb_Status := s\<rparr>) ans]) @ l'')"
        using that by (elim writesOf_append) auto
      then show ?thesis by simp
    qed
    then show "obeys (do {
          answer \<leftarrow> statusRebalance E (r\<lparr>rb_Status := s\<rparr>);
          (case answer of Inl err \<Rightarrow> ret (stop (Some err)) | Inr stored \<Rightarrow> finishRebalance stored) })
        (\<lambda>res l''. writesOf E rb (pre @ l @ l' @ l''))"
      unfolding statusRebalance_def
      by (intro obeys_bind_prim obeys_case_sum obeys_return
          obeys_mono[OF only_noWriteD[OF only_finishRebalance]]) auto
  next
    fix l' assume "list_all noWrite l' \<and> (\<forall>s'. Panic = Ret s' \<longrightarrow> rebalanceStep E (rb_Status r) s')"
    then show "writesOf E rb (pre @ l @ l')"
      using writesOf_append[OF l(1), of l'] by (auto simp: list_all_iff)
  qed
  have added: "writesOf E rb (pre @ [TUpdateRebalance (AddFinalizer rb) ans])"
    if "finalizer \<notin> set (om_Finalizers (rb_meta rb))" for ans
    using assms False that by (intro writesOf_append) (auto intro: writeAdd)
  show ?thesis
    using run[of "[]" rb] run[OF added] added assms False
    by (auto simp: runRebalance_def updateRebalance_def State_Monad.bind_left_identity
        intro!: obeys_bind_prim obeys_case_sum obeys_return)
qed

lemma obeys_ReconcileRebalance:
  "obeys (ReconcileRebalance E ns name) (\<lambda>res l. \<forall>c \<in> set l. k8sWrite c \<longrightarrow>
     (\<exists>rb. TGetRebalance ns name (Inr rb) \<in> set l \<and> rebalanceWrite E rb l c))"
proof -
  have final: "\<forall>c \<in> set (TGetRebalance ns name (Inr rb) # l). k8sWrite c \<longrightarrow>
      (\<exists>rb'. TGetRebalance ns name (Inr rb') \<in> set (TGetRebalance ns name (Inr rb) # l) \<and>
        rebalanceWrite E rb' (TGetRebalance ns name (Inr rb) # l) c)"
    if "writesOf E rb l" for rb l
    using that rebalanceWrite_mono[of E rb l _ "TGetRebalance ns name (Inr rb) # l"]
    by (fastforce simp: writesOf_def)
  have tgt: "obeys (if b then targetEnterprise E rb else targetEMQX E rb) (\<lambda>res l. writesOf E rb l)" for b rb
    by (cases b) (simp_all add: obeys_targetEMQX obeys_targetEnterprise)
  show ?thesis
    unfolding ReconcileRebalance_def getRebalance_def
    apply (intro obeys_bind_prim obeys_case_sum obeys_return obeys_bind[OF tgt] obeys_case_prod)
    subgoal by simp
    subgoal for a aa x l e using final[of aa l] by simp
    subgoal for a aa x l ab ac b
      by (rule obeys_mono[OF obeys_runRebalance[of E aa l]]) (simp, drule final, simp only: append_Cons)
    done
qed

text \<open>A job deleted before its first poll: the coordinator is not known, and every reconcile panics.\<close>

lemma runRebalance_stuck:
  "beingDeleted (rb_meta rb) \<Longrightarrow> rb_Phase (rb_Status rb) = RebalancePhaseProcessing \<Longrightarrow>
   rb_RebalanceStates (rb_Status rb) = [] \<Longrightarrow> runRebalance E rb emqx rq = ret Panic"
  by (simp add: runRebalance_def stopRebalance_def bindGo_def State_Monad.bind_left_identity)

end
