(* ===== verification/Rebalance_Properties.thy ===== *)
theory Rebalance_Properties
  imports Examples Rebalance_Controller
begin

text \<open>
  The properties of the Rebalance controller, with their witnesses.
\<close>

section \<open>The job\<close>


definition exJob :: RebalanceStatus where
  "exJob = \<lparr>rb_Conditions = [], rb_Phase = [], rb_RebalanceStates = [], rb_StartedTime = zeroTime,
     rb_CompletedTime = zeroTime\<rparr>"

lemma exJob_started:
  "rebalanceReachable E (startedStatus E 5 exJob None)"
  by (rule rebalanceReachable.step[OF rebalanceReachable.fresh startStep]) (simp_all add: exJob_def)


text \<open>
  How a job ends: a start that is refused fails it and a start that is accepted makes it
  processing; a poll that fails fails it, a poll that reports no more states completes it, and
  any other poll keeps it processing with the states reported.
\<close>

theorem rebalance_phases_follow_answers:
  "rb_Phase (startedStatus E now (s\<lparr>rb_Phase := []\<rparr>) err) =
     (case err of None \<Rightarrow> RebalancePhaseProcessing | Some _ \<Rightarrow> RebalancePhaseFailed) \<and>
   rb_Phase (polledStatus E now (s\<lparr>rb_Phase := RebalancePhaseProcessing\<rparr>) res) =
     (case res of Inl _ \<Rightarrow> RebalancePhaseFailed | Inr [] \<Rightarrow> RebalancePhaseCompleted
      | Inr _ \<Rightarrow> RebalancePhaseProcessing) \<and>
   rb_RebalanceStates (polledStatus E now (s\<lparr>rb_Phase := RebalancePhaseProcessing\<rparr>) res) =
     (case res of Inl _ \<Rightarrow> [] | Inr states \<Rightarrow> states)"
proof (intro conjI)
  show "rb_Phase (startedStatus E now (s\<lparr>rb_Phase := []\<rparr>) err) =
      (case err of None \<Rightarrow> RebalancePhaseProcessing | Some _ \<Rightarrow> RebalancePhaseFailed)"
    by (cases err) (simp_all add: status_changes)
  show "rb_Phase (polledStatus E now (s\<lparr>rb_Phase := RebalancePhaseProcessing\<rparr>) res) =
     (case res of Inl _ \<Rightarrow> RebalancePhaseFailed | Inr [] \<Rightarrow> RebalancePhaseCompleted
      | Inr _ \<Rightarrow> RebalancePhaseProcessing)"
    by (cases res; cases "projr res") (simp_all add: status_changes)
  show "rb_RebalanceStates (polledStatus E now (s\<lparr>rb_Phase := RebalancePhaseProcessing\<rparr>) res) =
     (case res of Inl _ \<Rightarrow> [] | Inr states \<Rightarrow> states)"
    by (cases res) (simp_all add: polledStatus_def Let_def)
qed

text \<open>
  C18. A reconcile of a Rebalance writes nothing but the resource it read: status changes that are
  steps of the job, the finalizer added to a resource that is not being deleted, and the finalizer
  removed from one that is, after the coordinator of a processing job was asked to stop, unless the
  target is gone.
\<close>

theorem rebalance_writes_are_steps:
  "obeys (ReconcileRebalance E ns name) (\<lambda>res l. \<forall>c \<in> set l. k8sWrite c \<longrightarrow>
     (\<exists>rb. TGetRebalance ns name (Inr rb) \<in> set l \<and> rebalanceWrite E rb l c))"
  by (rule obeys_ReconcileRebalance)

definition exRebalance :: Rebalance where
  "exRebalance = \<lparr>rb_meta = exMeta ''rb'', rb_Spec = \<lparr>rb_InstanceKind = ''EMQX'', rb_InstanceName = ''emqx'',
     rb_RebalanceStrategy = \<lparr>rst_ConnEvictRate = 1, rst_SessEvictRate = 1, rst_WaitTakeover = 0,
       rst_WaitHealthCheck = 0, rst_AbsConnThreshold = 0, rst_RelConnThreshold = [], rst_AbsSessThreshold = 0,
       rst_RelSessThreshold = []\<rparr>\<rparr>, rb_Status = exJob\<rparr>"

definition exBalancing :: "(time, unit) env" where
  "exBalancing = exEnv (exEmpty\<lparr>ex_rebalance := Inr exRebalance\<rparr>)"

definition statusWrite :: "call \<Rightarrow> bool" where
  "statusWrite c = (case c of TStatusRebalance _ _ \<Rightarrow> True | _ \<Rightarrow> False)"

theorem rebalance_writes_are_steps_witness:
  "\<exists>c rb. c \<in> set (runOf (ReconcileRebalance exBalancing ''ns'' ''rb'')) \<and> statusWrite c \<and>
     rebalanceWrite exBalancing rb (runOf (ReconcileRebalance exBalancing ''ns'' ''rb'')) c"
proof -
  let ?l = "runOf (ReconcileRebalance exBalancing ''ns'' ''rb'')"
  have "list_ex statusWrite ?l" by code_simp
  then obtain c where c: "c \<in> set ?l" "statusWrite c" by (auto simp: list_ex_iff)
  moreover from c(2) have "k8sWrite c" by (cases c) (auto simp: statusWrite_def)
  ultimately show ?thesis
    using obeys_run[OF rebalance_writes_are_steps, of exBalancing "''ns''" "''rb''"] by blast
qed



end
