(* ===== verification/V4_Plugin_Configs.thy ===== *)
theory V4_Plugin_Configs
  imports Go_Prelude
begin

text \<open>
  The default configuration files of the plugins of EMQX 4: the literal \<open>Data\<close> of
  \<open>generateDefaultPluginsConfig\<close> in \<open>controllers/apps/v1beta4/generated.go\<close>, entry by entry.
\<close>

definition defaultPluginsData :: "(string \<times> string) list" where
  "defaultPluginsData = [
   (''emqx_node_rebalance.conf'', []),
   (''emqx_eviction_agent.conf'', []),
   (''emqx_modules.conf'', []),
   (''emqx_management.conf'', concat
    [''management.listener.http = 8081\<newline>management.default_application.id = admin\<newline>'',
     ''management.default_application.secret = public'']),
   (''emqx_dashboard.conf'', concat
    [''dashboard.listener.http = 18083\<newline>dashboard.default_user.login = admin\<newline>'',
     ''dashboard.default_user.password = public'']),
   (''emqx_rule_engine.conf'', []),
   (''emqx_retainer.conf'', []),
   (''emqx_telemetry.conf'', []),
   (''emqx_auth_http.conf'', concat
    [''auth.http.auth_req.url = http://127.0.0.1:80/mqtt/auth\<newline>'',
     ''auth.http.auth_req.method = post\<newline>'',
     ''auth.http.auth_req.headers.content_type = application/x-www-form-urlencoded\<newline>'',
     ''auth.http.auth_req.params = clientid=%c,username=%u,password=%P\<newline>'',
     ''auth.http.acl_req.url = http://127.0.0.1:80/mqtt/acl\<newline>auth.http.acl_req.method = post\<newline>'',
     ''auth.http.acl_req.headers.content-type = application/x-www-form-urlencoded\<newline>'',
     ''auth.http.acl_req.params = access=%A,username=%u,clientid=%c,ipaddr=%a,topic=%t,mountp'',
     ''oint=%m\<newline>auth.http.timeout = 5s\<newline>auth.http.connect_timeout = 5s\<newline>'',
     ''auth.http.pool_size = 32\<newline>auth.http.enable_pipelining = true\<newline>'']),
   (''emqx_auth_jwt.conf'',
    ''auth.jwt.secret = emqxsecret\<newline>auth.jwt.from = password\<newline>auth.jwt.verify_claims = off\<newline>''),
   (''emqx_auth_ldap.conf'', concat
    [''auth.ldap.servers = 127.0.0.1\<newline>auth.ldap.port = 389\<newline>auth.ldap.pool = 8\<newline>'',
     ''auth.ldap.bind_dn = cn=root,dc=emqx,dc=io\<newline>auth.ldap.bind_password = public\<newline>'',
     ''auth.ldap.timeout = 30s\<newline>auth.ldap.device_dn = ou=device,dc=emqx,dc=io\<newline>'',
     ''auth.ldap.match_objectclass = mqttUser\<newline>auth.ldap.username.attributetype = uid\<newline>'',
     ''auth.ldap.password.attributetype = userPassword\<newline>auth.ldap.ssl = false\<newline>'']),
   (''emqx_auth_mnesia.conf'', []),
   (''emqx_auth_mongo.conf'', concat
    [''auth.mongo.type = single\<newline>auth.mongo.srv_record = false\<newline>'',
     ''auth.mongo.server = 127.0.0.1:27017\<newline>auth.mongo.pool = 8\<newline>auth.mongo.database = mqtt\<newline>'',
     ''auth.mongo.topology.pool_size = 1\<newline>auth.mongo.topology.max_overflow = 0\<newline>'',
     ''auth.mongo.auth_query.password_hash = sha256\<newline>'',
     ''auth.mongo.auth_query.collection = mqtt_user\<newline>'',
     ''auth.mongo.auth_query.password_field = password\<newline>'',
     ''auth.mongo.auth_query.selector = username=%u\<newline>'',
     ''auth.mongo.super_query.collection = mqtt_user\<newline>'',
     ''auth.mongo.super_query.super_field = is_superuser\<newline>'',
     ''auth.mongo.super_query.selector = username=%u\<newline>'',
     ''auth.mongo.acl_query.collection = mqtt_acl\<newline>'',
     ''auth.mongo.acl_query.selector = username=%u\<newline>'']),
   (''emqx_auth_mysql.conf'', concat
    [''auth.mysql.server = 127.0.0.1:3306\<newline>auth.mysql.pool = 8\<newline>auth.mysql.database = mqtt\<newline>'',
     ''auth.mysql.auth_query = select password from mqtt_user where username = '%u' limit 1\<newline>'',
     ''auth.mysql.password_hash = sha256\<newline>'',
     ''auth.mysql.super_query = select is_superuser from mqtt_user where username = '%u' limi'',
     ''t 1\<newline>'',
     ''auth.mysql.acl_query = select allow, ipaddr, username, clientid, access, topic from mq'',
     ''tt_acl where ipaddr = '%a' or username = '%u' or username = '$all' or clientid = '%c'\<newline>'']),
   (''emqx_auth_pgsql.conf'', concat
    [''auth.pgsql.server = 127.0.0.1:5432\<newline>auth.pgsql.pool = 8\<newline>auth.pgsql.username = root\<newline>'',
     ''auth.pgsql.database = mqtt\<newline>auth.pgsql.encoding = utf8\<newline>auth.pgsql.ssl = off\<newline>'',
     ''auth.pgsql.auth_query = select password from mqtt_user where username = '%u' limit 1\<newline>'',
     ''auth.pgsql.password_hash = sha256\<newline>'',
     ''auth.pgsql.super_query = select is_superuser from mqtt_user where username = '%u' limi'',
     ''t 1\<newline>'',
     ''auth.pgsql.acl_query = select allow, ipaddr, username, clientid, access, topic from mq'',
     ''tt_acl where ipaddr = '%a' or username = '%u' or username = '$all' or clientid = '%c'\<newline>'']),
   (''emqx_auth_redis.conf'', concat
    [''auth.redis.type = single\<newline>auth.redis.server = 127.0.0.1:6379\<newline>auth.redis.pool = 8\<newline>'',
     ''auth.redis.database = 0\<newline>auth.redis.auth_cmd = HMGET mqtt_user:%u password\<newline>'',
     ''auth.redis.password_hash = plain\<newline>'',
     ''auth.redis.super_cmd = HGET mqtt_user:%u is_superuser\<newline>'',
     ''auth.redis.acl_cmd = HGETALL mqtt_acl:%u\<newline>'']),
   (''emqx_backend_cassa.conf'', concat
    [''backend.ecql.pool1.nodes = 127.0.0.1:9042\<newline>backend.ecql.pool1.size = 8\<newline>'',
     ''backend.ecql.pool1.auto_reconnect = 1\<newline>backend.ecql.pool1.username = cassandra\<newline>'',
     ''backend.ecql.pool1.password = cassandra\<newline>backend.ecql.pool1.keyspace = mqtt\<newline>'',
     ''backend.ecql.pool1.logger = info\<newline>'',
     ''backend.cassa.hook.client.connected.1    = {\"action\": {\"function\": \"on_client_connecte'',
     ''d\"}, \"pool\": \"pool1\"}\<newline>'',
     ''backend.cassa.hook.client.connected.2    = {\"action\": {\"function\": \"on_subscription_lo'',
     ''okup\"}, \"pool\": \"pool1\"}\<newline>'',
     ''backend.cassa.hook.client.disconnected.1 = {\"action\": {\"function\": \"on_client_disconne'',
     ''cted\"}, \"pool\": \"pool1\"}\<newline>'',
     ''backend.cassa.hook.session.subscribed.1  = {\"topic\": \"#\", \"action\": {\"function\": \"on_m'',
     ''essage_fetch\"}, \"offline_opts\": {\"max_returned_count\": 500, \"time_range\": \"2h\"}, \"pool'',
     ''\": \"pool1\"}\<newline>'',
     ''backend.cassa.hook.session.subscribed.2  = {\"action\": {\"function\": \"on_retain_lookup\"}'',
     '', \"pool\": \"pool1\"}\<newline>'',
     ''backend.cassa.hook.session.unsubscribed.1= {\"topic\": \"#\", \"action\": {\"cql\": [\"delete f'',
     ''rom acked where clientid = ${clientid} and topic = ${topic}\"]}, \"pool\": \"pool1\"}\<newline>'',
     ''backend.cassa.hook.message.publish.1     = {\"topic\": \"#\", \"action\": {\"function\": \"on_m'',
     ''essage_publish\"}, \"pool\": \"pool1\"}\<newline>'',
     ''backend.cassa.hook.message.publish.2     = {\"topic\": \"#\", \"action\": {\"function\": \"on_m'',
     ''essage_retain\"}, \"pool\": \"pool1\"}\<newline>'',
     ''backend.cassa.hook.message.publish.3     = {\"topic\": \"#\", \"action\": {\"function\": \"on_r'',
     ''etain_delete\"}, \"pool\": \"pool1\"}\<newline>'',
     ''backend.cassa.hook.message.acked.1       = {\"topic\": \"#\", \"action\": {\"function\": \"on_m'',
     ''essage_acked\"}, \"pool\": \"pool1\"}\<newline>'']),
   (''emqx_backend_dynamo.conf'', concat
    [''backend.dynamo.region = us-west-2\<newline>backend.dynamo.pool1.server = http://localhost:8000\<newline>'',
     ''backend.dynamo.pool1.pool_size = 8\<newline>'',
     ''backend.dynamo.pool1.aws_access_key_id = FAKE_AWS_ACCESS_KEY_ID\<newline>'',
     ''backend.dynamo.pool1.aws_secret_access_key = FAKE_AWS_SECRET_ACCESS_KEY\<newline>'',
     ''backend.dynamo.hook.client.connected.1    = {\"action\": {\"function\": \"on_client_connect'',
     ''ed\"}, \"pool\": \"pool1\"}\<newline>'',
     ''backend.dynamo.hook.client.connected.2    = {\"action\": {\"function\": \"on_subscribe_look'',
     ''up\"}, \"pool\": \"pool1\"}\<newline>'',
     ''backend.dynamo.hook.client.disconnected.1 = {\"action\": {\"function\": \"on_client_disconn'',
     ''ected\"}, \"pool\": \"pool1\"}\<newline>'',
     ''backend.dynamo.hook.session.subscribed.1  = {\"topic\": \"#\", \"action\": {\"function\": \"on_'',
     ''message_fetch_for_queue\"}, \"pool\": \"pool1\"}\<newline>'',
     ''backend.dynamo.hook.session.subscribed.2  = {\"topic\": \"#\", \"action\": {\"function\": \"on_'',
     ''retain_lookup\"}, \"pool\": \"pool1\"}\<newline>'',
     ''backend.dynamo.hook.session.unsubscribed.1= {\"topic\": \"#\", \"action\": {\"function\": \"on_'',
     ''acked_delete\"}, \"pool\": \"pool1\"}\<newline>'',
     ''backend.dynamo.hook.message.publish.1     = {\"topic\": \"#\", \"action\": {\"function\": \"on_'',
     ''message_publish\"}, \"pool\": \"pool1\"}\<newline>'',
     ''backend.dynamo.hook.message.publish.2     = {\"topic\": \"#\", \"action\": {\"function\": \"on_'',
     ''message_retain\"}, \"pool\": \"pool1\"}\<newline>'',
     ''backend.dynamo.hook.message.publish.3     = {\"topic\": \"#\", \"action\": {\"function\": \"on_'',
     ''retain_delete\"}, \"pool\": \"pool1\"}\<newline>'',
     ''backend.dynamo.hook.message.acked.1       = {\"topic\": \"#\", \"action\": {\"function\": \"on_'',
     ''message_acked_for_queue\"}, \"pool\": \"pool1\"}\<newline>'']),
   (''emqx_backend_influxdb.conf'', concat
    [''backend.influxdb.udp.pool1.server = 127.0.0.1:8089\<newline>'',
     ''backend.influxdb.udp.pool1.pool_size = 8\<newline>'',
     ''backend.influxdb.http.pool1.server = 127.0.0.1:8086\<newline>'',
     ''backend.influxdb.http.pool1.pool_size = 8\<newline>backend.influxdb.http.pool1.precision = ms\<newline>'',
     ''backend.influxdb.http.pool1.database = mydb\<newline>'',
     ''backend.influxdb.http.pool1.https_enabled = false\<newline>'',
     ''backend.influxdb.hook.message.publish.1 = {\"topic\": \"#\", \"action\": {\"function\": \"on_me'',
     ''ssage_publish\"}, \"pool\": \"pool1\"}\<newline>'']),
   (''emqx_backend_mongo.conf'', concat
    [''backend.mongo.pool1.type = single\<newline>backend.mongo.pool1.srv_record = false\<newline>'',
     ''backend.mongo.pool1.server = 127.0.0.1:27017\<newline>backend.mongo.pool1.c_pool_size = 8\<newline>'',
     ''backend.mongo.pool1.database = mqtt\<newline>'',
     ''backend.mongo.hook.client.connected.1    = {\"action\": {\"function\": \"on_client_connecte'',
     ''d\"}, \"pool\": \"pool1\"}\<newline>'',
     ''backend.mongo.hook.client.connected.2    = {\"action\": {\"function\": \"on_subscribe_looku'',
     ''p\"}, \"pool\": \"pool1\"}\<newline>'',
     ''backend.mongo.hook.client.disconnected.1 = {\"action\": {\"function\": \"on_client_disconne'',
     ''cted\"}, \"pool\": \"pool1\"}\<newline>'',
     ''backend.mongo.hook.session.subscribed.1  = {\"topic\": \"#\", \"action\": {\"function\": \"on_m'',
     ''essage_fetch\"}, \"pool\": \"pool1\", \"offline_opts\": {\"time_range\": \"2h\", \"max_returned_co'',
     ''unt\": 500}}\<newline>'',
     ''backend.mongo.hook.session.subscribed.2  = {\"topic\": \"#\", \"action\": {\"function\": \"on_r'',
     ''etain_lookup\"}, \"pool\": \"pool1\"}\<newline>'',
     ''backend.mongo.hook.session.unsubscribed.1= {\"topic\": \"#\", \"action\": {\"function\": \"on_a'',
     ''cked_delete\"}, \"pool\": \"pool1\"}\<newline>'',
     ''backend.mongo.hook.message.publish.1     = {\"topic\": \"#\", \"action\": {\"function\": \"on_m'',
     ''essage_publish\"}, \"pool\": \"pool1\"}\<newline>'',
     ''backend.mongo.hook.message.publish.2     = {\"topic\": \"#\", \"action\": {\"function\": \"on_m'',
     ''essage_retain\"}, \"pool\": \"pool1\"}\<newline>'',
     ''backend.mongo.hook.message.publish.3     = {\"topic\": \"#\", \"action\": {\"function\": \"on_r'',
     ''etain_delete\"}, \"pool\": \"pool1\"}\<newline>'',
     ''backend.mongo.hook.message.acked.1       = {\"topic\": \"#\", \"action\": {\"function\": \"on_m'',
     ''essage_acked\"}, \"pool\": \"pool1\"}\<newline>'']),
   (''emqx_backend_mysql.conf'', concat
    [''backend.mysql.pool1.server = 127.0.0.1:3306\<newline>backend.mysql.pool1.pool_size = 8\<newline>'',
     ''backend.mysql.pool1.user = root\<newline>backend.mysql.pool1.password = public\<newline>'',
     ''backend.mysql.pool1.database = mqtt\<newline>'',
     ''backend.mysql.hook.client.connected.1    = {\"action\": {\"function\": \"on_client_connecte'',
     ''d\"}, \"pool\": \"pool1\"}\<newline>'',
     ''backend.mysql.hook.client.connected.2     = {\"action\": {\"function\": \"on_subscribe_look'',
     ''up\"}, \"pool\": \"pool1\"}\<newline>'',
     ''backend.mysql.hook.client.disconnected.1 = {\"action\": {\"function\": \"on_client_disconne'',
     ''cted\"}, \"pool\": \"pool1\"}\<newline>'',
     ''backend.mysql.hook.session.subscribed.1  = {\"topic\": \"#\", \"action\": {\"function\": \"on_m'',
     ''essage_fetch\"}, \"offline_opts\": {\"max_returned_count\": 500, \"time_range\": \"2h\"}, \"pool'',
     ''\": \"pool1\"}\<newline>'',
     ''backend.mysql.hook.session.subscribed.2  = {\"topic\": \"#\", \"action\": {\"function\": \"on_r'',
     ''etain_lookup\"}, \"pool\": \"pool1\"}\<newline>'',
     ''backend.mysql.hook.session.unsubscribed.1= {\"topic\": \"#\", \"action\": {\"sql\": [\"delete f'',
     ''rom mqtt_acked where clientid = ${clientid} and topic = ${topic}\"]}, \"pool\": \"pool1\"}\<newline>'',
     ''backend.mysql.hook.message.publish.1     = {\"topic\": \"#\", \"action\": {\"function\": \"on_m'',
     ''essage_publish\"}, \"pool\": \"pool1\"}\<newline>'',
     ''backend.mysql.hook.message.publish.2     = {\"topic\": \"#\", \"action\": {\"function\": \"on_m'',
     ''essage_retain\"}, \"pool\": \"pool1\"}\<newline>'',
     ''backend.mysql.hook.message.publish.3     = {\"topic\": \"#\", \"action\": {\"function\": \"on_r'',
     ''etain_delete\"}, \"pool\": \"pool1\"}\<newline>'',
     ''backend.mysql.hook.message.acked.1       = {\"topic\": \"#\", \"action\": {\"function\": \"on_m'',
     ''essage_acked\"}, \"pool\": \"pool1\"}\<newline>'']),
   (''emqx_backend_opentsdb.conf'', concat
    [''backend.opentsdb.pool1.server = 127.0.0.1:4242\<newline>backend.opentsdb.pool1.pool_size = 8\<newline>'',
     ''backend.opentsdb.pool1.summary = true\<newline>backend.opentsdb.pool1.details = false\<newline>'',
     ''backend.opentsdb.pool1.sync = false\<newline>backend.opentsdb.pool1.sync_timeout = 0\<newline>'',
     ''backend.opentsdb.pool1.max_batch_size = 20\<newline>'',
     ''backend.opentsdb.hook.message.publish.1 = {\"topic\": \"#\", \"action\": {\"function\": \"on_me'',
     ''ssage_publish\"}, \"pool\": \"pool1\"}\<newline>'']),
   (''emqx_backend_pgsql.conf'', concat
    [''backend.pgsql.pool1.server = 127.0.0.1:5432\<newline>backend.pgsql.pool1.pool_size = 8\<newline>'',
     ''backend.pgsql.pool1.username = root\<newline>backend.pgsql.pool1.password = public\<newline>'',
     ''backend.pgsql.pool1.database = mqtt\<newline>backend.pgsql.pool1.ssl = false\<newline>'',
     ''backend.pgsql.hook.client.connected.1    = {\"action\": {\"function\": \"on_client_connecte'',
     ''d\"}, \"pool\": \"pool1\"}\<newline>'',
     ''backend.pgsql.hook.client.connected.2     = {\"action\": {\"function\": \"on_subscribe_look'',
     ''up\"}, \"pool\": \"pool1\"}\<newline>'',
     ''backend.pgsql.hook.client.disconnected.1 = {\"action\": {\"function\": \"on_client_disconne'',
     ''cted\"}, \"pool\": \"pool1\"}\<newline>'',
     ''backend.pgsql.hook.session.subscribed.1  = {\"topic\": \"#\", \"action\": {\"function\": \"on_m'',
     ''essage_fetch\"}, \"offline_opts\": {\"max_returned_count\": 500, \"time_range\": \"2h\"}, \"pool'',
     ''\": \"pool1\"}\<newline>'',
     ''backend.pgsql.hook.session.subscribed.2  = {\"topic\": \"#\", \"action\": {\"function\": \"on_r'',
     ''etain_lookup\"}, \"pool\": \"pool1\"}\<newline>'',
     ''backend.pgsql.hook.session.unsubscribed.1= {\"topic\": \"#\", \"action\": {\"sql\": \"delete fr'',
     ''om mqtt_acked where clientid = ${clientid} and topic = ${topic}\"}, \"pool\": \"pool1\"}\<newline>'',
     ''backend.pgsql.hook.message.publish.1     = {\"topic\": \"#\", \"action\": {\"function\": \"on_m'',
     ''essage_publish\"}, \"pool\": \"pool1\"}\<newline>'',
     ''backend.pgsql.hook.message.publish.2     = {\"topic\": \"#\", \"action\": {\"function\": \"on_m'',
     ''essage_retain\"}, \"pool\": \"pool1\"}\<newline>'',
     ''backend.pgsql.hook.message.publish.3     = {\"topic\": \"#\", \"action\": {\"function\": \"on_r'',
     ''etain_delete\"}, \"pool\": \"pool1\"}\<newline>'',
     ''backend.pgsql.hook.message.acked.1       = {\"topic\": \"#\", \"action\": {\"function\": \"on_m'',
     ''essage_acked\"}, \"pool\": \"pool1\"}\<newline>'']),
   (''emqx_backend_redis.conf'', concat
    [''backend.redis.pool1.type = single\<newline>backend.redis.pool1.server = 127.0.0.1:6379\<newline>'',
     ''backend.redis.pool1.pool_size = 8\<newline>backend.redis.pool1.database = 0\<newline>'',
     ''backend.redis.pool1.channel = mqtt_channel\<newline>'',
     ''backend.redis.hook.client.connected.1    = {\"action\": {\"function\": \"on_client_connecte'',
     ''d\"}, \"pool\": \"pool1\"}\<newline>'',
     ''backend.redis.hook.client.connected.2    = {\"action\": {\"function\": \"on_subscribe_looku'',
     ''p\"}, \"pool\": \"pool1\"}\<newline>'',
     ''backend.redis.hook.client.disconnected.1 = {\"action\": {\"function\": \"on_client_disconne'',
     ''cted\"}, \"pool\": \"pool1\"}\<newline>'',
     ''backend.redis.hook.session.subscribed.1  = {\"topic\": \"queue/#\", \"action\": {\"function\":'',
     '' \"on_message_fetch_for_queue\"}, \"pool\": \"pool1\"}\<newline>'',
     ''backend.redis.hook.session.subscribed.2  = {\"topic\": \"pubsub/#\", \"action\": {\"function\"'',
     '': \"on_message_fetch_for_pubsub\"}, \"pool\": \"pool1\"}\<newline>'',
     ''backend.redis.hook.session.subscribed.3  = {\"action\": {\"function\": \"on_retain_lookup\"}'',
     '', \"pool\": \"pool1\"}\<newline>'',
     ''backend.redis.hook.session.unsubscribed.1= {\"topic\": \"#\", \"action\": {\"commands\": [\"DEL'',
     '' mqtt:acked:${clientid}:${topic}\"]}, \"pool\": \"pool1\"}\<newline>'',
     ''backend.redis.hook.message.publish.1     = {\"topic\": \"#\", \"action\": {\"function\": \"on_m'',
     ''essage_publish\"}, \"expired_time\" : 3600, \"pool\": \"pool1\"}\<newline>'',
     ''backend.redis.hook.message.publish.2     = {\"topic\": \"#\", \"action\": {\"function\": \"on_m'',
     ''essage_retain\"}, \"expired_time\" : 3600, \"pool\": \"pool1\"}\<newline>'',
     ''backend.redis.hook.message.publish.3     = {\"topic\": \"#\", \"action\": {\"function\": \"on_r'',
     ''etain_delete\"}, \"pool\": \"pool1\"}\<newline>'',
     ''backend.redis.hook.message.acked.1       = {\"topic\": \"queue/#\", \"action\": {\"function\":'',
     '' \"on_message_acked_for_queue\"}, \"pool\": \"pool1\"}\<newline>'',
     ''backend.redis.hook.message.acked.2       = {\"topic\": \"pubsub/#\", \"action\": {\"function\"'',
     '': \"on_message_acked_for_pubsub\"}, \"pool\": \"pool1\"}\<newline>'']),
   (''emqx_backend_timescale.conf'', concat
    [''backend.timescale.pool1.server = 127.0.0.1:5432\<newline>backend.timescale.pool1.pool_size = 8\<newline>'',
     ''backend.timescale.pool1.username = root\<newline>backend.timescale.pool1.password = public\<newline>'',
     ''backend.timescale.pool1.database = mqtt\<newline>backend.timescale.pool1.ssl = false\<newline>'',
     ''backend.timescale.hook.message.publish.1 = {\"topic\": \"#\", \"action\": {\"function\": \"on_m'',
     ''essage_publish\"}, \"pool\": \"pool1\"}\<newline>'']),
   (''emqx_bridge_kafka.conf'', concat
    [''bridge.kafka.servers = 127.0.0.1:9092\<newline>bridge.kafka.query_api_versions = true\<newline>'',
     ''bridge.kafka.connection_strategy = per_partition\<newline>'',
     ''bridge.kafka.min_metadata_refresh_interval = 5S\<newline>bridge.kafka.produce = sync\<newline>'',
     ''bridge.kafka.produce.sync_timeout = 3s\<newline>bridge.kafka.sock.sndbuf = 1MB\<newline>'',
     ''bridge.kafka.hook.client.connected.1     = {\"topic\":\"ClientConnected\"}\<newline>'',
     ''bridge.kafka.hook.client.disconnected.1  = {\"topic\":\"ClientDisconnected\"}\<newline>'',
     ''bridge.kafka.hook.session.subscribed.1   = {\"filter\":\"#\", \"topic\":\"SessionSubscribed\"}'',
     ''\<newline>'',
     ''bridge.kafka.hook.session.unsubscribed.1 = {\"filter\":\"#\", \"topic\":\"SessionUnsubscribed'',
     ''\"}\<newline>'',
     ''bridge.kafka.hook.message.publish.1      = {\"filter\":\"#\", \"topic\":\"MessagePublish\"}\<newline>'',
     ''bridge.kafka.hook.message.delivered.1    = {\"filter\":\"#\", \"topic\":\"MessageDelivered\"}\<newline>'',
     ''bridge.kafka.hook.message.acked.1        = {\"filter\":\"#\", \"topic\":\"MessageAcked\"}\<newline>'']),
   (''emqx_bridge_mqtt.conf'', concat
    [''bridge.mqtt.aws.address = 127.0.0.1:1883\<newline>bridge.mqtt.aws.proto_ver = mqttv4\<newline>'',
     ''bridge.mqtt.aws.start_type = manual\<newline>bridge.mqtt.aws.clientid = bridge_aws\<newline>'',
     ''bridge.mqtt.aws.clean_start = true\<newline>bridge.mqtt.aws.username = user\<newline>'',
     ''bridge.mqtt.aws.password = passwd\<newline>bridge.mqtt.aws.forwards = topic1/#,topic2/#\<newline>'',
     ''bridge.mqtt.aws.forward_mountpoint = bridge/aws/${node}/\<newline>bridge.mqtt.aws.ssl = off\<newline>'',
     ''bridge.mqtt.aws.cacertfile = etc/certs/cacert.pem\<newline>'',
     ''bridge.mqtt.aws.certfile = etc/certs/client-cert.pem\<newline>'',
     ''bridge.mqtt.aws.keyfile = etc/certs/client-key.pem\<newline>'',
     ''bridge.mqtt.aws.ciphers = TLS_AES_256_GCM_SHA384,TLS_AES_128_GCM_SHA256,TLS_CHACHA20_P'',
     ''OLY1305_SHA256,TLS_AES_128_CCM_SHA256,TLS_AES_128_CCM_8_SHA256,ECDHE-ECDSA-AES256-GCM-'',
     ''SHA384,ECDHE-RSA-AES256-GCM-SHA384,ECDHE-ECDSA-AES256-SHA384,ECDHE-RSA-AES256-SHA384,E'',
     ''CDHE-ECDSA-DES-CBC3-SHA,ECDH-ECDSA-AES256-GCM-SHA384,ECDH-RSA-AES256-GCM-SHA384,ECDH-E'',
     ''CDSA-AES256-SHA384,ECDH-RSA-AES256-SHA384,DHE-DSS-AES256-GCM-SHA384,DHE-DSS-AES256-SHA'',
     ''256,AES256-GCM-SHA384,AES256-SHA256,ECDHE-ECDSA-AES128-GCM-SHA256,ECDHE-RSA-AES128-GCM'',
     ''-SHA256,ECDHE-ECDSA-AES128-SHA256,ECDHE-RSA-AES128-SHA256,ECDH-ECDSA-AES128-GCM-SHA256'',
     '',ECDH-RSA-AES128-GCM-SHA256,ECDH-ECDSA-AES128-SHA256,ECDH-RSA-AES128-SHA256,DHE-DSS-AE'',
     ''S128-GCM-SHA256,DHE-DSS-AES128-SHA256,AES128-GCM-SHA256,AES128-SHA256,ECDHE-ECDSA-AES2'',
     ''56-SHA,ECDHE-RSA-AES256-SHA,DHE-DSS-AES256-SHA,ECDH-ECDSA-AES256-SHA,ECDH-RSA-AES256-S'',
     ''HA,AES256-SHA,ECDHE-ECDSA-AES128-SHA,ECDHE-RSA-AES128-SHA,DHE-DSS-AES128-SHA,ECDH-ECDS'',
     ''A-AES128-SHA,ECDH-RSA-AES128-SHA,AES128-SHA\<newline>bridge.mqtt.aws.keepalive = 60s\<newline>'',
     ''bridge.mqtt.aws.tls_versions = tlsv1.3,tlsv1.2,tlsv1.1,tlsv1\<newline>'',
     ''bridge.mqtt.aws.reconnect_interval = 30s\<newline>bridge.mqtt.aws.retry_interval = 20s\<newline>'',
     ''bridge.mqtt.aws.batch_size = 32\<newline>bridge.mqtt.aws.max_inflight_size = 32\<newline>'',
     ''bridge.mqtt.aws.queue.replayq_dir = data/replayq/emqx_aws_bridge/\<newline>'',
     ''bridge.mqtt.aws.queue.replayq_seg_bytes = 10MB\<newline>'',
     ''bridge.mqtt.aws.queue.max_total_size = 5GB\<newline>'']),
   (''emqx_bridge_pulsar.conf'', concat
    [''bridge.pulsar.servers = 127.0.0.1:6650\<newline>bridge.pulsar.produce = sync\<newline>'',
     ''bridge.pulsar.sock.sndbuf = 1MB\<newline>'',
     ''bridge.pulsar.hook.client.connected.1     = {\"topic\":\"ClientConnected\"}\<newline>'',
     ''bridge.pulsar.hook.client.disconnected.1  = {\"topic\":\"ClientDisconnected\"}\<newline>'',
     ''bridge.pulsar.hook.session.subscribed.1   = {\"filter\":\"#\", \"topic\":\"SessionSubscribed\"'',
     ''}\<newline>'',
     ''bridge.pulsar.hook.session.unsubscribed.1 = {\"filter\":\"#\", \"topic\":\"SessionUnsubscribe'',
     ''d\"}\<newline>'',
     ''bridge.pulsar.hook.message.publish.1      = {\"filter\":\"#\", \"topic\":\"MessagePublish\"}\<newline>'',
     ''bridge.pulsar.hook.message.delivered.1      = {\"filter\":\"#\", \"topic\":\"MessageDelivered'',
     ''\"}\<newline>bridge.pulsar.hook.message.acked.1        = {\"filter\":\"#\", \"topic\":\"MessageAcked\"}\<newline>'']),
   (''emqx_bridge_rabbit.conf'', concat
    [''bridge.rabbit.1.server = 127.0.0.1:5672\<newline>bridge.rabbit.1.pool_size = 8\<newline>'',
     ''bridge.rabbit.1.username = guest\<newline>bridge.rabbit.1.password = guest\<newline>'',
     ''bridge.rabbit.1.timeout = 5s\<newline>bridge.rabbit.1.virtual_host = /\<newline>'',
     ''bridge.rabbit.1.heartbeat = 30s\<newline>'',
     ''bridge.rabbit.hook.session.subscribed.1 = {\"action\": \"on_session_subscribed\", \"rabbit\"'',
     '': 1, \"exchange\": \"direct:emqx.subscription\"}\<newline>'',
     ''bridge.rabbit.hook.session.unsubscribed.1 = {\"action\": \"on_session_unsubscribed\", \"rab'',
     ''bit\": 1, \"exchange\": \"direct:emqx.subscription\"}\<newline>'',
     ''bridge.rabbit.hook.message.publish.1 = {\"topic\": \"$SYS/#\", \"action\": \"on_message_publi'',
     ''sh\", \"rabbit\": 1, \"exchange\": \"topic:emqx.$sys\"}\<newline>'',
     ''bridge.rabbit.hook.message.publish.2 = {\"topic\": \"#\", \"action\": \"on_message_publish\", '',
     ''\"rabbit\": 1, \"exchange\": \"topic:emqx.pub\"}\<newline>'',
     ''bridge.rabbit.hook.message.acked.1 = {\"topic\": \"#\", \"action\": \"on_message_acked\", \"rab'',
     ''bit\": 1, \"exchange\": \"topic:emqx.acked\"}\<newline>'']),
   (''emqx_bridge_rocket.conf'', concat
    [''bridge.rocket.servers = 127.0.0.1:9876\<newline>'',
     ''bridge.rocket.refresh_topic_route_interval = 5S\<newline>bridge.rocket.produce = sync\<newline>'',
     ''bridge.rocket.sock.sndbuf = 1MB\<newline>'',
     ''bridge.rocket.hook.client.connected.1     = {\"topic\":\"ClientConnected\"}\<newline>'',
     ''bridge.rocket.hook.client.disconnected.1  = {\"topic\":\"ClientDisconnected\"}\<newline>'',
     ''bridge.rocket.hook.session.subscribed.1   = {\"filter\":\"#\", \"topic\":\"SessionSubscribed\"'',
     ''}\<newline>'',
     ''bridge.rocket.hook.session.unsubscribed.1 = {\"filter\":\"#\", \"topic\":\"SessionUnsubscribe'',
     ''d\"}\<newline>'',
     ''bridge.rocket.hook.message.publish.1      = {\"filter\":\"#\", \"topic\":\"MessagePublish\"}\<newline>'',
     ''bridge.rocket.hook.message.delivered.1    = {\"filter\":\"#\", \"topic\":\"MessageDeliver\"}\<newline>'',
     ''bridge.rocket.hook.message.acked.1        = {\"filter\":\"#\", \"topic\":\"MessageAcked\"}\<newline>'']),
   (''emqx_coap.conf'', concat
    [''coap.bind.udp.1 = 0.0.0.0:5683\<newline>coap.enable_stats = off\<newline>'',
     ''coap.bind.dtls.1 = 0.0.0.0:5684\<newline>coap.dtls.keyfile = etc/certs/key.pem\<newline>'',
     ''coap.dtls.certfile = etc/certs/cert.pem\<newline>'',
     ''coap.dtls.ciphers = ECDHE-ECDSA-AES256-GCM-SHA384,ECDHE-RSA-AES256-GCM-SHA384,ECDHE-EC'',
     ''DSA-AES256-SHA384,ECDHE-RSA-AES256-SHA384,ECDHE-ECDSA-DES-CBC3-SHA,ECDH-ECDSA-AES256-G'',
     ''CM-SHA384,ECDH-RSA-AES256-GCM-SHA384,ECDH-ECDSA-AES256-SHA384,ECDH-RSA-AES256-SHA384,D'',
     ''HE-DSS-AES256-GCM-SHA384,DHE-DSS-AES256-SHA256,AES256-GCM-SHA384,AES256-SHA256,ECDHE-E'',
     ''CDSA-AES128-GCM-SHA256,ECDHE-RSA-AES128-GCM-SHA256,ECDHE-ECDSA-AES128-SHA256,ECDHE-RSA'',
     ''-AES128-SHA256,ECDH-ECDSA-AES128-GCM-SHA256,ECDH-RSA-AES128-GCM-SHA256,ECDH-ECDSA-AES1'',
     ''28-SHA256,ECDH-RSA-AES128-SHA256,DHE-DSS-AES128-GCM-SHA256,DHE-DSS-AES128-SHA256,AES12'',
     ''8-GCM-SHA256,AES128-SHA256,ECDHE-ECDSA-AES256-SHA,ECDHE-RSA-AES256-SHA,DHE-DSS-AES256-'',
     ''SHA,ECDH-ECDSA-AES256-SHA,ECDH-RSA-AES256-SHA,AES256-SHA,ECDHE-ECDSA-AES128-SHA,ECDHE-'',
     ''RSA-AES128-SHA,DHE-DSS-AES128-SHA,ECDH-ECDSA-AES128-SHA,ECDH-RSA-AES128-SHA,AES128-SHA'',
     ''\<newline>'']),
   (''emqx_conf.conf'', concat
    [''conf.etc.dir.emqx = etc\<newline>conf.etc.dir.emqx.zones = etc\<newline>'',
     ''conf.etc.dir.emqx.listeners = etc\<newline>conf.etc.dir.emqx.sys_mon = etc\<newline>'']),
   (''emqx_exhook.conf'',
    ''exhook.server.default.url = http://127.0.0.1:9000\<newline>''),
   (''emqx_exproto.conf'', concat
    [''exproto.server.http.port = 9100\<newline>exproto.server.https.port = 9101\<newline>'',
     ''exproto.server.https.cacertfile = etc/certs/cacert.pem\<newline>'',
     ''exproto.server.https.certfile = etc/certs/cert.pem\<newline>'',
     ''exproto.server.https.keyfile = etc/certs/key.pem\<newline>'',
     ''exproto.listener.protoname = tcp://0.0.0.0:7993\<newline>'',
     ''exproto.listener.protoname.connection_handler_url = http://127.0.0.1:9001\<newline>'',
     ''exproto.listener.protoname.acceptors = 8\<newline>'',
     ''exproto.listener.protoname.max_connections = 1024000\<newline>'',
     ''exproto.listener.protoname.max_conn_rate = 1000\<newline>'',
     ''exproto.listener.protoname.active_n = 100\<newline>'',
     ''exproto.listener.protoname.idle_timeout = 30s\<newline>'',
     ''exproto.listener.protoname.access.1 = allow all\<newline>'',
     ''exproto.listener.protoname.backlog = 1024\<newline>'',
     ''exproto.listener.protoname.send_timeout = 15s\<newline>'',
     ''exproto.listener.protoname.send_timeout_close = on\<newline>'',
     ''exproto.listener.protoname.nodelay = true\<newline>exproto.listener.protoname.reuseaddr = true\<newline>'']),
   (''emqx_gbt32960.conf'', concat
    [''gbt32960.frame.max_length = 8192\<newline>gbt32960.proto.retx_interval = 8s\<newline>'',
     ''gbt32960.proto.retx_max_times = 3\<newline>gbt32960.proto.message_queue_len = 10\<newline>'',
     ''gbt32960.listener.tcp = 0.0.0.0:7325\<newline>gbt32960.listener.tcp.acceptors = 8\<newline>'',
     ''gbt32960.listener.tcp.max_connections = 1024000\<newline>'',
     ''gbt32960.listener.tcp.max_conn_rate = 1000\<newline>gbt32960.listener.tcp.idle_timeout = 60s\<newline>'',
     ''gbt32960.listener.tcp.active_n = 100\<newline>gbt32960.listener.tcp.zone = external\<newline>'',
     ''gbt32960.listener.tcp.access.1 = allow all\<newline>gbt32960.listener.tcp.backlog = 1024\<newline>'',
     ''gbt32960.listener.tcp.send_timeout = 15s\<newline>'',
     ''gbt32960.listener.tcp.send_timeout_close = on\<newline>gbt32960.listener.tcp.nodelay = true\<newline>'',
     ''gbt32960.listener.tcp.reuseaddr = true\<newline>gbt32960.listener.ssl = 7326\<newline>'',
     ''gbt32960.listener.ssl.acceptors = 16\<newline>gbt32960.listener.ssl.max_connections = 102400\<newline>'',
     ''gbt32960.listener.ssl.max_conn_rate = 500\<newline>gbt32960.listener.ssl.idle_timeout = 60s\<newline>'',
     ''gbt32960.listener.ssl.active_n = 100\<newline>gbt32960.listener.ssl.zone = external\<newline>'',
     ''gbt32960.listener.ssl.access.1 = allow all\<newline>'',
     ''gbt32960.listener.ssl.handshake_timeout = 15s\<newline>'',
     ''gbt32960.listener.ssl.keyfile = etc/certs/key.pem\<newline>'',
     ''gbt32960.listener.ssl.certfile = etc/certs/cert.pem\<newline>'',
     ''gbt32960.listener.ssl.ciphers = ECDHE-ECDSA-AES256-GCM-SHA384,ECDHE-RSA-AES256-GCM-SHA'',
     ''384,ECDHE-ECDSA-AES256-SHA384,ECDHE-RSA-AES256-SHA384,ECDHE-ECDSA-DES-CBC3-SHA,ECDH-EC'',
     ''DSA-AES256-GCM-SHA384,ECDH-RSA-AES256-GCM-SHA384,ECDH-ECDSA-AES256-SHA384,ECDH-RSA-AES'',
     ''256-SHA384,DHE-DSS-AES256-GCM-SHA384,DHE-DSS-AES256-SHA256,AES256-GCM-SHA384,AES256-SH'',
     ''A256,ECDHE-ECDSA-AES128-GCM-SHA256,ECDHE-RSA-AES128-GCM-SHA256,ECDHE-ECDSA-AES128-SHA2'',
     ''56,ECDHE-RSA-AES128-SHA256,ECDH-ECDSA-AES128-GCM-SHA256,ECDH-RSA-AES128-GCM-SHA256,ECD'',
     ''H-ECDSA-AES128-SHA256,ECDH-RSA-AES128-SHA256,DHE-DSS-AES128-GCM-SHA256,DHE-DSS-AES128-'',
     ''SHA256,AES128-GCM-SHA256,AES128-SHA256,ECDHE-ECDSA-AES256-SHA,ECDHE-RSA-AES256-SHA,DHE'',
     ''-DSS-AES256-SHA,ECDH-ECDSA-AES256-SHA,ECDH-RSA-AES256-SHA,AES256-SHA,ECDHE-ECDSA-AES12'',
     ''8-SHA,ECDHE-RSA-AES128-SHA,DHE-DSS-AES128-SHA,ECDH-ECDSA-AES128-SHA,ECDH-RSA-AES128-SH'',
     ''A,AES128-SHA\<newline>gbt32960.listener.ssl.reuseaddr = true\<newline>'']),
   (''emqx_jt808.conf'', concat
    [''jt808.proto.allow_anonymous = true\<newline>jt808.proto.dn_topic = jt808/%c/dn\<newline>'',
     ''jt808.proto.up_topic = jt808/%c/up\<newline>jt808.conn.idle_timeout = 30s\<newline>'',
     ''jt808.conn.enable_stats = on\<newline>jt808.frame.max_length = 8192\<newline>jt808.listener.tcp = 6207\<newline>'',
     ''jt808.listener.tcp.acceptors = 4\<newline>jt808.listener.tcp.max_clients = 512\<newline>'']),
   (''emqx_lua_hook.conf'', []),
   (''emqx_lwm2m.conf'', concat
    [''lwm2m.lifetime_min = 1s\<newline>lwm2m.lifetime_max = 86400s\<newline>lwm2m.mountpoint = lwm2m/%e/\<newline>'',
     ''lwm2m.topics.command = dn/#\<newline>lwm2m.topics.response = up/resp\<newline>'',
     ''lwm2m.topics.notify = up/notify\<newline>lwm2m.topics.register = up/resp\<newline>'',
     ''lwm2m.topics.update = up/resp\<newline>lwm2m.xml_dir =  etc/lwm2m_xml\<newline>'',
     ''lwm2m.bind.udp.1 = 0.0.0.0:5683\<newline>lwm2m.opts.buffer = 1024KB\<newline>lwm2m.opts.recbuf = 1024KB\<newline>'',
     ''lwm2m.opts.sndbuf = 1024KB\<newline>lwm2m.opts.read_packets = 20\<newline>'',
     ''lwm2m.bind.dtls.1 = 0.0.0.0:5684\<newline>lwm2m.dtls.keyfile = etc/certs/key.pem\<newline>'',
     ''lwm2m.dtls.certfile = etc/certs/cert.pem\<newline>'',
     ''lwm2m.dtls.ciphers = ECDHE-ECDSA-AES256-GCM-SHA384,ECDHE-RSA-AES256-GCM-SHA384,ECDHE-E'',
     ''CDSA-AES256-SHA384,ECDHE-RSA-AES256-SHA384,ECDHE-ECDSA-DES-CBC3-SHA,ECDH-ECDSA-AES256-'',
     ''GCM-SHA384,ECDH-RSA-AES256-GCM-SHA384,ECDH-ECDSA-AES256-SHA384,ECDH-RSA-AES256-SHA384,'',
     ''DHE-DSS-AES256-GCM-SHA384,DHE-DSS-AES256-SHA256,AES256-GCM-SHA384,AES256-SHA256,ECDHE-'',
     ''ECDSA-AES128-GCM-SHA256,ECDHE-RSA-AES128-GCM-SHA256,ECDHE-ECDSA-AES128-SHA256,ECDHE-RS'',
     ''A-AES128-SHA256,ECDH-ECDSA-AES128-GCM-SHA256,ECDH-RSA-AES128-GCM-SHA256,ECDH-ECDSA-AES'',
     ''128-SHA256,ECDH-RSA-AES128-SHA256,DHE-DSS-AES128-GCM-SHA256,DHE-DSS-AES128-SHA256,AES1'',
     ''28-GCM-SHA256,AES128-SHA256,ECDHE-ECDSA-AES256-SHA,ECDHE-RSA-AES256-SHA,DHE-DSS-AES256'',
     ''-SHA,ECDH-ECDSA-AES256-SHA,ECDH-RSA-AES256-SHA,AES256-SHA,ECDHE-ECDSA-AES128-SHA,ECDHE'',
     ''-RSA-AES128-SHA,DHE-DSS-AES128-SHA,ECDH-ECDSA-AES128-SHA,ECDH-RSA-AES128-SHA,AES128-SH'',
     ''A\<newline>'']),
   (''emqx_prometheus.conf'',
    ''prometheus.push.gateway.server = http://127.0.0.1:9091\<newline>prometheus.interval = 15000\<newline>''),
   (''emqx_psk_file.conf'',
    ''psk.file.path = etc/psk.txt\<newline>psk.file.delimiter = :\<newline>''),
   (''emqx_recon.conf'', []),
   (''emqx_sasl.conf'', []),
   (''emqx_schema_registry.conf'', []),
   (''emqx_sn.conf'', concat
    [''mqtt.sn.port = 1884\<newline>mqtt.sn.advertise_duration = 15m\<newline>mqtt.sn.gateway_id = 1\<newline>'',
     ''mqtt.sn.enable_stats = off\<newline>mqtt.sn.enable_qos3 = off\<newline>mqtt.sn.idle_timeout = 30s\<newline>'',
     ''mqtt.sn.predefined.topic.0 = reserved\<newline>'',
     ''mqtt.sn.predefined.topic.1 = /predefined/topic/name/hello\<newline>'',
     ''mqtt.sn.predefined.topic.2 = /predefined/topic/name/nice\<newline>'',
     ''mqtt.sn.username = mqtt_sn_user\<newline>mqtt.sn.password = abc\<newline>'']),
   (''emqx_stomp.conf'', concat
    [''stomp.listener = 61613\<newline>stomp.listener.acceptors = 4\<newline>'',
     ''stomp.listener.max_connections = 512\<newline>stomp.default_user.login = guest\<newline>'',
     ''stomp.default_user.passcode = guest\<newline>stomp.allow_anonymous = true\<newline>'',
     ''stomp.frame.max_headers = 10\<newline>stomp.frame.max_header_length = 1024\<newline>'',
     ''stomp.frame.max_body_length = 8192\<newline>'']),
   (''emqx_tcp.conf'', concat
    [''tcp.proto.idle_timeout = 15s\<newline>tcp.proto.up_topic = tcp/%c/up\<newline>'',
     ''tcp.proto.dn_topic = tcp/%c/dn\<newline>tcp.proto.max_packet_size = 65535\<newline>'',
     ''tcp.proto.enable_stats = on\<newline>tcp.proto.force_gc_policy = 1000|1MB\<newline>'',
     ''tcp.listener.external = 0.0.0.0:8090\<newline>tcp.listener.external.acceptors = 8\<newline>'',
     ''tcp.listener.external.max_connections = 1024000\<newline>'',
     ''tcp.listener.external.max_conn_rate = 1000\<newline>tcp.listener.external.active_n = 100\<newline>'',
     ''tcp.listener.external.access.1 = allow all\<newline>tcp.listener.external.backlog = 1024\<newline>'',
     ''tcp.listener.external.send_timeout = 15s\<newline>'',
     ''tcp.listener.external.send_timeout_close = on\<newline>tcp.listener.external.nodelay = true\<newline>'',
     ''tcp.listener.external.reuseaddr = true\<newline>tcp.listener.ssl.external = 0.0.0.0:8091\<newline>'',
     ''tcp.listener.ssl.external.acceptors = 8\<newline>'',
     ''tcp.listener.ssl.external.max_connections = 1024000\<newline>'',
     ''tcp.listener.ssl.external.max_conn_rate = 1000\<newline>'',
     ''tcp.listener.ssl.external.active_n = 100\<newline>'',
     ''tcp.listener.ssl.external.access.1 = allow all\<newline>'',
     ''tcp.listener.ssl.external.handshake_timeout = 15s\<newline>'',
     ''tcp.listener.ssl.external.keyfile = etc/certs/key.pem\<newline>'',
     ''tcp.listener.ssl.external.certfile = etc/certs/cert.pem\<newline>'',
     ''tcp.listener.ssl.external.ciphers = ECDHE-ECDSA-AES256-GCM-SHA384,ECDHE-RSA-AES256-GCM'',
     ''-SHA384,ECDHE-ECDSA-AES256-SHA384,ECDHE-RSA-AES256-SHA384,ECDHE-ECDSA-DES-CBC3-SHA,ECD'',
     ''H-ECDSA-AES256-GCM-SHA384,ECDH-RSA-AES256-GCM-SHA384,ECDH-ECDSA-AES256-SHA384,ECDH-RSA'',
     ''-AES256-SHA384,DHE-DSS-AES256-GCM-SHA384,DHE-DSS-AES256-SHA256,AES256-GCM-SHA384,AES25'',
     ''6-SHA256,ECDHE-ECDSA-AES128-GCM-SHA256,ECDHE-RSA-AES128-GCM-SHA256,ECDHE-ECDSA-AES128-'',
     ''SHA256,ECDHE-RSA-AES128-SHA256,ECDH-ECDSA-AES128-GCM-SHA256,ECDH-RSA-AES128-GCM-SHA256'',
     '',ECDH-ECDSA-AES128-SHA256,ECDH-RSA-AES128-SHA256,DHE-DSS-AES128-GCM-SHA256,DHE-DSS-AES'',
     ''128-SHA256,AES128-GCM-SHA256,AES128-SHA256,ECDHE-ECDSA-AES256-SHA,ECDHE-RSA-AES256-SHA'',
     '',DHE-DSS-AES256-SHA,ECDH-ECDSA-AES256-SHA,ECDH-RSA-AES256-SHA,AES256-SHA,ECDHE-ECDSA-A'',
     ''ES128-SHA,ECDHE-RSA-AES128-SHA,DHE-DSS-AES128-SHA,ECDH-ECDSA-AES128-SHA,ECDH-RSA-AES12'',
     ''8-SHA,AES128-SHA\<newline>tcp.listener.ssl.external.backlog = 1024\<newline>'',
     ''tcp.listener.ssl.external.send_timeout = 15s\<newline>'',
     ''tcp.listener.ssl.external.send_timeout_close = on\<newline>'',
     ''tcp.listener.ssl.external.nodelay = true\<newline>tcp.listener.ssl.external.reuseaddr = true\<newline>'']),
   (''emqx_web_hook.conf'', concat
    [''web.hook.url = http://127.0.0.1:80\<newline>web.hook.headers.content-type = application/json\<newline>'',
     ''web.hook.body.encoding_of_payload_field = plain\<newline>web.hook.pool_size = 32\<newline>'',
     ''web.hook.enable_pipelining = true\<newline>''])]"

end
