(* ===== verification/V4_Resources.thy ===== *)
theory V4_Resources
  imports Workloads Rebalance_Controller V4_Plugin_Configs
begin

text \<open>
  The objects the v1beta4 controllers generate from an \<open>EmqxBroker\<close> or \<open>EmqxEnterprise\<close>
  (\<open>controllers/apps/v1beta4/generated.go\<close>, with the names and the image of
  \<open>apis/apps/v1beta4/util.go\<close>). In Go the generated objects share the annotation map of the custom
  resource, and the pod template shares the map of the resource's template: what a generator
  changes in a shared map is a second function, on the resource.
\<close>

section \<open>Names and image\<close>

definition HeadlessSvc :: "objectMeta \<Rightarrow> string" where
  "HeadlessSvc m = om_Name m @ ''-headless''"

definition License :: "objectMeta \<Rightarrow> string" where
  "License m = om_Name m @ ''-license''"

definition ACL :: "objectMeta \<Rightarrow> string" where
  "ACL m = om_Name m @ ''-acl''"

definition PluginsConfig :: "objectMeta \<Rightarrow> string" where
  "PluginsConfig m = om_Name m @ ''-plugins-config''"

definition Data :: "objectMeta \<Rightarrow> string" where
  "Data m = om_Name m @ ''-data''"

definition BootstrapUser :: "objectMeta \<Rightarrow> string" where
  "BootstrapUser m = om_Name m @ ''-bootstrap-user''"

text \<open>\<open>filepath.Clean\<close> and \<open>filepath.Join\<close> (Unix): the components kept so far are in reverse.\<close>

fun cleanParts :: "bool \<Rightarrow> string list \<Rightarrow> string list \<Rightarrow> string list" where
  "cleanParts rooted acc [] = rev acc"
| "cleanParts rooted acc (p # ps) =
     (if p = [] \<or> p = ''.'' then cleanParts rooted acc ps
      else if p = ''..'' then
        (case acc of
           [] \<Rightarrow> if rooted then cleanParts rooted [] ps else cleanParts rooted [p] ps
         | a # as \<Rightarrow> if a = ''..'' then cleanParts rooted (p # acc) ps else cleanParts rooted as ps)
      else cleanParts rooted (p # acc) ps)"

definition filepathClean :: "string \<Rightarrow> string" where
  "filepathClean path =
     (case path of
        [] \<Rightarrow> ''.''
      | c # _ \<Rightarrow>
          let rooted = (c = CHR ''/'');
              body = joinStr ''/'' (cleanParts rooted [] (splitByte (CHR ''/'') path))
          in if rooted then ''/'' @ body else if body = [] then ''.'' else body)"

definition filepathJoin :: "string \<Rightarrow> string \<Rightarrow> string" where
  "filepathJoin a b =
     (if a = [] then (if b = [] then [] else filepathClean b) else filepathClean (a @ ''/'' @ b))"

definition emqxContainerOf :: "Emqx \<Rightarrow> EmqxContainer" where
  "emqxContainerOf instance = ts_EmqxContainer (et_Spec (sp4_Template (GetSpec instance)))"

definition GetEmqxImage :: "Emqx \<Rightarrow> string" where
  "GetEmqxImage instance =
     (let image = ec_Image (emqxContainerOf instance)
      in filepathJoin (im_Registry image) (im_Repository image) @ '':'' @
         im_Prefix image @ im_Version image @ im_Suffix image)"

section \<open>Metadata of the generated objects\<close>

definition sharedMeta :: "Emqx \<Rightarrow> string \<Rightarrow> objectMeta" where
  "sharedMeta instance name =
     emptyMeta\<lparr>om_Name := name, om_Namespace := om_Namespace (emqxMeta instance),
       om_Labels := om_Labels (emqxMeta instance), om_Annotations := om_Annotations (emqxMeta instance)\<rparr>"

section \<open>Plugins\<close>

definition isExistPlugin :: "string \<Rightarrow> EmqxPlugin list \<Rightarrow> bool" where
  "isExistPlugin pluginName pluginList = list_ex (\<lambda>p. pg_PluginName (pg_Spec p) = pluginName) pluginList"

definition initPlugin :: "Emqx \<Rightarrow> string \<Rightarrow> string \<Rightarrow> EmqxPlugin" where
  "initPlugin instance suffix pluginName =
     \<lparr>pg_meta = sharedMeta instance (om_Name (emqxMeta instance) @ suffix),
      pg_Spec = \<lparr>pg_PluginName = pluginName, pg_Selector = om_Labels (emqxMeta instance), pg_Config = []\<rparr>\<rparr>"

text \<open>An invalid selector makes \<open>ValidatedSelectorFromSet\<close> return nil, and its method call panics.\<close>

fun matchedPlugins :: "(gomap \<Rightarrow> bool) \<Rightarrow> gomap \<Rightarrow> EmqxPlugin list \<Rightarrow> EmqxPlugin list go" where
  "matchedPlugins valid labels [] = Ret []"
| "matchedPlugins valid labels (p # ps) =
     (let sel = pg_Selector (pg_Spec p)
      in if \<not> valid sel then Panic
         else (case matchedPlugins valid labels ps of
                 Panic \<Rightarrow> Panic
               | Ret rest \<Rightarrow>
                   if mentries sel = Map.empty \<or> \<not> matchesLabels sel labels then Ret rest
                   else Ret (p # rest)))"

definition isEnterprise :: "Emqx \<Rightarrow> bool" where
  "isEnterprise instance = (case instance of Broker _ \<Rightarrow> False | Enterprise _ \<Rightarrow> True)"

definition defaultPlugins :: "Emqx \<Rightarrow> (string \<times> string) list" where
  "defaultPlugins instance =
     [(''-eviction-agent'', ''emqx_eviction_agent''), (''-node-rebalance'', ''emqx_node_rebalance''),
      (''-rule-engine'', ''emqx_rule_engine''), (''-retainer'', ''emqx_retainer'')] @
     (if isEnterprise instance
      then [(''-modules'', ''emqx_modules''), (''-schema-registry'', ''emqx_schema_registry'')] else [])"

definition generateInitPluginList ::
  "(gomap \<Rightarrow> bool) \<Rightarrow> Emqx \<Rightarrow> EmqxPlugin list \<Rightarrow> EmqxPlugin list go" where
  "generateInitPluginList valid instance existPluginList =
     (case matchedPlugins valid (om_Labels (emqxMeta instance)) existPluginList of
        Panic \<Rightarrow> Panic
      | Ret matched \<Rightarrow>
          Ret (map (\<lambda>(suffix, name). initPlugin instance suffix name)
                 (filter (\<lambda>(suffix, name). \<not> isExistPlugin name matched) (defaultPlugins instance))))"

definition generateDefaultPluginsConfig :: "Emqx \<Rightarrow> configMap" where
  "generateDefaultPluginsConfig instance =
     \<lparr>cm_meta = sharedMeta instance (PluginsConfig (emqxMeta instance)),
      cm_Data = Some (map_of defaultPluginsData)\<rparr>"

section \<open>License, access rules, headless service, bootstrap user\<close>

definition generateLicense :: "Emqx \<Rightarrow> secret option" where
  "generateLicense instance =
     (case instance of
        Broker _ \<Rightarrow> None
      | Enterprise enterprise \<Rightarrow>
          let license = sp4_License (en_Spec enterprise);
              bytes = (case li_Data license of None \<Rightarrow> [] | Some b \<Rightarrow> b)
          in if bytes = [] \<and> li_StringData license = [] then None
             else Some
               \<lparr>sec_meta = sharedMeta instance (License (emqxMeta instance)),
                sec_Data = Some [''emqx.lic'' \<mapsto> bytes],
                sec_StringData = (if li_StringData license \<noteq> []
                                  then Some [''emqx.lic'' \<mapsto> li_StringData license] else None)\<rparr>)"

definition generateEmqxACL :: "Emqx \<Rightarrow> configMap" where
  "generateEmqxACL instance =
     \<lparr>cm_meta = sharedMeta instance (ACL (emqxMeta instance)),
      cm_Data = Some [''acl.conf'' \<mapsto>
        concat (map (\<lambda>rule. rule @ newline) (ec_EmqxACL (emqxContainerOf instance)))]\<rparr>"

definition generateHeadlessService4 :: "Emqx \<Rightarrow> service" where
  "generateHeadlessService4 instance =
     \<lparr>svc_APIVersion = ''v1'', svc_Kind = ''Service'',
      svc_meta = sharedMeta instance (HeadlessSvc (emqxMeta instance)),
      svc_spec = emptyServiceSpec
        \<lparr>ss_Selector := om_Labels (emqxMeta instance), ss_Type := ''ClusterIP'', ss_ClusterIP := ''None'',
         ss_PublishNotReadyAddresses := True,
         ss_Ports := [\<lparr>sp_Name = ''http-management-8081'', sp_Protocol = ''TCP'', sp_Port = 8081,
                       sp_TargetPort = IntVal 8081, sp_NodePort = 0\<rparr>]\<rparr>\<rparr>"

definition bootstrapUsers :: "Emqx \<Rightarrow> string \<Rightarrow> string" where
  "bootstrapUsers instance defPassword =
     concat (map (\<lambda>apiKey. bk_Key apiKey @ '':'' @ bk_Secret apiKey @ newline)
       (case ec_BootstrapAPIKeys (emqxContainerOf instance) of None \<Rightarrow> [] | Some keys \<Rightarrow> keys)) @
     defUsername @ '':'' @ defPassword"

definition generateBootstrapUserSecret :: "('w, 'c) env \<Rightarrow> Emqx \<Rightarrow> ('w, secret) op" where
  "generateBootstrapUserSecret E instance = do {
     defPassword \<leftarrow> generatePassword E;
     ret \<lparr>sec_meta = sharedMeta instance (BootstrapUser (emqxMeta instance)), sec_Data = None,
          sec_StringData = Some [''bootstrap_user'' \<mapsto> bootstrapUsers instance defPassword]\<rparr> }"

section \<open>The StatefulSet\<close>

text \<open>\<open>strings.ToUpper\<close> on ASCII and \<open>strings.ReplaceAll\<close> of a byte by a string.\<close>

definition upperChar :: "char \<Rightarrow> char" where
  "upperChar c =
     (let n = (of_char c :: nat) in if 97 \<le> n \<and> n \<le> 122 then char_of (n - 32) else c)"

fun replaceByte :: "char \<Rightarrow> string \<Rightarrow> string \<Rightarrow> string" where
  "replaceByte c r [] = []"
| "replaceByte c r (x # xs) = (if x = c then r @ replaceByte c r xs else x # replaceByte c r xs)"

definition configEnvName :: "string \<Rightarrow> string" where
  "configEnvName k = ''EMQX_'' @ map upperChar (replaceByte (CHR ''.'') ''__'' k)"

definition hasEnv :: "string \<Rightarrow> envVar list \<Rightarrow> bool" where
  "hasEnv name envs = list_ex (\<lambda>e. ev_Name e = name) envs"

fun addConfigEnvs :: "(string \<times> string) list \<Rightarrow> envVar list \<Rightarrow> envVar list" where
  "addConfigEnvs [] envs = envs"
| "addConfigEnvs ((k, v) # config) envs =
     (let key = configEnvName k
      in if hasEnv key envs then addConfigEnvs config envs
         else addConfigEnvs config (envs @ [Workloads.env key v]))"

definition envNameLess :: "envVar \<Rightarrow> envVar \<Rightarrow> bool" where
  "envNameLess a b = (ev_Name a < ev_Name b)"

definition mergeEnvAndConfig :: "Emqx \<Rightarrow> envVar list \<Rightarrow> envVar list" where
  "mergeEnvAndConfig instance extraEnvs =
     (let c = emqxContainerOf instance
      in go_sort envNameLess (addConfigEnvs (configEntries c) (ec_Env c @ extraEnvs)))"

definition reloaderContainer :: "Emqx \<Rightarrow> container" where
  "reloaderContainer instance =
     (let c = emqxContainerOf instance
      in emptyContainer
           \<lparr>c_Name := ''reloader'',
            c_Image := ts_ReloaderImage (et_Spec (sp4_Template (GetSpec instance))),
            c_ImagePullPolicy := im_PullPolicy (ec_Image c),
            c_Args := [''-u'', ''admin'', ''-p'', ''public'', ''-P'', ''8081''],
            c_EnvFrom := ec_EnvFrom c,
            c_Env := mergeEnvAndConfig instance [],
            c_VolumeMounts := ec_VolumeMounts c\<rparr>)"

definition logMount :: volumeMount where
  "logMount = \<lparr>vm_Name = ''emqx-log'', vm_MountPath = ''/opt/emqx/log'', vm_SubPath = [], vm_ReadOnly = False\<rparr>"

definition emqxContainer :: "Emqx \<Rightarrow> container" where
  "emqxContainer instance =
     (let c = emqxContainerOf instance
      in \<lparr>c_Name = ''emqx'', c_Image = GetEmqxImage instance,
          c_ImagePullPolicy = im_PullPolicy (ec_Image c), c_Command = ec_Command c,
          c_Args = ec_Args c, c_WorkingDir = ec_WorkingDir c, c_Ports = ec_Ports c,
          c_Env = mergeEnvAndConfig instance [], c_EnvFrom = ec_EnvFrom c,
          c_Resources = ec_Resources c, c_VolumeMounts = ec_VolumeMounts c @ [logMount],
          c_VolumeDevices = ec_VolumeDevices c, c_SecurityContext = ec_SecurityContext c,
          c_LivenessProbe = ec_LivenessProbe c, c_ReadinessProbe = ec_ReadinessProbe c,
          c_StartupProbe = ec_StartupProbe c, c_Lifecycle = ec_Lifecycle c,
          c_TerminationMessagePath = ec_TerminationMessagePath c,
          c_TerminationMessagePolicy = ec_TerminationMessagePolicy c, c_Stdin = ec_Stdin c,
          c_StdinOnce = ec_StdinOnce c, c_TTY = ec_TTY c\<rparr>)"

definition dataMount :: "string \<Rightarrow> volumeMount" where
  "dataMount name = \<lparr>vm_Name = name, vm_MountPath = ''/opt/emqx/data'', vm_SubPath = [], vm_ReadOnly = False\<rparr>"

definition emqxContainers :: "Emqx \<Rightarrow> container list" where
  "emqxContainers instance =
     [emqxContainer instance, reloaderContainer instance] @
     ts_ExtraContainers (et_Spec (sp4_Template (GetSpec instance)))"

definition emqxPodTemplate :: "Emqx \<Rightarrow> podTemplateSpec" where
  "emqxPodTemplate instance =
     (let t = sp4_Template (GetSpec instance); spec = et_Spec t
      in \<lparr>pt_meta = emptyMeta\<lparr>om_Labels := om_Labels (et_meta t),
            om_Annotations := SetManagerContainerAnnotation (om_Annotations (et_meta t))
              (emqxContainers instance)\<rparr>,
          pt_spec =
            \<lparr>ps_ReadinessGates = [PodOnServing], ps_ImagePullSecrets = ts_ImagePullSecrets spec,
             ps_ServiceAccountName = ts_ServiceAccountName spec,
             ps_SecurityContext = ts_PodSecurityContext spec, ps_Affinity = ts_Affinity spec,
             ps_Tolerations = ts_Tolerations spec, ps_TopologySpreadConstraints = [],
             ps_NodeName = ts_NodeName spec, ps_NodeSelector = ts_NodeSelector spec,
             ps_InitContainers = ts_InitContainers spec,
             ps_EphemeralContainers = ts_EphemeralContainers spec,
             ps_Containers = emqxContainers instance,
             ps_Volumes = ts_Volumes spec @ [\<lparr>vol_Name = ''emqx-log'', vol_Source = VolEmptyDir\<rparr>]\<rparr>\<rparr>)"

definition lastAppliedConfiguration :: string where
  "lastAppliedConfiguration = ''kubectl.kubernetes.io/last-applied-configuration''"

definition dropLastApplied :: "gomap \<Rightarrow> gomap" where
  "dropLastApplied m = map_option (\<lambda>f. f(lastAppliedConfiguration := None)) m"

definition addDataVolume :: "EmqxBrokerSpec \<Rightarrow> string \<Rightarrow> statefulSet \<Rightarrow> statefulSet" where
  "addDataVolume spec dataName sts =
     (let t = sts_Template sts; ps = pt_spec t;
          mount = (\<lambda>name. ps\<lparr>ps_Containers := mapHead
                     (\<lambda>c. c\<lparr>c_VolumeMounts := c_VolumeMounts c @ [dataMount name]\<rparr>) (ps_Containers ps)\<rparr>)
      in case sp4_Persistent spec of
           None \<Rightarrow>
             sts\<lparr>sts_Template := t\<lparr>pt_spec := (mount dataName)\<lparr>ps_Volumes :=
                    ps_Volumes ps @ [\<lparr>vol_Name = dataName, vol_Source = VolEmptyDir\<rparr>]\<rparr>\<rparr>\<rparr>
         | Some claim \<Rightarrow>
             sts\<lparr>sts_Template := t\<lparr>pt_spec := mount (om_Name (pvc_meta claim))\<rparr>,
                 sts_VolumeClaimTemplates := sts_VolumeClaimTemplates sts @
                   [\<lparr>pvc_meta = pvc_meta claim, pvc_spec = pvc_spec claim\<rparr>]\<rparr>)"

definition generateStatefulSet4 :: "Emqx \<Rightarrow> statefulSet" where
  "generateStatefulSet4 instance =
     (let m = sharedMeta instance (om_Name (emqxMeta instance));
          sts = \<lparr>sts_meta = m\<lparr>om_Annotations := dropLastApplied (om_Annotations m)\<rparr>,
                 sts_ServiceName = HeadlessSvc (emqxMeta instance),
                 sts_Replicas = sp4_Replicas (GetSpec instance),
                 sts_Selector = \<lparr>sel_MatchLabels = om_Labels (pt_meta (emqxPodTemplate instance)),
                                 sel_MatchExpressions = None\<rparr>,
                 sts_PodManagementPolicy = ''Parallel'',
                 sts_Template = emqxPodTemplate instance,
                 sts_VolumeClaimTemplates = [], sts_status = emptySetStatus\<rparr>
      in addDataVolume (GetSpec instance) (Data (emqxMeta instance)) sts)"

text \<open>What \<open>generateStatefulSet\<close> changes in the maps it shares with the custom resource.\<close>

definition setAnnotations :: "gomap \<Rightarrow> Emqx \<Rightarrow> Emqx" where
  "setAnnotations a instance = setEmqxMeta ((emqxMeta instance)\<lparr>om_Annotations := a\<rparr>) instance"

definition afterGenerateStatefulSet :: "Emqx \<Rightarrow> Emqx" where
  "afterGenerateStatefulSet instance =
     (let t = sp4_Template (GetSpec instance);
          instance1 = setAnnotations (dropLastApplied (om_Annotations (emqxMeta instance))) instance
      in case om_Annotations (et_meta t) of
           None \<Rightarrow> instance1
         | Some _ \<Rightarrow> SetTemplate (t\<lparr>et_meta := (et_meta t)\<lparr>om_Annotations :=
                       SetManagerContainerAnnotation (om_Annotations (et_meta t))
                         (emqxContainers instance)\<rparr>\<rparr>) instance1)"

section \<open>Mounting the configuration\<close>

definition addEnvVar :: "envVar \<Rightarrow> container \<Rightarrow> container" where
  "addEnvVar e c = c\<lparr>c_Env := c_Env c @ [e]\<rparr>"

definition addMount :: "volumeMount \<Rightarrow> container \<Rightarrow> container" where
  "addMount m c = c\<lparr>c_VolumeMounts := c_VolumeMounts c @ [m]\<rparr>"

definition hasMount :: "string \<Rightarrow> container \<Rightarrow> bool" where
  "hasMount name c = list_ex (\<lambda>m. vm_Name m = name) (c_VolumeMounts c)"

definition hasVolume :: "string \<Rightarrow> volume list \<Rightarrow> bool" where
  "hasVolume name vs = list_ex (\<lambda>v. vol_Name v = name) vs"

text \<open>The containers at index 0 (EMQX) and 1 (reloader), with the panic of a missing index.\<close>

fun mountContainers :: "envVar \<Rightarrow> volumeMount \<Rightarrow> container list \<Rightarrow> container list go" where
  "mountContainers envVar volumeMount [] = Panic"
| "mountContainers envVar volumeMount [c0] =
     (if hasMount (vm_Name volumeMount) c0 \<and> hasEnv (ev_Name envVar) (c_Env c0) then Ret [c0] else Panic)"
| "mountContainers envVar volumeMount (c0 # c1 # cs) =
     (let mnt = (if hasMount (vm_Name volumeMount) c0 then id else addMount volumeMount);
          ev = (if hasEnv (ev_Name envVar) (c_Env c0) then id else addEnvVar envVar)
      in Ret (ev (mnt c0) # ev (mnt c1) # cs))"

definition updateEnvAndVolumeForSts ::
  "statefulSet \<Rightarrow> envVar \<Rightarrow> volumeMount \<Rightarrow> volume \<Rightarrow> statefulSet go" where
  "updateEnvAndVolumeForSts sts envVar volumeMount volume =
     (let t = sts_Template sts; ps = pt_spec t;
          vs = (if hasVolume (vol_Name volume) (ps_Volumes ps) then ps_Volumes ps
                else ps_Volumes ps @ [volume])
      in case mountContainers envVar volumeMount (ps_Containers ps) of
           Panic \<Rightarrow> Panic
         | Ret cs \<Rightarrow> Ret (sts\<lparr>sts_Template := t\<lparr>pt_spec := ps\<lparr>ps_Volumes := vs, ps_Containers := cs\<rparr>\<rparr>\<rparr>))"

definition updateStatefulSetForPluginsConfig :: "statefulSet \<Rightarrow> configMap \<Rightarrow> statefulSet go" where
  "updateStatefulSetForPluginsConfig sts pluginsConfig =
     (let name = om_Name (cm_meta pluginsConfig)
      in updateEnvAndVolumeForSts sts (Workloads.env ''EMQX_PLUGINS__ETC_DIR'' ''/mounted/plugins/etc'')
           \<lparr>vm_Name = name, vm_MountPath = ''/mounted/plugins/etc'', vm_SubPath = [], vm_ReadOnly = False\<rparr>
           \<lparr>vol_Name = name, vol_Source = VolConfigMap name\<rparr>)"

definition updateStatefulSetForLicense ::
  "(gomap \<Rightarrow> string option) \<Rightarrow> statefulSet \<Rightarrow> secret option \<Rightarrow> statefulSet go" where
  "updateStatefulSetForLicense first sts license =
     (case license of
        None \<Rightarrow> Ret sts
      | Some s \<Rightarrow>
          let fileName = (case first (sec_Data s) of None \<Rightarrow> ''emqx.lic'' | Some k \<Rightarrow> k);
              name = om_Name (sec_meta s)
          in updateEnvAndVolumeForSts sts
               (Workloads.env ''EMQX_LICENSE__FILE'' (filepathJoin ''/mounted/license'' fileName))
               \<lparr>vm_Name = name, vm_MountPath = ''/mounted/license'', vm_SubPath = [], vm_ReadOnly = True\<rparr>
               \<lparr>vol_Name = name, vol_Source = VolSecret name\<rparr>)"

definition updateStatefulSetForACL :: "statefulSet \<Rightarrow> configMap \<Rightarrow> statefulSet go" where
  "updateStatefulSetForACL sts acl =
     (let name = om_Name (cm_meta acl)
      in updateEnvAndVolumeForSts sts (Workloads.env ''EMQX_ACL_FILE'' ''/mounted/acl/acl.conf'')
           \<lparr>vm_Name = name, vm_MountPath = ''/mounted/acl'', vm_SubPath = [], vm_ReadOnly = False\<rparr>
           \<lparr>vol_Name = name, vol_Source = VolConfigMap name\<rparr>)"

definition updateStatefulSetForBootstrapUser :: "statefulSet \<Rightarrow> secret \<Rightarrow> statefulSet go" where
  "updateStatefulSetForBootstrapUser sts bootstrapUser =
     updateEnvAndVolumeForSts sts
       (Workloads.env ''EMQX_MANAGEMENT__BOOTSTRAP_APPS_FILE'' ''/opt/emqx/data/bootstrap_user'')
       \<lparr>vm_Name = ''bootstrap-user'', vm_MountPath = ''/opt/emqx/data/bootstrap_user'',
        vm_SubPath = ''bootstrap_user'', vm_ReadOnly = True\<rparr>
       \<lparr>vol_Name = ''bootstrap-user'', vol_Source = VolSecret (om_Name (sec_meta bootstrapUser))\<rparr>"

end
