(* ===== verification/V4_Sets.thy ===== *)
theory V4_Sets
  imports V4_Resources
begin

text \<open>
  The StatefulSets of an EMQX 4 cluster and the blue-green update of \<open>EmqxEnterprise\<close>
  (\<open>controllers/apps/v1beta4/statefulset.go\<close>, \<open>statefulset_util.go\<close>,
  \<open>add_emqx_statefulset.go\<close>): which sets take part in the cluster, under which name a changed pod
  template is rolled out, and when the origin set gives up a node.
\<close>

section \<open>Results of the sub-reconcilers\<close>

text \<open>
  \<open>args\<close> is an \<open>any\<close>: nothing, an object or a slice of objects. The StatefulSet
  handed from \<open>addEmqxResources\<close> to \<open>addEmqxStatefulSet\<close> still shares its annotations with the
  custom resource.
\<close>

datatype subArgs = ArgNone | ArgObject obj | ArgObjects "obj list"

record subResult4 =
  s4_cont :: bool
  s4_err :: "goerr option"
  s4_result :: ctrlResult
  s4_args :: subArgs

definition sub4 :: subResult4 where
  "sub4 = \<lparr>s4_cont = False, s4_err = None, s4_result = zeroResult, s4_args = ArgNone\<rparr>"

definition sub4_err :: "goerr \<Rightarrow> subResult4" where
  "sub4_err err = sub4\<lparr>s4_err := Some err\<rparr>"

type_synonym ('w, 'c) handler4 =
  "('w, 'c) env \<Rightarrow> Requester option \<Rightarrow> Emqx \<Rightarrow> subArgs \<Rightarrow> ('w, (subResult4 \<times> Emqx) go) op"

section \<open>Sets, pods and nodes\<close>

definition configValue :: "Emqx \<Rightarrow> string \<Rightarrow> string" where
  "configValue instance k =
     (case map_of (configEntries (emqxContainerOf instance)) k of None \<Rightarrow> [] | Some v \<Rightarrow> v)"

definition getEmqxNodeName :: "Emqx \<Rightarrow> pod \<Rightarrow> string" where
  "getEmqxNodeName instance p =
     configValue instance ''name'' @ ''@'' @ om_Name (pod_meta p) @ ''.'' @
     configValue instance ''cluster.dns.name''"

definition stsSize :: "statefulSet \<Rightarrow> int" where
  "stsSize sts = (case sts_Replicas sts of None \<Rightarrow> 0 | Some r \<Rightarrow> r)"

definition StatefulSetsBySizeNewer :: "statefulSet \<Rightarrow> statefulSet \<Rightarrow> bool" where
  "StatefulSetsBySizeNewer a b =
     (if stsSize a = stsSize b then StatefulSetsByCreationTimestamp b a else stsSize b < stsSize a)"

text \<open>A listed set without \<open>spec.replicas\<close> is a nil dereference.\<close>

definition selectStatefulSets :: "statefulSet list \<Rightarrow> (goerr + statefulSet list) go" where
  "selectStatefulSets items =
     (if list_ex (\<lambda>s. sts_Replicas s = None) items then Panic
      else let allSts = filter (\<lambda>s. stsSize s \<noteq> 0) items
           in Ret (if allSts = [] then Inl ErrStsNotReady
                   else Inr (go_sort StatefulSetsBySizeNewer allSts)))"

definition getAllStatefulSet :: "('w, 'c) env \<Rightarrow> Emqx \<Rightarrow> ('w, (goerr + statefulSet list) go) op" where
  "getAllStatefulSet E instance = do {
     got \<leftarrow> listStsE E (om_Namespace (emqxMeta instance)) (om_Labels (emqxMeta instance));
     ret (case got of Inl err \<Rightarrow> Ret (Inl err) | Inr items \<Rightarrow> selectStatefulSets items) }"

definition podsBySts :: "statefulSet list \<Rightarrow> pod list \<Rightarrow> (string \<rightharpoonup> pod list)" where
  "podsBySts allSts pods =
     (let podMap = podMapLoop pods (foldl (\<lambda>m s. m(om_UID (sts_meta s) \<mapsto> [])) Map.empty allSts)
      in (\<lambda>uid. map_option (go_sort PodsByNameOlder) (podMap uid)))"

definition getPodMap ::
  "('w, 'c) env \<Rightarrow> Emqx \<Rightarrow> statefulSet list \<Rightarrow> ('w, goerr + (string \<rightharpoonup> pod list)) op" where
  "getPodMap E instance allSts = do {
     got \<leftarrow> listPodsE E (om_Namespace (emqxMeta instance)) (om_Labels (emqxMeta instance));
     ret (case got of Inl err \<Rightarrow> Inl err | Inr pods \<Rightarrow> Inr (podsBySts allSts pods)) }"

definition podsOf :: "(string \<rightharpoonup> pod list) \<Rightarrow> statefulSet \<Rightarrow> pod list" where
  "podsOf podMap sts = (case podMap (om_UID (sts_meta sts)) of None \<Rightarrow> [] | Some pods \<Rightarrow> pods)"

definition readyCount :: "Emqx \<Rightarrow> pod list \<Rightarrow> int" where
  "readyCount instance pods =
     sum_list (map (\<lambda>p. if pod_Phase p = ''Running''
                        then int (length (filter (\<lambda>n. getEmqxNodeName instance p = n4_Node n \<and>
                               n4_NodeStatus n = ''Running'') (st4_EmqxNodes (GetStatus instance))))
                        else 0) pods)"

definition inClusterSets ::
  "Emqx \<Rightarrow> statefulSet list \<Rightarrow> (string \<rightharpoonup> pod list) \<Rightarrow> goerr + statefulSet list" where
  "inClusterSets instance allSts podMap =
     (let inCluster = filter (\<lambda>s. readyCount instance (podsOf podMap s) = st_CurrentReplicas (sts_status s)) allSts
      in if inCluster = [] then Inl ErrStsNotReady else Inr inCluster)"

definition getInClusterStatefulSets ::
  "('w, 'c) env \<Rightarrow> Emqx \<Rightarrow> ('w, (goerr + statefulSet list) go) op" where
  "getInClusterStatefulSets E instance =
     bindGo (getAllStatefulSet E instance) (\<lambda>got. case got of
       Inl err \<Rightarrow> ret (Ret (Inl err))
     | Inr allSts \<Rightarrow> do {
         pm \<leftarrow> getPodMap E instance allSts;
         ret (Ret (case pm of
                     Inl err \<Rightarrow> Inl err
                   | Inr podMap \<Rightarrow> inClusterSets instance allSts podMap)) })"

text \<open>\<open>strings.Split(strings.Split(node, "@")[1], ".")[0]\<close>\<close>

definition extractPodName :: "string \<Rightarrow> string go" where
  "extractPodName node =
     (case splitByte (CHR ''@'') node of
        _ # host # _ \<Rightarrow> (case splitByte (CHR ''.'') host of podName # _ \<Rightarrow> Ret podName | [] \<Rightarrow> Panic)
      | _ \<Rightarrow> Panic)"

section \<open>The name of a new set\<close>

text \<open>
  The set whose pod template already is the wanted one, if there is one; a failed patch calculation
  is a nil dereference.
\<close>

fun findSameTemplate :: "('w, 'c) env \<Rightarrow> statefulSet \<Rightarrow> statefulSet list \<Rightarrow> statefulSet option go" where
  "findSameTemplate E sts [] = Ret None"
| "findSameTemplate E sts (s # ss) =
     (case calculateTemplate E (OStatefulSet s) (sts_Template s, sts_Template sts) of
        Inl _ \<Rightarrow> Panic
      | Inr isEmpty \<Rightarrow> if isEmpty then Ret (Some s) else findSameTemplate E sts ss)"

definition hashedName :: "('w, 'c) env \<Rightarrow> statefulSet \<Rightarrow> int \<Rightarrow> string" where
  "hashedName E sts collisionCount =
     om_Name (sts_meta sts) @ ''-'' @ computeHash (hashes E) (sts_Template sts) (Some collisionCount)"

text \<open>
  The do-while loop: the first name that is free. A search that outlasts the bound does not come
  back; \<open>Panic\<close> stands for it.
\<close>

fun freeName :: "('w, 'c) env \<Rightarrow> statefulSet \<Rightarrow> nat \<Rightarrow> int \<Rightarrow> ('w, (goerr + string) go) op" where
  "freeName E sts 0 collisionCount = ret Panic"
| "freeName E sts (Suc n) collisionCount = do {
     got \<leftarrow> getSts E (om_Namespace (sts_meta sts)) (hashedName E sts collisionCount);
     (case got of
        Inl err \<Rightarrow>
          ret (Ret (if IsNotFound err then Inr (hashedName E sts collisionCount) else Inl err))
      | Inr _ \<Rightarrow> freeName E sts n (int32 (collisionCount + 1))) }"

text \<open>The flag says whether the result still shares the annotations of the custom resource.\<close>

definition getNewStatefulSet4 ::
  "('w, 'c) env \<Rightarrow> Emqx \<Rightarrow> statefulSet \<Rightarrow> ('w, (goerr + statefulSet \<times> bool) go) op" where
  "getNewStatefulSet4 E instance sts =
     (case instance of
        Broker _ \<Rightarrow> ret (Ret (Inr (sts, True)))
      | Enterprise enterprise \<Rightarrow>
          if sp4_EmqxBlueGreenUpdate (en_Spec enterprise) = None then ret (Ret (Inr (sts, True)))
          else bindGo (getAllStatefulSet E instance) (\<lambda>got.
            (case findSameTemplate E sts (case got of Inl _ \<Rightarrow> [] | Inr allSts \<Rightarrow> allSts) of
               Panic \<Rightarrow> ret Panic
             | Ret (Some s) \<Rightarrow> ret (Ret (Inr (sts\<lparr>sts_meta := sts_meta s\<rparr>, False)))
             | Ret None \<Rightarrow>
                 bindGo (freeName E sts (maxCollisions E) 0) (\<lambda>res. ret (Ret (case res of
                   Inl err \<Rightarrow> Inl err
                 | Inr name \<Rightarrow>
                     Inr (sts\<lparr>sts_meta := (sts_meta sts)\<lparr>om_Name := name\<rparr>\<rparr>, True)))))))"

section \<open>The blue-green update\<close>

text \<open>Nil pointers of an evacuation status, the missing node name and the empty pod list panic.\<close>

fun canBeScaledDownLoop ::
  "Emqx \<Rightarrow> statefulSet \<Rightarrow> (string \<rightharpoonup> pod list) \<Rightarrow> EmqxEvacuationStatus list \<Rightarrow> pod option go" where
  "canBeScaledDownLoop instance originSts podMap [] = Ret None"
| "canBeScaledDownLoop instance originSts podMap (e # es) =
     (case evs_CurrentConnected (ev4_Stats e) of
        None \<Rightarrow> Panic
      | Some connected \<Rightarrow>
          if connected \<noteq> 0 then canBeScaledDownLoop instance originSts podMap es
          else (case evs_CurrentSessions (ev4_Stats e) of
                  None \<Rightarrow> Panic
                | Some sessions \<Rightarrow>
                    if sessions \<noteq> 0 \<or> ev4_State e \<noteq> ''prohibiting''
                    then canBeScaledDownLoop instance originSts podMap es
                    else (case extractPodName (ev4_Node e) of
                            Panic \<Rightarrow> Panic
                          | Ret podName \<Rightarrow>
                              if \<not> containsStr podName (om_Name (sts_meta originSts))
                              then canBeScaledDownLoop instance originSts podMap es
                              else (case go_sort PodsByNameNewer (podsOf podMap originSts) of
                                      [] \<Rightarrow> Panic
                                    | p # _ \<Rightarrow>
                                        if om_Name (pod_meta p) = podName then Ret (Some p)
                                        else canBeScaledDownLoop instance originSts podMap es))))"

definition evacuationUnknown :: "EmqxBlueGreenUpdateStatus \<Rightarrow> bool" where
  "evacuationUnknown st \<longleftrightarrow>
     bgs_StartedAt st \<noteq> None \<and> bgs_OriginStatefulSet st \<noteq> [] \<and> bgs_CurrentStatefulSet st \<noteq> [] \<and>
     bgs_EvacuationsStatus st = None"

definition evacuationsOf :: "EmqxBlueGreenUpdateStatus \<Rightarrow> EmqxEvacuationStatus list" where
  "evacuationsOf st = (case bgs_EvacuationsStatus st of None \<Rightarrow> [] | Some es \<Rightarrow> es)"

definition canBeScaledDown ::
  "Emqx \<Rightarrow> EmqxBlueGreenUpdateStatus \<Rightarrow> statefulSet \<Rightarrow> (string \<rightharpoonup> pod list) \<Rightarrow> ('w, bool go) op" where
  "canBeScaledDown instance st originSts podMap =
     (if evacuationUnknown st then ret (Ret True)
      else (case canBeScaledDownLoop instance originSts podMap (evacuationsOf st) of
              Panic \<Rightarrow> ret Panic
            | Ret None \<Rightarrow> ret (Ret False)
            | Ret (Some _) \<Rightarrow> do { _ \<leftarrow> recordEvent ''Normal'' ''Evacuate''; ret (Ret True) }))"

text \<open>The keys in the order in which \<open>json.Marshal\<close> prints a map; a nil update strategy panics.\<close>

definition startEvacuateNodeByAPI ::
  "('w, 'c) env \<Rightarrow> Requester option \<Rightarrow> Emqx \<Rightarrow> pod list \<Rightarrow> string \<Rightarrow> ('w, goerr option go) op" where
  "startEvacuateNodeByAPI E requester instance migrateToPods nodeName =
     (case instance of
        Broker _ \<Rightarrow> ret (Ret (Some (ErrText ''failed to evacuate node, only support emqx enterprise'')))
      | Enterprise enterprise \<Rightarrow>
          (case sp4_EmqxBlueGreenUpdate (en_Spec enterprise) of
             None \<Rightarrow> ret Panic
           | Some bg \<Rightarrow>
               let s = bg_EvacuationStrategy bg;
                   body = JObj ([(''conn_evict_rate'', JInt (es_ConnEvictRate s)),
                                 (''migrate_to'', JArr (map (\<lambda>p. JStr (getEmqxNodeName instance p)) migrateToPods)),
                                 (''sess_evict_rate'', JInt (es_SessEvictRate s))] @
                                (if es_WaitTakeover s > 0
                                 then [(''wait_takeover'', JInt (es_WaitTakeover s))] else []))
               in bindGo (requestBy E requester ''POST''
                            (''api/v4/load_rebalance/'' @ nodeName @ ''/evacuation/start'') body)
                    (\<lambda>resp. ret (Ret (case resp of Inl err \<Rightarrow> Some err | Inr _ \<Rightarrow> None)))))"

text \<open>
  The scale-down: the set is read again, keeping the old copy when it is gone, and written with one
  replica less than the first read had.
\<close>

definition scaleDownOrigin :: "('w, 'c) env \<Rightarrow> statefulSet \<Rightarrow> ('w, goerr option go) op" where
  "scaleDownOrigin E originSts =
     (case sts_Replicas originSts of
        None \<Rightarrow> ret Panic
      | Some replicas \<Rightarrow>
          let scaleDown = int32 (replicas - 1)
          in do {
            got \<leftarrow> getSts E (om_Namespace (sts_meta originSts)) (om_Name (sts_meta originSts));
            (case got of
               Inl err \<Rightarrow>
                 if \<not> IsNotFound err then ret (Ret (Some err))
                 else do {
                   _ \<leftarrow> recordEvent ''Normal'' ''Evacuate'';
                   err \<leftarrow> update E (OStatefulSet (originSts\<lparr>sts_Replicas := Some scaleDown\<rparr>));
                   ret (Ret err) }
             | Inr stsCopy \<Rightarrow> do {
                   _ \<leftarrow> recordEvent ''Normal'' ''Evacuate'';
                   err \<leftarrow> update E (OStatefulSet (stsCopy\<lparr>sts_Replicas := Some scaleDown\<rparr>));
                   ret (Ret err) }) })"

definition evacuateNext ::
  "('w, 'c) env \<Rightarrow> Requester option \<Rightarrow> Emqx \<Rightarrow> EmqxBlueGreenUpdateStatus \<Rightarrow> statefulSet \<Rightarrow> statefulSet \<Rightarrow>
   (string \<rightharpoonup> pod list) \<Rightarrow> ('w, goerr option go) op" where
  "evacuateNext E requester instance st originSts currentSts podMap =
     (if evacuationsOf st \<noteq> [] then ret (Ret None)
      else (case go_sort PodsByNameNewer (podsOf podMap originSts) of
              [] \<Rightarrow> ret (Ret None)
            | p # _ \<Rightarrow>
                let emqxNodeName = getEmqxNodeName instance p
                in do {
                  _ \<leftarrow> recordEvent ''Normal'' ''Evacuate'';
                  bindGo (startEvacuateNodeByAPI E requester instance (podsOf podMap currentSts) emqxNodeName)
                    (\<lambda>err. ret (Ret (map_option (\<lambda>e. ErrWrap (''Evacuate node '' @ emqxNodeName @
                       '' failed: '' @ errorText E e) e) err))) }))"

definition syncStatefulSet ::
  "('w, 'c) env \<Rightarrow> Requester option \<Rightarrow> EmqxEnterprise \<Rightarrow> ('w, goerr option go) op" where
  "syncStatefulSet E requester enterprise =
     (case st4_EmqxBlueGreenUpdateStatus (en_Status enterprise) of
        None \<Rightarrow> ret (Ret None)
      | Some st \<Rightarrow>
          let instance = Enterprise enterprise; ns = om_Namespace (en_meta enterprise)
          in bindGo (getInClusterStatefulSets E instance) (\<lambda>inCluster. case inCluster of
               Inl err \<Rightarrow> ret (Ret (Some err))
             | Inr inClusterStss \<Rightarrow> do {
                 pm \<leftarrow> getPodMap E instance inClusterStss;
                 (case pm of
                    Inl err \<Rightarrow> ret (Ret (Some err))
                  | Inr podMap \<Rightarrow> do {
                      current \<leftarrow> getSts E ns (bgs_CurrentStatefulSet st);
                      (case current of
                         Inl err \<Rightarrow> ret (Ret (Some (ErrWrap ''failed to get current statefulset'' err)))
                       | Inr currentSts \<Rightarrow> do {
                           origin \<leftarrow> getSts E ns (bgs_OriginStatefulSet st);
                           (case origin of
                              Inl err \<Rightarrow> ret (Ret (Some (ErrWrap ''failed to get origin statefulset'' err)))
                            | Inr originSts \<Rightarrow>
                                bindGo (canBeScaledDown instance st originSts podMap) (\<lambda>down.
                                bindGo (if down then scaleDownOrigin E originSts else ret (Ret None)) (\<lambda>err.
                                case err of
                                  Some e \<Rightarrow> ret (Ret (Some e))
                                | None \<Rightarrow>
                                    evacuateNext E requester instance st originSts currentSts podMap))) }) }) }))"

definition handleBlueGreenUpdate ::
  "('w, 'c) env \<Rightarrow> Requester option \<Rightarrow> EmqxEnterprise \<Rightarrow> ('w, subResult4 go) op" where
  "handleBlueGreenUpdate E requester enterprise =
     (case st4_EmqxBlueGreenUpdateStatus (en_Status enterprise) of
        None \<Rightarrow> ret (Ret sub4)
      | Some st \<Rightarrow>
          (case bgs_StartedAt st of
             None \<Rightarrow> ret (Ret sub4)
           | Some startedAt \<Rightarrow>
               (case sp4_EmqxBlueGreenUpdate (en_Spec enterprise) of
                  None \<Rightarrow> ret Panic
                | Some bg \<Rightarrow> do {
                    now \<leftarrow> timeNow E;
                    let delay = int32 (bg_InitialDelaySeconds bg - secondsSince now startedAt)
                    in if delay > 0 then do {
                         _ \<leftarrow> recordEvent ''Normal'' ''Evacuate'';
                         ret (Ret (sub4\<lparr>s4_result :=
                           \<lparr>cr_Requeue = False, cr_RequeueAfter = delay * nanosPerSecond\<rparr>\<rparr>)) }
                       else bindGo (syncStatefulSet E requester enterprise) (\<lambda>err. ret (Ret (case err of
                              None \<Rightarrow> sub4
                            | Some e \<Rightarrow> sub4_err (ErrWrap ''failed to sync statefulset'' e)))) })))"

section \<open>addEmqxStatefulSet\<close>

text \<open>
  The annotations the custom resource is left with when an object that shares them is written: a nil
  map is not shared.
\<close>

definition leakAnnotations :: "bool \<Rightarrow> obj \<Rightarrow> Emqx \<Rightarrow> Emqx" where
  "leakAnnotations shared ob instance =
     (if shared \<and> om_Annotations (emqxMeta instance) \<noteq> None
      then setAnnotations (om_Annotations (objMeta ob)) instance else instance)"

definition addEmqxStatefulSet :: "('w, 'c) handler4" where
  "addEmqxStatefulSet E requester instance args =
     (case args of
        ArgObject (OStatefulSet sts) \<Rightarrow>
          bindGo (getNewStatefulSet4 E instance sts) (\<lambda>res. case res of
            Inl err \<Rightarrow> ret (Ret (sub4_err (ErrWrap ''failed to get new statefulset'' err), instance))
          | Inr (newSts, shared) \<Rightarrow> do {
              (err, ob) \<leftarrow> CreateOrUpdateObj E (emqxMeta instance) (OStatefulSet newSts);
              let instance' = leakAnnotations shared ob instance
              in case err of
                   Some e \<Rightarrow>
                     ret (Ret (sub4_err (ErrWrap ''failed to create or update statefulset'' e), instance'))
                 | None \<Rightarrow>
                     (case instance' of
                        Broker _ \<Rightarrow> ret (Ret (sub4, instance'))
                      | Enterprise enterprise \<Rightarrow>
                          bindGo (handleBlueGreenUpdate E requester enterprise)
                            (\<lambda>r. ret (Ret (r, instance')))) })
      | _ \<Rightarrow> ret Panic)"

section \<open>Lemmas: rules for the cases of the models\<close>

lemma only_case_Emqx [only_intros]:
  "(\<And>b. x = Broker b \<Longrightarrow> only Q R (m b)) \<Longrightarrow> (\<And>e. x = Enterprise e \<Longrightarrow> only Q R (k e)) \<Longrightarrow>
   only Q R (case x of Broker b \<Rightarrow> m b | Enterprise e \<Rightarrow> k e)"
  by (cases x) simp_all

lemma obeys_case_Emqx:
  "(\<And>b. x = Broker b \<Longrightarrow> obeys (m b) P) \<Longrightarrow> (\<And>e. x = Enterprise e \<Longrightarrow> obeys (k e) P) \<Longrightarrow>
   obeys (case x of Broker b \<Rightarrow> m b | Enterprise e \<Rightarrow> k e) P"
  by (cases x) simp_all

lemma only_case_subArgs [only_intros]:
  "(a = ArgNone \<Longrightarrow> only Q R m) \<Longrightarrow> (\<And>ob. a = ArgObject ob \<Longrightarrow> only Q R (k ob)) \<Longrightarrow>
   (\<And>obs. a = ArgObjects obs \<Longrightarrow> only Q R (h obs)) \<Longrightarrow>
   only Q R (case a of ArgNone \<Rightarrow> m | ArgObject ob \<Rightarrow> k ob | ArgObjects obs \<Rightarrow> h obs)"
  by (cases a) simp_all

lemma only_case_sts [only_intros]:
  "(\<And>s. ob = OStatefulSet s \<Longrightarrow> only Q R (k s)) \<Longrightarrow> only Q R m \<Longrightarrow>
   only Q R (case ob of OStatefulSet s \<Rightarrow> k s | _ \<Rightarrow> m)"
  by (cases ob) simp_all

section \<open>Lemmas: reads\<close>

lemma reads_only:
  assumes "onlyCalls (\<lambda>c. \<not> k8sWrite c) m"
  shows "obeys m (\<lambda>res l. filter k8sWrite l = [])"
  using onlyD[OF assms] by (rule obeys_mono) (auto simp: list_all_iff filter_empty_conv)

lemma only_reads4 [only_intros]:
  "onlyCalls (\<lambda>c. \<not> k8sWrite c) (requestBy E rq method path body)"
  "onlyCalls (\<lambda>c. \<not> k8sWrite c) (getAllStatefulSet E x)"
  "onlyCalls (\<lambda>c. \<not> k8sWrite c) (getPodMap E x sets)"
  unfolding requestBy_def Request_def getAllStatefulSet_def getPodMap_def call_defs
  by (intro only_intros; simp)+

lemma only_inCluster [only_intros]: "onlyCalls (\<lambda>c. \<not> k8sWrite c) (getInClusterStatefulSets E x)"
  unfolding getInClusterStatefulSets_def by (intro only_intros; simp)

lemma only_evacuateNext [only_intros]:
  "onlyCalls (\<lambda>c. \<not> k8sWrite c) (evacuateNext E rq x st origin current podMap)"
  unfolding evacuateNext_def startEvacuateNodeByAPI_def recordEvent_def
  by (intro only_intros; simp)

section \<open>The contract of the sub-reconcilers\<close>

text \<open>
  The writes the v1beta4 controllers are meant to make: they create and update objects, write the
  status of the custom resource and patch pod conditions; they create no pods and delete nothing.
\<close>

fun writeOk4 :: "('w, 'c) env \<Rightarrow> call \<Rightarrow> bool" where
  "writeOk4 E (TCreate ob _) = made E ob"
| "writeOk4 E (TUpdate _ _) = True"
| "writeOk4 E (TStatusEmqx _ _) = True"
| "writeOk4 E (TPatchPodStatus _ _ _) = True"
| "writeOk4 E c = (\<not> k8sWrite c)"

definition resultOk4 :: "(subResult4 \<times> Emqx) go \<Rightarrow> bool" where
  "resultOk4 res = (case res of
     Panic \<Rightarrow> True
   | Ret (r, _) \<Rightarrow>
       cr_Requeue (s4_result r) = False \<and> cr_RequeueAfter (s4_result r) \<ge> 0 \<and>
       (s4_err r = None \<or> s4_result r = zeroResult))"

lemma resultOk4_simps [simp]:
  "resultOk4 Panic" "resultOk4 (Ret (sub4, x))" "resultOk4 (Ret (sub4_err e, x))"
  "resultOk4 (Ret (sub4\<lparr>s4_args := a\<rparr>, x))" "resultOk4 (Ret (sub4\<lparr>s4_cont := c, s4_err := eo\<rparr>, x))"
  by (simp_all add: resultOk4_def sub4_def sub4_err_def zeroResult_def)

lemma only_weaken_calls: "only Q R m \<Longrightarrow> (\<And>c. Q c \<Longrightarrow> Q' c) \<Longrightarrow> only Q' R m"
  unfolding only_def by (auto elim!: obeys_mono simp: list_all_iff)

lemma writeOk4_read: "\<not> k8sWrite c \<Longrightarrow> writeOk4 E c"
  by (cases c) simp_all

lemma only_writes4 [only_intros]:
  "creatable ob \<Longrightarrow> onlyCalls (writeOk4 E) (Create E ob)" "onlyCalls (writeOk4 E) (Update E ob)"
  unfolding Create_def Update_def create_def update_def by (intro only_intros; auto intro: made_annotated)+

lemma only_CreateOrUpdateObj [only_intros]: "creatable ob \<Longrightarrow> onlyCalls (writeOk4 E) (CreateOrUpdateObj E m ob)"
  unfolding CreateOrUpdateObj_def getObj_def by (intro only_intros; simp)

lemmas only_reads_ok [only_intros] = only_reads4[THEN only_weaken_calls, OF writeOk4_read]
  only_inCluster[THEN only_weaken_calls, OF writeOk4_read]
  only_evacuateNext[THEN only_weaken_calls, OF writeOk4_read]

lemma only_freeName [only_intros]: "onlyCalls (writeOk4 E) (freeName E sts n c)"
  by (induction n arbitrary: c) (auto simp: getSts_def intro!: only_intros)

lemma only_syncStatefulSet [only_intros]: "onlyCalls (writeOk4 E) (syncStatefulSet E rq x)"
  unfolding syncStatefulSet_def canBeScaledDown_def scaleDownOrigin_def call_defs
  by (intro only_intros; simp)

locale sub_reconciler4 =
  fixes sub :: "('w, 'c) handler4"
  assumes law: "only (writeOk4 E) resultOk4 (sub E r x a)"

lemma only_handleBlueGreen:
  "only (writeOk4 E) (\<lambda>res. case res of Panic \<Rightarrow> True | Ret r \<Rightarrow> resultOk4 (Ret (r, x)))
     (handleBlueGreenUpdate E rq y)"
  unfolding handleBlueGreenUpdate_def call_defs
  by (intro only_intros) (auto simp: resultOk4_def sub4_def sub4_err_def zeroResult_def nanosPerSecond_def
      split: option.splits)

interpretation addEmqxStatefulSet_contract: sub_reconciler4 addEmqxStatefulSet
proof
  fix E :: "('w, 'c) env" and r x a
  have rest: "only (writeOk4 E) resultOk4 (bindGo (handleBlueGreenUpdate E r y) (\<lambda>res. ret (Ret (res, x'))))"
    for y x'
    by (rule only_bindGo_result[OF only_handleBlueGreen[of E x']]) (auto intro: only_return)
  have new: "onlyCalls (writeOk4 E) (getNewStatefulSet4 E x sts)" for sts
    unfolding getNewStatefulSet4_def by (intro only_intros; simp)
  show "only (writeOk4 E) resultOk4 (addEmqxStatefulSet E r x a)"
    unfolding addEmqxStatefulSet_def
    by (intro only_intros rest new; simp)
qed

end
