(* ===== verification/Emqx_Controller.thy ===== *)
theory Emqx_Controller
  imports Workloads Update_Status Services Bootstrap Pod_Conditions Sync_Config Sync_Pods Sync_Sets
begin

text \<open>
  The reconciler of the \<open>EMQX\<close> resource (\<open>controllers/apps/v2beta1/emqx_controller.go\<close>): it reads
  the resource, runs the sub-reconcilers in order, and decides from their results when it runs again
  and what it reports.
\<close>

section \<open>Reconcile\<close>

definition second :: int where
  "second = nanosPerSecond"

definition requeueAfter :: "int \<Rightarrow> ctrlResult" where
  "requeueAfter d = \<lparr>cr_Requeue = False, cr_RequeueAfter = d\<rparr>"

definition subReconcilers :: "('w, 'c) handler list" where
  "subReconcilers =
     [addBootstrap, updatePodConditions, updateStatus, addHeadlessSvc, addCore, addRepl, addPdb,
      syncConfig, addSvc, updatePodConditions, updateStatus, syncPods, syncSets]"

fun runSubReconcilers ::
  "('w, 'c) handler list \<Rightarrow> ('w, 'c) env \<Rightarrow> EMQX \<Rightarrow> Requester option \<Rightarrow>
   ('w, (ctrlResult \<times> goerr option) go) op" where
  "runSubReconcilers [] E instance requester =
     ret (Ret (if \<not> IsConditionTrue (Status instance) Ready then requeueAfter second
               else requeueAfter (30 * second), None))"
| "runSubReconcilers (sub # subs) E instance requester =
     bindGo (sub E instance requester) (\<lambda>(res, instance').
       if \<not> IsZero (sub_result res) then ret (Ret (sub_result res, None))
       else (case sub_err res of
               None \<Rightarrow> runSubReconcilers subs E instance' requester
             | Some err \<Rightarrow>
                 if IsCommonError err then ret (Ret (requeueAfter second, None))
                 else do {
                   _ \<leftarrow> recordEvent ''Warning'' ''ReconcilerFailed'';
                   ret (Ret (zeroResult, Some err)) }))"

definition Reconcile ::
  "('w, 'c) env \<Rightarrow> string \<Rightarrow> string \<Rightarrow> ('w, (ctrlResult \<times> goerr option) go) op" where
  "Reconcile E namespace name = do {
     got \<leftarrow> getEMQX E namespace name;
     (case got of
        Inl err \<Rightarrow> ret (Ret (zeroResult, if IsNotFound err then None else Some err))
      | Inr instance \<Rightarrow>
          if om_DeletionTimestamp (Meta instance) \<noteq> None then ret (Ret (zeroResult, None))
          else (case h_ParseString (hocon E) (cfg_Data (SpecConfig (Spec instance))) of
                  Inl err \<Rightarrow> do {
                    _ \<leftarrow> recordEvent ''Warning'' ''InvalidConfig'';
                    ret (Ret (zeroResult, Some (ErrWrap ''failed to parse config'' err))) }
                | Inr _ \<Rightarrow> do {
                    requester \<leftarrow> newRequester E instance;
                    (case requester of
                       Inl err \<Rightarrow>
                         if IsNotFound (Cause err) then
                           bindGo (addBootstrap E instance None)
                             (\<lambda>_. ret (Ret (requeueAfter second, None)))
                         else ret (Ret (zeroResult, Some (ErrWrap ''failed to get bootstrap user'' err)))
                     | Inr r \<Rightarrow> runSubReconcilers subReconcilers E instance r) })) }"

text \<open>The event filter of \<open>SetupWithManager\<close>: an update is reconciled when the generation changed.\<close>

definition updateFunc :: "EMQX \<Rightarrow> EMQX \<Rightarrow> bool" where
  "updateFunc objectOld objectNew = (om_Generation (Meta objectNew) \<noteq> om_Generation (Meta objectOld))"

section \<open>Outcomes\<close>

text \<open>
  The result of a reconcile that went past the guards: a panic, an error with no requeue (the work
  queue then backs off), or a requeue request.
\<close>

definition outcomeOk :: "(ctrlResult \<times> goerr option) go \<Rightarrow> bool" where
  "outcomeOk res = (case res of
     Panic \<Rightarrow> True
   | Ret (cr, Some err) \<Rightarrow> cr = zeroResult
   | Ret (cr, None) \<Rightarrow> cr_Requeue cr \<or> cr_RequeueAfter cr > 0)"

lemma outcomeOk_simps [simp]:
  "outcomeOk Panic" "outcomeOk (Ret (zeroResult, Some err))" "outcomeOk (Ret (requeueAfter second, None))"
  "outcomeOk (Ret (requeueAfter (30 * second), None))"
  "outcomeOk (Ret (sub_result done_requeue, None))"
  by (simp_all add: outcomeOk_def requeueAfter_def second_def nanosPerSecond_def done_requeue_def)

context sub_reconciler
begin

text \<open>One sub-reconciler in front of the loop keeps the law of the loop.\<close>

lemma run_Cons:
  assumes "\<And>y. only (writeOk E) outcomeOk (runSubReconcilers subs E y r)"
  shows "only (writeOk E) outcomeOk (runSubReconcilers (sub # subs) E x r)"
  unfolding runSubReconcilers.simps recordEvent_def
  using assms
  by (intro only_bindGo_result[OF law] only_intros)
    (auto simp: resultOk_def)

end

lemmas run_Cons_rules = addBootstrap_contract.run_Cons updatePodConditions_contract.run_Cons
  updateStatus_contract.run_Cons addHeadlessSvc_contract.run_Cons addCore_contract.run_Cons
  addRepl_contract.run_Cons addPdb_contract.run_Cons syncConfig_contract.run_Cons
  addSvc_contract.run_Cons syncPods_contract.run_Cons syncSets_contract.run_Cons

lemma only_subReconcilers: "only (writeOk E) outcomeOk (runSubReconcilers subReconcilers E x r)"
  unfolding subReconcilers_def
  by (intro run_Cons_rules) (auto intro!: only_return)

lemma only_newRequester: "onlyCalls (\<lambda>c. writeOk E c \<and> \<not> k8sWrite c) (newRequester E x)"
  unfolding newRequester_def getBootstrapAPIKey_def call_defs by (intro only_intros) simp_all

text \<open>The whole reconcile, from the read of the resource on.\<close>

definition reconciled :: "('w, 'c) env \<Rightarrow> goerr + EMQX \<Rightarrow> (ctrlResult \<times> goerr option) go \<Rightarrow> call list \<Rightarrow> bool" where
  "reconciled E got res l =
     (case got of
        Inl err \<Rightarrow> l = [] \<and> res = Ret (zeroResult, if IsNotFound err then None else Some err)
      | Inr x \<Rightarrow>
          if om_DeletionTimestamp (Meta x) \<noteq> None then l = [] \<and> res = Ret (zeroResult, None)
          else (case h_ParseString (hocon E) (cfg_Data (SpecConfig (Spec x))) of
                  Inl err \<Rightarrow> l = [TEvent ''Warning'' ''InvalidConfig''] \<and>
                    res = Ret (zeroResult, Some (ErrWrap ''failed to parse config'' err))
                | Inr _ \<Rightarrow> list_all (writeOk E) l \<and> outcomeOk res))"

lemma obeys_Reconcile:
  "obeys (Reconcile E ns name) (\<lambda>res l. \<exists>got l'. l = TGetEMQX ns name got # l' \<and> reconciled E got res l')"
proof -
  have run: "only (writeOk E) outcomeOk (do {
      requester \<leftarrow> newRequester E x;
      (case requester of
         Inl err \<Rightarrow>
           if IsNotFound (Cause err) then
             bindGo (addBootstrap E x None) (\<lambda>_. ret (Ret (requeueAfter second, None)))
           else ret (Ret (zeroResult, Some (ErrWrap ''failed to get bootstrap user'' err)))
       | Inr r \<Rightarrow> runSubReconcilers subReconcilers E x r) })" for x
  proof -
    have "onlyCalls (writeOk E) (newRequester E x)"
      using only_newRequester[of E x] unfolding only_def by (rule obeys_mono) (auto simp: list_all_iff)
    moreover have "onlyCalls (writeOk E) (addBootstrap E x None)"
      using addBootstrap_contract.law by (rule only_weaken) simp
    ultimately show ?thesis
      by (intro only_intros only_subReconcilers) simp_all
  qed
  show ?thesis
    unfolding Reconcile_def getEMQX_def recordEvent_def
    by (intro obeys_bind_prim obeys_case_sum obeys_if obeys_return obeys_mono[OF onlyD[OF run]])
      (auto simp: reconciled_def)
qed

end
