(* ===== verification/V4_Controller.thy ===== *)
theory V4_Controller
  imports V4_Sets Emqx_Controller
begin

text \<open>
  The reconcilers of \<open>EmqxBroker\<close> and \<open>EmqxEnterprise\<close> (\<open>controllers/apps/v1beta4\<close>): the
  sub-reconcilers \<open>updateEmqxStatus\<close>, \<open>addEmqxBootstrapUser\<close>, \<open>addEmqxPlugins\<close>,
  \<open>addEmqxResources\<close>, \<open>addEmqxStatefulSet\<close> (theory \<open>V4_Sets\<close>), \<open>addListener\<close> and
  \<open>updatePodConditions\<close>, which hand each other their results, and the loop \<open>Do\<close> that runs them.
\<close>

section \<open>Status\<close>

definition getNodeStatusesByAPI ::
  "('w, 'c) env \<Rightarrow> Requester option \<Rightarrow> ('w, (goerr + EmqxNode4 list) go) op" where
  "getNodeStatusesByAPI E requester =
     bindGo (requestBy E requester ''GET'' ''api/v4/nodes'' JNull) (\<lambda>resp. ret (Ret (case resp of
       Inl err \<Rightarrow> Inl err
     | Inr rp \<Rightarrow>
         (case unmarshalNodes4 E (gjsonRaw E (resp_Body rp) ''data'') of
            Inl err \<Rightarrow> Inl (ErrWrap ''failed to unmarshal node statuses'' err)
          | Inr nodes \<Rightarrow> Inr nodes))))"

definition getEvacuationStatusByAPI ::
  "('w, 'c) env \<Rightarrow> Requester option \<Rightarrow> ('w, (goerr + EmqxEvacuationStatus list option) go) op" where
  "getEvacuationStatusByAPI E requester =
     bindGo (requestBy E requester ''GET'' ''api/v4/load_rebalance/global_status'' JNull)
       (\<lambda>resp. ret (Ret (case resp of
          Inl err \<Rightarrow> Inl err
        | Inr rp \<Rightarrow>
            (case unmarshalEvacuations4 E (gjsonRaw E (resp_Body rp) ''evacuations'') of
               Inl err \<Rightarrow> Inl (ErrWrap ''failed to unmarshal node statuses'' err)
             | Inr statuses \<Rightarrow> Inr statuses))))"

definition runningNodes :: "EmqxNode4 list \<Rightarrow> int" where
  "runningNodes nodes = int (length (filter (\<lambda>n. n4_NodeStatus n = ''Running'') nodes))"

definition updateReadyReplicas ::
  "('w, 'c) env \<Rightarrow> Requester option \<Rightarrow> Emqx \<Rightarrow> ('w, (goerr option \<times> Emqx) go) op" where
  "updateReadyReplicas E requester instance =
     bindGo (getNodeStatusesByAPI E requester) (\<lambda>got. ret (case got of
       Inl err \<Rightarrow> Ret (Some (ErrWrap ''failed to get node statuses'' err), instance)
     | Inr emqxNodes \<Rightarrow>
         (case sp4_Replicas (GetSpec instance) of
            None \<Rightarrow> Panic
          | Some replicas \<Rightarrow>
              Ret (None, setGetStatus ((GetStatus instance)\<lparr>st4_EmqxNodes := emqxNodes,
                st4_ReadyReplicas := runningNodes emqxNodes, st4_Replicas := replicas\<rparr>) instance))))"

text \<open>
  One set in the cluster: \<open>Running\<close> is true when all replicas are, and a blue-green update is over.
\<close>

definition settledStatus :: "time \<Rightarrow> statefulSet \<Rightarrow> EmqxBrokerStatus \<Rightarrow> EmqxBrokerStatus" where
  "settledStatus now sts s0 =
     (let s = s0\<lparr>st4_CurrentStatefulSetVersion := st_CurrentRevision (sts_status sts)\<rparr>
      in if st4_ReadyReplicas s = st4_Replicas s
         then AddCondition now s ConditionRunning ConditionTrue ''ClusterReady'' ''All resources are ready''
         else AddCondition now s ConditionRunning ConditionFalse ''ClusterNotReady''
                ''Some resources are not ready'')"

definition clearBlueGreen :: "Emqx \<Rightarrow> Emqx" where
  "clearBlueGreen instance =
     (case instance of
        Broker x \<Rightarrow> Broker x
      | Enterprise x \<Rightarrow> Enterprise (x\<lparr>en_Status := (en_Status x)\<lparr>st4_EmqxBlueGreenUpdateStatus := None\<rparr>\<rparr>))"

definition setBlueGreen :: "EmqxBlueGreenUpdateStatus \<Rightarrow> EmqxEnterprise \<Rightarrow> EmqxEnterprise" where
  "setBlueGreen st x = x\<lparr>en_Status := (en_Status x)\<lparr>st4_EmqxBlueGreenUpdateStatus := Some st\<rparr>\<rparr>"

definition emptyBlueGreen :: EmqxBlueGreenUpdateStatus where
  "emptyBlueGreen = \<lparr>bgs_OriginStatefulSet = [], bgs_CurrentStatefulSet = [], bgs_StartedAt = None,
     bgs_EvacuationsStatus = None\<rparr>"

text \<open>The origin is the last and the current set the last but one of the sorted list.\<close>

definition startBlueGreen ::
  "('w, 'c) env \<Rightarrow> Requester option \<Rightarrow> EmqxEnterprise \<Rightarrow> statefulSet \<Rightarrow> statefulSet \<Rightarrow>
   ('w, (goerr option \<times> Emqx) go) op" where
  "startBlueGreen E requester enterprise currentSts originSts = do {
     let st0 = (case st4_EmqxBlueGreenUpdateStatus (en_Status enterprise) of
                  None \<Rightarrow> emptyBlueGreen | Some st \<Rightarrow> st);
         st1 = st0\<lparr>bgs_CurrentStatefulSet := om_Name (sts_meta currentSts),
                   bgs_OriginStatefulSet := om_Name (sts_meta originSts)\<rparr>
     in do {
       st2 \<leftarrow> (case bgs_StartedAt st1 of
                 Some _ \<Rightarrow> ret st1
               | None \<Rightarrow> do { now \<leftarrow> timeNow E; ret (st1\<lparr>bgs_StartedAt := Some now\<rparr>) });
       bindGo (getEvacuationStatusByAPI E requester) (\<lambda>got. ret (Ret (case got of
         Inl err \<Rightarrow> (Some (ErrWrap ''failed to get evacuation status'' err),
                     Enterprise (setBlueGreen st2 enterprise))
       | Inr evacuationsStatus \<Rightarrow>
           (None, Enterprise (setBlueGreen (st2\<lparr>bgs_EvacuationsStatus := evacuationsStatus\<rparr>) enterprise))))) } }"

definition updateCondition ::
  "('w, 'c) env \<Rightarrow> Requester option \<Rightarrow> Emqx \<Rightarrow> ('w, (goerr option \<times> Emqx) go) op" where
  "updateCondition E requester instance =
     bindGo (getInClusterStatefulSets E instance) (\<lambda>got. case got of
       Inl err \<Rightarrow> ret (Ret (Some (ErrWrap ''failed to get in cluster statefulsets'' err), instance))
     | Inr inClusterStss \<Rightarrow>
         (case rev inClusterStss of
            [] \<Rightarrow> ret (Ret (None, instance))
          | [sts] \<Rightarrow> do {
              now \<leftarrow> timeNow E;
              ret (Ret (None, clearBlueGreen
                (setGetStatus (settledStatus now sts (GetStatus instance)) instance))) }
          | originSts # currentSts # _ \<Rightarrow>
              (case instance of
                 Broker _ \<Rightarrow>
                   ret (Ret (Some (ErrText ''blueGreenUpdatingStatus only support EmqxEnterprise''), instance))
               | Enterprise x \<Rightarrow> do {
                   now \<leftarrow> timeNow E;
                   let enterprise = x\<lparr>en_Status := AddCondition now
                         ((en_Status x)\<lparr>st4_CurrentStatefulSetVersion := st_CurrentRevision (sts_status currentSts)\<rparr>)
                         ConditionBlueGreenUpdating ConditionTrue [] []\<rparr>
                   in if st_ReadyReplicas (sts_status currentSts) \<noteq> stsSize currentSts
                      then ret (Ret (None, Enterprise enterprise))
                      else startBlueGreen E requester enterprise currentSts originSts })))"

definition updateEmqxStatus :: "('w, 'c) handler4" where
  "updateEmqxStatus E requester instance _ =
     bindGo (updateReadyReplicas E requester instance) (\<lambda>(err, x1). case err of
       Some e \<Rightarrow> ret (Ret (sub4\<lparr>s4_cont := True, s4_err := Some (ErrWrap ''failed to update ready replicas'' e)\<rparr>, x1))
     | None \<Rightarrow>
         bindGo (updateCondition E requester x1) (\<lambda>(err, x2). case err of
           Some e \<Rightarrow> ret (Ret (sub4\<lparr>s4_cont := True, s4_err := Some (ErrWrap ''failed to update condition'' e)\<rparr>, x2))
         | None \<Rightarrow> do {
             got \<leftarrow> statusEmqx E x2;
             ret (Ret (case got of
                         Inl e \<Rightarrow> (sub4_err (ErrWrap ''failed to update emqx status'' e), x2)
                       | Inr x3 \<Rightarrow> (sub4, x3))) }))"

section \<open>Bootstrap user and plugins\<close>

text \<open>
  Get an object, or create it; after a creation the error of the look-up is reported, so that the
  reconcile is repeated. The annotations a creation leaves in the custom resource end with it.
\<close>

definition getOrCreate :: "('w, 'c) env \<Rightarrow> Emqx \<Rightarrow> obj \<Rightarrow> ('w, goerr + obj) op" where
  "getOrCreate E instance ob = do {
     got \<leftarrow> getObj E ob;
     (case got of
        Inr stored \<Rightarrow> ret (Inr stored)
      | Inl err \<Rightarrow>
          if IsNotFound err then
            (case setControllerReference E (emqxMeta instance) (objMeta ob) of
               Inl e \<Rightarrow> ret (Inl (ErrWrap ''failed to set controller reference'' e))
             | Inr m \<Rightarrow> do {
                 created \<leftarrow> Create E (setObjMeta m ob);
                 ret (Inl (case created of
                             Some e \<Rightarrow> ErrWrap ''failed to create resource'' e
                           | None \<Rightarrow> ErrWrap ''failed to get resource'' err)) })
          else ret (Inl (ErrWrap ''failed to get resource'' err))) }"

definition addEmqxBootstrapUser :: "('w, 'c) handler4" where
  "addEmqxBootstrapUser E requester instance _ = do {
     bootstrapUser \<leftarrow> generateBootstrapUserSecret E instance;
     got \<leftarrow> getOrCreate E instance (OSecret bootstrapUser);
     ret (Ret (case got of
                 Inl err \<Rightarrow> (sub4_err err, instance)
               | Inr ob \<Rightarrow> (sub4\<lparr>s4_args := ArgObject ob\<rparr>, instance))) }"

fun getOrCreateAll :: "('w, 'c) env \<Rightarrow> Emqx \<Rightarrow> obj list \<Rightarrow> ('w, goerr + obj list) op" where
  "getOrCreateAll E instance [] = ret (Inr [])"
| "getOrCreateAll E instance (resource # resources) = do {
     got \<leftarrow> getOrCreate E instance resource;
     (case got of
        Inl err \<Rightarrow> ret (Inl err)
      | Inr ob \<Rightarrow> do {
          rest \<leftarrow> getOrCreateAll E instance resources;
          ret (case rest of Inl err \<Rightarrow> Inl err | Inr obs \<Rightarrow> Inr (ob # obs)) }) }"

definition getInitPluginList :: "('w, 'c) env \<Rightarrow> Emqx \<Rightarrow> ('w, (goerr + EmqxPlugin list) go) op" where
  "getInitPluginList E instance = do {
     got \<leftarrow> listPlugins E (om_Namespace (emqxMeta instance));
     (let generate = (\<lambda>items. case generateInitPluginList (validLabels E) instance items of
                         Panic \<Rightarrow> Panic | Ret plugins \<Rightarrow> Ret (Inr plugins))
      in ret (case got of
                Inl err \<Rightarrow> if IsNotFound err then generate [] else Ret (Inl err)
              | Inr items \<Rightarrow> generate items)) }"

definition addEmqxPlugins :: "('w, 'c) handler4" where
  "addEmqxPlugins E requester instance args =
     (case args of
        ArgObject other \<Rightarrow>
          bindGo (getInitPluginList E instance) (\<lambda>got. case got of
            Inl err \<Rightarrow> ret (Ret (sub4_err (ErrWrap ''failed to get init plugin list'' err), instance))
          | Inr plugins \<Rightarrow> do {
              res \<leftarrow> getOrCreateAll E instance
                       (OConfigMap (generateDefaultPluginsConfig instance) # map OPlugin plugins);
              ret (Ret (case res of
                          Inl err \<Rightarrow> (sub4_err err, instance)
                        | Inr resources \<Rightarrow> (sub4\<lparr>s4_args := ArgObjects (resources @ [other])\<rparr>, instance))) })
      | _ \<Rightarrow> ret Panic)"

section \<open>Resources\<close>

text \<open>
  \<open>CreateOrUpdateList\<close> on objects of which the flagged ones share the annotation map \<open>a\<close>: what is
  stored in the map for one of them the next ones are written with.
\<close>

fun createOrUpdateShared ::
  "('w, 'c) env \<Rightarrow> objectMeta \<Rightarrow> gomap \<Rightarrow> (bool \<times> obj) list \<Rightarrow> ('w, goerr option \<times> gomap) op" where
  "createOrUpdateShared E owner a [] = ret (None, a)"
| "createOrUpdateShared E owner a ((shared, resource) # resources) = do {
     (err, ob) \<leftarrow> CreateOrUpdateObj E owner
       (if shared then setObjMeta ((objMeta resource)\<lparr>om_Annotations := a\<rparr>) resource else resource);
     let a' = (if shared \<and> a \<noteq> None then om_Annotations (objMeta ob) else a)
     in case err of
          Some e \<Rightarrow> ret (Some e, a')
        | None \<Rightarrow> createOrUpdateShared E owner a' resources }"

definition getLicense :: "('w, 'c) env \<Rightarrow> Emqx \<Rightarrow> ('w, goerr + (bool \<times> secret) option) op" where
  "getLicense E instance =
     (case instance of
        Broker _ \<Rightarrow> ret (Inr None)
      | Enterprise enterprise \<Rightarrow>
          let secretName = li_SecretName (sp4_License (en_Spec enterprise))
          in if secretName \<noteq> [] then do {
               got \<leftarrow> getSecret E (om_Namespace (en_meta enterprise)) secretName;
               ret (case got of Inl err \<Rightarrow> Inl err | Inr license \<Rightarrow> Inr (Some (False, license))) }
             else ret (Inr (map_option (Pair True) (generateLicense instance))))"

text \<open>The volumes of the objects handed on by \<open>addEmqxPlugins\<close>, found by their names.\<close>

definition mountBootstrapUser :: "objectMeta \<Rightarrow> obj \<Rightarrow> statefulSet \<Rightarrow> statefulSet go" where
  "mountBootstrapUser m ob sts =
     (if om_Name (objMeta ob) = BootstrapUser m
      then (case ob of OSecret s \<Rightarrow> updateStatefulSetForBootstrapUser sts s | _ \<Rightarrow> Panic) else Ret sts)"

definition mountPluginsConfig :: "objectMeta \<Rightarrow> obj \<Rightarrow> statefulSet \<Rightarrow> statefulSet go" where
  "mountPluginsConfig m ob sts =
     (if om_Name (objMeta ob) = PluginsConfig m
      then (case ob of OConfigMap c \<Rightarrow> updateStatefulSetForPluginsConfig sts c | _ \<Rightarrow> Panic) else Ret sts)"

fun thenGo :: "'a go \<Rightarrow> ('a \<Rightarrow> 'b go) \<Rightarrow> 'b go" where
  "thenGo Panic k = Panic"
| "thenGo (Ret x) k = k x"

fun mountInitResources :: "objectMeta \<Rightarrow> obj list \<Rightarrow> statefulSet \<Rightarrow> statefulSet go" where
  "mountInitResources m [] sts = Ret sts"
| "mountInitResources m (ob # obs) sts =
     thenGo (mountBootstrapUser m ob sts) (\<lambda>sts1.
     thenGo (mountPluginsConfig m ob sts1) (\<lambda>sts2. mountInitResources m obs sts2))"

definition wantedStatefulSet ::
  "(gomap \<Rightarrow> string option) \<Rightarrow> Emqx \<Rightarrow> configMap \<Rightarrow> secret option \<Rightarrow> obj list \<Rightarrow> statefulSet go" where
  "wantedStatefulSet first instance acl license initResources =
     thenGo (updateStatefulSetForACL (generateStatefulSet4 instance) acl) (\<lambda>sts1.
     thenGo (updateStatefulSetForLicense first sts1 license) (\<lambda>sts2.
     mountInitResources (emqxMeta instance) initResources sts2))"

definition addEmqxResources :: "('w, 'c) handler4" where
  "addEmqxResources E requester instance args =
     (case args of
        ArgObjects initResources \<Rightarrow> do {
          got \<leftarrow> getLicense E instance;
          (case got of
             Inl err \<Rightarrow> ret (Ret (sub4_err (ErrWrap ''failed to get license'' err), instance))
           | Inr license \<Rightarrow>
               let acl = generateEmqxACL instance;
                   resources =
                     (case license of None \<Rightarrow> [] | Some (shared, s) \<Rightarrow> [(shared, OSecret s)]) @
                     [(True, OConfigMap acl), (True, OService (generateHeadlessService4 instance))]
               in do {
                 (err, a) \<leftarrow> createOrUpdateShared E (emqxMeta instance)
                               (om_Annotations (emqxMeta instance)) resources;
                 let instance1 = setAnnotations a instance
                 in case err of
                      Some e \<Rightarrow>
                        ret (Ret (sub4_err (ErrWrap ''failed to create or update resource'' e), instance1))
                    | None \<Rightarrow>
                        ret (case wantedStatefulSet (mapFirst E) instance1 acl (map_option snd license)
                                    initResources of
                               Panic \<Rightarrow> Panic
                             | Ret sts \<Rightarrow>
                                 Ret (sub4\<lparr>s4_args := ArgObject (OStatefulSet sts)\<rparr>,
                                      afterGenerateStatefulSet instance1)) }) }
      | _ \<Rightarrow> ret Panic)"

section \<open>Listeners\<close>

fun intersectLoop :: "string set \<Rightarrow> emqxListener list \<Rightarrow> emqxListener list" where
  "intersectLoop hSection [] = []"
| "intersectLoop hSection (l # ls) =
     (if ln_ListenOn l \<in> hSection then l # intersectLoop (hSection - {ln_ListenOn l}) ls
      else intersectLoop hSection ls)"

definition intersection :: "emqxListener list \<Rightarrow> emqxListener list \<Rightarrow> emqxListener list" where
  "intersection listeners1 listeners2 = intersectLoop (set (map ln_ListenOn listeners1)) listeners2"

text \<open>The loop over neighbours assigns \<open>listeners\<close> anew in every round.\<close>

fun neighbourLoop :: "emqxListener list \<Rightarrow> emqxListeners list \<Rightarrow> emqxListener list" where
  "neighbourLoop listeners (a # b # rest) =
     neighbourLoop (intersection (ls_Listeners a) (ls_Listeners b)) (b # rest)"
| "neighbourLoop listeners _ = listeners"

definition commonListeners :: "emqxListeners list \<Rightarrow> emqxListener list" where
  "commonListeners listenerList =
     (case listenerList of [a] \<Rightarrow> ls_Listeners a | _ \<Rightarrow> neighbourLoop [] listenerList)"

text \<open>\<open>regexp.MustCompile(`:[\d]+`).ReplaceAllString(s, "")\<close>\<close>

function stripPorts :: "string \<Rightarrow> string" where
  "stripPorts [] = []"
| "stripPorts (c # s) =
     (if c = CHR '':'' \<and> (case s of d # _ \<Rightarrow> isDigit d | [] \<Rightarrow> False)
      then stripPorts (dropWhile isDigit s) else c # stripPorts s)"
  by pat_completeness auto

termination
  by (relation "measure length") (auto intro: le_imp_less_Suc length_dropWhile_le)

definition listenerPortStr :: "string \<Rightarrow> string" where
  "listenerPortStr listenOn =
     (if CHR '':'' \<in> set listenOn
      then (case splitHostPort listenOn of (_, port, err) \<Rightarrow> if err then listenOn else port)
      else listenOn)"

definition listenerPort :: "emqxListener \<Rightarrow> servicePort" where
  "listenerPort l =
     (let strPort = listenerPortStr (ln_ListenOn l);
          udp = list_ex (containsStr (ln_Protocol l)) [''udp'', ''dtls'', ''sn''];
          intPort = int32 (fst (atoi strPort))
      in \<lparr>sp_Name = replaceByte (CHR '':'') ''-'' (stripPorts (ln_Protocol l)) @ ''-'' @ strPort,
          sp_Protocol = (if udp then ''UDP'' else ''TCP''),
          sp_Port = intPort, sp_TargetPort = IntVal intPort, sp_NodePort = 0\<rparr>)"

definition getListenerPortsByAPI ::
  "('w, 'c) env \<Rightarrow> Requester option \<Rightarrow> ('w, (goerr + servicePort list) go) op" where
  "getListenerPortsByAPI E requester =
     bindGo (requestBy E requester ''GET'' ''api/v4/listeners'' JNull) (\<lambda>resp. ret (Ret (case resp of
       Inl err \<Rightarrow> Inl err
     | Inr rp \<Rightarrow>
         (case unmarshalListeners4 E (gjsonRaw E (resp_Body rp) ''data'') of
            Inl err \<Rightarrow> Inl (ErrWrap ''failed to unmarshal node statuses'' err)
          | Inr listenerList \<Rightarrow> Inr (map listenerPort (commonListeners listenerList))))))"

definition MergeServicePorts4 :: "servicePort list \<Rightarrow> servicePort list \<Rightarrow> servicePort list" where
  "MergeServicePorts4 ports1 ports2 = mergeLoop sp_Name sp_Port (ports1 @ ports2) {} {} []"

definition generateListenerService4 :: "Emqx \<Rightarrow> servicePort list \<Rightarrow> service option" where
  "generateListenerService4 instance ports =
     (let listener = sp4_ServiceTemplate (GetSpec instance);
          spec = (st4_Spec listener)\<lparr>ss_Selector := Some Map.empty,
                   ss_Ports := MergeServicePorts4 (ss_Ports (st4_Spec listener)) ports\<rparr>
      in if ss_Ports spec = [] then None
         else Some \<lparr>svc_APIVersion = ''v1'', svc_Kind = ''Service'',
                svc_meta = emptyMeta\<lparr>om_Namespace := om_Namespace (emqxMeta instance),
                  om_Name := om_Name (st4_meta listener), om_Labels := om_Labels (st4_meta listener),
                  om_Annotations := om_Annotations (st4_meta listener)\<rparr>,
                svc_spec = spec\<rparr>)"

definition generateEndpoints :: "service \<Rightarrow> pod list \<Rightarrow> endpoints" where
  "generateEndpoints svc pods =
     \<lparr>end_meta = emptyMeta\<lparr>om_Namespace := om_Namespace (svc_meta svc), om_Name := om_Name (svc_meta svc),
        om_Annotations := om_Annotations (svc_meta svc), om_Labels := om_Labels (svc_meta svc)\<rparr>,
      end_Subsets =
        [\<lparr>eps_Addresses = map (\<lambda>p. \<lparr>ea_IP = pod_PodIP p, ea_NodeName = Some (pod_NodeName p),
            ea_TargetRef = Some \<lparr>or_Kind = ''Pod'', or_Namespace = om_Namespace (pod_meta p),
              or_Name = om_Name (pod_meta p), or_UID = om_UID (pod_meta p)\<rparr>\<rparr>) pods,
          eps_Ports = map (\<lambda>p. \<lparr>ep_Name = sp_Name p, ep_Port = sp_Port p, ep_Protocol = sp_Protocol p\<rparr>)
            (ss_Ports (svc_spec svc))\<rparr>]\<rparr>"

text \<open>A pod is appended once for every true \<open>Ready\<close> condition.\<close>

definition readyPods :: "pod list \<Rightarrow> pod list" where
  "readyPods pods =
     concat (map (\<lambda>p. map (\<lambda>_. p) (filter (\<lambda>c. pc_Type c = ''Ready'' \<and> pc_Status c = ConditionTrue)
       (pod_Conditions p))) pods)"

definition addListener :: "('w, 'c) handler4" where
  "addListener E requester instance _ = do {
     podList \<leftarrow> listPods E (om_Namespace (emqxMeta instance)) (om_Labels (emqxMeta instance));
     if readyPods podList = [] then ret (Ret (sub4, instance))
     else bindGo (getListenerPortsByAPI E requester) (\<lambda>got.
       case generateListenerService4 instance (case got of Inl _ \<Rightarrow> [] | Inr ports \<Rightarrow> ports) of
         None \<Rightarrow> ret (Ret (sub4, instance))
       | Some svc \<Rightarrow> do {
           (err, _) \<leftarrow> createOrUpdateShared E (emqxMeta instance) (om_Annotations (svc_meta svc))
                         [(True, OEndpoints (generateEndpoints svc (readyPods podList))), (True, OService svc)];
           ret (Ret (case err of
                       None \<Rightarrow> (sub4, instance)
                     | Some e \<Rightarrow>
                         (sub4_err (ErrWrap ''failed to create or update listener service and endpoints'' e),
                          instance))) }) }"

section \<open>Pod conditions\<close>

definition lastCondition :: "pod \<Rightarrow> string \<Rightarrow> podCondition option" where
  "lastCondition p t = find (\<lambda>c. pc_Type c = t) (rev (pod_Conditions p))"

fun clusterPodNames :: "EmqxNode4 list \<Rightarrow> string list go" where
  "clusterPodNames [] = Ret []"
| "clusterPodNames (n # ns) =
     thenGo (extractPodName (n4_Node n)) (\<lambda>podName.
     thenGo (clusterPodNames ns) (\<lambda>podNames. Ret (podName # podNames)))"

definition checkRebalanceStatus4 ::
  "('w, 'c) env \<Rightarrow> Requester option \<Rightarrow> pod \<Rightarrow> ('w, (goerr + conditionStatus) go) op" where
  "checkRebalanceStatus4 E r p =
     (case r of
        None \<Rightarrow> ret Panic
      | Some rq \<Rightarrow>
          let requester = \<lparr>rq_Schema = [], rq_Host = pod_PodIP p @ '':8081'',
                           rq_Username = rq_Username rq, rq_Password = rq_Password rq\<rparr>
          in do {
            resp \<leftarrow> Request E requester ''GET''
                      (GetURL requester ''api/v4/load_rebalance/availability_check'' []) JNull [];
            ret (Ret (case resp of
                        Inl err \<Rightarrow> Inl (ErrWrap (''failed to check availability for pod/'' @
                                          om_Name (pod_meta p)) err)
                      | Inr rp \<Rightarrow>
                          Inr (if resp_StatusCode rp \<noteq> 200 then ConditionFalse else ConditionTrue))) })"

definition serving4 ::
  "('w, 'c) env \<Rightarrow> Requester option \<Rightarrow> Emqx \<Rightarrow> pod \<Rightarrow> ('w, (goerr + conditionStatus) go) op" where
  "serving4 E r instance p =
     (if isEnterprise instance then checkRebalanceStatus4 E r p else ret (Ret (Inr ConditionTrue)))"

fun podConditionLoop4 ::
  "('w, 'c) env \<Rightarrow> Requester option \<Rightarrow> Emqx \<Rightarrow> string list \<Rightarrow> pod list \<Rightarrow> ('w, goerr option go) op" where
  "podConditionLoop4 E r instance clusterPods [] = ret (Ret None)"
| "podConditionLoop4 E r instance clusterPods (p # ps) =
     (if om_Name (pod_meta p) \<notin> set clusterPods \<or>
         (case lastCondition p ''ContainersReady'' of None \<Rightarrow> True | Some c \<Rightarrow> pc_Status c \<noteq> ConditionTrue)
      then podConditionLoop4 E r instance clusterPods ps
      else do {
        now \<leftarrow> timeNow E;
        bindGo (serving4 E r instance p) (\<lambda>got. case got of
          Inl err \<Rightarrow> ret (Ret (Some err))
        | Inr status \<Rightarrow> do {
            err \<leftarrow> patchPodStatus E p
              \<lparr>pc_Type = PodOnServing, pc_Status = status,
               pc_LastTransitionTime = (case lastCondition p PodOnServing of
                                          None \<Rightarrow> now | Some c \<Rightarrow> pc_LastTransitionTime c)\<rparr>;
            (case err of
               Some e \<Rightarrow> ret (Ret (Some (ErrWrap ''failed to patch pod conditions'' e)))
             | None \<Rightarrow> podConditionLoop4 E r instance clusterPods ps) }) })"

definition updatePodConditions4 :: "('w, 'c) handler4" where
  "updatePodConditions4 E requester instance _ = do {
     pods \<leftarrow> listPods E (om_Namespace (emqxMeta instance))
               (om_Labels (et_meta (sp4_Template (GetSpec instance))));
     (case clusterPodNames (st4_EmqxNodes (GetStatus instance)) of
        Panic \<Rightarrow> ret Panic
      | Ret clusterPods \<Rightarrow>
          bindGo (podConditionLoop4 E requester instance clusterPods pods) (\<lambda>err.
            ret (Ret (case err of None \<Rightarrow> (sub4, instance) | Some e \<Rightarrow> (sub4_err e, instance))))) }"

section \<open>Do\<close>

definition newRequesterBySvc :: "('w, 'c) env \<Rightarrow> Emqx \<Rightarrow> ('w, goerr + Requester) op" where
  "newRequesterBySvc E instance = do {
     user \<leftarrow> getBootstrapUser E (emqxMeta instance);
     ret (case user of
            Inl err \<Rightarrow> Inl err
          | Inr (username, password) \<Rightarrow>
              Inr \<lparr>rq_Schema = [],
                   rq_Host = HeadlessSvc (emqxMeta instance) @ ''.'' @ om_Namespace (emqxMeta instance) @
                     ''.svc.'' @ sp4_ClusterDomain (GetSpec instance) @ '':8081'',
                   rq_Username = username, rq_Password = password\<rparr>) }"

definition processResult :: "subResult4 \<Rightarrow> ('w, ctrlResult \<times> goerr option) op" where
  "processResult r =
     (if s4_cont r then
        (case s4_err r of
           None \<Rightarrow> ret (zeroResult, None)
         | Some _ \<Rightarrow> do { _ \<leftarrow> recordEvent ''Warning'' ''ReconcileError''; ret (zeroResult, None) })
      else (case s4_err r of
              None \<Rightarrow> ret (s4_result r, None)
            | Some err \<Rightarrow>
                ret (if IsCommonError err then (requeueAfter second, None) else (s4_result r, Some err))))"

definition subReconcilers4 :: "('w, 'c) handler4 list" where
  "subReconcilers4 =
     [updateEmqxStatus, addEmqxBootstrapUser, addEmqxPlugins, addEmqxResources, addEmqxStatefulSet,
      addListener, updateEmqxStatus, updatePodConditions4]"

fun runSubReconcilers4 ::
  "('w, 'c) handler4 list \<Rightarrow> ('w, 'c) env \<Rightarrow> Requester option \<Rightarrow> Emqx \<Rightarrow> subArgs \<Rightarrow>
   ('w, (ctrlResult \<times> goerr option) go) op" where
  "runSubReconcilers4 [] E requester instance args = ret (Ret (requeueAfter (20 * second), None))"
| "runSubReconcilers4 (sub # subs) E requester instance args =
     bindGo (sub E requester instance args) (\<lambda>(r, instance'). do {
       (result, err) \<leftarrow> processResult r;
       if err \<noteq> None \<or> \<not> IsZero result then ret (Ret (result, err))
       else runSubReconcilers4 subs E requester instance' (s4_args r) })"

definition Do :: "('w, 'c) env \<Rightarrow> Emqx \<Rightarrow> ('w, (ctrlResult \<times> goerr option) go) op" where
  "Do E instance =
     (if om_DeletionTimestamp (emqxMeta instance) \<noteq> None then ret (Ret (zeroResult, None))
      else do {
        got \<leftarrow> newRequesterBySvc E instance;
        (case got of
           Inr requester \<Rightarrow> runSubReconcilers4 subReconcilers4 E (Some requester) instance ArgNone
         | Inl err \<Rightarrow>
             if IsNotFound (Cause err) then
               bindGo (addEmqxBootstrapUser E None instance ArgNone)
                 (\<lambda>_. ret (Ret (requeueAfter second, None)))
             else if \<not> IsCommonError err then
               ret (Ret (zeroResult, Some (ErrWrap ''failed to create request Pod API'' err)))
             else runSubReconcilers4 subReconcilers4 E None instance ArgNone) })"

definition ReconcileBroker ::
  "('w, 'c) env \<Rightarrow> string \<Rightarrow> string \<Rightarrow> ('w, (ctrlResult \<times> goerr option) go) op" where
  "ReconcileBroker E namespace name = do {
     got \<leftarrow> getBroker E namespace name;
     (case got of
        Inl err \<Rightarrow> ret (Ret (zeroResult, if IsNotFound err then None else Some err))
      | Inr instance \<Rightarrow> Do E (Broker instance)) }"

definition ReconcileEnterprise ::
  "('w, 'c) env \<Rightarrow> string \<Rightarrow> string \<Rightarrow> ('w, (ctrlResult \<times> goerr option) go) op" where
  "ReconcileEnterprise E namespace name = do {
     got \<leftarrow> getEnterprise E namespace name;
     (case got of
        Inl err \<Rightarrow> ret (Ret (zeroResult, if IsNotFound err then None else Some err))
      | Inr instance \<Rightarrow> Do E (Enterprise instance)) }"

section \<open>Lemmas: the contract of the sub-reconcilers\<close>

lemma only_createOrUpdateShared [only_intros]:
  "list_all (creatable \<circ> snd) obs \<Longrightarrow> onlyCalls (writeOk4 E) (createOrUpdateShared E m a obs)"
proof (induction obs arbitrary: a)
  case (Cons ob obs)
  then show ?case
    by (cases ob) (auto simp only: createOrUpdateShared.simps Let_def list.pred_inject comp_apply snd_conv
      creatable_setObjMeta split: if_splits intro!: only_intros)
qed (simp add: only_return)

lemma only_getOrCreate [only_intros]: "creatable ob \<Longrightarrow> onlyCalls (writeOk4 E) (getOrCreate E x ob)"
  unfolding getOrCreate_def getObj_def by (intro only_intros; simp)

lemma only_getOrCreateAll [only_intros]:
  "list_all creatable obs \<Longrightarrow> onlyCalls (writeOk4 E) (getOrCreateAll E x obs)"
  by (induction obs) (auto intro!: only_intros)

lemma only_podConditionLoop4 [only_intros]:
  "onlyCalls (writeOk4 E) (podConditionLoop4 E r x names ps)"
proof (induction ps)
  case (Cons p ps)
  then show ?case
    unfolding podConditionLoop4.simps serving4_def checkRebalanceStatus4_def Request_def call_defs
    by (intro only_intros; simp)
qed (simp add: only_return)

interpretation updateEmqxStatus_contract: sub_reconciler4 updateEmqxStatus
  by unfold_locales
    (unfold updateEmqxStatus_def updateReadyReplicas_def getNodeStatusesByAPI_def updateCondition_def
       startBlueGreen_def getEvacuationStatusByAPI_def call_defs, intro only_intros; simp split: sum.splits)

interpretation addEmqxBootstrapUser_contract: sub_reconciler4 addEmqxBootstrapUser
  by unfold_locales
    (unfold addEmqxBootstrapUser_def generateBootstrapUserSecret_def generatePassword_def,
      intro only_intros; simp split: sum.splits)

interpretation addEmqxPlugins_contract: sub_reconciler4 addEmqxPlugins
  by unfold_locales
    (unfold addEmqxPlugins_def getInitPluginList_def listPlugins_def,
      intro only_intros; simp add: list.pred_map comp_def list_all_iff split: sum.splits)

interpretation addEmqxResources_contract: sub_reconciler4 addEmqxResources
  by unfold_locales
    (unfold addEmqxResources_def getLicense_def getSecret_def,
      intro only_intros; simp split: go.splits option.splits prod.splits)

interpretation addListener_contract: sub_reconciler4 addListener
  by unfold_locales
    (unfold addListener_def getListenerPortsByAPI_def listPods_def,
      intro only_intros; simp split: option.splits)

interpretation updatePodConditions4_contract: sub_reconciler4 updatePodConditions4
  by unfold_locales
    (unfold updatePodConditions4_def listPods_def, intro only_intros; simp split: option.splits)

context sub_reconciler4
begin

lemma run_Cons:
  assumes "\<And>y b. only (writeOk4 E) outcomeOk (runSubReconcilers4 subs E r y b)"
  shows "only (writeOk4 E) outcomeOk (runSubReconcilers4 (sub # subs) E r x a)"
proof -
  have follow: "only (writeOk4 E) outcomeOk (do {
      (result, err) \<leftarrow> processResult res;
      if err \<noteq> None \<or> \<not> IsZero result then ret (Ret (result, err))
      else runSubReconcilers4 subs E r y (s4_args res) })" if "resultOk4 (Ret (res, y))" for res y
  proof (rule only_bind_result[where S = "\<lambda>(result, err). \<not> cr_Requeue result \<and>
      cr_RequeueAfter result \<ge> 0 \<and> (err = None \<or> result = zeroResult)"])
    show "only (writeOk4 E) (\<lambda>(result, err). \<not> cr_Requeue result \<and> cr_RequeueAfter result \<ge> 0 \<and>
        (err = None \<or> result = zeroResult)) (processResult res)"
      using that unfolding processResult_def recordEvent_def
      by (intro only_intros) (auto simp: resultOk4_def zeroResult_def requeueAfter_def second_def nanosPerSecond_def)
    fix p :: "ctrlResult \<times> goerr option"
    assume "case p of (result, err) \<Rightarrow> \<not> cr_Requeue result \<and> cr_RequeueAfter result \<ge> 0 \<and>
      (err = None \<or> result = zeroResult)"
    then show "only (writeOk4 E) outcomeOk (case p of (result, err) \<Rightarrow>
        if err \<noteq> None \<or> \<not> IsZero result then ret (Ret (result, err))
        else runSubReconcilers4 subs E r y (s4_args res))"
      by (cases p) (auto intro!: only_intros assms simp: outcomeOk_def IsZero_def split: option.splits)
  qed
  show ?thesis unfolding runSubReconcilers4.simps
    by (rule only_bindGo_result[OF law]) (simp only: split_paired_all prod.case follow, simp)
qed

end

lemmas run4_Cons_rules = updateEmqxStatus_contract.run_Cons addEmqxBootstrapUser_contract.run_Cons
  addEmqxPlugins_contract.run_Cons addEmqxResources_contract.run_Cons
  addEmqxStatefulSet_contract.run_Cons addListener_contract.run_Cons
  updatePodConditions4_contract.run_Cons

lemma only_subReconcilers4: "only (writeOk4 E) outcomeOk (runSubReconcilers4 subReconcilers4 E r x a)"
  unfolding subReconcilers4_def
  by (intro run4_Cons_rules)
    (auto intro!: only_return simp: outcomeOk_def requeueAfter_def second_def nanosPerSecond_def)

end
