(* ===== verification/V4_Examples.thy ===== *)
theory V4_Examples
  imports V4_Controller Examples
begin

text \<open>
  A concrete \<open>EmqxEnterprise\<close>, its StatefulSets and an environment that answers for them, on which
  the properties of the v1beta4 controllers are run.
\<close>

definition ex4Container :: EmqxContainer where
  "ex4Container =
     \<lparr>ec_Image = \<lparr>im_Registry = [], im_Repository = ''emqx/emqx-ee'', im_Version = ''4.4.19'',
        im_Prefix = [], im_Suffix = [], im_PullPolicy = []\<rparr>,
      ec_Command = [], ec_Args = [], ec_WorkingDir = [], ec_Ports = [], ec_EnvFrom = [],
      ec_Env = [Workloads.env ''EMQX_NAME'' ''user''], ec_Resources = JNull,
      ec_VolumeMounts = [dataMount ''mine''], ec_VolumeDevices = [], ec_LivenessProbe = None,
      ec_ReadinessProbe = None, ec_StartupProbe = None, ec_Lifecycle = None,
      ec_TerminationMessagePath = [], ec_TerminationMessagePolicy = [], ec_SecurityContext = None,
      ec_Stdin = False, ec_StdinOnce = False, ec_TTY = False,
      ec_EmqxConfig = Some [(''name'', ''emqx''), (''cluster.dns.name'', ''svc'')],
      ec_EmqxACL = [], ec_BootstrapAPIKeys = None\<rparr>"

definition ex4Template :: EmqxTemplate where
  "ex4Template =
     \<lparr>et_meta = (exMeta ''emqx'')\<lparr>om_Labels := exLabels ''emqx''\<rparr>,
      et_Spec = \<lparr>ts_ServiceAccountName = [], ts_ReloaderImage = [], ts_ImagePullSecrets = [],
        ts_EmqxContainer = ex4Container, ts_ExtraContainers = [], ts_InitContainers = [],
        ts_EphemeralContainers = [], ts_Volumes = [], ts_PodSecurityContext = None,
        ts_NodeSelector = None, ts_NodeName = [], ts_Affinity = None, ts_Tolerations = []\<rparr>\<rparr>"

definition ex4Spec :: EmqxEnterpriseSpec where
  "ex4Spec =
     \<lparr>sp4_Replicas = Some 2, sp4_ClusterDomain = ''cluster.local'', sp4_Persistent = None,
      sp4_Template = ex4Template,
      sp4_ServiceTemplate = \<lparr>st4_meta = exMeta ''emqx-listeners'', st4_Spec = emptyServiceSpec\<rparr>,
      sp4_License = \<lparr>li_Data = None, li_StringData = [], li_SecretName = []\<rparr>,
      sp4_EmqxBlueGreenUpdate = Some \<lparr>bg_InitialDelaySeconds = 0,
        bg_EvacuationStrategy = \<lparr>es_WaitTakeover = 0, es_ConnEvictRate = 10, es_SessEvictRate = 10\<rparr>\<rparr>\<rparr>"

definition ex4Enterprise :: EmqxEnterprise where
  "ex4Enterprise =
     \<lparr>en_meta = (exMeta ''emqx'')\<lparr>om_Labels := exLabels ''emqx''\<rparr>, en_Spec = ex4Spec,
      en_Status = \<lparr>st4_Conditions = [], st4_EmqxNodes = [], st4_Replicas = 2, st4_ReadyReplicas = 2,
        st4_CurrentStatefulSetVersion = [], st4_EmqxBlueGreenUpdateStatus = None\<rparr>\<rparr>"

definition ex4Requester :: Requester where
  "ex4Requester = \<lparr>rq_Schema = [], rq_Host = ''emqx-headless:8081'', rq_Username = ''user'', rq_Password = ''pw''\<rparr>"

text \<open>The EMQX API is not reachable.\<close>

definition ex4Down :: "exCluster \<Rightarrow> (time, unit) env" where
  "ex4Down C = (exEnv C)\<lparr>w_do := (\<lambda>_ w. (Inl ErrEOF, w))\<rparr>"

end
