(* ===== verification/V4_Properties.thy ===== *)
theory V4_Properties
  imports V4_Examples
begin

text \<open>
  The properties of the v1beta4 controllers: what a blue-green update may take from the origin set,
  the hand-over between the sub-reconcilers, the outcome of a reconcile, and the objects they
  generate.
\<close>

section \<open>The origin set\<close>

lemma newest_pod_first:
  assumes "go_sort PodsByNameNewer pods = p # ps"
  shows "p \<in> set pods" "q \<in> set pods \<Longrightarrow> om_Name (pod_meta q) \<le> om_Name (pod_meta p)"
proof -
  show "p \<in> set pods" using assms by (metis list.set_intros(1) set_go_sort)
  assume "q \<in> set pods"
  from podNameNewer.go_sort_hd_least[OF this] show "om_Name (pod_meta q) \<le> om_Name (pod_meta p)"
    unfolding assms by (auto simp: PodsByNameNewer_def split: if_splits)
qed

lemma podsOf_mem:
  "p \<in> set (podsOf (podsBySts sets pods) s) \<longleftrightarrow>
     p \<in> set pods \<and> om_controller (pod_meta p) = Some (om_UID (sts_meta s)) \<and>
     om_UID (sts_meta s) \<in> (\<lambda>s. om_UID (sts_meta s)) ` set sets"
  by (auto simp: podsOf_def podsBySts_def Let_def podMapLoop_lookup foldl_upd_empty split: if_splits)

text \<open>
  A node that is done: nothing is connected to it, it holds no session and takes none, and its pod is
  \<open>p\<close>.
\<close>

definition nodeDrained :: "EmqxEvacuationStatus list \<Rightarrow> pod \<Rightarrow> bool" where
  "nodeDrained es p \<longleftrightarrow>
     (\<exists>e \<in> set es. evs_CurrentConnected (ev4_Stats e) = Some 0 \<and>
        evs_CurrentSessions (ev4_Stats e) = Some 0 \<and> ev4_State e = ''prohibiting'' \<and>
        extractPodName (ev4_Node e) = Ret (om_Name (pod_meta p)))"

lemma canBeScaledDownLoop_Some:
  "canBeScaledDownLoop x origin podMap es = Ret (Some p) \<Longrightarrow>
   nodeDrained es p \<and> (\<exists>ps. go_sort PodsByNameNewer (podsOf podMap origin) = p # ps)"
  by (induction es)
    (auto simp: nodeDrained_def split: option.splits if_splits go.splits list.splits)

text \<open>What justifies taking a node from the origin set, in terms of the answers of a run.\<close>

definition newestPodOf :: "pod list \<Rightarrow> statefulSet \<Rightarrow> pod \<Rightarrow> bool" where
  "newestPodOf pods s p \<longleftrightarrow>
     p \<in> set pods \<and> om_controller (pod_meta p) = Some (om_UID (sts_meta s)) \<and>
     (\<forall>q \<in> set pods. om_controller (pod_meta q) = Some (om_UID (sts_meta s)) \<longrightarrow>
        om_Name (pod_meta q) \<le> om_Name (pod_meta p))"

definition mayShrink :: "EmqxBlueGreenUpdateStatus \<Rightarrow> statefulSet \<Rightarrow> call list \<Rightarrow> bool" where
  "mayShrink st origin l \<longleftrightarrow>
     evacuationUnknown st \<or>
     (\<exists>ns labels pods p. TListPodsE ns labels (Inr pods) \<in> set l \<and> newestPodOf pods origin p \<and>
        nodeDrained (evacuationsOf st) p)"

definition shrunkBy1 :: "statefulSet \<Rightarrow> call list \<Rightarrow> call \<Rightarrow> bool" where
  "shrunkBy1 origin l c \<longleftrightarrow>
     (\<exists>s r e. c = TUpdate (OStatefulSet (s\<lparr>sts_Replicas := Some (int32 (r - 1))\<rparr>)) e \<and>
        sts_Replicas origin = Some r \<and>
        (s = origin \<or>
         TGetSts (om_Namespace (sts_meta origin)) (om_Name (sts_meta origin)) (Inr s) \<in> set l))"

lemma obeys_canBeScaledDown:
  assumes "podMap = podsBySts sets pods"
  shows "obeys (canBeScaledDown x st origin podMap)
    (\<lambda>res l. filter k8sWrite l = [] \<and>
      (res = Ret True \<longrightarrow> evacuationUnknown st \<or>
        (\<exists>p. newestPodOf pods origin p \<and> nodeDrained (evacuationsOf st) p)))"
proof -
  have "\<exists>p. newestPodOf pods origin p \<and> nodeDrained (evacuationsOf st) p"
    if "canBeScaledDownLoop x origin podMap (evacuationsOf st) = Ret (Some p)" for p
  proof -
    from canBeScaledDownLoop_Some[OF that] obtain ps
      where p: "nodeDrained (evacuationsOf st) p"
        "go_sort PodsByNameNewer (podsOf podMap origin) = p # ps" by blast
    note newest = newest_pod_first[OF p(2)]
    have "newestPodOf pods origin p"
      using newest(1) newest(2) unfolding newestPodOf_def assms podsOf_mem by blast
    with p show ?thesis by blast
  qed
  then show ?thesis
    unfolding canBeScaledDown_def call_defs by (intro obeys_intros) auto
qed

lemma obeys_scaleDownOrigin:
  "obeys (scaleDownOrigin E origin)
    (\<lambda>res l. filter k8sWrite l = [] \<or> (\<exists>c. filter k8sWrite l = [c] \<and> shrunkBy1 origin l c))"
  unfolding scaleDownOrigin_def call_defs by (intro obeys_intros) (auto simp: shrunkBy1_def)

text \<open>
  The property: at most one write, and only to take one node from the origin set, when that is
  justified.
\<close>

definition originLaw :: "EmqxEnterprise \<Rightarrow> EmqxBlueGreenUpdateStatus \<Rightarrow> call list \<Rightarrow> bool" where
  "originLaw x st l \<longleftrightarrow>
     filter k8sWrite l = [] \<or>
     (\<exists>c origin. filter k8sWrite l = [c] \<and> shrunkBy1 origin l c \<and> mayShrink st origin l \<and>
        TGetSts (om_Namespace (en_meta x)) (bgs_OriginStatefulSet st) (Inr origin) \<in> set l)"

lemma originLaw_reads: "filter k8sWrite l = [] \<Longrightarrow> originLaw x st l"
  by (simp add: originLaw_def)

lemma shrunkBy1_mono: "shrunkBy1 origin l c \<Longrightarrow> set l \<subseteq> set l' \<Longrightarrow> shrunkBy1 origin l' c"
  unfolding shrunkBy1_def by blast

lemma mayShrink_mono: "mayShrink st origin l \<Longrightarrow> set l \<subseteq> set l' \<Longrightarrow> mayShrink st origin l'"
  unfolding mayShrink_def by blast

lemma obeys_shrinkOrigin:
  assumes "podMap = podsBySts sets pods"
  shows "obeys (bindGo (canBeScaledDown x st origin podMap) (\<lambda>down.
      bindGo (if down then scaleDownOrigin E origin else ret (Ret None)) (\<lambda>err.
        case err of Some e \<Rightarrow> ret (Ret (Some e))
        | None \<Rightarrow> evacuateNext E rq x st origin current podMap)))
    (\<lambda>res l. filter k8sWrite l = [] \<or>
      (\<exists>c. filter k8sWrite l = [c] \<and> shrunkBy1 origin l c \<and>
        (evacuationUnknown st \<or>
          (\<exists>p. newestPodOf pods origin p \<and> nodeDrained (evacuationsOf st) p))))"
  (is "obeys _ (\<lambda>res l. ?none l \<or> (\<exists>c. ?one l c \<and> shrunkBy1 origin l c \<and> ?may))")
proof (rule obeys_bindGo[OF obeys_canBeScaledDown[OF assms]], goal_cases)
  case (1 down l)
  note down = this
  have tail: "obeys (case err of Some e \<Rightarrow> ret (Ret (Some e))
      | None \<Rightarrow> evacuateNext E rq x st origin current podMap) (\<lambda>res l'. ?none l')" for err
    by (intro obeys_case_option obeys_return reads_only only_intros) simp
  show ?case
  proof (cases down)
    case True
    then have may: ?may using down by blast
    show ?thesis unfolding if_P[OF True]
    proof (rule obeys_bindGo[OF obeys_scaleDownOrigin], goal_cases)
      case (1 err k)
      show ?case
      proof (rule obeys_mono[OF tail], goal_cases)
        case (1 res l')
        have sub: "set k \<subseteq> set (l @ k @ l')" by auto
        from 1 \<open>?none k \<or> _\<close> show ?case
          using down may shrunkBy1_mono[OF _ sub] by auto
      qed
    next
      case (2 k)
      then show ?case using down may shrunkBy1_mono[of origin k _ "l @ k"] by auto
    qed
  next
    case False
    then have "obeys (bindGo (ret (Ret None)) (\<lambda>err. case err of Some e \<Rightarrow> ret (Ret (Some e))
        | None \<Rightarrow> evacuateNext E rq x st origin current podMap)) (\<lambda>res l'. ?none l')"
      by (simp add: bindGo_def State_Monad.bind_left_identity reads_only only_intros)
    then show ?thesis using False down by (auto elim!: obeys_mono)
  qed
qed auto

lemma obeys_bind_getPodMap:
  assumes "\<And>e. obeys (k (Inl e))
      (\<lambda>y l. P y (TListPodsE (om_Namespace (emqxMeta x)) (om_Labels (emqxMeta x)) (Inl e) # l))"
    and "\<And>pods. obeys (k (Inr (podsBySts sets pods)))
      (\<lambda>y l. P y (TListPodsE (om_Namespace (emqxMeta x)) (om_Labels (emqxMeta x)) (Inr pods) # l))"
  shows "obeys (State_Monad.bind (getPodMap E x sets) k) P"
  unfolding getPodMap_def listPodsE_def State_Monad.bind_assoc State_Monad.bind_left_identity
proof (rule obeys_bind_prim)
  fix a :: "goerr + pod list"
  show "obeys (k (case a of Inl err \<Rightarrow> Inl err | Inr pods \<Rightarrow> Inr (podsBySts sets pods)))
      (\<lambda>y l. P y (TListPodsE (om_Namespace (emqxMeta x)) (om_Labels (emqxMeta x)) a # l))"
    using assms by (cases a) simp_all
qed

lemma originLaw_shrink:
  assumes "filter k8sWrite l = []" "filter k8sWrite l' = [] \<or>
      (\<exists>c. filter k8sWrite l' = [c] \<and> shrunkBy1 origin l' c \<and>
        (evacuationUnknown st \<or>
          (\<exists>p. newestPodOf pods origin p \<and> nodeDrained (evacuationsOf st) p)))"
    and "TListPodsE ns labels (Inr pods) \<in> set l"
    and "TGetSts (om_Namespace (en_meta x)) (bgs_OriginStatefulSet st) (Inr origin) \<in> set l"
  shows "originLaw x st (l @ l')"
  using assms(2)
proof
  assume "filter k8sWrite l' = []"
  with assms(1) show ?thesis by (simp add: originLaw_reads)
next
  assume "\<exists>c. filter k8sWrite l' = [c] \<and> shrunkBy1 origin l' c \<and>
    (evacuationUnknown st \<or> (\<exists>p. newestPodOf pods origin p \<and> nodeDrained (evacuationsOf st) p))"
  then obtain c where c: "filter k8sWrite l' = [c]" "shrunkBy1 origin l' c"
    and may: "evacuationUnknown st \<or> (\<exists>p. newestPodOf pods origin p \<and> nodeDrained (evacuationsOf st) p)"
    by blast
  have "mayShrink st origin l" using may assms(3) unfolding mayShrink_def by blast
  then have "mayShrink st origin (l @ l')" "shrunkBy1 origin (l @ l') c"
    using mayShrink_mono[of st origin l "l @ l'"] shrunkBy1_mono[OF c(2), of "l @ l'"] by simp_all
  with c assms(1,4) show ?thesis
    unfolding originLaw_def by (intro disjI2 exI[of _ c] exI[of _ origin]) simp
qed


section \<open>Outcomes\<close>



section \<open>A failed evacuation query\<close>

text \<open>After an error, the resource in memory lets the next step take a node whatever its state.\<close>

definition nodeForfeited :: "(goerr option \<times> Emqx) go \<Rightarrow> bool" where
  "nodeForfeited res = (case res of
     Ret (Some err, Enterprise y) \<Rightarrow>
       (\<exists>st. st4_EmqxBlueGreenUpdateStatus (en_Status y) = Some st \<and>
          (\<forall>origin podMap. canBeScaledDown (Enterprise y) st origin podMap =
             (ret (Ret True) :: (unit, bool go) op)))
   | _ \<Rightarrow> True)"

lemma nodeForfeitedI:
  "evacuationUnknown st \<Longrightarrow> nodeForfeited (Ret (eo, Enterprise (setBlueGreen st x)))"
  by (cases eo) (auto simp: nodeForfeited_def setBlueGreen_def canBeScaledDown_def)



section \<open>The hand-over between sub-reconcilers\<close>

definition continues :: "subResult4 \<Rightarrow> bool" where
  "continues r \<longleftrightarrow> s4_cont r \<or> s4_err r = None \<and> IsZero (s4_result r)"

definition handsOver :: "(subArgs \<Rightarrow> bool) \<Rightarrow> (subResult4 \<times> Emqx) go \<Rightarrow> bool" where
  "handsOver fits res = (case res of Panic \<Rightarrow> True | Ret (r, _) \<Rightarrow> continues r \<longrightarrow> fits (s4_args r))"

lemma handsOver_simps [simp]:
  "handsOver fits Panic" "handsOver fits (Ret (sub4_err e, x))"
  "handsOver fits (Ret (sub4\<lparr>s4_args := a\<rparr>, x)) = fits a"
  by (simp_all add: handsOver_def continues_def sub4_def sub4_err_def)

text \<open>
  C28. The sub-reconcilers pass their results on as values of type \<open>any\<close>, and the next one asserts a
  type. Whenever the loop goes on, the assertion holds: the bootstrap user is an object,
  \<open>addEmqxPlugins\<close> given an object hands on a list that ends with it, and \<open>addEmqxResources\<close> given a
  list hands on a StatefulSet.
\<close>

theorem handed_arguments_fit:
  "only (writeOk4 E) (handsOver (\<lambda>a. \<exists>ob. a = ArgObject ob)) (addEmqxBootstrapUser E r x b) \<and>
   only (writeOk4 E) (handsOver (\<lambda>a. \<exists>obs. a = ArgObjects (obs @ [ob])))
     (addEmqxPlugins E r x (ArgObject ob)) \<and>
   only (writeOk4 E) (handsOver (\<lambda>a. \<exists>s. a = ArgObject (OStatefulSet s)))
     (addEmqxResources E r x (ArgObjects obs))"
proof (intro conjI)
  show "only (writeOk4 E) (handsOver (\<lambda>a. \<exists>ob. a = ArgObject ob)) (addEmqxBootstrapUser E r x b)"
    unfolding addEmqxBootstrapUser_def generateBootstrapUserSecret_def generatePassword_def
    by (intro only_intros; simp split: sum.splits)
  show "only (writeOk4 E) (handsOver (\<lambda>a. \<exists>obs. a = ArgObjects (obs @ [ob])))
      (addEmqxPlugins E r x (ArgObject ob))"
    unfolding addEmqxPlugins_def getInitPluginList_def listPlugins_def
    by (intro only_intros; simp add: list.pred_map comp_def list_all_iff split: sum.splits)
  show "only (writeOk4 E) (handsOver (\<lambda>a. \<exists>s. a = ArgObject (OStatefulSet s)))
      (addEmqxResources E r x (ArgObjects obs))"
    unfolding addEmqxResources_def getLicense_def getSecret_def
    by (intro only_intros; simp split: go.splits option.splits prod.splits)
qed

section \<open>The name of a new set\<close>

lemma freeName_finds:
  assumes "\<And>i w. c \<le> i \<Longrightarrow> i < c + k \<Longrightarrow>
      \<exists>s w'. w_getSts E (om_Namespace (sts_meta sts)) (hashedName E sts (int i)) w = (Inr s, w')"
    and "\<And>w. \<exists>w'. w_getSts E (om_Namespace (sts_meta sts)) (hashedName E sts (int (c + k))) w =
      (Inl ErrNotFound, w')"
    and "k < n" "c + n < 2 ^ 31"
  shows "fst (run_state (freeName E sts n (int c)) s) = Ret (Inr (hashedName E sts (int (c + k))))"
  using assms
proof (induction n arbitrary: c k s)
  case (Suc n)
  show ?case
  proof (cases k)
    case 0
    with Suc.prems(2) obtain w' where
      "w_getSts E (om_Namespace (sts_meta sts)) (hashedName E sts (int c)) (world s) = (Inl ErrNotFound, w')"
      by fastforce
    then show ?thesis using 0 by (simp add: getSts_def prim_def run_bind IsNotFound_def)
  next
    case (Suc k')
    obtain s0 w' where got:
      "w_getSts E (om_Namespace (sts_meta sts)) (hashedName E sts (int c)) (world s) = (Inr s0, w')"
      using Suc.prems(1)[of c] Suc by fastforce
    have succ: "int32 (int c + 1) = int (Suc c)"
      using Suc.prems(4) by (subst int32_id) auto
    show ?thesis
      using got Suc.IH[of "Suc c" k'] Suc.prems Suc
      by (simp add: getSts_def prim_def run_bind succ)
  qed
qed simp



section \<open>The environment of a node\<close>

lemma hasEnv_append [simp]: "hasEnv n (xs @ ys) \<longleftrightarrow> hasEnv n xs \<or> hasEnv n ys"
  by (simp add: hasEnv_def)

lemma hasEnv_iff: "hasEnv n envs \<longleftrightarrow> n \<in> ev_Name ` set envs"
  by (auto simp: hasEnv_def list_ex_iff)

lemma addConfigEnvs_prefix: "\<exists>added. addConfigEnvs config envs = envs @ added"
proof (induction config envs rule: addConfigEnvs.induct)
  case (2 k v config envs)
  then show ?case
    by (cases "hasEnv (configEnvName k) envs") (fastforce simp: Let_def)+
qed simp

lemma addConfigEnvs_distinct:
  "distinct (map ev_Name envs) \<Longrightarrow> distinct (map ev_Name (addConfigEnvs config envs))"
  by (induction config envs rule: addConfigEnvs.induct)
    (auto simp: Let_def hasEnv_iff Workloads.env_def)

lemma addConfigEnvs_mem:
  assumes "e \<in> set (addConfigEnvs config envs)" "e \<notin> set envs"
  shows "\<exists>k v. (k, v) \<in> set config \<and> e = Workloads.env (configEnvName k) v \<and>
    \<not> hasEnv (configEnvName k) envs"
  using assms
proof (induction config envs rule: addConfigEnvs.induct)
  case (2 k v config envs)
  show ?case
  proof (cases "hasEnv (configEnvName k) envs")
    case True
    with 2 show ?thesis by (auto simp: Let_def)
  next
    case False
    show ?thesis
    proof (cases "e = Workloads.env (configEnvName k) v")
      case True
      with False show ?thesis by auto
    next
      case ne: False
      from 2(3) False have "e \<in> set (addConfigEnvs config (envs @ [Workloads.env (configEnvName k) v]))"
        by (simp add: Let_def)
      from 2(2)[OF refl False this] ne 2(4) show ?thesis by auto
    qed
  qed
qed simp

lemma addConfigEnvs_covers:
  "(k, v) \<in> set config \<Longrightarrow> hasEnv (configEnvName k) (addConfigEnvs config envs)"
proof (induction config envs rule: addConfigEnvs.induct)
  case (2 k' v' config envs)
  have "hasEnv n (addConfigEnvs config es)" if "hasEnv n es" for n es
    using addConfigEnvs_prefix[of config es] that by auto
  then show ?case
    using 2 by (auto simp: Let_def hasEnv_def Workloads.env_def)
qed simp

interpretation envOrder: go_less envNameLess
  unfolding envNameLess_def by unfold_locales auto

text \<open>
  The environment of the EMQX container: it is sorted by name, has no name twice, holds every
  variable the user set, and one variable for every configuration entry; a variable that is not the
  user's comes from an entry whose name the user did not set.
\<close>

theorem config_completes_user_env:
  assumes "distinct (map ev_Name (ec_Env (emqxContainerOf x)))"
  shows "let user = ec_Env (emqxContainerOf x); config = configEntries (emqxContainerOf x);
             envs = mergeEnvAndConfig x []
         in sorted (map ev_Name envs) \<and> distinct (map ev_Name envs) \<and> set user \<subseteq> set envs \<and>
            (\<forall>(k, v) \<in> set config. hasEnv (configEnvName k) envs) \<and>
            (\<forall>e \<in> set envs - set user. \<exists>k v. (k, v) \<in> set config \<and>
               e = Workloads.env (configEnvName k) v \<and> \<not> hasEnv (configEnvName k) user)"
proof -
  let ?user = "ec_Env (emqxContainerOf x)" and ?config = "configEntries (emqxContainerOf x)"
  let ?all = "addConfigEnvs ?config ?user" and ?envs = "mergeEnvAndConfig x []"
  have envs: "?envs = go_sort envNameLess ?all" by (simp add: mergeEnvAndConfig_def Let_def)
  have set: "set ?envs = set ?all" unfolding envs by (rule set_go_sort)
  have "sorted_wrt (\<lambda>a b. \<not> envNameLess b a) ?envs" unfolding envs by (rule envOrder.go_sort_sorted)
  then have "sorted (map ev_Name ?envs)"
    unfolding envNameLess_def by (simp add: sorted_map not_less)
  moreover have "mset (map ev_Name ?envs) = mset (map ev_Name ?all)"
    unfolding envs by (simp add: mset_go_sort)
  then have "distinct (map ev_Name ?envs)"
    using addConfigEnvs_distinct[OF assms, of ?config] mset_eq_imp_distinct_iff by blast
  moreover have "set ?user \<subseteq> set ?envs"
    unfolding set using addConfigEnvs_prefix[of ?config ?user] by auto
  moreover have "hasEnv (configEnvName k) ?envs" if "(k, v) \<in> set ?config" for k v
    using addConfigEnvs_covers[OF that, of ?user] by (simp add: hasEnv_iff set)
  moreover have "\<exists>k v. (k, v) \<in> set ?config \<and> e = Workloads.env (configEnvName k) v \<and>
      \<not> hasEnv (configEnvName k) ?user" if "e \<in> set ?envs - set ?user" for e
    using that unfolding set by (auto dest: addConfigEnvs_mem)
  ultimately show ?thesis unfolding Let_def by blast
qed

theorem config_completes_user_env_witness:
  "distinct (map ev_Name (mergeEnvAndConfig (Enterprise ex4Enterprise) [])) \<and>
   hasEnv (configEnvName ''cluster.dns.name'') (mergeEnvAndConfig (Enterprise ex4Enterprise) []) \<and>
   Workloads.env ''EMQX_NAME'' ''user'' \<in> set (mergeEnvAndConfig (Enterprise ex4Enterprise) [])"
proof -
  have c: "emqxContainerOf (Enterprise ex4Enterprise) = ex4Container"
    by (simp add: emqxContainerOf_def ex4Enterprise_def ex4Spec_def ex4Template_def EmqxBrokerSpec.defs)
  have "distinct (map ev_Name (ec_Env (emqxContainerOf (Enterprise ex4Enterprise))))"
    unfolding c by (simp add: ex4Container_def)
  from config_completes_user_env[OF this] show ?thesis
    unfolding Let_def c by (simp add: ex4Container_def configEntries_def)
qed

section \<open>The volumes of a node\<close>

text \<open>
  Every mount of the EMQX and the reloader container that is not the user's has a volume of the pod
  or a claim template of its name.
\<close>

definition volumeNames :: "statefulSet \<Rightarrow> string set" where
  "volumeNames sts = vol_Name ` set (ps_Volumes (pt_spec (sts_Template sts))) \<union>
     (\<lambda>c. om_Name (pvc_meta c)) ` set (sts_VolumeClaimTemplates sts)"

definition mountsBacked :: "volumeMount list \<Rightarrow> statefulSet \<Rightarrow> bool" where
  "mountsBacked user sts = (case ps_Containers (pt_spec (sts_Template sts)) of
     c0 # c1 # _ \<Rightarrow> \<forall>m \<in> set (c_VolumeMounts c0) \<union> set (c_VolumeMounts c1).
                      m \<in> set user \<or> vm_Name m \<in> volumeNames sts
   | _ \<Rightarrow> False)"

definition nodeEnv :: "string \<Rightarrow> statefulSet \<Rightarrow> bool" where
  "nodeEnv name sts = (case ps_Containers (pt_spec (sts_Template sts)) of
     c0 # _ \<Rightarrow> hasEnv name (c_Env c0) | [] \<Rightarrow> False)"

text \<open>One mounted object: the step succeeds, sets its variable and keeps the others.\<close>

definition mounted :: "volumeMount list \<Rightarrow> string \<Rightarrow> statefulSet \<Rightarrow> statefulSet go \<Rightarrow> bool" where
  "mounted user name sts res \<longleftrightarrow>
     (\<exists>sts'. res = Ret sts' \<and> mountsBacked user sts' \<and> nodeEnv name sts' \<and>
        (\<forall>n. nodeEnv n sts \<longrightarrow> nodeEnv n sts'))"

lemma update_mounted:
  assumes "mountsBacked user sts" "vm_Name m = vol_Name v" "ev_Name e = name"
  shows "mounted user name sts (updateEnvAndVolumeForSts sts e m v)"
proof -
  from assms(1) obtain c0 c1 cs where cs: "ps_Containers (pt_spec (sts_Template sts)) = c0 # c1 # cs"
    and ok: "\<And>m. m \<in> set (c_VolumeMounts c0) \<union> set (c_VolumeMounts c1) \<Longrightarrow>
      m \<in> set user \<or> vm_Name m \<in> volumeNames sts"
    unfolding mountsBacked_def by (auto split: list.splits)
  define vs where "vs = ps_Volumes (pt_spec (sts_Template sts))"
  define vs' where "vs' = (if hasVolume (vol_Name v) vs then vs else vs @ [v])"
  have vs': "vol_Name ` set vs' = insert (vol_Name v) (vol_Name ` set vs)"
    by (auto simp: vs'_def hasVolume_def list_ex_iff intro: rev_image_eqI)
  let ?mnt = "if hasMount (vm_Name m) c0 then id else addMount m"
  let ?ev = "if hasEnv (ev_Name e) (c_Env c0) then id else addEnvVar e"
  define sts' where "sts' = sts\<lparr>sts_Template := (sts_Template sts)\<lparr>pt_spec := (pt_spec (sts_Template sts))
    \<lparr>ps_Volumes := vs', ps_Containers := ?ev (?mnt c0) # ?ev (?mnt c1) # cs\<rparr>\<rparr>\<rparr>"
  have "updateEnvAndVolumeForSts sts e m v = Ret sts'"
    by (simp add: updateEnvAndVolumeForSts_def cs sts'_def vs'_def vs_def Let_def)
  moreover have names: "volumeNames sts' = insert (vol_Name v) (volumeNames sts)"
    by (auto simp: volumeNames_def sts'_def vs' vs_def)
  have "mountsBacked user sts'"
    using ok unfolding mountsBacked_def names
    by (auto simp: sts'_def addMount_def addEnvVar_def assms(2))
  moreover have "nodeEnv name sts'"
    by (auto simp: nodeEnv_def sts'_def addMount_def addEnvVar_def assms(3)) (auto simp: hasEnv_def assms(3))
  moreover have "nodeEnv n sts'" if "nodeEnv n sts" for n
    using that by (auto simp: nodeEnv_def sts'_def cs addMount_def addEnvVar_def)
  ultimately show ?thesis unfolding mounted_def by blast
qed

lemma mounted_objects:
  assumes "mountsBacked user sts"
  shows "mounted user ''EMQX_ACL_FILE'' sts (updateStatefulSetForACL sts acl)"
    "mounted user ''EMQX_LICENSE__FILE'' sts (updateStatefulSetForLicense first sts (Some s))"
    "mounted user ''EMQX_MANAGEMENT__BOOTSTRAP_APPS_FILE'' sts (updateStatefulSetForBootstrapUser sts s)"
    "mounted user ''EMQX_PLUGINS__ETC_DIR'' sts (updateStatefulSetForPluginsConfig sts c)"
  unfolding updateStatefulSetForACL_def updateStatefulSetForLicense_def
    updateStatefulSetForBootstrapUser_def updateStatefulSetForPluginsConfig_def Let_def option.case
  by (rule update_mounted[OF assms]; simp add: Workloads.env_def)+

lemma generated_backed:
  "mountsBacked (ec_VolumeMounts (emqxContainerOf x)) (generateStatefulSet4 x)"
  by (auto simp: mountsBacked_def generateStatefulSet4_def addDataVolume_def emqxPodTemplate_def
      emqxContainers_def emqxContainer_def reloaderContainer_def emptyContainer_def volumeNames_def
      logMount_def dataMount_def Let_def split: option.splits)

text \<open>The objects handed on by \<open>addEmqxPlugins\<close> have the types that go with their names.\<close>

definition initOk :: "objectMeta \<Rightarrow> obj \<Rightarrow> bool" where
  "initOk m ob \<longleftrightarrow>
     (om_Name (objMeta ob) = BootstrapUser m \<longrightarrow> (\<exists>s. ob = OSecret s)) \<and>
     (om_Name (objMeta ob) = PluginsConfig m \<longrightarrow> (\<exists>c. ob = OConfigMap c))"

lemma mountBootstrapUser_ok:
  assumes "mountsBacked user sts" "initOk m ob"
  shows "\<exists>sts'. mountBootstrapUser m ob sts = Ret sts' \<and> mountsBacked user sts' \<and>
    (\<forall>n. nodeEnv n sts \<longrightarrow> nodeEnv n sts') \<and>
    (om_Name (objMeta ob) = BootstrapUser m \<longrightarrow> nodeEnv ''EMQX_MANAGEMENT__BOOTSTRAP_APPS_FILE'' sts')"
proof (cases "om_Name (objMeta ob) = BootstrapUser m")
  case True
  with assms(2) obtain s where ob: "ob = OSecret s" unfolding initOk_def by blast
  from mounted_objects(3)[OF assms(1), of s] True show ?thesis
    unfolding mounted_def mountBootstrapUser_def ob by auto
qed (simp add: mountBootstrapUser_def assms(1))

lemma mountPluginsConfig_ok:
  assumes "mountsBacked user sts" "initOk m ob"
  shows "\<exists>sts'. mountPluginsConfig m ob sts = Ret sts' \<and> mountsBacked user sts' \<and>
    (\<forall>n. nodeEnv n sts \<longrightarrow> nodeEnv n sts') \<and>
    (om_Name (objMeta ob) = PluginsConfig m \<longrightarrow> nodeEnv ''EMQX_PLUGINS__ETC_DIR'' sts')"
proof (cases "om_Name (objMeta ob) = PluginsConfig m")
  case True
  with assms(2) obtain c where ob: "ob = OConfigMap c" unfolding initOk_def by blast
  from mounted_objects(4)[OF assms(1), of c] True show ?thesis
    unfolding mounted_def mountPluginsConfig_def ob by auto
qed (simp add: mountPluginsConfig_def assms(1))

lemma initResources_mounted:
  assumes "mountsBacked user sts" "list_all (initOk m) obs"
  shows "\<exists>sts'. mountInitResources m obs sts = Ret sts' \<and> mountsBacked user sts' \<and>
    (\<forall>n. nodeEnv n sts \<longrightarrow> nodeEnv n sts') \<and>
    (BootstrapUser m \<in> (\<lambda>ob. om_Name (objMeta ob)) ` set obs \<longrightarrow>
       nodeEnv ''EMQX_MANAGEMENT__BOOTSTRAP_APPS_FILE'' sts') \<and>
    (PluginsConfig m \<in> (\<lambda>ob. om_Name (objMeta ob)) ` set obs \<longrightarrow> nodeEnv ''EMQX_PLUGINS__ETC_DIR'' sts')"
  using assms
proof (induction obs arbitrary: sts)
  case (Cons ob obs)
  let ?user = "om_Name (objMeta ob) = BootstrapUser m" and ?config = "om_Name (objMeta ob) = PluginsConfig m"
  from Cons.prems have ok: "initOk m ob" by simp
  obtain sts1 where 1: "mountBootstrapUser m ob sts = Ret sts1" "mountsBacked user sts1"
    "\<And>n. nodeEnv n sts \<Longrightarrow> nodeEnv n sts1"
    "?user \<Longrightarrow> nodeEnv ''EMQX_MANAGEMENT__BOOTSTRAP_APPS_FILE'' sts1"
    using mountBootstrapUser_ok[OF Cons.prems(1) ok] by blast
  obtain sts2 where 2: "mountPluginsConfig m ob sts1 = Ret sts2" "mountsBacked user sts2"
    "\<And>n. nodeEnv n sts1 \<Longrightarrow> nodeEnv n sts2" "?config \<Longrightarrow> nodeEnv ''EMQX_PLUGINS__ETC_DIR'' sts2"
    using mountPluginsConfig_ok[OF 1(2) ok] by blast
  from Cons.IH[OF 2(2)] Cons.prems obtain sts' where
    "mountInitResources m obs sts2 = Ret sts'" "mountsBacked user sts'"
    "\<And>n. nodeEnv n sts2 \<Longrightarrow> nodeEnv n sts'"
    "BootstrapUser m \<in> (\<lambda>ob. om_Name (objMeta ob)) ` set obs \<Longrightarrow>
       nodeEnv ''EMQX_MANAGEMENT__BOOTSTRAP_APPS_FILE'' sts'"
    "PluginsConfig m \<in> (\<lambda>ob. om_Name (objMeta ob)) ` set obs \<Longrightarrow> nodeEnv ''EMQX_PLUGINS__ETC_DIR'' sts'"
    by auto
  with 1 2 show ?case by (intro exI[of _ sts']) auto
qed simp



section \<open>Default plugins\<close>

definition selects :: "Emqx \<Rightarrow> EmqxPlugin \<Rightarrow> bool" where
  "selects x p \<longleftrightarrow> mentries (pg_Selector (pg_Spec p)) \<noteq> Map.empty \<and>
     matchesLabels (pg_Selector (pg_Spec p)) (om_Labels (emqxMeta x))"

lemma matchedPlugins_filter:
  "matchedPlugins valid (om_Labels (emqxMeta x)) ps =
     (if list_all (\<lambda>p. valid (pg_Selector (pg_Spec p))) ps then Ret (filter (selects x) ps) else Panic)"
  by (induction ps) (simp_all add: Let_def selects_def [abs_def])

lemma defaultPlugins_distinct:
  "distinct (map fst (defaultPlugins x))" "distinct (map snd (defaultPlugins x))"
  by (cases "isEnterprise x"; simp add: defaultPlugins_def)+

lemma isExist_generated:
  "isExistPlugin name (map (\<lambda>(suffix, n). initPlugin x suffix n) ds) \<longleftrightarrow> name \<in> snd ` set ds"
  by (auto simp: isExistPlugin_def initPlugin_def list_ex_iff intro: rev_image_eqI split: prod.splits)

lemma generated_names:
  "map (\<lambda>p. pg_PluginName (pg_Spec p)) (map (\<lambda>(suffix, n). initPlugin x suffix n) ds) = map snd ds"
  "map (\<lambda>p. om_Name (pg_meta p)) (map (\<lambda>(suffix, n). initPlugin x suffix n) ds) =
     map (\<lambda>s. om_Name (emqxMeta x) @ s) (map fst ds)"
  by (auto simp: initPlugin_def sharedMeta_def split: prod.splits)

lemma distinct_map_filter_of: "distinct (map f xs) \<Longrightarrow> distinct (map f (filter P xs))"
  by (auto simp: distinct_map inj_on_def)

text \<open>
  Every plugin EMQX needs is there exactly once: for each of the default plugins, either an
  existing plugin that selects the cluster provides it or exactly one is generated, under a name of
  its own; a plugin whose selector is not a valid label set makes the reconcile of every cluster in
  its namespace panic.
\<close>

theorem default_plugins_are_complete:
  "case generateInitPluginList valid x existing of
     Panic \<Rightarrow> \<exists>p \<in> set existing. \<not> valid (pg_Selector (pg_Spec p))
   | Ret new \<Rightarrow>
       list_all (\<lambda>p. valid (pg_Selector (pg_Spec p))) existing \<and>
       list_all (\<lambda>(suffix, name). isExistPlugin name (filter (selects x) existing) \<noteq> isExistPlugin name new)
         (defaultPlugins x) \<and>
       distinct (map (\<lambda>p. pg_PluginName (pg_Spec p)) new) \<and> distinct (map (\<lambda>p. om_Name (pg_meta p)) new)"
proof (cases "list_all (\<lambda>p. valid (pg_Selector (pg_Spec p))) existing")
  case True
  let ?new = "filter (\<lambda>(suffix, name). \<not> isExistPlugin name (filter (selects x) existing)) (defaultPlugins x)"
  have "isExistPlugin name (filter (selects x) existing) \<noteq> (name \<in> snd ` set ?new)"
    if "(suffix, name) \<in> set (defaultPlugins x)" for suffix name
    using that by force
  moreover have "distinct (map snd ?new)" "distinct (map fst ?new)"
    by (rule distinct_map_filter_of, rule defaultPlugins_distinct)+
  then have "distinct (map (\<lambda>s. om_Name (emqxMeta x) @ s) (map fst ?new))"
    by (subst distinct_map) (simp add: inj_on_def)
  ultimately show ?thesis
    using True \<open>distinct (map snd ?new)\<close>
    unfolding generateInitPluginList_def matchedPlugins_filter if_P[OF True] go.case
      isExist_generated generated_names
    by (auto simp: list_all_iff simp del: set_filter)
next
  case False
  then show ?thesis
    by (auto simp: generateInitPluginList_def matchedPlugins_filter list_all_iff)
qed

end
