(* ===== verification/V4_Plugins.thy ===== *)
theory V4_Plugins
  imports V4_Controller
begin

text \<open>
  The reconciler of \<open>EmqxPlugin\<close> (\<open>controllers/apps/v1beta4/emqxplugin_controller.go\<close>): the
  configuration file of a plugin in the ConfigMap of every cluster the plugin selects, the calls that
  reload it on the nodes, and the finalizer that unloads it before the resource goes.
\<close>

section \<open>Configuration\<close>

definition stringLess :: "string \<Rightarrow> string \<Rightarrow> bool" where
  "stringLess a b = (a < b)"

text \<open>\<open>fmt.Sprintln(k, " = ", v)\<close>: operands separated by blanks.\<close>

definition configLine :: "(string \<times> string) list \<Rightarrow> string \<Rightarrow> string" where
  "configLine config k =
     k @ ''  =  '' @ (case map_of config k of None \<Rightarrow> [] | Some v \<Rightarrow> v) @ newline"

definition generateConfigStr :: "EmqxPlugin \<Rightarrow> string" where
  "generateConfigStr plugin =
     (let config = pg_Config (pg_Spec plugin)
      in concat (map (configLine config) (go_sort stringLess (map fst config))))"

definition getPluginsConfig :: "('w, 'c) env \<Rightarrow> Emqx \<Rightarrow> ('w, goerr + configMap) op" where
  "getPluginsConfig E emqx =
     getConfigMap E (om_Namespace (emqxMeta emqx)) (om_Name (emqxMeta emqx) @ ''-plugins-config'')"

definition configPath :: "EmqxPlugin \<Rightarrow> string" where
  "configPath plugin = pg_PluginName (pg_Spec plugin) @ [CHR 0x5C] @ ''.conf''"

definition checkPluginConfig :: "('w, 'c) env \<Rightarrow> EmqxPlugin \<Rightarrow> Emqx \<Rightarrow> ('w, goerr + bool) op" where
  "checkPluginConfig E plugin emqx = do {
     got \<leftarrow> getPluginsConfig E emqx;
     ret (case got of
            Inl err \<Rightarrow> if IsNotFound err then Inr False else Inl err
          | Inr pluginsConfig \<Rightarrow>
              Inr (jsonGetPath E (cm_Data pluginsConfig) (configPath plugin) =
                   Some (generateConfigStr plugin))) }"

definition loadPluginConfig :: "('w, 'c) env \<Rightarrow> EmqxPlugin \<Rightarrow> Emqx \<Rightarrow> ('w, goerr option) op" where
  "loadPluginConfig E plugin emqx = do {
     got \<leftarrow> getPluginsConfig E emqx;
     (case got of
        Inl err \<Rightarrow> ret (if IsNotFound err then None else Some err)
      | Inr pluginsConfig \<Rightarrow>
          (case jsonSetPath E (cm_Data pluginsConfig) (configPath plugin) (generateConfigStr plugin) of
             Inl err \<Rightarrow> ret (Some err)
           | Inr configData \<Rightarrow> Update E (OConfigMap (pluginsConfig\<lparr>cm_Data := configData\<rparr>)))) }"

section \<open>The plugins on the nodes\<close>

definition getPluginsByAPI ::
  "('w, 'c) env \<Rightarrow> Requester \<Rightarrow> ('w, goerr + pluginListByAPIReturn list) op" where
  "getPluginsByAPI E requester = do {
     resp \<leftarrow> Request E requester ''GET'' (GetURL requester ''api/v4/plugins'' []) JNull [];
     ret (case resp of
            Inl err \<Rightarrow> Inl err
          | Inr rp \<Rightarrow>
              if resp_StatusCode rp \<noteq> 200 then Inl (ErrText (''request api failed: '' @ resp_Status rp))
              else unmarshalPlugins4 E (gjsonString E (resp_Body rp) ''data'')) }"

definition doLoadPluginByAPI ::
  "('w, 'c) env \<Rightarrow> Requester \<Rightarrow> string \<Rightarrow> string \<Rightarrow> string \<Rightarrow> ('w, goerr option) op" where
  "doLoadPluginByAPI E requester nodeName pluginName reloadOrUnload = do {
     resp \<leftarrow> Request E requester ''PUT''
       (GetURL requester (''api/v4/nodes/'' @ nodeName @ ''/plugins/'' @ pluginName @ ''/'' @ reloadOrUnload) [])
       JNull [];
     ret (case resp of
            Inl err \<Rightarrow> Some err
          | Inr rp \<Rightarrow>
              if resp_StatusCode rp \<noteq> 200 then Some (ErrText (''request api failed: '' @ resp_Status rp))
              else None) }"

text \<open>The nodes and plugins of an answer in the order of the nested loops.\<close>

definition pluginsOnNodes ::
  "string \<Rightarrow> pluginListByAPIReturn list \<Rightarrow> (string \<times> pluginByAPIReturn) list" where
  "pluginsOnNodes pluginName list =
     concat (map (\<lambda>node. map (\<lambda>p. (pl_Node node, p))
       (filter (\<lambda>p. pa_Name p = pluginName) (pl_Plugins node))) list)"

fun loadLoop ::
  "('w, 'c) env \<Rightarrow> Requester \<Rightarrow> string \<Rightarrow> (string \<times> pluginByAPIReturn) list \<Rightarrow> ('w, goerr option) op" where
  "loadLoop E requester reloadOrUnload [] = ret None"
| "loadLoop E requester reloadOrUnload ((node, plugin) # rest) = do {
     err \<leftarrow> doLoadPluginByAPI E requester node (pa_Name plugin) reloadOrUnload;
     (case err of Some e \<Rightarrow> ret (Some e) | None \<Rightarrow> loadLoop E requester reloadOrUnload rest) }"

definition checkPluginStatusByAPI :: "('w, 'c) env \<Rightarrow> Requester \<Rightarrow> string \<Rightarrow> ('w, goerr option) op" where
  "checkPluginStatusByAPI E requester pluginName = do {
     got \<leftarrow> getPluginsByAPI E requester;
     (case got of
        Inl err \<Rightarrow> ret (Some err)
      | Inr list \<Rightarrow> loadLoop E requester ''reload''
          (filter (\<lambda>(_, p). \<not> pa_Active p) (pluginsOnNodes pluginName list))) }"

definition unloadPluginByAPI :: "('w, 'c) env \<Rightarrow> Requester \<Rightarrow> string \<Rightarrow> ('w, goerr option) op" where
  "unloadPluginByAPI E requester pluginName = do {
     got \<leftarrow> getPluginsByAPI E requester;
     (case got of
        Inl err \<Rightarrow> ret (Some err)
      | Inr list \<Rightarrow> loadLoop E requester ''unload'' (pluginsOnNodes pluginName list)) }"

section \<open>Reconcile\<close>

definition getEmqxList :: "('w, 'c) env \<Rightarrow> string \<Rightarrow> gomap \<Rightarrow> ('w, goerr + Emqx list) op" where
  "getEmqxList E namespace labels = do {
     brokers \<leftarrow> listBrokers E namespace labels;
     (case brokers of
        Inl err \<Rightarrow>
          if \<not> IsNotFound err then ret (Inl err)
          else do {
            enterprises \<leftarrow> listEnterprises E namespace labels;
            ret (case enterprises of
                   Inl err \<Rightarrow> if \<not> IsNotFound err then Inl err else Inr []
                 | Inr es \<Rightarrow> Inr (map Enterprise es)) }
      | Inr bs \<Rightarrow> do {
          enterprises \<leftarrow> listEnterprises E namespace labels;
          ret (case enterprises of
                 Inl err \<Rightarrow> if \<not> IsNotFound err then Inl err else Inr (map Broker bs)
               | Inr es \<Rightarrow> Inr (map Broker bs @ map Enterprise es)) }) }"

definition pluginFinalizer :: string where
  "pluginFinalizer = ''apps.emqx.io/finalizer''"

definition setFinalizers :: "string list \<Rightarrow> EmqxPlugin \<Rightarrow> EmqxPlugin" where
  "setFinalizers fs p = p\<lparr>pg_meta := (pg_meta p)\<lparr>om_Finalizers := fs\<rparr>\<rparr>"

fun unloadFromAll ::
  "('w, 'c) env \<Rightarrow> EmqxPlugin \<Rightarrow> Emqx list \<Rightarrow> ('w, (ctrlResult \<times> goerr option) option) op" where
  "unloadFromAll E instance [] = ret None"
| "unloadFromAll E instance (emqx # emqxList) = do {
     requester \<leftarrow> newRequesterBySvc E emqx;
     (case requester of
        Inl err \<Rightarrow> ret (Some (zeroResult, Some err))
      | Inr rq \<Rightarrow> do {
          err \<leftarrow> unloadPluginByAPI E rq (pg_PluginName (pg_Spec instance));
          (case err of
             None \<Rightarrow> unloadFromAll E instance emqxList
           | Some e \<Rightarrow> ret (Some (if IsCommonError e then (requeueAfter second, None)
                                  else (zeroResult, Some e)))) }) }"

fun loadToAll :: "('w, 'c) env \<Rightarrow> EmqxPlugin \<Rightarrow> Emqx list \<Rightarrow> ('w, ctrlResult \<times> goerr option) op" where
  "loadToAll E instance [] = ret (requeueAfter (20 * second), None)"
| "loadToAll E instance (emqx # emqxList) =
     (if st4_EmqxNodes (GetStatus emqx) = [] then loadToAll E instance emqxList
      else do {
        equal \<leftarrow> checkPluginConfig E instance emqx;
        (case equal of
           Inl err \<Rightarrow> ret (zeroResult, Some err)
         | Inr False \<Rightarrow> do {
             err \<leftarrow> loadPluginConfig E instance emqx;
             ret (case err of
                    None \<Rightarrow> (requeueAfter second, None)
                  | Some e \<Rightarrow> if IsConflict e then (requeueAfter second, None) else (zeroResult, Some e)) }
         | Inr True \<Rightarrow> do {
             requester \<leftarrow> newRequesterBySvc E emqx;
             (case requester of
                Inl err \<Rightarrow> ret (zeroResult, Some err)
              | Inr rq \<Rightarrow> do {
                  err \<leftarrow> checkPluginStatusByAPI E rq (pg_PluginName (pg_Spec instance));
                  (case err of
                     None \<Rightarrow> loadToAll E instance emqxList
                   | Some e \<Rightarrow> ret (if IsCommonError e then (requeueAfter second, None)
                                     else (zeroResult, Some e))) }) }) })"

definition finalizePlugin ::
  "('w, 'c) env \<Rightarrow> EmqxPlugin \<Rightarrow> Emqx list \<Rightarrow> ('w, ctrlResult \<times> goerr option) op" where
  "finalizePlugin E instance emqxList =
     (if pluginFinalizer \<notin> set (om_Finalizers (pg_meta instance)) then ret (zeroResult, None)
      else do {
        failed \<leftarrow> unloadFromAll E instance emqxList;
        (case failed of
           Some res \<Rightarrow> ret res
         | None \<Rightarrow> do {
             err \<leftarrow> update E (OPlugin (setFinalizers
               (filter (\<lambda>f. f \<noteq> pluginFinalizer) (om_Finalizers (pg_meta instance))) instance));
             ret (zeroResult, err) }) })"

definition ReconcilePlugin ::
  "('w, 'c) env \<Rightarrow> string \<Rightarrow> string \<Rightarrow> ('w, ctrlResult \<times> goerr option) op" where
  "ReconcilePlugin E namespace name = do {
     got \<leftarrow> getPlugin E namespace name;
     (case got of
        Inl err \<Rightarrow> ret (zeroResult, if IsNotFound err then None else Some err)
      | Inr instance \<Rightarrow> do {
          list \<leftarrow> getEmqxList E (om_Namespace (pg_meta instance)) (pg_Selector (pg_Spec instance));
          (case list of
             Inl err \<Rightarrow> ret (zeroResult, Some err)
           | Inr emqxList \<Rightarrow>
               if om_DeletionTimestamp (pg_meta instance) \<noteq> None then finalizePlugin E instance emqxList
               else if pluginFinalizer \<in> set (om_Finalizers (pg_meta instance))
               then loadToAll E instance emqxList
               else (let instance' = setFinalizers (om_Finalizers (pg_meta instance) @ [pluginFinalizer]) instance
                     in do {
                       err \<leftarrow> update E (OPlugin instance');
                       (case err of
                          Some e \<Rightarrow> ret (zeroResult, Some e)
                        | None \<Rightarrow> loadToAll E instance' emqxList) })) }) }"

definition pluginUpdateFunc :: "EmqxPlugin \<Rightarrow> EmqxPlugin \<Rightarrow> bool" where
  "pluginUpdateFunc objectOld objectNew =
     (om_Generation (pg_meta objectNew) \<noteq> om_Generation (pg_meta objectOld))"

end
