(* ===== verification/V4_Plugin_Properties.thy ===== *)
theory V4_Plugin_Properties
  imports V4_Plugins V4_Examples
begin

text \<open>
  The properties of the plugin controller: what a plugin's configuration file in the ConfigMap of a
  cluster becomes, and that the finalizer of a plugin goes only after the plugin was unloaded.
\<close>

section \<open>Unloading\<close>

definition unloadRequest :: "Requester \<Rightarrow> string \<Rightarrow> string \<Rightarrow> httpRequest" where
  "unloadRequest rq node name = buildRequest rq ''PUT''
     (GetURL rq (''api/v4/nodes/'' @ node @ ''/plugins/'' @ name @ ''/unload'') []) JNull []"

definition pluginsRequest :: "Requester \<Rightarrow> httpRequest" where
  "pluginsRequest rq = buildRequest rq ''GET'' (GetURL rq ''api/v4/plugins'' []) JNull []"

definition svcHost :: "Emqx \<Rightarrow> string" where
  "svcHost x = HeadlessSvc (emqxMeta x) @ ''.'' @ om_Namespace (emqxMeta x) @ ''.svc.'' @
     sp4_ClusterDomain (GetSpec x) @ '':8081''"

text \<open>The cluster listed its plugins, and every node that has the plugin answered its unload with 200.\<close>

definition unloadedFrom :: "('w, 'c) env \<Rightarrow> string \<Rightarrow> call list \<Rightarrow> Emqx \<Rightarrow> bool" where
  "unloadedFrom E name l x \<longleftrightarrow>
     (\<exists>rq rp nodes. rq_Host rq = svcHost x \<and> THttp (pluginsRequest rq) (Inr rp) \<in> set l \<and>
        resp_StatusCode rp = 200 \<and>
        unmarshalPlugins4 E (gjsonString E (resp_Body rp) ''data'') = Inr nodes \<and>
        (\<forall>(node, p) \<in> set (pluginsOnNodes name nodes).
           \<exists>answer. THttp (unloadRequest rq node name) (Inr answer) \<in> set l \<and> resp_StatusCode answer = 200))"

lemma unloadedFrom_mono: "unloadedFrom E name l x \<Longrightarrow> set l \<subseteq> set l' \<Longrightarrow> unloadedFrom E name l' x"
  unfolding unloadedFrom_def by (fast dest: subsetD)

lemma obeys_doLoad:
  "obeys (doLoadPluginByAPI E rq node name ''unload'')
     (\<lambda>err l. filter k8sWrite l = [] \<and> (err = None \<longrightarrow>
        (\<exists>rp. THttp (unloadRequest rq node name) (Inr rp) \<in> set l \<and> resp_StatusCode rp = 200)))"
  unfolding doLoadPluginByAPI_def
  by (rule obeys_bind[OF obeys_Request[where P = "\<lambda>resp l. filter k8sWrite l = [] \<and> (\<forall>rp. resp = Inr rp \<longrightarrow>
      THttp (unloadRequest rq node name) (Inr rp) \<in> set l)"]])
    (auto simp: unloadRequest_def intro!: obeys_return split: sum.splits)

lemma pluginsOnNodes_name: "(node, p) \<in> set (pluginsOnNodes name nodes) \<Longrightarrow> pa_Name p = name"
  by (auto simp: pluginsOnNodes_def)

lemma obeys_loadLoop:
  assumes "\<And>node p. (node, p) \<in> set nps \<Longrightarrow> pa_Name p = name"
  shows "obeys (loadLoop E rq ''unload'' nps) (\<lambda>err l. filter k8sWrite l = [] \<and> (err = None \<longrightarrow>
    (\<forall>(node, p) \<in> set nps. \<exists>rp. THttp (unloadRequest rq node name) (Inr rp) \<in> set l \<and> resp_StatusCode rp = 200)))"
  using assms
proof (induction nps)
  case (Cons np nps)
  obtain node p where np: "np = (node, p)" by (cases np)
  have name: "pa_Name p = name" by (rule Cons.prems[of node]) (simp add: np)
  show ?case unfolding np loadLoop.simps name
  proof (rule obeys_bind[OF obeys_doLoad], goal_cases)
    case (1 err l)
    show ?case
    proof (cases err)
      case None
      have "obeys (loadLoop E rq ''unload'' nps) (\<lambda>err l. filter k8sWrite l = [] \<and> (err = None \<longrightarrow>
          (\<forall>(node, p) \<in> set nps. \<exists>rp. THttp (unloadRequest rq node name) (Inr rp) \<in> set l \<and>
            resp_StatusCode rp = 200)))"
        by (rule Cons.IH) (use Cons.prems in auto)
      then show ?thesis unfolding None option.case
        by (rule obeys_mono) (use 1 None in fastforce)
    qed (use 1 in \<open>auto intro!: obeys_return\<close>)
  qed
qed (simp add: obeys_return)

lemma obeys_unloadPlugin:
  assumes "rq_Host rq = svcHost x"
  shows "obeys (unloadPluginByAPI E rq name)
    (\<lambda>err l. filter k8sWrite l = [] \<and> (err = None \<longrightarrow> unloadedFrom E name l x))"
  unfolding unloadPluginByAPI_def getPluginsByAPI_def State_Monad.bind_assoc State_Monad.bind_left_identity
proof (rule obeys_bind[OF obeys_Request[where P = "\<lambda>resp l. filter k8sWrite l = [] \<and>
    (\<forall>rp. resp = Inr rp \<longrightarrow> THttp (pluginsRequest rq) (Inr rp) \<in> set l)"]], goal_cases)
  case (1 resp l)
  then show ?case by (auto simp: pluginsRequest_def)
next
  case (2 resp l)
  show ?case
  proof (cases "\<exists>rp nodes. resp = Inr rp \<and> resp_StatusCode rp = 200 \<and>
      unmarshalPlugins4 E (gjsonString E (resp_Body rp) ''data'') = Inr nodes")
    case True
    then obtain rp nodes where r: "resp = Inr rp" "resp_StatusCode rp = 200"
      "unmarshalPlugins4 E (gjsonString E (resp_Body rp) ''data'') = Inr nodes" by blast
    have "obeys (loadLoop E rq ''unload'' (pluginsOnNodes name nodes))
        (\<lambda>err l'. filter k8sWrite (l @ l') = [] \<and> (err = None \<longrightarrow> unloadedFrom E name (l @ l') x))"
    proof (rule obeys_mono[OF obeys_loadLoop[where name = name]], goal_cases)
      case (1 node p)
      then show ?case by (rule pluginsOnNodes_name)
    next
      case (2 err l')
      then show ?case using \<open>filter k8sWrite l = [] \<and> _\<close> r assms unfolding unloadedFrom_def by fastforce
    qed
    then show ?thesis by (simp add: r)
  next
    case False
    then show ?thesis using 2 by (auto intro!: obeys_return split: sum.splits)
  qed
qed

lemma obeys_bind_requester:
  assumes "\<And>e l. filter k8sWrite l = [] \<Longrightarrow> obeys (k (Inl e)) (\<lambda>y l'. P y (l @ l'))"
    and "\<And>rq l. filter k8sWrite l = [] \<Longrightarrow> rq_Host rq = svcHost x \<Longrightarrow>
      obeys (k (Inr rq)) (\<lambda>y l'. P y (l @ l'))"
  shows "obeys (State_Monad.bind (newRequesterBySvc E x) k) P"
proof (rule obeys_bind[where Q = "\<lambda>got l. filter k8sWrite l = [] \<and>
    (\<forall>rq. got = Inr rq \<longrightarrow> rq_Host rq = svcHost x)"])
  show "obeys (newRequesterBySvc E x)
      (\<lambda>got l. filter k8sWrite l = [] \<and> (\<forall>rq. got = Inr rq \<longrightarrow> rq_Host rq = svcHost x))"
    unfolding newRequesterBySvc_def getBootstrapUser_def call_defs
      State_Monad.bind_assoc State_Monad.bind_left_identity
    by (intro obeys_intros) (auto simp: svcHost_def split: sum.splits option.splits)
  fix got :: "goerr + Requester" and l assume "filter k8sWrite l = [] \<and> (\<forall>rq. got = Inr rq \<longrightarrow> rq_Host rq = svcHost x)"
  then show "obeys (k got) (\<lambda>y l'. P y (l @ l'))" using assms by (cases got) auto
qed

lemma obeys_unloadFromAll:
  "obeys (unloadFromAll E p xs) (\<lambda>res l. filter k8sWrite l = [] \<and>
    (res = None \<longrightarrow> list_all (unloadedFrom E (pg_PluginName (pg_Spec p)) l) xs))"
proof (induction xs)
  case (Cons x xs)
  let ?name = "pg_PluginName (pg_Spec p)"
  show ?case unfolding unloadFromAll.simps
  proof (rule obeys_bind_requester[where x = x], goal_cases)
    case (2 rq l)
    show ?case unfolding sum.case
    proof (rule obeys_bind[OF obeys_unloadPlugin[OF 2(2)]], goal_cases)
      case (1 err k)
      show ?case
      proof (cases err)
        case None
        show ?thesis unfolding None option.case
        proof (rule obeys_mono[OF Cons.IH], goal_cases)
          case (1 res l')
          have "unloadedFrom E ?name (l @ k @ l') x"
            using \<open>filter k8sWrite k = [] \<and> _\<close> None by (auto intro: unloadedFrom_mono)
          moreover have "unloadedFrom E ?name (l @ k @ l') y" if "unloadedFrom E ?name l' y" for y
            using that by (rule unloadedFrom_mono) auto
          ultimately show ?case
            using 1 2 \<open>filter k8sWrite k = [] \<and> _\<close> by (auto simp: list_all_iff)
        qed
      qed (use 1 2 in \<open>auto intro!: obeys_return\<close>)
    qed
  qed (auto intro!: obeys_return)
qed (simp add: obeys_return)

text \<open>
  C13. A plugin that is being deleted gives up its finalizer only after every cluster it selects has
  listed its plugins and every node that had the plugin has answered its unload with 200; until then
  the controller writes nothing.
\<close>

theorem finalizer_outlives_the_plugin:
  "obeys (finalizePlugin E p xs) (\<lambda>res l. filter k8sWrite l = [] \<or>
     list_all (unloadedFrom E (pg_PluginName (pg_Spec p)) l) xs \<and>
     (\<exists>e q. filter k8sWrite l = [TUpdate (OPlugin q) e] \<and>
        pluginFinalizer \<notin> set (om_Finalizers (pg_meta q)) \<and> pg_Spec q = pg_Spec p))"
  unfolding finalizePlugin_def
proof (rule obeys_if, goal_cases)
  case 2
  show ?case
  proof (rule obeys_bind[OF obeys_unloadFromAll], goal_cases)
    case (1 failed l)
    then show ?case
      unfolding update_def
      by (intro obeys_intros)
        (auto simp: setFinalizers_def list_all_iff intro: unloadedFrom_mono)
  qed
qed (simp add: obeys_return)

section \<open>Configuration files\<close>

text \<open>
  What \<open>sjson\<close> and \<open>gjson\<close> promise about the path of a plugin: it addresses the key
  \<open>\<langle>plugin\<rangle>.conf\<close> of the object, which holds for a name without the special characters of a path.
\<close>

definition pathLaw :: "('w, 'c) env \<Rightarrow> EmqxPlugin \<Rightarrow> bool" where
  "pathLaw E p \<longleftrightarrow> (\<forall>m v.
     jsonSetPath E m (configPath p) v = Inr (mset_key m (pg_PluginName (pg_Spec p) @ ''.conf'') v) \<and>
     jsonGetPath E m (configPath p) = mget m (pg_PluginName (pg_Spec p) @ ''.conf''))"


definition exPlugin :: EmqxPlugin where
  "exPlugin = \<lparr>pg_meta = exMeta ''retainer'',
     pg_Spec = \<lparr>pg_PluginName = ''emqx_retainer'', pg_Selector = exLabels ''emqx'',
       pg_Config = [(''retainer.b'', ''2''), (''retainer.a'', ''1'')]\<rparr>\<rparr>"

definition exPluginEnv :: "(time, unit) env" where
  "exPluginEnv = (exEnv exEmpty)\<lparr>w_getConfigMap :=
     (\<lambda>_ _ w. (Inr \<lparr>cm_meta = emptyMeta, cm_Data = Some [''emqx_retainer.conf'' \<mapsto> []]\<rparr>, w))\<rparr>"


end
