(* ===== verification/V4_Webhooks.thy ===== *)
theory V4_Webhooks
  imports V4_Plugins
begin

text \<open>
  The admission webhooks of v1beta4 (\<open>apis/apps/v1beta4/emqxbroker_webhook.go\<close>,
  \<open>emqxenterprise_webhook.go\<close>, \<open>emqxplugin_webhook.go\<close>): the defaults a resource is completed with
  before it is stored, and the changes that are refused. \<open>EmqxBroker\<close> and \<open>EmqxEnterprise\<close> share
  them through the interface \<open>Emqx\<close>.
\<close>

section \<open>Setters of the interface\<close>

fun SetServiceTemplate :: "ServiceTemplate4 \<Rightarrow> Emqx \<Rightarrow> Emqx" where
  "SetServiceTemplate t (Broker x) = Broker (x\<lparr>br_Spec := (br_Spec x)\<lparr>sp4_ServiceTemplate := t\<rparr>\<rparr>)"
| "SetServiceTemplate t (Enterprise x) = Enterprise (x\<lparr>en_Spec := (en_Spec x)\<lparr>sp4_ServiceTemplate := t\<rparr>\<rparr>)"

fun SetPersistent :: "persistentVolumeClaim option \<Rightarrow> Emqx \<Rightarrow> Emqx" where
  "SetPersistent p (Broker x) = Broker (x\<lparr>br_Spec := (br_Spec x)\<lparr>sp4_Persistent := p\<rparr>\<rparr>)"
| "SetPersistent p (Enterprise x) = Enterprise (x\<lparr>en_Spec := (en_Spec x)\<lparr>sp4_Persistent := p\<rparr>\<rparr>)"

fun SetReplicas :: "int \<Rightarrow> Emqx \<Rightarrow> Emqx" where
  "SetReplicas n (Broker x) = Broker (x\<lparr>br_Spec := (br_Spec x)\<lparr>sp4_Replicas := Some n\<rparr>\<rparr>)"
| "SetReplicas n (Enterprise x) = Enterprise (x\<lparr>en_Spec := (en_Spec x)\<lparr>sp4_Replicas := Some n\<rparr>\<rparr>)"

fun SetClusterDomain :: "string \<Rightarrow> Emqx \<Rightarrow> Emqx" where
  "SetClusterDomain d (Broker x) = Broker (x\<lparr>br_Spec := (br_Spec x)\<lparr>sp4_ClusterDomain := d\<rparr>\<rparr>)"
| "SetClusterDomain d (Enterprise x) = Enterprise (x\<lparr>en_Spec := (en_Spec x)\<lparr>sp4_ClusterDomain := d\<rparr>\<rparr>)"

definition GetReloaderImage :: "Emqx \<Rightarrow> string" where
  "GetReloaderImage x = ts_ReloaderImage (et_Spec (sp4_Template (GetSpec x)))"

definition SetReloaderImage :: "string \<Rightarrow> Emqx \<Rightarrow> Emqx" where
  "SetReloaderImage img x =
     (let t = sp4_Template (GetSpec x)
      in SetTemplate (t\<lparr>et_Spec := (et_Spec t)\<lparr>ts_ReloaderImage := img\<rparr>\<rparr>) x)"

definition mergeMap4 :: "gomap \<Rightarrow> gomap \<Rightarrow> gomap" where
  "mergeMap4 dst src = Some (addMissing (mentries dst) (mentries src))"

definition MergeContainerPorts4 :: "containerPort list \<Rightarrow> containerPort list \<Rightarrow> containerPort list" where
  "MergeContainerPorts4 ports1 ports2 =
     mergeLoop cp_Name cp_ContainerPort (ports1 @ ports2) {} {} []"

section \<open>Defaults\<close>

definition instanceLabels :: "objectMeta \<Rightarrow> gomap" where
  "instanceLabels m =
     Some ((mentries (om_Labels m))(''apps.emqx.io/managed-by'' \<mapsto> ''emqx-operator'',
       ''apps.emqx.io/instance'' \<mapsto> om_Name m))"

definition mergedAnnotations :: "gomap \<Rightarrow> gomap \<Rightarrow> gomap" where
  "mergedAnnotations own annotations = dropLastApplied (mergeMap4 own annotations)"

definition defaultLabelsAndAnnotations :: "Emqx \<Rightarrow> Emqx" where
  "defaultLabelsAndAnnotations r =
     (let m = emqxMeta r; labels = instanceLabels m; t = sp4_Template (GetSpec r); tm = et_meta t
      in SetTemplate (t\<lparr>et_meta := tm\<lparr>om_Labels := mergeMap4 (om_Labels tm) labels,
             om_Annotations := mergedAnnotations (om_Annotations tm) (om_Annotations m)\<rparr>\<rparr>)
           (setEmqxMeta (m\<lparr>om_Labels := labels\<rparr>) r))"

definition onContainer :: "(EmqxContainer \<Rightarrow> EmqxContainer) \<Rightarrow> EmqxTemplate \<Rightarrow> EmqxTemplate" where
  "onContainer f t = t\<lparr>et_Spec := (et_Spec t)\<lparr>ts_EmqxContainer := f (ts_EmqxContainer (et_Spec t))\<rparr>\<rparr>"

definition mapContainer :: "(EmqxContainer \<Rightarrow> EmqxContainer) \<Rightarrow> Emqx \<Rightarrow> Emqx" where
  "mapContainer f r = SetTemplate (onContainer f (sp4_Template (GetSpec r))) r"

definition defaultEmqxImage :: "Emqx \<Rightarrow> Emqx" where
  "defaultEmqxImage r = mapContainer (\<lambda>c.
     if im_Repository (ec_Image c) = []
     then c\<lparr>ec_Image := (ec_Image c)\<lparr>im_Repository :=
            (if isEnterprise r then ''emqx/emqx-ee'' else ''emqx/emqx'')\<rparr>\<rparr>
     else c) r"

definition quoted :: "string \<Rightarrow> string" where
  "quoted s = [dquote] @ s @ [dquote]"

definition defaultACLRules :: "string list" where
  "defaultACLRules =
     [''{allow, {user, '' @ quoted ''dashboard'' @ ''}, subscribe, ['' @ quoted ''$SYS/#'' @ '']}.'',
      ''{allow, {ipaddr, '' @ quoted ''127.0.0.1'' @ ''}, pubsub, ['' @ quoted ''$SYS/#'' @ '', '' @
        quoted ''#'' @ '']}.'',
      ''{deny, all, subscribe, ['' @ quoted ''$SYS/#'' @ '', {eq, '' @ quoted ''#'' @ ''}]}.'',
      ''{allow, all}.'']"

definition defaultEmqxACL :: "Emqx \<Rightarrow> Emqx" where
  "defaultEmqxACL r = mapContainer (\<lambda>c.
     if ec_EmqxACL c = [] then c\<lparr>ec_EmqxACL := defaultACLRules\<rparr> else c) r"

definition clusterConfig :: "Emqx \<Rightarrow> (string \<times> string) list" where
  "clusterConfig r =
     [(''name'', om_Name (emqxMeta r)), (''log.to'', ''console''), (''cluster.discovery'', ''dns''),
      (''cluster.dns.type'', ''srv''), (''cluster.dns.app'', om_Name (emqxMeta r)),
      (''cluster.dns.name'', HeadlessSvc (emqxMeta r) @ ''.'' @ om_Namespace (emqxMeta r) @ ''.svc.'' @
         sp4_ClusterDomain (GetSpec r)),
      (''listener.tcp.internal'', [])]"

text \<open>The entries that are missing, in whatever order the loop over the map adds them.\<close>

definition completeConfig :: "(string \<times> string) list \<Rightarrow> (string \<times> string) list \<Rightarrow> (string \<times> string) list" where
  "completeConfig defaults config =
     config @ filter (\<lambda>(k, v). k \<notin> fst ` set config) defaults"

definition defaultEmqxConfig :: "Emqx \<Rightarrow> Emqx" where
  "defaultEmqxConfig r = mapContainer (\<lambda>c.
     c\<lparr>ec_EmqxConfig := Some (completeConfig (clusterConfig r) (configEntries c))\<rparr>) r"

definition defaultServicePorts :: "servicePort list" where
  "defaultServicePorts =
     [\<lparr>sp_Name = ''http-management-8081'', sp_Protocol = ''TCP'', sp_Port = 8081,
       sp_TargetPort = IntVal 8081, sp_NodePort = 0\<rparr>,
      \<lparr>sp_Name = ''http-dashboard-18083'', sp_Protocol = ''TCP'', sp_Port = 18083,
       sp_TargetPort = IntVal 18083, sp_NodePort = 0\<rparr>]"

definition defaultServiceTemplate :: "Emqx \<Rightarrow> Emqx" where
  "defaultServiceTemplate r =
     (let m = emqxMeta r; s = sp4_ServiceTemplate (GetSpec r); sm = st4_meta s; ss = st4_Spec s
      in SetServiceTemplate
           \<lparr>st4_meta = sm\<lparr>om_Name := (if om_Name sm = [] then om_Name m else om_Name sm),
              om_Namespace := om_Namespace m, om_Labels := mergeMap4 (om_Labels sm) (om_Labels m),
              om_Annotations := mergedAnnotations (om_Annotations sm) (om_Annotations m)\<rparr>,
            st4_Spec = ss\<lparr>ss_Selector := om_Labels m,
              ss_Ports := MergeServicePorts4 (ss_Ports ss) defaultServicePorts\<rparr>\<rparr> r)"

definition defaultContainerPorts :: "containerPort list" where
  "defaultContainerPorts =
     [\<lparr>cp_Name = ''management'', cp_Protocol = ''TCP'', cp_ContainerPort = 8081\<rparr>,
      \<lparr>cp_Name = ''dashboard'', cp_Protocol = ''TCP'', cp_ContainerPort = 18083\<rparr>]"

definition defaultContainerPort :: "Emqx \<Rightarrow> Emqx" where
  "defaultContainerPort r = mapContainer (\<lambda>c.
     c\<lparr>ec_Ports := MergeContainerPorts4 (ec_Ports c) defaultContainerPorts\<rparr>) r"

definition defaultPersistent :: "Emqx \<Rightarrow> Emqx" where
  "defaultPersistent r =
     (case sp4_Persistent (GetSpec r) of
        None \<Rightarrow> r
      | Some p \<Rightarrow>
          let m = emqxMeta r; pm = pvc_meta p
          in SetPersistent (Some (p\<lparr>pvc_meta := pm
               \<lparr>om_Name := (if om_Name pm = [] then Data m else om_Name pm),
                om_Namespace := om_Namespace m, om_Labels := mergeMap4 (om_Labels pm) (om_Labels m),
                om_Annotations := mergedAnnotations (om_Annotations pm) (om_Annotations m)\<rparr>\<rparr>)) r)"

definition Default :: "Emqx \<Rightarrow> Emqx" where
  "Default r =
     defaultPersistent (defaultContainerPort (defaultServiceTemplate (defaultEmqxConfig
       (defaultEmqxACL (defaultEmqxImage (defaultLabelsAndAnnotations r))))))"

section \<open>Validation\<close>

definition validateImageVersion :: "('w, 'c) env \<Rightarrow> Emqx \<Rightarrow> goerr option" where
  "validateImageVersion E new =
     (let version = im_Version (ec_Image (emqxContainerOf new))
      in if version = ''latest'' then Some (ErrText ''image version can not be latest'')
         else (case semverLess E version ''4.4.14'' of
                 None \<Rightarrow> Some (ErrText (''invalid image version: '' @ version))
               | Some older \<Rightarrow>
                   if older then Some (ErrText (''image version '' @ version @
                     '' is too old, please upgrade to 4.4.14 or later''))
                   else if semverLess E version ''5.0.0'' \<noteq> Some True
                   then Some (ErrText (''image version '' @ version @
                     '' is too new, please downgrade to 5.0.0 earlier''))
                   else None))"

definition validatePersistent :: "Emqx \<Rightarrow> Emqx \<Rightarrow> goerr option" where
  "validatePersistent new old =
     (if sp4_Persistent (GetSpec new) \<noteq> sp4_Persistent (GetSpec old)
      then Some (ErrText ''refuse to update Persistent '') else None)"

definition changesKey :: "(string \<times> string) list \<Rightarrow> string \<Rightarrow> string \<Rightarrow> bool" where
  "changesKey config k oldValue = (case map_of config k of None \<Rightarrow> False | Some v \<Rightarrow> v \<noteq> oldValue)"

definition validateEmqxConfig :: "Emqx \<Rightarrow> Emqx \<Rightarrow> goerr option" where
  "validateEmqxConfig new old =
     (let oldEmqxConfig = configEntries (emqxContainerOf old);
          newEmqxConfig = configEntries (emqxContainerOf new)
      in if changesKey newEmqxConfig ''name'' (configValue old ''name'')
         then Some (ErrText (''refuse to update the '' @ quoted ''name'' @ '' field in '' @
                quoted ''.spec.template.spec.emqxContainer.emqxConfig''))
         else if list_ex (\<lambda>(k, oldValue). hasPrefix k ''cluster'' \<and> changesKey newEmqxConfig k oldValue)
                oldEmqxConfig
         then Some (ErrText (''refuse to update the '' @ quoted ''^cluster.*$'' @ '' field in '' @
                quoted ''.spec.template.spec.emqxContainer.emqxConfig''))
         else None)"

definition validateBootstrapAPIKey :: "Emqx \<Rightarrow> Emqx \<Rightarrow> goerr option" where
  "validateBootstrapAPIKey new old =
     (if ec_BootstrapAPIKeys (emqxContainerOf old) \<noteq> ec_BootstrapAPIKeys (emqxContainerOf new)
      then Some (ErrText ''bootstrap APIKey cannot be updated'') else None)"

fun firstError :: "goerr option list \<Rightarrow> goerr option" where
  "firstError [] = None"
| "firstError (e # es) = (case e of Some err \<Rightarrow> Some err | None \<Rightarrow> firstError es)"

definition ValidateCreate :: "('w, 'c) env \<Rightarrow> Emqx \<Rightarrow> goerr option" where
  "ValidateCreate E r = validateImageVersion E r"

text \<open>An old object of the other kind fails the type assertion.\<close>

definition ValidateUpdate :: "('w, 'c) env \<Rightarrow> Emqx \<Rightarrow> Emqx \<Rightarrow> goerr option go" where
  "ValidateUpdate E r old =
     (if isEnterprise r \<noteq> isEnterprise old then Panic
      else Ret (firstError [validateBootstrapAPIKey r old, validateImageVersion E r,
             validatePersistent r old, validateEmqxConfig r old]))"

definition ValidateUpdatePlugin :: "EmqxPlugin \<Rightarrow> EmqxPlugin \<Rightarrow> goerr option" where
  "ValidateUpdatePlugin r old =
     (if pg_PluginName (pg_Spec old) \<noteq> pg_PluginName (pg_Spec r)
      then Some (ErrText ''refuse to update pluginName'') else None)"

section \<open>Lemmas: accessors\<close>

text \<open>
  The contract of a pair of accessors of the interface: what was set is read, the last write counts,
  and a write of the value that is there, given a value it accepts, changes nothing.
\<close>

locale accessor =
  fixes getter :: "'x \<Rightarrow> 'g" and setter :: "'v \<Rightarrow> 'x \<Rightarrow> 'x" and reads :: "'v \<Rightarrow> 'g"
  assumes get_set: "getter (setter v x) = reads v"
    and set_set: "setter v (setter u x) = setter v x"
    and set_get: "getter x = reads v \<Longrightarrow> setter v x = x"
begin

lemma set_idem: "setter v (setter v x) = setter v x"
  by (rule set_set)

lemma set_same_iff: "setter v x = x \<longleftrightarrow> getter x = reads v"
  using get_set set_get by metis

end

lemma same_field:
  "sp4_Replicas s = n \<Longrightarrow> s\<lparr>sp4_Replicas := n\<rparr> = s" "sp4_ClusterDomain s = d \<Longrightarrow> s\<lparr>sp4_ClusterDomain := d\<rparr> = s"
  "sp4_Template s = t \<Longrightarrow> s\<lparr>sp4_Template := t\<rparr> = s" "sp4_ServiceTemplate s = u \<Longrightarrow> s\<lparr>sp4_ServiceTemplate := u\<rparr> = s"
  "sp4_Persistent s = p \<Longrightarrow> s\<lparr>sp4_Persistent := p\<rparr> = s"
  by (cases s; simp)+

lemma same_spec: "br_Spec b = s \<Longrightarrow> b\<lparr>br_Spec := s\<rparr> = b" "en_Spec e = s' \<Longrightarrow> e\<lparr>en_Spec := s'\<rparr> = e"
  by (cases b; simp) (cases e; simp)

lemmas accessor_simps = EmqxBrokerSpec.defs EmqxBrokerStatus.defs same_field same_spec

interpretation replicas: accessor "\<lambda>x. sp4_Replicas (GetSpec x)" SetReplicas Some
  by unfold_locales (case_tac x; simp add: accessor_simps)+

interpretation clusterDomain: accessor "\<lambda>x. sp4_ClusterDomain (GetSpec x)" SetClusterDomain "\<lambda>d. d"
  by unfold_locales (case_tac x; simp add: accessor_simps)+

interpretation template: accessor "\<lambda>x. sp4_Template (GetSpec x)" SetTemplate "\<lambda>t. t"
  by unfold_locales (case_tac x; simp add: accessor_simps)+

interpretation serviceTemplate: accessor "\<lambda>x. sp4_ServiceTemplate (GetSpec x)" SetServiceTemplate "\<lambda>t. t"
  by unfold_locales (case_tac x; simp add: accessor_simps)+

interpretation persistent: accessor "\<lambda>x. sp4_Persistent (GetSpec x)" SetPersistent "\<lambda>p. p"
  by unfold_locales (case_tac x; simp add: accessor_simps)+

interpretation reloaderImage: accessor GetReloaderImage SetReloaderImage "\<lambda>img. img"
  by unfold_locales
    (auto simp: GetReloaderImage_def SetReloaderImage_def Let_def template.get_set template.set_set
      template.set_same_iff)

section \<open>Lemmas: one pass of defaults is enough\<close>

lemma mergeMap4_idem [simp]: "mergeMap4 (mergeMap4 a b) b = mergeMap4 a b"
  by (auto simp: mergeMap4_def addMissing_def mentries_def fun_eq_iff split: option.splits)

lemma mergedAnnotations_idem [simp]:
  "mergedAnnotations (mergedAnnotations a b) b = mergedAnnotations a b"
  by (auto simp: mergedAnnotations_def mergeMap4_def dropLastApplied_def addMissing_def mentries_def
      fun_eq_iff split: option.splits)

lemma completeConfig_covers: "(k, v) \<in> set d \<Longrightarrow> k \<in> fst ` set (completeConfig d c)"
  by (cases "k \<in> fst ` set c") (auto simp: completeConfig_def intro: rev_image_eqI)

lemma completeConfig_idem [simp]: "completeConfig d (completeConfig d c) = completeConfig d c"
proof -
  have "filter (\<lambda>(k, v). k \<notin> fst ` set (completeConfig d c)) d = []"
    by (simp add: filter_empty_conv split_paired_all completeConfig_covers)
  then show ?thesis by (subst completeConfig_def) simp
qed

lemma instanceLabels_idem [simp]: "instanceLabels (m\<lparr>om_Labels := instanceLabels m\<rparr>) = instanceLabels m"
  by (auto simp: instanceLabels_def mentries_def fun_eq_iff)

lemma mergeLoop_drop_seen:
  assumes "\<And>q. q \<in> set qs \<Longrightarrow> name q \<in> N \<or> port q \<in> P"
  shows "mergeLoop name port qs N P result = result"
  using assms by (induction qs) auto

lemma mergeLoop_idem:
  fixes name :: "'p \<Rightarrow> string" and port :: "'p \<Rightarrow> int"
  defines "merge \<equiv> \<lambda>ps. mergeLoop name port ps {} {} []"
  shows "merge (merge (ps @ qs) @ qs) = merge (ps @ qs)"
proof -
  let ?m = "merge (ps @ qs)"
  have ok: "unclashing name port ?m"
    unfolding merge_def using mergeLoop_unclashing[of name port "[]"] by (simp add: unclashing_def)
  have "merge (?m @ qs) = mergeLoop name port qs (name ` set ?m) (port ` set ?m) ?m"
    using mergeLoop_keeps[of name port "[]" ?m qs] ok unfolding merge_def by simp
  also have "\<dots> = ?m"
    using mergeLoop_covers[where items = "ps @ qs" and result = "[]" and name = name and port = port]
    unfolding merge_def by (intro mergeLoop_drop_seen) auto
  finally show ?thesis .
qed

lemma mergePorts_idem [simp]:
  "MergeServicePorts4 (MergeServicePorts4 ps qs) qs = MergeServicePorts4 ps qs"
  "MergeContainerPorts4 (MergeContainerPorts4 cs ds) ds = MergeContainerPorts4 cs ds"
  unfolding MergeServicePorts4_def MergeContainerPorts4_def by (rule mergeLoop_idem)+

text \<open>The laws of the setters: what each leaves, and the order they are brought into.\<close>

lemma isEnterprise_setters [simp]:
  "isEnterprise (setEmqxMeta m r) = isEnterprise r" "isEnterprise (SetTemplate t r) = isEnterprise r"
  "isEnterprise (SetServiceTemplate s r) = isEnterprise r" "isEnterprise (SetPersistent p r) = isEnterprise r"
  by (cases r; simp add: isEnterprise_def)+

lemma emqxMeta_spec_setters [simp]:
  "emqxMeta (SetServiceTemplate s r) = emqxMeta r" "emqxMeta (SetPersistent p r) = emqxMeta r"
  by (cases r; simp)+

lemma GetSpec_spec_setters [simp]:
  "GetSpec (SetTemplate t r) = (GetSpec r)\<lparr>sp4_Template := t\<rparr>"
  "GetSpec (SetServiceTemplate s r) = (GetSpec r)\<lparr>sp4_ServiceTemplate := s\<rparr>"
  "GetSpec (SetPersistent p r) = (GetSpec r)\<lparr>sp4_Persistent := p\<rparr>"
  by (cases r; simp add: EmqxBrokerSpec.defs)+

lemma setEmqxMeta_twice [simp]: "setEmqxMeta m (setEmqxMeta m' r) = setEmqxMeta m r"
  by (cases r) simp_all

lemmas setters_twice [simp] = template.set_set serviceTemplate.set_set persistent.set_set

lemma setters_commute [simp]:
  "setEmqxMeta m (SetTemplate t r) = SetTemplate t (setEmqxMeta m r)"
  "setEmqxMeta m (SetServiceTemplate s r) = SetServiceTemplate s (setEmqxMeta m r)"
  "setEmqxMeta m (SetPersistent p r) = SetPersistent p (setEmqxMeta m r)"
  "SetTemplate t (SetServiceTemplate s r) = SetServiceTemplate s (SetTemplate t r)"
  "SetTemplate t (SetPersistent p r) = SetPersistent p (SetTemplate t r)"
  "SetServiceTemplate s (SetPersistent p r) = SetPersistent p (SetServiceTemplate s r)"
  by (cases r; simp)+

text \<open>What the seven steps leave, each part as a function of the resource that came in.\<close>

definition completedMeta :: "objectMeta \<Rightarrow> objectMeta" where
  "completedMeta m = m\<lparr>om_Labels := instanceLabels m\<rparr>"

definition inheriting :: "objectMeta \<Rightarrow> objectMeta \<Rightarrow> objectMeta" where
  "inheriting m own = own\<lparr>om_Labels := mergeMap4 (om_Labels own) (om_Labels m),
     om_Annotations := mergedAnnotations (om_Annotations own) (om_Annotations m)\<rparr>"

definition completedContainer :: "Emqx \<Rightarrow> EmqxContainer \<Rightarrow> EmqxContainer" where
  "completedContainer r c = c
     \<lparr>ec_Image := (ec_Image c)\<lparr>im_Repository :=
        (if im_Repository (ec_Image c) \<noteq> [] then im_Repository (ec_Image c)
         else if isEnterprise r then ''emqx/emqx-ee'' else ''emqx/emqx'')\<rparr>,
      ec_EmqxACL := (if ec_EmqxACL c = [] then defaultACLRules else ec_EmqxACL c),
      ec_EmqxConfig := Some (completeConfig (clusterConfig r) (configEntries c)),
      ec_Ports := MergeContainerPorts4 (ec_Ports c) defaultContainerPorts\<rparr>"

definition completedTemplate :: "Emqx \<Rightarrow> EmqxTemplate \<Rightarrow> EmqxTemplate" where
  "completedTemplate r t = onContainer (completedContainer r)
     (t\<lparr>et_meta := inheriting (completedMeta (emqxMeta r)) (et_meta t)\<rparr>)"

definition named :: "string \<Rightarrow> string \<Rightarrow> objectMeta \<Rightarrow> objectMeta" where
  "named name namespace own = own\<lparr>om_Name := (if om_Name own = [] then name else om_Name own),
     om_Namespace := namespace\<rparr>"

definition completedService :: "objectMeta \<Rightarrow> ServiceTemplate4 \<Rightarrow> ServiceTemplate4" where
  "completedService m s =
     \<lparr>st4_meta = inheriting m (named (om_Name m) (om_Namespace m) (st4_meta s)),
      st4_Spec = (st4_Spec s)\<lparr>ss_Selector := om_Labels m,
        ss_Ports := MergeServicePorts4 (ss_Ports (st4_Spec s)) defaultServicePorts\<rparr>\<rparr>"

definition completedClaim :: "objectMeta \<Rightarrow> persistentVolumeClaim \<Rightarrow> persistentVolumeClaim" where
  "completedClaim m p = p\<lparr>pvc_meta := inheriting m (named (Data m) (om_Namespace m) (pvc_meta p))\<rparr>"

definition assembled :: "Emqx \<Rightarrow> Emqx" where
  "assembled r =
     (let m = completedMeta (emqxMeta r)
      in SetPersistent (map_option (completedClaim m) (sp4_Persistent (GetSpec r)))
           (SetServiceTemplate (completedService m (sp4_ServiceTemplate (GetSpec r)))
             (SetTemplate (completedTemplate r (sp4_Template (GetSpec r))) (setEmqxMeta m r))))"

lemma clusterConfig_setters [simp]:
  "clusterConfig (setEmqxMeta (completedMeta (emqxMeta r)) r) = clusterConfig r"
  "clusterConfig (SetTemplate t r) = clusterConfig r"
  "clusterConfig (SetServiceTemplate s r) = clusterConfig r"
  "clusterConfig (SetPersistent p r) = clusterConfig r"
  by (simp_all add: clusterConfig_def HeadlessSvc_def completedMeta_def)

lemma inheriting_idem [simp]: "inheriting m (inheriting m own) = inheriting m own"
  by (simp add: inheriting_def)

lemma named_inheriting [simp]:
  "named n ns (inheriting m (named n ns own)) = inheriting m (named n ns own)"
  by (simp add: inheriting_def named_def)

lemma completedMeta_idem [simp]: "completedMeta (completedMeta m) = completedMeta m"
  by (simp add: completedMeta_def)

lemma onContainer_onContainer: "onContainer f (onContainer g t) = onContainer (\<lambda>c. f (g c)) t"
  by (simp add: onContainer_def)

lemma defaultACLRules_nonempty [simp]: "defaultACLRules \<noteq> []"
  by (simp add: defaultACLRules_def)

lemma configEntries_completed [simp]:
  "configEntries (completedContainer r c) = completeConfig (clusterConfig r) (configEntries c)"
  by (simp add: completedContainer_def configEntries_def)

lemma completedContainer_fields:
  "ec_EmqxACL (completedContainer r c) = (if ec_EmqxACL c = [] then defaultACLRules else ec_EmqxACL c)"
  "im_Repository (ec_Image (completedContainer r c)) =
     (if im_Repository (ec_Image c) \<noteq> [] then im_Repository (ec_Image c)
      else if isEnterprise r then ''emqx/emqx-ee'' else ''emqx/emqx'')"
  "ec_Ports (completedContainer r c) = MergeContainerPorts4 (ec_Ports c) defaultContainerPorts"
  "im_Version (ec_Image (completedContainer r c)) = im_Version (ec_Image c)"
  "ec_BootstrapAPIKeys (completedContainer r c) = ec_BootstrapAPIKeys c"
  by (simp_all add: completedContainer_def)

lemma completedContainer_idem [simp]:
  "completedContainer r (completedContainer r c) = completedContainer r c"
  by (simp add: completedContainer_def configEntries_def)

lemma completedClaim_idem [simp]: "completedClaim m (completedClaim m p) = completedClaim m p"
  by (simp add: completedClaim_def)

lemma completedService_idem [simp]: "completedService m (completedService m s) = completedService m s"
  by (simp add: completedService_def)

lemma completedTemplate_idem [simp]: "completedTemplate r (completedTemplate r t) = completedTemplate r t"
  by (simp add: completedTemplate_def onContainer_def)

lemma completedContainer_setters [simp]:
  "completedContainer (setEmqxMeta (completedMeta (emqxMeta r)) r) = completedContainer r"
  "completedContainer (SetTemplate t r) = completedContainer r"
  "completedContainer (SetServiceTemplate s r) = completedContainer r"
  "completedContainer (SetPersistent p r) = completedContainer r"
  by (simp_all add: fun_eq_iff completedContainer_def)

lemma completedTemplate_setters [simp]:
  "completedTemplate (setEmqxMeta (completedMeta (emqxMeta r)) r) = completedTemplate r"
  "completedTemplate (SetTemplate t r) = completedTemplate r"
  "completedTemplate (SetServiceTemplate s r) = completedTemplate r"
  "completedTemplate (SetPersistent p r) = completedTemplate r"
  by (simp_all add: fun_eq_iff completedTemplate_def)

lemma mapContainer_facts [simp]:
  "emqxMeta (mapContainer f r) = emqxMeta r" "isEnterprise (mapContainer f r) = isEnterprise r"
  "clusterConfig (mapContainer f r) = clusterConfig r"
  "mapContainer f (SetServiceTemplate s r) = SetServiceTemplate s (mapContainer f r)"
  "sp4_ServiceTemplate (GetSpec (mapContainer f r)) = sp4_ServiceTemplate (GetSpec r)"
  "mapContainer f (mapContainer g r) = mapContainer (\<lambda>c. f (g c)) r"
  by (simp_all add: mapContainer_def onContainer_onContainer)

lemma default_labels:
  "defaultLabelsAndAnnotations r =
     (let m = completedMeta (emqxMeta r); t = sp4_Template (GetSpec r)
      in SetTemplate (t\<lparr>et_meta := inheriting m (et_meta t)\<rparr>) (setEmqxMeta m r))"
  by (simp add: defaultLabelsAndAnnotations_def completedMeta_def inheriting_def Let_def)

lemma default_service:
  "defaultServiceTemplate r =
     SetServiceTemplate (completedService (emqxMeta r) (sp4_ServiceTemplate (GetSpec r))) r"
  by (simp add: defaultServiceTemplate_def completedService_def inheriting_def named_def Let_def)

lemma default_persistent:
  "defaultPersistent r =
     SetPersistent (map_option (completedClaim (emqxMeta r)) (sp4_Persistent (GetSpec r))) r"
  by (cases "sp4_Persistent (GetSpec r)")
    (simp_all add: defaultPersistent_def completedClaim_def inheriting_def named_def Let_def
      persistent.set_get)

lemma default_container:
  "defaultContainerPort (defaultServiceTemplate (defaultEmqxConfig (defaultEmqxACL (defaultEmqxImage r)))) =
     SetServiceTemplate (completedService (emqxMeta r) (sp4_ServiceTemplate (GetSpec r)))
       (mapContainer (completedContainer r) r)"
  by (auto simp: default_service defaultContainerPort_def defaultEmqxConfig_def defaultEmqxACL_def
      defaultEmqxImage_def completedContainer_def configEntries_def fun_eq_iff
      intro!: arg_cong2[where f = SetServiceTemplate] arg_cong2[where f = mapContainer])

lemma Default_assembled: "Default r = assembled r"
  by (simp add: Default_def default_labels default_container default_persistent assembled_def
      mapContainer_def completedTemplate_def Let_def)

lemma assembled_idem: "assembled (assembled r) = assembled r"
  by (simp add: assembled_def Let_def option.map_comp comp_def)

end
