(* ===== verification/V4_Webhook_Properties.thy ===== *)
theory V4_Webhook_Properties
  imports V4_Webhooks V4_Examples
begin

text \<open>
  The properties of the v1beta4 admission webhooks: the defaults settle in one pass and keep what the
  user wrote, and an update that is let through leaves the identity of the cluster alone.
\<close>

section \<open>Defaults\<close>

lemma container_Default: "emqxContainerOf (Default r) = completedContainer r (emqxContainerOf r)"
  by (simp add: Default_assembled assembled_def emqxContainerOf_def completedTemplate_def onContainer_def
      Let_def)

lemma persistent_Default:
  "sp4_Persistent (GetSpec (Default r)) =
     map_option (completedClaim (completedMeta (emqxMeta r))) (sp4_Persistent (GetSpec r))"
  by (simp add: Default_assembled assembled_def Let_def)

lemma isEnterprise_Default [simp]: "isEnterprise (Default r) = isEnterprise r"
  by (simp add: Default_assembled assembled_def Let_def)

lemma Default_twice: "Default (Default r) = Default r"
  by (simp add: Default_assembled assembled_idem)

lemma map_of_completeConfig:
  "map_of (completeConfig d c) k = (case map_of c k of None \<Rightarrow> map_of d k | Some v \<Rightarrow> Some v)"
proof -
  have "map_of (filter (\<lambda>(k, v). k \<notin> fst ` set c) d) k = (if k \<in> fst ` set c then None else map_of d k)"
    by (induction d) (auto simp: rev_image_eqI)
  then show ?thesis
    using map_of_eq_None_iff[of c k]
    by (cases "map_of c k") (simp_all add: completeConfig_def map_add_def)
qed

text \<open>
  C15. The defaulting webhook. Defaulting a resource a second time changes nothing. What the user wrote
  survives it: every entry of the configuration, a repository, a list of ACL rules; and afterwards the configuration names the node and says how the
  cluster is found, the rules and the repository are not empty, no two container ports share a name or
  a number, and the labels mark the resource as managed under its name.
\<close>

theorem defaults_settle:
  "Default (Default r) = Default r \<and>
   (let c = emqxContainerOf r; c' = emqxContainerOf (Default r)
    in (\<forall>k. map_of (configEntries c') k =
          (case map_of (configEntries c) k of None \<Rightarrow> map_of (clusterConfig r) k | Some v \<Rightarrow> Some v)) \<and>
       ec_EmqxACL c' = (if ec_EmqxACL c = [] then defaultACLRules else ec_EmqxACL c) \<and>
       im_Repository (ec_Image c') =
         (if im_Repository (ec_Image c) \<noteq> [] then im_Repository (ec_Image c)
          else if isEnterprise r then ''emqx/emqx-ee'' else ''emqx/emqx'') \<and>
       unclashing cp_Name cp_ContainerPort (ec_Ports c')) \<and>
   mentries (om_Labels (emqxMeta (Default r))) =
     (mentries (om_Labels (emqxMeta r)))(''apps.emqx.io/managed-by'' \<mapsto> ''emqx-operator'',
        ''apps.emqx.io/instance'' \<mapsto> om_Name (emqxMeta r))"
proof -
  have labels: "om_Labels (emqxMeta (Default r)) = instanceLabels (emqxMeta r)"
    by (simp add: Default_assembled assembled_def completedMeta_def Let_def)
  show ?thesis
    using mergeLoop_unclashing[of cp_Name cp_ContainerPort "[]"]
    by (simp add: Default_twice labels container_Default completedContainer_fields map_of_completeConfig
        MergeContainerPorts4_def unclashing_def instanceLabels_def mentries_def Let_def)
qed

section \<open>Updates\<close>

lemma firstError_None [simp]: "firstError es = None \<longleftrightarrow> (\<forall>e \<in> set es. e = None)"
  by (induction es) (auto split: option.splits)

definition configOf :: "Emqx \<Rightarrow> (string \<rightharpoonup> string)" where
  "configOf r = map_of (configEntries (emqxContainerOf r))"

lemma validateEmqxConfig_kept:
  assumes "validateEmqxConfig new old = None"
  shows "configOf new ''name'' = Some v \<Longrightarrow> v = configValue old ''name''"
    and "configOf old k = Some v \<Longrightarrow> hasPrefix k ''cluster'' \<Longrightarrow> configOf new k = Some w \<Longrightarrow> w = v"
  using assms
  by (auto simp: validateEmqxConfig_def changesKey_def configOf_def list_ex_iff Let_def
      split: if_splits option.splits dest!: map_of_SomeD[of "configEntries (emqxContainerOf old)"])

lemma validateImageVersion_range:
  "validateImageVersion E r = None \<longleftrightarrow>
     (let v = im_Version (ec_Image (emqxContainerOf r))
      in v \<noteq> ''latest'' \<and> semverLess E v ''4.4.14'' = Some False \<and> semverLess E v ''5.0.0'' = Some True)"
  by (auto simp: validateImageVersion_def Let_def split: option.splits if_splits)

definition identityKeys :: "string list" where
  "identityKeys = [''name'', ''cluster.discovery'', ''cluster.dns.type'', ''cluster.dns.app'', ''cluster.dns.name'']"

lemma identity_defaulted: "k \<in> set identityKeys \<Longrightarrow> \<exists>v. configOf (Default r) k = Some v"
  by (auto simp: identityKeys_def configOf_def container_Default completedContainer_fields
      map_of_completeConfig clusterConfig_def split: option.splits)

lemma identity_prefix: "k \<in> set identityKeys \<Longrightarrow> k = ''name'' \<or> hasPrefix k ''cluster''"
  by (auto simp: identityKeys_def)

text \<open>
  C14. What an update that the webhooks let through leaves alone. The old resource was defaulted when it
  was stored and the new one is defaulted before it is validated; then the node name and every setting
  by which the nodes find each other is present on both sides with the same value, no other
  \<open>cluster.*\<close> setting has another value (it may be gone), the volume claim and the API keys are
  those of the old resource, the kind is the same, and the image version lies in [4.4.14, 5.0.0).
\<close>

theorem accepted_update_keeps_identity:
  assumes "ValidateUpdate E (Default new) (Default old) = Ret None"
  shows "(\<forall>k \<in> set identityKeys. \<exists>v. configOf (Default new) k = Some v \<and> configOf (Default old) k = Some v) \<and>
    (\<forall>k v w. hasPrefix k ''cluster'' \<and> configOf (Default old) k = Some v \<and> configOf (Default new) k = Some w
       \<longrightarrow> w = v) \<and>
    sp4_Persistent (GetSpec (Default new)) = sp4_Persistent (GetSpec (Default old)) \<and>
    ec_BootstrapAPIKeys (emqxContainerOf new) = ec_BootstrapAPIKeys (emqxContainerOf old) \<and>
    isEnterprise new = isEnterprise old \<and>
    semverLess E (im_Version (ec_Image (emqxContainerOf new))) ''4.4.14'' = Some False \<and>
    semverLess E (im_Version (ec_Image (emqxContainerOf new))) ''5.0.0'' = Some True"
proof -
  have kind: "isEnterprise new = isEnterprise old"
    and keys: "validateBootstrapAPIKey (Default new) (Default old) = None"
    and version: "validateImageVersion E (Default new) = None"
    and claim: "validatePersistent (Default new) (Default old) = None"
    and config: "validateEmqxConfig (Default new) (Default old) = None"
    using assms by (simp_all add: ValidateUpdate_def del: firstError.simps split: if_splits)
  have "\<exists>v. configOf (Default new) k = Some v \<and> configOf (Default old) k = Some v"
    if key: "k \<in> set identityKeys" for k
  proof -
    obtain v w where vw: "configOf (Default new) k = Some v" "configOf (Default old) k = Some w"
      using identity_defaulted[OF key] by blast
    with identity_prefix[OF key] validateEmqxConfig_kept[OF config] have "v = w"
      by (auto simp: configValue_def configOf_def)
    with vw show ?thesis by simp
  qed
  with kind keys version claim validateEmqxConfig_kept(2)[OF config] show ?thesis
    by (auto simp: validateBootstrapAPIKey_def validatePersistent_def validateImageVersion_range
        container_Default completedContainer_fields Let_def split: if_splits)
qed

definition ex4Upgrade :: Emqx where
  "ex4Upgrade = mapContainer (\<lambda>c. c\<lparr>ec_Image := (ec_Image c)\<lparr>im_Version := ''4.4.24''\<rparr>\<rparr>) (Enterprise ex4Enterprise)"

definition ex4Semver :: "(time, unit) env" where
  "ex4Semver = (exEnv exEmpty)\<lparr>semverLess := (\<lambda>v w. Some (w = ''5.0.0''))\<rparr>"

theorem accepted_update_keeps_identity_witness:
  "configOf (Default ex4Upgrade) ''cluster.dns.name'' = Some ''svc'' \<and>
   (\<exists>v. configOf (Default ex4Upgrade) ''cluster.discovery'' = Some v \<and>
      configOf (Default (Enterprise ex4Enterprise)) ''cluster.discovery'' = Some v)"
proof -
  let ?new = "Default ex4Upgrade" and ?old = "Default (Enterprise ex4Enterprise)"
  have "validatePersistent ?new ?old = None"
    by (simp add: validatePersistent_def persistent_Default ex4Upgrade_def mapContainer_def ex4Enterprise_def
        ex4Spec_def EmqxBrokerSpec.defs)
  moreover have "validateBootstrapAPIKey ?new ?old = None" "validateImageVersion ex4Semver ?new = None"
    "validateEmqxConfig ?new ?old = None" "isEnterprise ?new = isEnterprise ?old"
    by code_simp+
  ultimately have "ValidateUpdate ex4Semver ?new ?old = Ret None"
    by (simp add: ValidateUpdate_def)
  note kept = accepted_update_keeps_identity[OF this]
  have "''cluster.discovery'' \<in> set identityKeys" by code_simp
  moreover have "configOf (Default ex4Upgrade) ''cluster.dns.name'' = Some ''svc''" by code_simp
  ultimately show ?thesis using kept by blast
qed

end
