(* ===== verification/V3_Types.thy ===== *)
theory V3_Types
  imports V4_Webhooks
begin

text \<open>
  The custom resources of API version v1beta3 (\<open>apis/apps/v1beta3\<close>): the records of
  \<open>emqxbroker_types.go\<close>, \<open>emqxenterprise_types.go\<close> and \<open>emqxplugin_types.go\<close>, the status and its
  conditions (\<open>status_types.go\<close>), the default modules (\<open>modules_type.go\<close>), the default configuration
  (\<open>config_type.go\<close>) and the service template (\<open>servicetemplate.go\<close>). The fields the broker and the
  enterprise resource share are one record, which both extend. Maps and slices the code compares
  with nil are \<open>None\<close> when they are nil.
\<close>

section \<open>Modules\<close>

record EmqxBrokerModule =
  mo_Name :: string
  mo_Enable :: bool

record EmqxEnterpriseModule =
  em_Name :: string
  em_Enable :: bool
  em_Configs :: json

definition defaultModules :: "EmqxBrokerModule list" where
  "defaultModules =
     [\<lparr>mo_Name = ''emqx_mod_acl_internal'', mo_Enable = True\<rparr>,
      \<lparr>mo_Name = ''emqx_mod_presence'', mo_Enable = True\<rparr>]"

definition LookupModule :: "EmqxBrokerModule list \<Rightarrow> string \<Rightarrow> EmqxBrokerModule option \<times> int" where
  "LookupModule items name =
     (case findIndex (\<lambda>module. mo_Name module = name) items of
        Some index \<Rightarrow> (Some (items ! index), int index)
      | None \<Rightarrow> (None, - 1))"

fun addModules :: "EmqxBrokerModule list \<Rightarrow> EmqxBrokerModule list \<Rightarrow> EmqxBrokerModule list" where
  "addModules [] items = items"
| "addModules (m # ms) items =
     addModules ms (if snd (LookupModule items (mo_Name m)) = - 1 then items @ [m] else items)"

definition DefaultModules :: "EmqxBrokerModule list option \<Rightarrow> EmqxBrokerModule list" where
  "DefaultModules items =
     addModules defaultModules (case items of None \<Rightarrow> defaultModules | Some ms \<Rightarrow> ms)"

definition moduleString :: "EmqxBrokerModule \<Rightarrow> string" where
  "moduleString m = ''{'' @ mo_Name m @ '', '' @ (if mo_Enable m then ''true'' else ''false'') @ ''}.'' @ newline"

definition BrokerModulesString :: "EmqxBrokerModule list \<Rightarrow> string" where
  "BrokerModulesString items = foldl (\<lambda>str module. str @ moduleString module) [] items"

text \<open>\<open>json.Marshal\<close> of the modules, whose configurations are raw JSON, is the argument \<open>marshal\<close>.\<close>

definition EnterpriseModulesString ::
  "(EmqxEnterpriseModule list option \<Rightarrow> string) \<Rightarrow> EmqxEnterpriseModule list option \<Rightarrow> string" where
  "EnterpriseModulesString marshal items =
     (let str = marshal items in if str = ''null'' then [] else str)"

section \<open>Spec\<close>

record ServiceTemplate3 =
  st3_meta :: objectMeta
  st3_Spec :: serviceSpec

record License3 =
  l3_Data :: "string option"
  l3_StringData :: string
  l3_SecretName :: string

record EmqxTemplate3 =
  t3_Registry :: string
  t3_Image :: string
  t3_ImagePullPolicy :: string
  t3_Username :: string
  t3_Password :: string
  t3_ExtraVolumes :: "volume list"
  t3_ExtraVolumeMounts :: "volumeMount list"
  t3_EmqxConfig :: "(string \<times> string) list option"
  t3_Args :: "string list"
  t3_SecurityContext :: "json option"
  t3_Resources :: json
  t3_ReadinessProbe :: "json option"
  t3_LivenessProbe :: "json option"
  t3_StartupProbe :: "json option"
  t3_ServiceTemplate :: ServiceTemplate3
  t3_ACL :: "string list"

record EmqxBrokerTemplate3 = EmqxTemplate3 +
  bt3_Modules :: "EmqxBrokerModule list option"

record EmqxEnterpriseTemplate3 = EmqxTemplate3 +
  et3_Modules :: "EmqxEnterpriseModule list option"
  et3_License :: License3

record EmqxSpec3 =
  s3_Replicas :: "int option"
  s3_ImagePullSecrets :: "string list"
  s3_Persistent :: pvcSpec
  s3_Env :: "envVar list"
  s3_Affinity :: "json option"
  s3_ToleRations :: "json list"
  s3_NodeName :: string
  s3_NodeSelector :: gomap
  s3_InitContainers :: "container list"
  s3_ExtraContainers :: "container list"

record EmqxBrokerSpec3 = EmqxSpec3 +
  bs3_EmqxTemplate :: EmqxBrokerTemplate3

record EmqxEnterpriseSpec3 = EmqxSpec3 +
  es3_EmqxTemplate :: EmqxEnterpriseTemplate3

section \<open>Status\<close>

text \<open>The times a user sees are formatted; \<open>LastUpdateAt\<close> is kept in memory for the order only.\<close>

record Condition3 =
  c3_Type :: string
  c3_Status :: conditionStatus
  c3_LastUpdateTime :: string
  c3_LastUpdateAt :: time
  c3_LastTransitionTime :: string
  c3_Reason :: string
  c3_Message :: string

record EmqxNode3 =
  n3_Node :: string
  n3_NodeStatus :: string
  n3_OTPRelease :: string
  n3_Version :: string

record Status3 =
  s3_Conditions :: "Condition3 list"
  s3_EmqxNodes :: "EmqxNode3 list"
  s3_StatusReplicas :: int
  s3_ReadyReplicas :: int

record EmqxBroker3 =
  b3_meta :: objectMeta
  b3_Spec :: EmqxBrokerSpec3
  b3_Status :: Status3

record EmqxEnterprise3 =
  e3_meta :: objectMeta
  e3_Spec :: EmqxEnterpriseSpec3
  e3_Status :: Status3

record EmqxPluginSpec3 =
  p3_PluginName :: string
  p3_Selector :: gomap
  p3_Config :: "(string \<times> string) list"

record EmqxPlugin3 =
  p3_meta :: objectMeta
  p3_Spec :: EmqxPluginSpec3
  p3_Phase :: string

definition ConditionPluginInitialized :: string where
  "ConditionPluginInitialized = ''PluginInitialized''"

definition NewCondition3 :: "string \<Rightarrow> conditionStatus \<Rightarrow> string \<Rightarrow> string \<Rightarrow> Condition3" where
  "NewCondition3 condType status reason message =
     \<lparr>c3_Type = condType, c3_Status = status, c3_LastUpdateTime = [], c3_LastUpdateAt = zeroTime,
      c3_LastTransitionTime = [], c3_Reason = reason, c3_Message = message\<rparr>"

definition indexCondition3 :: "Condition3 list \<Rightarrow> string \<Rightarrow> int" where
  "indexCondition3 conditions t =
     (case findIndex (\<lambda>c. t = c3_Type c) conditions of None \<Rightarrow> - 1 | Some i \<Rightarrow> int i)"

definition IsRunning3 :: "Status3 \<Rightarrow> bool" where
  "IsRunning3 s =
     (let index = indexCondition3 (s3_Conditions s) ConditionRunning
      in index = 0 \<and> c3_Status (s3_Conditions s ! nat index) = ConditionTrue)"

definition IsPluginInitialized :: "Status3 \<Rightarrow> bool" where
  "IsPluginInitialized s =
     (let index = indexCondition3 (s3_Conditions s) ConditionPluginInitialized
      in if index = - 1 then False
         else c3_Status (s3_Conditions s ! nat index) = ConditionTrue)"

definition updatedLater3 :: "Condition3 \<Rightarrow> Condition3 \<Rightarrow> bool" where
  "updatedLater3 a b = (c3_LastUpdateAt b < c3_LastUpdateAt a)"

text \<open>\<open>time.Format(time.RFC3339)\<close> in the local time zone is the argument \<open>fmt\<close>.\<close>

definition setCondition3 ::
  "(time \<Rightarrow> string) \<Rightarrow> time \<Rightarrow> Condition3 list \<Rightarrow> Condition3 \<Rightarrow> Condition3 list" where
  "setCondition3 fmt now conditions c0 =
     (let c = c0\<lparr>c3_LastUpdateAt := now, c3_LastUpdateTime := fmt now, c3_LastTransitionTime := fmt now\<rparr>;
          pos = indexCondition3 conditions (c3_Type c);
          conds =
            (if pos \<ge> 0 then
               let old = conditions ! nat pos;
                   c' = (if c3_Status old = c3_Status c \<and> c3_LastTransitionTime old \<noteq> []
                         then c\<lparr>c3_LastTransitionTime := c3_LastTransitionTime old\<rparr> else c)
               in conditions[nat pos := c']
             else conditions @ [c])
      in go_sort updatedLater3 conds)"

definition SetCondition3 :: "(time \<Rightarrow> string) \<Rightarrow> time \<Rightarrow> Status3 \<Rightarrow> Condition3 \<Rightarrow> Status3" where
  "SetCondition3 fmt now s c = s\<lparr>s3_Conditions := setCondition3 fmt now (s3_Conditions s) c\<rparr>"

section \<open>Defaults\<close>

text \<open>Names of the objects of a resource that v1beta4 does not have.\<close>

definition LoadedModules :: "objectMeta \<Rightarrow> string" where
  "LoadedModules m = om_Name m @ ''-loaded-modules''"

definition clusterConfig3 :: "objectMeta \<Rightarrow> (string \<times> string) list" where
  "clusterConfig3 m =
     [(''name'', om_Name m), (''log.to'', ''console''), (''cluster.discovery'', ''dns''),
      (''cluster.dns.type'', ''srv''), (''cluster.dns.app'', om_Name m),
      (''cluster.dns.name'', HeadlessSvc m @ ''.'' @ om_Namespace m @ ''.svc.cluster.local''),
      (''listener.tcp.internal'', [])]"

text \<open>Writing into a nil map panics, and there is always an entry to write into one.\<close>

definition DefaultConfig3 ::
  "objectMeta \<Rightarrow> (string \<times> string) list option \<Rightarrow> (string \<times> string) list option go" where
  "DefaultConfig3 m config =
     (case config of
        None \<Rightarrow> Panic
      | Some entries \<Rightarrow> Ret (Some (completeConfig (clusterConfig3 m) entries)))"

fun mergeByName :: "servicePort list \<Rightarrow> string set \<Rightarrow> servicePort list \<Rightarrow> servicePort list" where
  "mergeByName [] seen result = result"
| "mergeByName (p # ps) seen result =
     (if sp_Name p \<in> seen then mergeByName ps seen result
      else mergeByName ps (insert (sp_Name p) seen) (result @ [p]))"

definition MergePorts :: "ServiceTemplate3 \<Rightarrow> servicePort list \<Rightarrow> ServiceTemplate3" where
  "MergePorts s ports =
     s\<lparr>st3_Spec := (st3_Spec s)\<lparr>ss_Ports := mergeByName (ss_Ports (st3_Spec s) @ ports) {} []\<rparr>\<rparr>"

text \<open>The keys of the annotations that are copied: all but the last applied configuration.\<close>

definition copiedAnnotations :: "gomap \<Rightarrow> gomap \<Rightarrow> gomap" where
  "copiedAnnotations own annotations =
     Some (addMissing (mentries own)
       ((mentries annotations)(''kubectl.kubernetes.io/last-applied-configuration'' := None)))"

definition DefaultService3 :: "objectMeta \<Rightarrow> ServiceTemplate3 \<Rightarrow> ServiceTemplate3" where
  "DefaultService3 emqx s =
     (let sm = st3_meta s
      in MergePorts
           \<lparr>st3_meta = sm\<lparr>om_Namespace := om_Namespace emqx,
              om_Name := (if om_Name sm = [] then om_Name emqx else om_Name sm),
              om_Labels := mergeMap4 (om_Labels sm) (om_Labels emqx),
              om_Annotations := copiedAnnotations (om_Annotations sm) (om_Annotations emqx)\<rparr>,
            st3_Spec = (st3_Spec s)\<lparr>ss_Selector := om_Labels emqx\<rparr>\<rparr>
           [\<lparr>sp_Name = ''http-management-8081'', sp_Protocol = ''TCP'', sp_Port = 8081,
             sp_TargetPort = IntVal 8081, sp_NodePort = 0\<rparr>])"

section \<open>Lemmas\<close>

interpretation updatedLater3: go_less updatedLater3
  unfolding updatedLater3_def by unfold_locales auto

definition storedCondition3 :: "(time \<Rightarrow> string) \<Rightarrow> time \<Rightarrow> Condition3 list \<Rightarrow> Condition3 \<Rightarrow> Condition3" where
  "storedCondition3 fmt now cs c =
     c\<lparr>c3_LastUpdateAt := now, c3_LastUpdateTime := fmt now,
       c3_LastTransitionTime :=
         (case find (\<lambda>d. c3_Type d = c3_Type c) cs of
            Some d \<Rightarrow>
              if c3_Status d = c3_Status c \<and> c3_LastTransitionTime d \<noteq> [] then c3_LastTransitionTime d
              else fmt now
          | None \<Rightarrow> fmt now)\<rparr>"

lemma storedCondition3_simps [simp]:
  "c3_Type (storedCondition3 fmt now cs c) = c3_Type c"
  "c3_Status (storedCondition3 fmt now cs c) = c3_Status c"
  by (simp_all add: storedCondition3_def)

lemma setCondition3_placed:
  "setCondition3 fmt now cs c = go_sort updatedLater3 (placed c3_Type cs (storedCondition3 fmt now cs c))"
  by (cases "findIndex (\<lambda>d. c3_Type d = c3_Type c) cs")
    (auto simp: setCondition3_def indexCondition3_def placed_def storedCondition3_def find_findIndex
      Let_def eq_commute[of "c3_Type c"])

definition conditionMap3 :: "Condition3 list \<Rightarrow> string \<rightharpoonup> Condition3" where
  "conditionMap3 cs = (\<lambda>t. find (\<lambda>c. c3_Type c = t) cs)"

definition conditions3_inv :: "Condition3 list \<Rightarrow> bool" where
  "conditions3_inv cs \<longleftrightarrow> distinct (map c3_Type cs)"

lemma setCondition3_inv: "conditions3_inv cs \<Longrightarrow> conditions3_inv (setCondition3 fmt now cs c)"
  by (simp add: conditions3_inv_def setCondition3_placed placed_types)

lemma conditionMap3_set:
  "conditions3_inv cs \<Longrightarrow>
   conditionMap3 (setCondition3 fmt now cs c) = (conditionMap3 cs)(c3_Type c \<mapsto> storedCondition3 fmt now cs c)"
  using find_sorted_placed[of c3_Type cs]
  by (auto simp: conditions3_inv_def conditionMap3_def setCondition3_placed)

interpretation conditions3:
  condition_store conditions3_inv "setCondition3 fmt" conditionMap3 c3_Type c3_Status for fmt
  by unfold_locales (auto simp: setCondition3_inv conditionMap3_set)

end
