(* ===== verification/Go_Regexp.thy ===== *)
theory Go_Regexp
  imports Go_Prelude
begin

text \<open>
  The part of Go's package \<open>regexp\<close> the program uses: literals, repetitions of a class of characters,
  sequences, alternatives and optional parts, with leftmost-first matching. Of several matches at one
  position the first in the order of the alternatives is taken, a repetition and an optional part
  prefer to take as much as they can; of several positions the leftmost is taken.
\<close>

datatype regexp =
    Lit string
  | Many1 "char \<Rightarrow> bool"       \<comment> \<open>one or more characters of a class, greedy\<close>
  | Many "char \<Rightarrow> bool"        \<comment> \<open>any number of characters of a class, greedy\<close>
  | Seq regexp regexp
  | Alt regexp regexp
  | Opt regexp

text \<open>The prefixes of a run of characters, longest first, each with what follows it.\<close>

definition runs :: "(char \<Rightarrow> bool) \<Rightarrow> nat \<Rightarrow> string \<Rightarrow> (string \<times> string) list" where
  "runs P least s = map (\<lambda>n. (take n s, drop n s)) (rev [least ..< Suc (length (takeWhile P s))])"

text \<open>The matches at the start of a string in order of preference, each with what follows it.\<close>

fun matches :: "regexp \<Rightarrow> string \<Rightarrow> (string \<times> string) list" where
  "matches (Lit w) s = (if hasPrefix s w then [(w, drop (length w) s)] else [])"
| "matches (Many1 P) s = runs P 1 s"
| "matches (Many P) s = runs P 0 s"
| "matches (Seq a b) s =
     concat (map (\<lambda>(m, rest). map (\<lambda>(m', rest'). (m @ m', rest')) (matches b rest)) (matches a s))"
| "matches (Alt a b) s = matches a s @ matches b s"
| "matches (Opt a) s = matches a s @ [([], s)]"

text \<open>
  \<open>FindStringIndex\<close>: what stands before the match, the match and what follows it; \<open>None\<close> when the
  string has no match.
\<close>

fun findString :: "regexp \<Rightarrow> string \<Rightarrow> (string \<times> string \<times> string) option" where
  "findString r s =
     (case matches r s of
        (m, rest) # _ \<Rightarrow> Some ([], m, rest)
      | [] \<Rightarrow>
          (case s of
             [] \<Rightarrow> None
           | c # cs \<Rightarrow> map_option (\<lambda>(before, m, rest). (c # before, m, rest)) (findString r cs)))"

declare findString.simps [simp del]

definition matchString :: "regexp \<Rightarrow> string \<Rightarrow> bool" where
  "matchString r s = (findString r s \<noteq> None)"

text \<open>A pattern anchored at both ends.\<close>

definition matchWhole :: "regexp \<Rightarrow> string \<Rightarrow> bool" where
  "matchWhole r s = list_ex (\<lambda>(m, rest). rest = []) (matches r s)"

section \<open>Lemmas\<close>

lemma hasPrefix_conv: "hasPrefix s w \<longleftrightarrow> s = w @ drop (length w) s"
  by (induction s w rule: hasPrefix.induct) auto

lemma matches_split: "(m, rest) \<in> set (matches r s) \<Longrightarrow> m @ rest = s"
proof (induction r arbitrary: s m rest)
  case (Lit w)
  then show ?case by (simp add: hasPrefix_conv split: if_splits)
next
  case (Seq a b)
  then show ?case by fastforce
qed (auto simp: runs_def)

text \<open>What was found stands in the string where it was found.\<close>

lemma findString_split: "findString r s = Some (before, m, rest) \<Longrightarrow> before @ m @ rest = s"
proof (induction s arbitrary: before)
  case Nil
  then show ?case
    using matches_split[of m rest r "[]"]
    by (cases "matches r []") (auto simp: findString.simps[of r "[]"])
next
  case (Cons c s)
  then show ?case
    using matches_split[of m rest r "c # s"]
    by (cases "matches r (c # s)") (auto simp: findString.simps[of r "c # s"])
qed

lemma matches_findString: "matches r s \<noteq> [] \<Longrightarrow> matchString r (p @ s)"
proof (induction p)
  case Nil
  then show ?case by (auto simp: matchString_def findString.simps[of r s] split: list.splits)
next
  case (Cons c p)
  then show ?case
    by (auto simp: matchString_def findString.simps[of r "c # p @ s"] split: list.splits)
qed

lemma matchWhole_Seq: "matchWhole (Seq a b) s \<longleftrightarrow> (\<exists>(m, rest) \<in> set (matches a s). matchWhole b rest)"
  by (fastforce simp: matchWhole_def list_ex_iff)

lemma matchWhole_Lit: "matchWhole (Lit w) s \<longleftrightarrow> s = w"
  by (auto simp: matchWhole_def hasPrefix_conv)

lemma mem_runs: "(m, rest) \<in> set (runs P 0 s) \<longleftrightarrow> m @ rest = s \<and> list_all P m"
proof
  assume "(m, rest) \<in> set (runs P 0 s)"
  then obtain n where "n \<le> length (takeWhile P s)" "m = take n s" "rest = drop n s"
    by (auto simp: runs_def less_Suc_eq_le simp del: upt_Suc)
  moreover from this(1) have "take n (takeWhile P s) = take n s"
    by (metis min_absorb1 takeWhile_eq_take take_take)
  ultimately have "m @ rest = s" "m = take n (takeWhile P s)" by simp_all
  then show "m @ rest = s \<and> list_all P m"
    by (metis in_set_takeD list_all_iff set_takeWhileD)
next
  assume m: "m @ rest = s \<and> list_all P m"
  then have "length m \<le> length (takeWhile P s)" by (auto simp: list_all_iff)
  moreover have "(m, rest) = (take (length m) s, drop (length m) s)" using m by auto
  ultimately show "(m, rest) \<in> set (runs P 0 s)"
    by (auto simp: runs_def less_Suc_eq_le simp del: upt_Suc)
qed

text \<open>What a pattern of a prefix, a run and a suffix matches as a whole.\<close>

lemma matchWhole_run:
  "matchWhole (Seq (Lit a) (Seq (Many P) (Lit b))) s \<longleftrightarrow> (\<exists>mid. s = a @ mid @ b \<and> list_all P mid)"
proof -
  have "hasPrefix s a \<longleftrightarrow> (\<exists>rest. s = a @ rest)" using hasPrefix_conv[of s a] by auto
  then show ?thesis by (auto simp: matchWhole_Seq matchWhole_Lit mem_runs)
qed

end
