(* ===== verification/V3_Conversion.thy ===== *)
theory V3_Conversion
  imports V3_Types Go_Regexp
begin

text \<open>
  The conversions between the API versions v1beta3 and v1beta4 (\<open>emqxbroker_conversion.go\<close>,
  \<open>emqxenterprise_conversion.go\<close> and \<open>emqxplugin_conversion.go\<close> of \<open>apis/apps/v1beta3\<close>). A conversion
  writes into the resource it is given: it takes that resource as an argument and returns it
  changed. The two cluster kinds convert their shared fields in the same way.
\<close>

section \<open>The image\<close>

definition versionPattern :: regexp where
  "versionPattern =
     Alt (Lit ''latest'')
       (Seq (Many1 isDigit)
         (Seq (Opt (Seq (Lit ''.'') (Many1 isDigit)))
           (Seq (Opt (Seq (Lit ''.'') (Many1 isDigit)))
             (Opt (Seq (Lit ''-'')
               (Seq (Alt (Lit ''alpha'') (Alt (Lit ''beta'') (Lit ''rc'')))
                 (Seq (Lit ''.'') (Many1 isDigit))))))))"

text \<open>An image without a colon has no second part, and the index panics.\<close>

definition convertImage :: "string \<Rightarrow> EmqxImage \<Rightarrow> EmqxImage go" where
  "convertImage src dst =
     (case splitByte (CHR '':'') src of
        repository # tag # _ \<Rightarrow>
          Ret (case findString versionPattern tag of
                 None \<Rightarrow> dst\<lparr>im_Repository := repository\<rparr>
               | Some (before, version, rest) \<Rightarrow>
                   dst\<lparr>im_Repository := repository, im_Version := version, im_Prefix := before,
                     im_Suffix := rest\<rparr>)
      | _ \<Rightarrow> Panic)"

section \<open>To v1beta4\<close>

definition orList :: "'a list \<Rightarrow> 'a list \<Rightarrow> 'a list" where
  "orList src dst = (if src \<noteq> [] then src else dst)"

definition orOption :: "'a option \<Rightarrow> 'a option \<Rightarrow> 'a option" where
  "orOption src dst = (if src \<noteq> None then src else dst)"

definition zeroPvcSpec :: pvcSpec where
  "zeroPvcSpec = \<lparr>pvc_VolumeMode = None, pvc_other = JNull\<rparr>"

definition zeroService3 :: ServiceTemplate3 where
  "zeroService3 = \<lparr>st3_meta = emptyMeta, st3_Spec = emptyServiceSpec\<rparr>"

definition zeroService4 :: ServiceTemplate4 where
  "zeroService4 = \<lparr>st4_meta = emptyMeta, st4_Spec = emptyServiceSpec\<rparr>"

definition serviceTo :: "ServiceTemplate3 \<Rightarrow> ServiceTemplate4 \<Rightarrow> ServiceTemplate4" where
  "serviceTo src dst =
     (if src \<noteq> zeroService3 then \<lparr>st4_meta = st3_meta src, st4_Spec = st3_Spec src\<rparr> else dst)"

definition persistentTo ::
  "objectMeta \<Rightarrow> pvcSpec \<Rightarrow> persistentVolumeClaim option \<Rightarrow> persistentVolumeClaim option" where
  "persistentTo m src dst =
     (if src \<noteq> zeroPvcSpec then Some \<lparr>pvc_meta = emptyMeta\<lparr>om_Name := Data m\<rparr>, pvc_spec = src\<rparr> else dst)"

definition containerTo ::
  "('a EmqxSpec3_scheme) \<Rightarrow> ('b EmqxTemplate3_scheme) \<Rightarrow> EmqxImage \<Rightarrow> EmqxContainer \<Rightarrow> EmqxContainer" where
  "containerTo spec t img dst =
     dst\<lparr>ec_Image := img\<lparr>im_PullPolicy := orList (t3_ImagePullPolicy t) (im_PullPolicy img)\<rparr>,
       ec_EmqxConfig := orOption (t3_EmqxConfig t) (ec_EmqxConfig dst),
       ec_EmqxACL := orList (t3_ACL t) (ec_EmqxACL dst),
       ec_Args := orList (t3_Args t) (ec_Args dst),
       ec_Resources := (if t3_Resources t \<noteq> JNull then t3_Resources t else ec_Resources dst),
       ec_ReadinessProbe := orOption (t3_ReadinessProbe t) (ec_ReadinessProbe dst),
       ec_LivenessProbe := orOption (t3_LivenessProbe t) (ec_LivenessProbe dst),
       ec_StartupProbe := orOption (t3_StartupProbe t) (ec_StartupProbe dst),
       ec_VolumeMounts := orList (t3_ExtraVolumeMounts t) (ec_VolumeMounts dst),
       ec_Env := (if s3_Env spec \<noteq> [] then ec_Env dst @ s3_Env spec else ec_Env dst)\<rparr>"

definition templateSpecTo ::
  "('a EmqxSpec3_scheme) \<Rightarrow> ('b EmqxTemplate3_scheme) \<Rightarrow> EmqxImage \<Rightarrow> EmqxTemplateSpec \<Rightarrow> EmqxTemplateSpec"
  where
  "templateSpecTo spec t img dst =
     dst\<lparr>ts_EmqxContainer := containerTo spec t img (ts_EmqxContainer dst),
       ts_Volumes := orList (t3_ExtraVolumes t) (ts_Volumes dst),
       ts_PodSecurityContext := orOption (t3_SecurityContext t) (ts_PodSecurityContext dst),
       ts_InitContainers := orList (s3_InitContainers spec) (ts_InitContainers dst),
       ts_ExtraContainers := orList (s3_ExtraContainers spec) (ts_ExtraContainers dst),
       ts_ImagePullSecrets := orList (s3_ImagePullSecrets spec) (ts_ImagePullSecrets dst),
       ts_Tolerations := orList (s3_ToleRations spec) (ts_Tolerations dst),
       ts_NodeName := orList (s3_NodeName spec) (ts_NodeName dst),
       ts_NodeSelector := orOption (s3_NodeSelector spec) (ts_NodeSelector dst),
       ts_Affinity := orOption (s3_Affinity spec) (ts_Affinity dst)\<rparr>"

definition templateTo ::
  "objectMeta \<Rightarrow> ('a EmqxSpec3_scheme) \<Rightarrow> ('b EmqxTemplate3_scheme) \<Rightarrow> EmqxImage \<Rightarrow>
   EmqxTemplate \<Rightarrow> EmqxTemplate" where
  "templateTo m spec t img dst =
     \<lparr>et_meta = (et_meta dst)\<lparr>om_Labels := om_Labels m, om_Annotations := om_Annotations m\<rparr>,
      et_Spec = templateSpecTo spec t img (et_Spec dst)\<rparr>"

text \<open>The fields of the spec both kinds share, with the image already converted.\<close>

definition specTo ::
  "objectMeta \<Rightarrow> ('a EmqxSpec3_scheme) \<Rightarrow> ('b EmqxTemplate3_scheme) \<Rightarrow> EmqxImage \<Rightarrow>
   ('c EmqxBrokerSpec_scheme) \<Rightarrow> ('c EmqxBrokerSpec_scheme)" where
  "specTo m spec t img dst =
     dst\<lparr>sp4_Replicas := s3_Replicas spec, sp4_ClusterDomain := ''cluster.local'',
       sp4_ServiceTemplate := serviceTo (t3_ServiceTemplate t) (sp4_ServiceTemplate dst),
       sp4_Persistent := persistentTo m (s3_Persistent spec) (sp4_Persistent dst),
       sp4_Template := templateTo m spec t img (sp4_Template dst)\<rparr>"

definition ConvertToBroker :: "EmqxBroker3 \<Rightarrow> EmqxBroker \<Rightarrow> EmqxBroker go" where
  "ConvertToBroker src dst =
     (let m = b3_meta src; spec = b3_Spec src; t = bs3_EmqxTemplate spec;
          img = ec_Image (ts_EmqxContainer (et_Spec (sp4_Template (br_Spec dst))))
      in case convertImage (t3_Image t) (img\<lparr>im_Version := ''latest''\<rparr>) of
           Panic \<Rightarrow> Panic
         | Ret converted \<Rightarrow> Ret (dst\<lparr>br_meta := m, br_Spec := specTo m spec t converted (br_Spec dst)\<rparr>))"

definition zeroLicense3 :: License3 where
  "zeroLicense3 = \<lparr>l3_Data = None, l3_StringData = [], l3_SecretName = []\<rparr>"

definition licenseTo :: "License3 \<Rightarrow> EmqxLicense \<Rightarrow> EmqxLicense" where
  "licenseTo src dst =
     (if src \<noteq> zeroLicense3
      then \<lparr>li_Data = l3_Data src, li_StringData = l3_StringData src, li_SecretName = l3_SecretName src\<rparr>
      else dst)"

definition ConvertToEnterprise :: "EmqxEnterprise3 \<Rightarrow> EmqxEnterprise \<Rightarrow> EmqxEnterprise go" where
  "ConvertToEnterprise src dst =
     (let m = e3_meta src; spec = e3_Spec src; t = es3_EmqxTemplate spec;
          img = ec_Image (ts_EmqxContainer (et_Spec (sp4_Template (en_Spec dst))))
      in case convertImage (t3_Image t) img of
           Panic \<Rightarrow> Panic
         | Ret converted \<Rightarrow>
             Ret (dst\<lparr>en_meta := m,
               en_Spec := (specTo m spec t converted (en_Spec dst))
                 \<lparr>sp4_License := licenseTo (et3_License t) (sp4_License (en_Spec dst))\<rparr>\<rparr>))"

definition ConvertToPlugin :: "EmqxPlugin3 \<Rightarrow> EmqxPlugin \<Rightarrow> EmqxPlugin" where
  "ConvertToPlugin src dst =
     dst\<lparr>pg_meta := p3_meta src,
       pg_Spec := \<lparr>pg_PluginName = p3_PluginName (p3_Spec src), pg_Selector = p3_Selector (p3_Spec src),
         pg_Config = p3_Config (p3_Spec src)\<rparr>\<rparr>"

section \<open>From v1beta4\<close>

definition serviceFrom :: "ServiceTemplate4 \<Rightarrow> ServiceTemplate3 \<Rightarrow> ServiceTemplate3" where
  "serviceFrom src dst =
     (if src \<noteq> zeroService4 then \<lparr>st3_meta = st4_meta src, st3_Spec = st4_Spec src\<rparr> else dst)"

definition persistentFrom :: "persistentVolumeClaim option \<Rightarrow> pvcSpec \<Rightarrow> pvcSpec" where
  "persistentFrom src dst = (case src of Some p \<Rightarrow> pvc_spec p | None \<Rightarrow> dst)"

definition templateFrom ::
  "Emqx \<Rightarrow> ('b EmqxTemplate3_scheme) \<Rightarrow> ('b EmqxTemplate3_scheme)" where
  "templateFrom src t =
     (let ts = et_Spec (sp4_Template (GetSpec src)); c = ts_EmqxContainer ts
      in t\<lparr>t3_ServiceTemplate := serviceFrom (sp4_ServiceTemplate (GetSpec src)) (t3_ServiceTemplate t),
           t3_Image := GetEmqxImage src,
           t3_ImagePullPolicy := orList (im_PullPolicy (ec_Image c)) (t3_ImagePullPolicy t),
           t3_EmqxConfig := orOption (ec_EmqxConfig c) (t3_EmqxConfig t),
           t3_ACL := orList (ec_EmqxACL c) (t3_ACL t),
           t3_Args := orList (ec_Args c) (t3_Args t),
           t3_Resources := (if ec_Resources c \<noteq> JNull then ec_Resources c else t3_Resources t),
           t3_ReadinessProbe := orOption (ec_ReadinessProbe c) (t3_ReadinessProbe t),
           t3_LivenessProbe := orOption (ec_LivenessProbe c) (t3_LivenessProbe t),
           t3_StartupProbe := orOption (ec_StartupProbe c) (t3_StartupProbe t),
           t3_ExtraVolumeMounts := orList (ec_VolumeMounts c) (t3_ExtraVolumeMounts t),
           t3_ExtraVolumes := orList (ts_Volumes ts) (t3_ExtraVolumes t),
           t3_SecurityContext := orOption (ts_PodSecurityContext ts) (t3_SecurityContext t)\<rparr>)"

definition specFrom :: "Emqx \<Rightarrow> ('a EmqxSpec3_scheme) \<Rightarrow> ('a EmqxSpec3_scheme)" where
  "specFrom src spec =
     (let sp = GetSpec src; ts = et_Spec (sp4_Template sp); c = ts_EmqxContainer ts
      in spec\<lparr>s3_Replicas := sp4_Replicas sp,
           s3_Persistent := persistentFrom (sp4_Persistent sp) (s3_Persistent spec),
           s3_InitContainers := orList (ts_InitContainers ts) (s3_InitContainers spec),
           s3_ExtraContainers := orList (ts_ExtraContainers ts) (s3_ExtraContainers spec),
           s3_ImagePullSecrets := orList (ts_ImagePullSecrets ts) (s3_ImagePullSecrets spec),
           s3_Env := orList (ec_Env c) (s3_Env spec),
           s3_ToleRations := orList (ts_Tolerations ts) (s3_ToleRations spec),
           s3_NodeName := orList (ts_NodeName ts) (s3_NodeName spec),
           s3_NodeSelector := orOption (ts_NodeSelector ts) (s3_NodeSelector spec),
           s3_Affinity := orOption (ts_Affinity ts) (s3_Affinity spec)\<rparr>)"

definition ConvertFromBroker :: "EmqxBroker \<Rightarrow> EmqxBroker3 \<Rightarrow> EmqxBroker3" where
  "ConvertFromBroker src dst =
     dst\<lparr>b3_meta := br_meta src,
       b3_Spec := (specFrom (Broker src) (b3_Spec dst))
         \<lparr>bs3_EmqxTemplate := templateFrom (Broker src) (bs3_EmqxTemplate (b3_Spec dst))\<rparr>\<rparr>"

text \<open>The guard of the license looks at the license of the resource that is written.\<close>

definition ConvertFromEnterprise :: "EmqxEnterprise \<Rightarrow> EmqxEnterprise3 \<Rightarrow> EmqxEnterprise3" where
  "ConvertFromEnterprise src dst =
     (let t = templateFrom (Enterprise src) (es3_EmqxTemplate (e3_Spec dst));
          l = sp4_License (en_Spec src)
      in dst\<lparr>e3_meta := en_meta src,
           e3_Spec := (specFrom (Enterprise src) (e3_Spec dst))
             \<lparr>es3_EmqxTemplate :=
                (if et3_License t \<noteq> zeroLicense3
                 then t\<lparr>et3_License := \<lparr>l3_Data = li_Data l, l3_StringData = li_StringData l,
                        l3_SecretName = li_SecretName l\<rparr>\<rparr>
                 else t)\<rparr>\<rparr>)"

text \<open>Both resources after the call: the conversion writes into its source.\<close>

definition ConvertFromPlugin :: "EmqxPlugin \<Rightarrow> EmqxPlugin3 \<Rightarrow> EmqxPlugin \<times> EmqxPlugin3" where
  "ConvertFromPlugin src dst =
     (src\<lparr>pg_meta := p3_meta dst,
        pg_Spec := \<lparr>pg_PluginName = p3_PluginName (p3_Spec dst), pg_Selector = p3_Selector (p3_Spec dst),
          pg_Config = p3_Config (p3_Spec dst)\<rparr>\<rparr>,
      dst)"

section \<open>Lemmas\<close>

text \<open>The zero values a conversion starts from.\<close>

definition zeroImage :: EmqxImage where
  "zeroImage = \<lparr>im_Registry = [], im_Repository = [], im_Version = [], im_Prefix = [], im_Suffix = [],
     im_PullPolicy = []\<rparr>"

definition zeroContainer :: EmqxContainer where
  "zeroContainer =
     \<lparr>ec_Image = zeroImage, ec_Command = [], ec_Args = [], ec_WorkingDir = [], ec_Ports = [],
      ec_EnvFrom = [], ec_Env = [], ec_Resources = JNull, ec_VolumeMounts = [], ec_VolumeDevices = [],
      ec_LivenessProbe = None, ec_ReadinessProbe = None, ec_StartupProbe = None, ec_Lifecycle = None,
      ec_TerminationMessagePath = [], ec_TerminationMessagePolicy = [], ec_SecurityContext = None,
      ec_Stdin = False, ec_StdinOnce = False, ec_TTY = False, ec_EmqxConfig = None, ec_EmqxACL = [],
      ec_BootstrapAPIKeys = None\<rparr>"

definition zeroTemplate :: EmqxTemplate where
  "zeroTemplate =
     \<lparr>et_meta = emptyMeta,
      et_Spec = \<lparr>ts_ServiceAccountName = [], ts_ReloaderImage = [], ts_ImagePullSecrets = [],
        ts_EmqxContainer = zeroContainer, ts_ExtraContainers = [], ts_InitContainers = [],
        ts_EphemeralContainers = [], ts_Volumes = [], ts_PodSecurityContext = None,
        ts_NodeSelector = None, ts_NodeName = [], ts_Affinity = None, ts_Tolerations = []\<rparr>\<rparr>"

definition zeroBroker :: EmqxBroker where
  "zeroBroker =
     \<lparr>br_meta = emptyMeta,
      br_Spec = \<lparr>sp4_Replicas = None, sp4_ClusterDomain = [], sp4_Persistent = None,
        sp4_Template = zeroTemplate, sp4_ServiceTemplate = zeroService4\<rparr>,
      br_Status = \<lparr>st4_Conditions = [], st4_EmqxNodes = [], st4_Replicas = 0, st4_ReadyReplicas = 0,
        st4_CurrentStatefulSetVersion = []\<rparr>\<rparr>"

definition zeroEnterprise :: EmqxEnterprise where
  "zeroEnterprise =
     \<lparr>en_meta = emptyMeta,
      en_Spec = \<lparr>sp4_Replicas = None, sp4_ClusterDomain = [], sp4_Persistent = None,
        sp4_Template = zeroTemplate, sp4_ServiceTemplate = zeroService4,
        sp4_License = \<lparr>li_Data = None, li_StringData = [], li_SecretName = []\<rparr>,
        sp4_EmqxBlueGreenUpdate = None\<rparr>,
      en_Status = \<lparr>st4_Conditions = [], st4_EmqxNodes = [], st4_Replicas = 0, st4_ReadyReplicas = 0,
        st4_CurrentStatefulSetVersion = [], st4_EmqxBlueGreenUpdateStatus = None\<rparr>\<rparr>"

definition zeroTemplate3 :: EmqxTemplate3 where
  "zeroTemplate3 =
     \<lparr>t3_Registry = [], t3_Image = [], t3_ImagePullPolicy = [], t3_Username = [], t3_Password = [],
      t3_ExtraVolumes = [], t3_ExtraVolumeMounts = [], t3_EmqxConfig = None, t3_Args = [],
      t3_SecurityContext = None, t3_Resources = JNull, t3_ReadinessProbe = None,
      t3_LivenessProbe = None, t3_StartupProbe = None, t3_ServiceTemplate = zeroService3, t3_ACL = []\<rparr>"

definition zeroSpec3 :: EmqxSpec3 where
  "zeroSpec3 =
     \<lparr>s3_Replicas = None, s3_ImagePullSecrets = [], s3_Persistent = zeroPvcSpec, s3_Env = [],
      s3_Affinity = None, s3_ToleRations = [], s3_NodeName = [], s3_NodeSelector = None,
      s3_InitContainers = [], s3_ExtraContainers = []\<rparr>"

definition zeroStatus3 :: Status3 where
  "zeroStatus3 = \<lparr>s3_Conditions = [], s3_EmqxNodes = [], s3_StatusReplicas = 0, s3_ReadyReplicas = 0\<rparr>"

definition zeroBroker3 :: EmqxBroker3 where
  "zeroBroker3 =
     \<lparr>b3_meta = emptyMeta,
      b3_Spec = EmqxSpec3.extend zeroSpec3 (EmqxBrokerSpec3.fields
        (EmqxTemplate3.extend zeroTemplate3 (EmqxBrokerTemplate3.fields None))),
      b3_Status = zeroStatus3\<rparr>"

definition zeroEnterprise3 :: EmqxEnterprise3 where
  "zeroEnterprise3 =
     \<lparr>e3_meta = emptyMeta,
      e3_Spec = EmqxSpec3.extend zeroSpec3 (EmqxEnterpriseSpec3.fields
        (EmqxTemplate3.extend zeroTemplate3 (EmqxEnterpriseTemplate3.fields None zeroLicense3))),
      e3_Status = zeroStatus3\<rparr>"

lemma orList_simps [simp]: "orList xs [] = xs" "orList [] ys = ys"
  by (simp_all add: orList_def)

lemma orOption_simps [simp]: "orOption x None = x" "orOption None y = y"
  by (simp_all add: orOption_def)

lemma serviceFrom_serviceTo [simp]: "serviceFrom (serviceTo s zeroService4) zeroService3 = s"
  by (cases s) (auto simp: serviceFrom_def serviceTo_def zeroService3_def zeroService4_def)

lemma persistentFrom_persistentTo [simp]: "persistentFrom (persistentTo m s None) zeroPvcSpec = s"
  by (simp add: persistentFrom_def persistentTo_def)

text \<open>An image the conversion reads as it is meant: a clean repository, one colon, a tag with a version.\<close>

definition plainImage :: "string \<Rightarrow> bool" where
  "plainImage s =
     (case splitByte (CHR '':'') s of
        [repository, tag] \<Rightarrow>
          repository \<noteq> [] \<and> filepathClean repository = repository \<and> matchString versionPattern tag
      | _ \<Rightarrow> False)"

lemma splitByte_two: "splitByte c s = [v, w] \<Longrightarrow> s = v @ [c] @ w"
  using splitByte_join[of c s] by simp

lemma convertImage_plain:
  assumes "plainImage s"
  obtains repository before version rest where
    "convertImage s dst = Ret (dst\<lparr>im_Repository := repository, im_Version := version,
       im_Prefix := before, im_Suffix := rest\<rparr>)"
    "s = repository @ '':'' @ before @ version @ rest"
    "repository \<noteq> []" "filepathClean repository = repository"
proof -
  from assms obtain repository tag where split: "splitByte (CHR '':'') s = [repository, tag]"
    and ok: "repository \<noteq> []" "filepathClean repository = repository" "matchString versionPattern tag"
    by (auto simp: plainImage_def split: list.splits)
  from ok(3) obtain before version rest where found: "findString versionPattern tag = Some (before, version, rest)"
    by (auto simp: matchString_def)
  have "convertImage s dst = Ret (dst\<lparr>im_Repository := repository, im_Version := version,
      im_Prefix := before, im_Suffix := rest\<rparr>)"
    by (simp add: convertImage_def split found)
  moreover have "s = repository @ '':'' @ before @ version @ rest"
    using splitByte_two[OF split] findString_split[OF found] by simp
  ultimately show thesis using ok(1,2) by (rule that)
qed

end
