(* ===== verification/Conversion.thy ===== *)
theory Conversion
  imports Go_Prelude
begin

text \<open>
  The contract of a conversion between an old API version and the stored one. A client of the old
  version stores a resource (\<open>ConvertTo\<close>), reads it again (\<open>ConvertFrom\<close>) and writes back what it has
  read. It must see its own resource, less the part the stored version has no place for, and its
  write must not change what is stored.
\<close>

definition goOption :: "'a go \<Rightarrow> 'a option" where
  "goOption r = (case r of Ret a \<Rightarrow> Some a | Panic \<Rightarrow> None)"

definition sumOption :: "goerr + 'a \<Rightarrow> 'a option" where
  "sumOption r = (case r of Inr a \<Rightarrow> Some a | Inl err \<Rightarrow> None)"

lemma goOption_Some [simp]: "goOption r = Some a \<longleftrightarrow> r = Ret a"
  by (simp add: goOption_def split: go.splits)

lemma sumOption_Some [simp]: "sumOption r = Some a \<longleftrightarrow> r = Inr a"
  by (simp add: sumOption_def split: sum.splits)

locale returning =
  fixes valid :: "'a \<Rightarrow> bool" and convertTo :: "'a \<Rightarrow> 'h option" and convertFrom :: "'h \<Rightarrow> 'a option"
    and kept :: "'a \<Rightarrow> 'a"
  assumes returns: "valid x \<Longrightarrow> \<exists>h. convertTo x = Some h \<and> convertFrom h = Some (kept x)"
begin

lemma separates: "valid x \<Longrightarrow> valid y \<Longrightarrow> convertTo x = convertTo y \<Longrightarrow> kept x = kept y"
  using returns[of x] returns[of y] by auto

end

locale conversion = returning +
  assumes unchanged: "valid x \<Longrightarrow> convertTo (kept x) = convertTo x"
begin

text \<open>A client that reads and writes back leaves the stored resource as it is.\<close>

lemma writeBack:
  "valid x \<Longrightarrow> \<exists>h. convertTo x = Some h \<and> convertFrom h = Some (kept x) \<and> convertTo (kept x) = Some h"
  using returns unchanged by fastforce

text \<open>What a client has read once it reads again.\<close>

lemma settled:
  assumes "valid x" "valid (kept x)"
  shows "kept (kept x) = kept x"
  using separates[OF assms(2,1)] unchanged[OF assms(1)] by simp

end

end
