(* ===== verification/V3_Properties.thy ===== *)
theory V3_Properties
  imports V3_Conversion Conversion V4_Examples
begin

text \<open>
  The properties of the conversions between v1beta3 and v1beta4: what a resource keeps on its way to
  the stored version and back, and what it loses.
\<close>

section \<open>There and back\<close>

text \<open>The fields v1beta4 has no place for are left out; the status is not converted.\<close>

definition withoutLost :: "('b EmqxTemplate3_scheme) \<Rightarrow> ('b EmqxTemplate3_scheme)" where
  "withoutLost t = t\<lparr>t3_Registry := [], t3_Username := [], t3_Password := []\<rparr>"

lemma specTo_facts [simp]:
  "sp4_Replicas (specTo m s t img d) = s3_Replicas s"
  "sp4_Persistent (specTo m s t img d) = persistentTo m (s3_Persistent s) (sp4_Persistent d)"
  "sp4_ServiceTemplate (specTo m s t img d) = serviceTo (t3_ServiceTemplate t) (sp4_ServiceTemplate d)"
  "sp4_Template (specTo m s t img d) = templateTo m s t img (sp4_Template d)"
  by (simp_all add: specTo_def)

text \<open>What an instance converted from zero holds, read through the interface.\<close>

definition converted :: "objectMeta \<Rightarrow> ('a EmqxSpec3_scheme) \<Rightarrow> ('b EmqxTemplate3_scheme) \<Rightarrow> EmqxImage \<Rightarrow> Emqx \<Rightarrow> bool"
  where
  "converted m s t img x \<longleftrightarrow>
     sp4_Replicas (GetSpec x) = s3_Replicas s \<and>
     sp4_Persistent (GetSpec x) = persistentTo m (s3_Persistent s) None \<and>
     sp4_ServiceTemplate (GetSpec x) = serviceTo (t3_ServiceTemplate t) zeroService4 \<and>
     sp4_Template (GetSpec x) = templateTo m s t img zeroTemplate"

lemma specFrom_converted:
  assumes "converted m s t img x" and "spec = EmqxSpec3.extend zeroSpec3 e"
  shows "specFrom x spec = s\<lparr>EmqxSpec3.more := e\<rparr>"
  using assms
  by (cases s) (auto simp: converted_def specFrom_def templateTo_def templateSpecTo_def containerTo_def
      zeroTemplate_def zeroContainer_def zeroSpec3_def EmqxSpec3.defs Let_def)

lemma templateFrom_converted:
  assumes "converted m s t img x" and "GetEmqxImage x = t3_Image t" and "im_PullPolicy img = []"
    and "t' = EmqxTemplate3.extend zeroTemplate3 e"
  shows "templateFrom x t' = withoutLost t\<lparr>EmqxTemplate3.more := e\<rparr>"
  using assms
  by (cases t) (auto simp: converted_def templateFrom_def templateTo_def templateSpecTo_def containerTo_def
      zeroTemplate_def zeroContainer_def zeroTemplate3_def withoutLost_def EmqxTemplate3.defs Let_def)

text \<open>The image is put together again from the parts it was split into.\<close>

lemma image_converted:
  assumes "converted m s t (img\<lparr>im_Repository := repository, im_Version := version, im_Prefix := before,
      im_Suffix := rest\<rparr>) x"
    and "im_Registry img = []" "repository \<noteq> []" "filepathClean repository = repository"
  shows "GetEmqxImage x = repository @ '':'' @ before @ version @ rest"
  using assms
  by (simp add: GetEmqxImage_def emqxContainerOf_def converted_def templateTo_def templateSpecTo_def
      containerTo_def filepathJoin_def Let_def)

lemmas zero_defs = zeroBroker_def zeroEnterprise_def zeroTemplate_def zeroContainer_def zeroImage_def

text \<open>The part that extends a shared record, replaced as a whole.\<close>

lemma more_is_extension:
  fixes bs :: EmqxBrokerSpec3 and es :: EmqxEnterpriseSpec3 and bt :: EmqxBrokerTemplate3
    and et :: EmqxEnterpriseTemplate3
  shows "bs\<lparr>EmqxSpec3.more := \<lparr>bs3_EmqxTemplate = b\<rparr>\<rparr> = bs\<lparr>bs3_EmqxTemplate := b\<rparr>"
    "es\<lparr>EmqxSpec3.more := \<lparr>es3_EmqxTemplate = e\<rparr>\<rparr> = es\<lparr>es3_EmqxTemplate := e\<rparr>"
    "bt\<lparr>EmqxTemplate3.more := \<lparr>bt3_Modules = ms\<rparr>\<rparr> = bt\<lparr>bt3_Modules := ms\<rparr>"
    "et\<lparr>EmqxTemplate3.more := \<lparr>et3_Modules = ns, et3_License = l\<rparr>\<rparr> = et\<lparr>et3_Modules := ns, et3_License := l\<rparr>"
  by (cases bs, simp) (cases es, simp, cases bt, simp, cases et, simp)

definition keptBroker :: "EmqxBroker3 \<Rightarrow> EmqxBroker3" where
  "keptBroker src =
     src\<lparr>b3_Spec := (b3_Spec src)
        \<lparr>bs3_EmqxTemplate := (withoutLost (bs3_EmqxTemplate (b3_Spec src)))\<lparr>bt3_Modules := None\<rparr>\<rparr>,
       b3_Status := zeroStatus3\<rparr>"

definition keptEnterprise :: "EmqxEnterprise3 \<Rightarrow> EmqxEnterprise3" where
  "keptEnterprise src =
     src\<lparr>e3_Spec := (e3_Spec src)
        \<lparr>es3_EmqxTemplate := (withoutLost (es3_EmqxTemplate (e3_Spec src)))
           \<lparr>et3_Modules := None, et3_License := zeroLicense3\<rparr>\<rparr>,
       e3_Status := zeroStatus3\<rparr>"

lemma broker_back:
  assumes "converted (b3_meta src) (b3_Spec src) t img (Broker hub)" "br_meta hub = b3_meta src"
    and "t = bs3_EmqxTemplate (b3_Spec src)" "GetEmqxImage (Broker hub) = t3_Image t" "im_PullPolicy img = []"
  shows "ConvertFromBroker hub zeroBroker3 = keptBroker src"
proof -
  have spec: "b3_Spec zeroBroker3 = EmqxSpec3.extend zeroSpec3 (EmqxBrokerSpec3.fields
      (bs3_EmqxTemplate (b3_Spec zeroBroker3)))"
    and t: "bs3_EmqxTemplate (b3_Spec zeroBroker3) =
      EmqxTemplate3.extend zeroTemplate3 (EmqxBrokerTemplate3.fields None)"
    by (simp_all add: zeroBroker3_def EmqxSpec3.defs EmqxBrokerSpec3.defs)
  show ?thesis
    unfolding ConvertFromBroker_def
    by (simp only: specFrom_converted[OF assms(1) spec] templateFrom_converted[OF assms(1,4,5) t])
      (simp add: keptBroker_def zeroBroker3_def assms(2,3) EmqxBrokerSpec3.defs EmqxBrokerTemplate3.defs
        withoutLost_def more_is_extension)
qed

lemma enterprise_back:
  assumes "converted (e3_meta src) (e3_Spec src) t img (Enterprise hub)" "en_meta hub = e3_meta src"
    and "t = es3_EmqxTemplate (e3_Spec src)" "GetEmqxImage (Enterprise hub) = t3_Image t" "im_PullPolicy img = []"
  shows "ConvertFromEnterprise hub zeroEnterprise3 = keptEnterprise src"
proof -
  have spec: "e3_Spec zeroEnterprise3 = EmqxSpec3.extend zeroSpec3 (EmqxEnterpriseSpec3.fields
      (es3_EmqxTemplate (e3_Spec zeroEnterprise3)))"
    and t: "es3_EmqxTemplate (e3_Spec zeroEnterprise3) =
      EmqxTemplate3.extend zeroTemplate3 (EmqxEnterpriseTemplate3.fields None zeroLicense3)"
    by (simp_all add: zeroEnterprise3_def EmqxSpec3.defs EmqxEnterpriseSpec3.defs)
  show ?thesis
    unfolding ConvertFromEnterprise_def
    by (simp only: specFrom_converted[OF assms(1) spec] templateFrom_converted[OF assms(1,4,5) t])
      (simp add: keptEnterprise_def zeroEnterprise3_def assms(2,3) EmqxEnterpriseSpec3.defs
        EmqxEnterpriseTemplate3.defs withoutLost_def more_is_extension Let_def)
qed

lemma broker_returns:
  assumes "plainImage (t3_Image (bs3_EmqxTemplate (b3_Spec src)))"
  shows "\<exists>hub. ConvertToBroker src zeroBroker = Ret hub \<and> ConvertFromBroker hub zeroBroker3 = keptBroker src"
proof -
  let ?t = "bs3_EmqxTemplate (b3_Spec src)"
  obtain repository before version rest where
    img: "convertImage (t3_Image ?t) (zeroImage\<lparr>im_Version := ''latest''\<rparr>) =
      Ret (zeroImage\<lparr>im_Version := ''latest'', im_Repository := repository, im_Version := version,
        im_Prefix := before, im_Suffix := rest\<rparr>)" (is "_ = Ret ?img")
    and parts: "t3_Image ?t = repository @ '':'' @ before @ version @ rest"
      "repository \<noteq> []" "filepathClean repository = repository"
    using convertImage_plain[OF assms] by metis
  let ?hub = "zeroBroker\<lparr>br_meta := b3_meta src, br_Spec := specTo (b3_meta src) (b3_Spec src) ?t ?img (br_Spec zeroBroker)\<rparr>"
  have hub: "ConvertToBroker src zeroBroker = Ret ?hub"
    using img by (simp add: ConvertToBroker_def zero_defs Let_def)
  have conv: "converted (b3_meta src) (b3_Spec src) ?t ?img (Broker ?hub)"
    by (simp add: converted_def zeroBroker_def)
  have "GetEmqxImage (Broker ?hub) = t3_Image ?t"
    unfolding parts(1) by (rule image_converted[OF conv _ parts(2,3)]) (simp add: zeroImage_def)
  from hub broker_back[OF conv _ refl this] show ?thesis by (simp add: zeroImage_def)
qed

lemma withoutLost_simps [simp]:
  "t3_Image (withoutLost t) = t3_Image t" "withoutLost (withoutLost t) = withoutLost t"
  by (simp_all add: withoutLost_def)

lemma specTo_kept [simp]:
  "specTo m (s\<lparr>bs3_EmqxTemplate := b\<rparr>) t img d = specTo m s t img d"
  "specTo m (s'\<lparr>es3_EmqxTemplate := e\<rparr>) t img d = specTo m s' t img d"
  "specTo m spec (withoutLost t) img d = specTo m spec t img d"
  "specTo m spec (bt\<lparr>bt3_Modules := ms\<rparr>) img d = specTo m spec bt img d"
  "specTo m spec (et\<lparr>et3_Modules := ns\<rparr>) img d = specTo m spec et img d"
  "specTo m spec (et\<lparr>et3_License := l\<rparr>) img d = specTo m spec et img d"
  by (simp_all add: specTo_def templateTo_def templateSpecTo_def containerTo_def withoutLost_def)

lemma broker_written_back [simp]: "ConvertToBroker (keptBroker src) zeroBroker = ConvertToBroker src zeroBroker"
  by (simp add: keptBroker_def ConvertToBroker_def Let_def split: go.split)

interpretation brokers: conversion
  "\<lambda>src. plainImage (t3_Image (bs3_EmqxTemplate (b3_Spec src)))" "\<lambda>src. goOption (ConvertToBroker src zeroBroker)"
  "\<lambda>hub. Some (ConvertFromBroker hub zeroBroker3)" keptBroker
  by unfold_locales (simp_all add: broker_returns)

text \<open>
  C17. A broker that is stored as v1beta4 and read again as v1beta3, each time into a fresh resource,
  comes back as it was, and writing it back leaves the stored resource as it is: its metadata, the image (put together again from repository, prefix, version
  and suffix), the service template, the volume claim and every field of the pods, whether they were
  set or not. The status is left to the controllers, and the registry, the dashboard user and the
  modules have no place in v1beta4. The image needs a repository in the canonical form of a path, one
  colon, and a tag in which the version pattern finds a version.
\<close>

theorem broker_conversion_roundtrip:
  assumes "plainImage (t3_Image (bs3_EmqxTemplate (b3_Spec src)))"
  shows "\<exists>hub. ConvertToBroker src zeroBroker = Ret hub \<and> ConvertFromBroker hub zeroBroker3 = keptBroker src \<and>
    ConvertToBroker (keptBroker src) zeroBroker = Ret hub"
  using brokers.writeBack[OF assms] by simp

definition ex3Template :: EmqxTemplate3 where
  "ex3Template = zeroTemplate3\<lparr>t3_Image := ''emqx/emqx:v4.4.8-rc.1-alpine'', t3_ACL := [''{allow, all}.'']\<rparr>"

definition ex3Broker :: EmqxBroker3 where
  "ex3Broker =
     \<lparr>b3_meta = exMeta ''emqx'',
      b3_Spec = EmqxSpec3.extend (zeroSpec3\<lparr>s3_Replicas := Some 3, s3_NodeName := ''node''\<rparr>)
        (EmqxBrokerSpec3.fields (EmqxTemplate3.extend ex3Template (EmqxBrokerTemplate3.fields None))),
      b3_Status = zeroStatus3\<rparr>"

theorem broker_conversion_roundtrip_witness:
  "\<exists>hub. ConvertToBroker ex3Broker zeroBroker = Ret hub \<and>
     ConvertFromBroker hub zeroBroker3 = keptBroker ex3Broker \<and>
     ConvertToBroker (keptBroker ex3Broker) zeroBroker = Ret hub"
proof -
  have "plainImage (t3_Image (bs3_EmqxTemplate (b3_Spec ex3Broker)))" by code_simp
  then show ?thesis by (rule broker_conversion_roundtrip)
qed

section \<open>What is lost\<close>

definition zeroLicense4 :: EmqxLicense where
  "zeroLicense4 = \<lparr>li_Data = None, li_StringData = [], li_SecretName = []\<rparr>"

lemma enterprise_returns:
  assumes "plainImage (t3_Image (es3_EmqxTemplate (e3_Spec src)))"
  shows "\<exists>hub. ConvertToEnterprise src zeroEnterprise = Ret hub \<and>
    ConvertFromEnterprise hub zeroEnterprise3 = keptEnterprise src \<and>
    sp4_License (en_Spec hub) = licenseTo (et3_License (es3_EmqxTemplate (e3_Spec src))) zeroLicense4"
proof -
  let ?t = "es3_EmqxTemplate (e3_Spec src)"
  obtain repository before version rest where
    img: "convertImage (t3_Image ?t) zeroImage =
      Ret (zeroImage\<lparr>im_Repository := repository, im_Version := version, im_Prefix := before,
        im_Suffix := rest\<rparr>)" (is "_ = Ret ?img")
    and parts: "t3_Image ?t = repository @ '':'' @ before @ version @ rest"
      "repository \<noteq> []" "filepathClean repository = repository"
    using convertImage_plain[OF assms] by metis
  let ?hub = "zeroEnterprise\<lparr>en_meta := e3_meta src,
      en_Spec := (specTo (e3_meta src) (e3_Spec src) ?t ?img (en_Spec zeroEnterprise))
        \<lparr>sp4_License := licenseTo (et3_License ?t) (sp4_License (en_Spec zeroEnterprise))\<rparr>\<rparr>"
  have hub: "ConvertToEnterprise src zeroEnterprise = Ret ?hub"
    using img by (simp add: ConvertToEnterprise_def zero_defs Let_def)
  have conv: "converted (e3_meta src) (e3_Spec src) ?t ?img (Enterprise ?hub)"
    by (simp add: converted_def zeroEnterprise_def specTo_def EmqxBrokerSpec.defs)
  have "GetEmqxImage (Enterprise ?hub) = t3_Image ?t"
    unfolding parts(1) by (rule image_converted[OF conv _ parts(2,3)]) (simp add: zeroImage_def)
  from enterprise_back[OF conv _ refl this] have returned:
    "ConvertFromEnterprise ?hub zeroEnterprise3 = keptEnterprise src" by (simp add: zeroImage_def)
  show ?thesis
    by (rule exI[of _ ?hub]) (use hub returned in \<open>simp add: zeroEnterprise_def zeroLicense4_def\<close>)
qed

text \<open>Writing back what was read removes the license from the stored resource, and changes nothing else.\<close>

lemma enterprise_written_back:
  "ConvertToEnterprise (keptEnterprise src) zeroEnterprise =
     map_go (\<lambda>hub. hub\<lparr>en_Spec := (en_Spec hub)\<lparr>sp4_License := zeroLicense4\<rparr>\<rparr>) (ConvertToEnterprise src zeroEnterprise)"
  by (simp add: ConvertToEnterprise_def keptEnterprise_def Let_def licenseTo_def zeroEnterprise_def zeroLicense4_def
      split: go.split)

lemma same_license:
  fixes hub :: EmqxEnterprise
  assumes "sp4_License (en_Spec hub) = l"
  shows "hub\<lparr>en_Spec := (en_Spec hub)\<lparr>sp4_License := l\<rparr>\<rparr> = hub"
proof -
  have "(en_Spec hub)\<lparr>sp4_License := l\<rparr> = en_Spec hub" using assms by (cases "en_Spec hub") simp
  then show ?thesis by (cases hub) simp
qed

lemma license_kept: "et3_License (es3_EmqxTemplate (e3_Spec (keptEnterprise src))) = zeroLicense3"
  by (simp add: keptEnterprise_def)

interpretation unlicensed: conversion
  "\<lambda>src. plainImage (t3_Image (es3_EmqxTemplate (e3_Spec src))) \<and>
     et3_License (es3_EmqxTemplate (e3_Spec src)) = zeroLicense3"
  "\<lambda>src. goOption (ConvertToEnterprise src zeroEnterprise)"
  "\<lambda>hub. Some (ConvertFromEnterprise hub zeroEnterprise3)" keptEnterprise
proof unfold_locales
  fix src :: EmqxEnterprise3
  assume ok: "plainImage (t3_Image (es3_EmqxTemplate (e3_Spec src))) \<and>
     et3_License (es3_EmqxTemplate (e3_Spec src)) = zeroLicense3"
  then show "\<exists>h. goOption (ConvertToEnterprise src zeroEnterprise) = Some h \<and>
     Some (ConvertFromEnterprise h zeroEnterprise3) = Some (keptEnterprise src)"
    using enterprise_returns[of src] by auto
  show "goOption (ConvertToEnterprise (keptEnterprise src) zeroEnterprise) =
      goOption (ConvertToEnterprise src zeroEnterprise)"
    using ok enterprise_returns[of src] by (auto simp: enterprise_written_back licenseTo_def same_license)
qed


definition ex3Enterprise :: EmqxEnterprise3 where
  "ex3Enterprise =
     \<lparr>e3_meta = exMeta ''emqx'',
      e3_Spec = EmqxSpec3.extend zeroSpec3 (EmqxEnterpriseSpec3.fields
        (EmqxTemplate3.extend ex3Template (EmqxEnterpriseTemplate3.fields None
          \<lparr>l3_Data = None, l3_StringData = [], l3_SecretName = ''secret''\<rparr>))),
      e3_Status = zeroStatus3\<rparr>"


text \<open>
  The conversion looks only at the first two parts of an image between colons. An image with a
  registry port, \<open>host:5000/emqx/emqx:4.4.8\<close>, is converted as if its tag were not there, whatever the
  tag is, and an image without any colon makes the conversion panic.
\<close>

theorem registry_port_hides_the_tag:
  assumes "CHR '':'' \<notin> set host" "CHR '':'' \<notin> set path"
  shows "ConvertToBroker (src\<lparr>b3_Spec := s\<lparr>bs3_EmqxTemplate := t\<lparr>t3_Image := host @ '':'' @ path @ '':'' @ tag\<rparr>\<rparr>\<rparr>) dst =
      ConvertToBroker (src\<lparr>b3_Spec := s\<lparr>bs3_EmqxTemplate := t\<lparr>t3_Image := host @ '':'' @ path\<rparr>\<rparr>\<rparr>) dst \<and>
    ConvertToBroker (src\<lparr>b3_Spec := s\<lparr>bs3_EmqxTemplate := t\<lparr>t3_Image := host\<rparr>\<rparr>\<rparr>) dst = Panic"
proof -
  have "convertImage (host @ '':'' @ path @ '':'' @ tag) img = convertImage (host @ '':'' @ path) img"
    "convertImage host img = Panic" for img
    using assms by (simp_all add: convertImage_def splitByte_append_sep splitByte_single)
  then show ?thesis
    by (simp add: ConvertToBroker_def specTo_def templateTo_def templateSpecTo_def containerTo_def Let_def
        split: go.split)
qed

theorem registry_port_hides_the_tag_witness:
  "ConvertToBroker (ex3Broker\<lparr>b3_Spec := (b3_Spec ex3Broker)\<lparr>bs3_EmqxTemplate :=
     (bs3_EmqxTemplate (b3_Spec ex3Broker))\<lparr>t3_Image := ''emqx''\<rparr>\<rparr>\<rparr>) zeroBroker = Panic"
  using registry_port_hides_the_tag[where host = "''emqx''" and path = "''emqx''" and src = ex3Broker] by simp

end
