(* ===== verification/V4_Rebalance.thy ===== *)
theory V4_Rebalance
  imports Rebalance_Types
begin

text \<open>
  The \<open>Rebalance\<close> of API version v1beta4 (\<open>apis/apps/v1beta4/rebalance_types.go\<close>): its types, which are
  not those of v2beta1, and the operations of its status. The status is read as one of v2beta1 by
  \<open>statusToV2\<close>; every operation commutes with it, so a job that is driven by either version goes
  through the same phases.
\<close>

section \<open>Types\<close>

record RebalanceStrategy4 =
  rst4_ConnEvictRate :: int
  rst4_SessEvictRate :: int
  rst4_WaitTakeover :: int
  rst4_WaitHealthCheck :: int
  rst4_AbsConnThreshold :: int
  rst4_RelConnThreshold :: string
  rst4_AbsSessThreshold :: int
  rst4_RelSessThreshold :: string

record RebalanceSpec4 =
  r4_InstanceName :: string
  r4_RebalanceStrategy :: RebalanceStrategy4

record RebalanceCondition4 =
  rc4_Type :: string
  rc4_Status :: conditionStatus
  rc4_LastUpdateTime :: time
  rc4_LastTransitionTime :: time
  rc4_Reason :: string
  rc4_Message :: string

record RebalanceState4 =
  rbs4_State :: string
  rbs4_SessionEvictionRate :: int
  rbs4_Recipients :: "string list"
  rbs4_Node :: string
  rbs4_Donors :: "string list"
  rbs4_CoordinatorNode :: string
  rbs4_ConnectionEvictionRate :: int

record RebalanceStatus4 =
  r4_Conditions :: "RebalanceCondition4 list"
  r4_Phase :: string
  r4_RebalanceStates :: "RebalanceState4 list"
  r4_StartedTime :: time
  r4_CompletedTime :: time

record Rebalance4 =
  r4_meta :: objectMeta
  r4_Spec :: RebalanceSpec4
  r4_Status :: RebalanceStatus4

section \<open>Status operations\<close>

definition getConditionIndex4 :: "RebalanceStatus4 \<Rightarrow> string \<Rightarrow> int" where
  "getConditionIndex4 status condType =
     (case findIndex (\<lambda>c. condType = rc4_Type c) (r4_Conditions status) of None \<Rightarrow> - 1 | Some i \<Rightarrow> int i)"

definition jobUpdatedLater4 :: "RebalanceCondition4 \<Rightarrow> RebalanceCondition4 \<Rightarrow> bool" where
  "jobUpdatedLater4 a b = (rc4_LastUpdateTime b < rc4_LastUpdateTime a)"

definition SetRebalanceCondition4 ::
  "time \<Rightarrow> RebalanceStatus4 \<Rightarrow> RebalanceCondition4 \<Rightarrow> RebalanceStatus4" where
  "SetRebalanceCondition4 now s c0 =
     (let c = c0\<lparr>rc4_LastUpdateTime := now, rc4_LastTransitionTime := now\<rparr>;
          pos = getConditionIndex4 s (rc4_Type c);
          conds =
            (if pos \<ge> 0 then
               let old = r4_Conditions s ! nat pos;
                   c' = (if rc4_Status old = rc4_Status c
                         then c\<lparr>rc4_LastTransitionTime := rc4_LastTransitionTime old\<rparr> else c)
               in (r4_Conditions s)[nat pos := c']
             else r4_Conditions s @ [c])
      in s\<lparr>r4_Conditions := go_sort jobUpdatedLater4 conds\<rparr>)"

definition SetFailed4 ::
  "time \<Rightarrow> RebalanceStatus4 \<Rightarrow> RebalanceCondition4 \<Rightarrow> RebalanceStatus4 \<times> goerr option" where
  "SetFailed4 now s condition =
     (if rc4_Type condition \<noteq> ''Failed'' then (s, Some (ErrText (''condition type must be '' @ ''Failed'')))
      else (SetRebalanceCondition4 now (s\<lparr>r4_Phase := ''Failed''\<rparr>) condition, None))"

definition SetCompleted4 ::
  "time \<Rightarrow> RebalanceStatus4 \<Rightarrow> RebalanceCondition4 \<Rightarrow> RebalanceStatus4 \<times> goerr option" where
  "SetCompleted4 now s condition =
     (if r4_Phase s \<noteq> ''Processing'' then (s, Some (ErrText ''rebalance job is not in processing''))
      else if rc4_Type condition \<noteq> ''Completed''
      then (s, Some (ErrText (''condition type must be '' @ ''Completed'')))
      else (SetRebalanceCondition4 now (s\<lparr>r4_Phase := ''Completed'', r4_CompletedTime := now\<rparr>) condition, None))"

definition SetProcessing4 ::
  "time \<Rightarrow> RebalanceStatus4 \<Rightarrow> RebalanceCondition4 \<Rightarrow> RebalanceStatus4 \<times> goerr option" where
  "SetProcessing4 now s condition =
     (if r4_Phase s = ''Failed'' then (s, Some (ErrText ''rebalance job has been failed''))
      else if r4_Phase s = ''Completed'' then (s, Some (ErrText ''rebalance job has been completed''))
      else if rc4_Type condition \<noteq> ''Processing''
      then (s, Some (ErrText (''condition type must be '' @ ''Processing'')))
      else (SetRebalanceCondition4 now
              (s\<lparr>r4_Phase := ''Processing'',
                 r4_StartedTime := (if r4_StartedTime s = zeroTime then now else r4_StartedTime s)\<rparr>)
              condition, None))"

section \<open>Reading one version as the other\<close>

definition strategyToV2 :: "RebalanceStrategy4 \<Rightarrow> RebalanceStrategy" where
  "strategyToV2 s = \<lparr>rst_ConnEvictRate = rst4_ConnEvictRate s, rst_SessEvictRate = rst4_SessEvictRate s,
     rst_WaitTakeover = rst4_WaitTakeover s, rst_WaitHealthCheck = rst4_WaitHealthCheck s,
     rst_AbsConnThreshold = rst4_AbsConnThreshold s, rst_RelConnThreshold = rst4_RelConnThreshold s,
     rst_AbsSessThreshold = rst4_AbsSessThreshold s, rst_RelSessThreshold = rst4_RelSessThreshold s\<rparr>"

definition strategyFromV2 :: "RebalanceStrategy \<Rightarrow> RebalanceStrategy4" where
  "strategyFromV2 s = \<lparr>rst4_ConnEvictRate = rst_ConnEvictRate s, rst4_SessEvictRate = rst_SessEvictRate s,
     rst4_WaitTakeover = rst_WaitTakeover s, rst4_WaitHealthCheck = rst_WaitHealthCheck s,
     rst4_AbsConnThreshold = rst_AbsConnThreshold s, rst4_RelConnThreshold = rst_RelConnThreshold s,
     rst4_AbsSessThreshold = rst_AbsSessThreshold s, rst4_RelSessThreshold = rst_RelSessThreshold s\<rparr>"

definition jobConditionToV2 :: "RebalanceCondition4 \<Rightarrow> RebalanceCondition" where
  "jobConditionToV2 c = \<lparr>rc_Type = rc4_Type c, rc_Status = rc4_Status c,
     rc_LastUpdateTime = rc4_LastUpdateTime c, rc_LastTransitionTime = rc4_LastTransitionTime c,
     rc_Reason = rc4_Reason c, rc_Message = rc4_Message c\<rparr>"

definition jobConditionFromV2 :: "RebalanceCondition \<Rightarrow> RebalanceCondition4" where
  "jobConditionFromV2 c = \<lparr>rc4_Type = rc_Type c, rc4_Status = rc_Status c,
     rc4_LastUpdateTime = rc_LastUpdateTime c, rc4_LastTransitionTime = rc_LastTransitionTime c,
     rc4_Reason = rc_Reason c, rc4_Message = rc_Message c\<rparr>"

definition stateToV2 :: "RebalanceState4 \<Rightarrow> RebalanceState" where
  "stateToV2 s = \<lparr>rbs_State = rbs4_State s, rbs_SessionEvictionRate = rbs4_SessionEvictionRate s,
     rbs_Recipients = rbs4_Recipients s, rbs_Node = rbs4_Node s, rbs_Donors = rbs4_Donors s,
     rbs_CoordinatorNode = rbs4_CoordinatorNode s, rbs_ConnectionEvictionRate = rbs4_ConnectionEvictionRate s\<rparr>"

definition stateFromV2 :: "RebalanceState \<Rightarrow> RebalanceState4" where
  "stateFromV2 s = \<lparr>rbs4_State = rbs_State s, rbs4_SessionEvictionRate = rbs_SessionEvictionRate s,
     rbs4_Recipients = rbs_Recipients s, rbs4_Node = rbs_Node s, rbs4_Donors = rbs_Donors s,
     rbs4_CoordinatorNode = rbs_CoordinatorNode s, rbs4_ConnectionEvictionRate = rbs_ConnectionEvictionRate s\<rparr>"

definition statusToV2 :: "RebalanceStatus4 \<Rightarrow> RebalanceStatus" where
  "statusToV2 s = \<lparr>rb_Conditions = map jobConditionToV2 (r4_Conditions s), rb_Phase = r4_Phase s,
     rb_RebalanceStates = map stateToV2 (r4_RebalanceStates s), rb_StartedTime = r4_StartedTime s,
     rb_CompletedTime = r4_CompletedTime s\<rparr>"

definition statusFromV2 :: "RebalanceStatus \<Rightarrow> RebalanceStatus4" where
  "statusFromV2 s = \<lparr>r4_Conditions = map jobConditionFromV2 (rb_Conditions s), r4_Phase = rb_Phase s,
     r4_RebalanceStates = map stateFromV2 (rb_RebalanceStates s), r4_StartedTime = rb_StartedTime s,
     r4_CompletedTime = rb_CompletedTime s\<rparr>"

section \<open>Lemmas\<close>

lemma versions_inverse [simp]:
  "strategyFromV2 (strategyToV2 st4) = st4" "strategyToV2 (strategyFromV2 st) = st"
  "jobConditionFromV2 (jobConditionToV2 c4) = c4" "jobConditionToV2 (jobConditionFromV2 c) = c"
  "stateFromV2 (stateToV2 s4) = s4" "stateToV2 (stateFromV2 s) = s"
  by (simp_all add: strategyFromV2_def strategyToV2_def jobConditionFromV2_def jobConditionToV2_def
      stateFromV2_def stateToV2_def)

lemma statuses_inverse [simp]:
  "statusFromV2 (statusToV2 s4) = s4" "statusToV2 (statusFromV2 s) = s"
  by (simp_all add: statusFromV2_def statusToV2_def comp_def)

lemma go_insert_map:
  "(\<And>a b. lt' (f a) (f b) = lt a b) \<Longrightarrow> go_insert lt' (f x) (map f ys) = map f (go_insert lt x ys)"
  by (induction ys) auto

lemma go_sort_map:
  assumes "\<And>a b. lt' (f a) (f b) = lt a b"
  shows "go_sort lt' (map f xs) = map f (go_sort lt xs)"
proof -
  have "foldl (\<lambda>acc x. go_insert lt' x acc) (map f acc) (map f xs) = map f (foldl (\<lambda>acc x. go_insert lt x acc) acc xs)" for acc
    by (induction xs arbitrary: acc) (simp_all add: go_insert_map[where lt = lt and lt' = lt' and f = f, OF assms])
  from this[of "[]"] show ?thesis by (simp add: go_sort_def rev_map)
qed

lemma findIndex_map: "findIndex P (map f xs) = findIndex (\<lambda>x. P (f x)) xs"
  by (induction xs) auto

lemma jobConditionToV2_simps [simp]:
  "rc_Type (jobConditionToV2 c) = rc4_Type c" "rc_Status (jobConditionToV2 c) = rc4_Status c"
  "rc_LastTransitionTime (jobConditionToV2 c) = rc4_LastTransitionTime c"
  "updatedLater (jobConditionToV2 c) (jobConditionToV2 d) = jobUpdatedLater4 c d"
  "jobConditionToV2 (c\<lparr>rc4_LastUpdateTime := t, rc4_LastTransitionTime := t'\<rparr>) =
     (jobConditionToV2 c)\<lparr>rc_LastUpdateTime := t, rc_LastTransitionTime := t'\<rparr>"
  by (simp_all add: jobConditionToV2_def updatedLater_def jobUpdatedLater4_def)

lemma statusToV2_simps [simp]:
  "rb_Conditions (statusToV2 s) = map jobConditionToV2 (r4_Conditions s)" "rb_Phase (statusToV2 s) = r4_Phase s"
  "rb_StartedTime (statusToV2 s) = r4_StartedTime s"
  "statusToV2 (s\<lparr>r4_Conditions := cs\<rparr>) = (statusToV2 s)\<lparr>rb_Conditions := map jobConditionToV2 cs\<rparr>"
  "statusToV2 (s\<lparr>r4_Phase := p\<rparr>) = (statusToV2 s)\<lparr>rb_Phase := p\<rparr>"
  "statusToV2 (s\<lparr>r4_Phase := p, r4_StartedTime := t\<rparr>) = (statusToV2 s)\<lparr>rb_Phase := p, rb_StartedTime := t\<rparr>"
  "statusToV2 (s\<lparr>r4_Phase := p, r4_CompletedTime := t\<rparr>) = (statusToV2 s)\<lparr>rb_Phase := p, rb_CompletedTime := t\<rparr>"
  by (simp_all add: statusToV2_def)

lemma getConditionIndex4_V2: "getConditionIndex (statusToV2 s) t = getConditionIndex4 s t"
  by (simp add: getConditionIndex_def getConditionIndex4_def findIndex_map)

lemma SetRebalanceCondition4_V2:
  "statusToV2 (SetRebalanceCondition4 now s c) = SetRebalanceCondition now (statusToV2 s) (jobConditionToV2 c)"
proof (cases "findIndex (\<lambda>d. rc4_Type c = rc4_Type d) (r4_Conditions s)")
  case None
  then show ?thesis
    by (simp add: SetRebalanceCondition_def SetRebalanceCondition4_def Let_def getConditionIndex4_V2
        getConditionIndex4_def go_sort_map[of updatedLater jobConditionToV2 jobUpdatedLater4, symmetric])
next
  case (Some i)
  from findIndex_SomeD[OF Some] have "i < length (r4_Conditions s)" by blast
  with Some show ?thesis
    by (simp add: SetRebalanceCondition_def SetRebalanceCondition4_def Let_def getConditionIndex4_V2
        getConditionIndex4_def map_update go_sort_map[of updatedLater jobConditionToV2 jobUpdatedLater4, symmetric])
qed

text \<open>The operations of a job's status, and what each is in the two versions.\<close>

datatype jobStep = Fail | Complete | Process

fun jobStep4 :: "jobStep \<Rightarrow> time \<Rightarrow> RebalanceStatus4 \<Rightarrow> RebalanceCondition4 \<Rightarrow> RebalanceStatus4 \<times> goerr option" where
  "jobStep4 Fail = SetFailed4"
| "jobStep4 Complete = SetCompleted4"
| "jobStep4 Process = SetProcessing4"

fun jobStepV2 :: "jobStep \<Rightarrow> time \<Rightarrow> RebalanceStatus \<Rightarrow> RebalanceCondition \<Rightarrow> RebalanceStatus \<times> goerr option" where
  "jobStepV2 Fail = SetFailed"
| "jobStepV2 Complete = SetCompleted"
| "jobStepV2 Process = SetProcessing"

lemma jobStep_V2: "jobStepV2 k now (statusToV2 s) (jobConditionToV2 c) = apfst statusToV2 (jobStep4 k now s c)"
  by (cases k)
    (auto simp: SetFailed_def SetFailed4_def SetCompleted_def SetCompleted4_def SetProcessing_def SetProcessing4_def
      rebalance_consts SetRebalanceCondition4_V2)

text \<open>The conditions of v1beta4 keep the contract of a condition store, by what they are in v2beta1.\<close>

definition jobConditionMap4 :: "RebalanceStatus4 \<Rightarrow> string \<rightharpoonup> RebalanceCondition4" where
  "jobConditionMap4 s = (\<lambda>t. find (\<lambda>c. rc4_Type c = t) (r4_Conditions s))"

definition job_conditions4_inv :: "RebalanceStatus4 \<Rightarrow> bool" where
  "job_conditions4_inv s \<longleftrightarrow> distinct (map rc4_Type (r4_Conditions s))"

lemma job_conditions4_V2: "job_conditions4_inv s = rebalance_conditions_inv (statusToV2 s)"
  by (simp add: job_conditions4_inv_def rebalance_conditions_inv_def comp_def)

lemma jobConditionMap4_V2: "map_option jobConditionToV2 (jobConditionMap4 s t) = rebalanceConditionMap (statusToV2 s) t"
proof -
  have "map_option f (find (\<lambda>c. P (f c)) xs) = find P (map f xs)" for f :: "RebalanceCondition4 \<Rightarrow> RebalanceCondition" and P xs
    by (induction xs) auto
  from this[of jobConditionToV2 "\<lambda>c. rc_Type c = t"] show ?thesis
    by (simp add: jobConditionMap4_def rebalanceConditionMap_def)
qed

interpretation job_conditions4:
  condition_store job_conditions4_inv SetRebalanceCondition4 jobConditionMap4 rc4_Type rc4_Status
proof unfold_locales
  fix s :: RebalanceStatus4 and now c t
  assume inv: "job_conditions4_inv s"
  then show "job_conditions4_inv (SetRebalanceCondition4 now s c)"
    unfolding job_conditions4_V2 SetRebalanceCondition4_V2 by (rule rebalance_conditions.store_inv)
  show "\<exists>c'. jobConditionMap4 (SetRebalanceCondition4 now s c) (rc4_Type c) = Some c' \<and> rc4_Status c' = rc4_Status c"
    using rebalance_conditions.lookup_store_same[of "statusToV2 s" now "jobConditionToV2 c"] inv
      jobConditionMap4_V2[of "SetRebalanceCondition4 now s c" "rc4_Type c"]
    by (auto simp: job_conditions4_V2 SetRebalanceCondition4_V2)
  show "jobConditionMap4 (SetRebalanceCondition4 now s c) t = jobConditionMap4 s t" if "t \<noteq> rc4_Type c"
    using rebalance_conditions.lookup_store_other[of "statusToV2 s" t "jobConditionToV2 c" now] inv that
    by (simp add: job_conditions4_V2 flip: SetRebalanceCondition4_V2 jobConditionMap4_V2)
      (metis option.inj_map_strong versions_inverse(3))
qed

end
