(* ===== verification/Json_Conversion.thy ===== *)
theory Json_Conversion
  imports Rebalance_Controller V4_Rebalance
begin

text \<open>
  The conversions that go through JSON: \<open>Rebalance\<close> between v1beta4 and v2beta1
  (\<open>apis/apps/v1beta4/rebalance_conversion.go\<close>). The source is
  marshalled and the text unmarshalled into a fresh resource, so a field is copied when both versions
  have one of its JSON name, and is zero otherwise. Times are written with a precision of one second.
  The metadata is a structure of \<open>k8s.io/apimachinery\<close>: what its JSON text is read back as is the
  argument \<open>jm\<close>. The strategy and the status have the same JSON names in both versions, so all their
  fields are copied.
\<close>

record typeMeta =
  tm_APIVersion :: string
  tm_Kind :: string

definition jsonTime :: "time \<Rightarrow> time" where
  "jsonTime t = t div nanosPerSecond * nanosPerSecond"

text \<open>An empty map is omitted from the text, and is the nil map when it is read.\<close>

definition jsonMap :: "gomap \<Rightarrow> gomap" where
  "jsonMap m = (case m of None \<Rightarrow> None | Some f \<Rightarrow> if f = Map.empty then None else Some f)"

text \<open>
  The hypothesis on the metadata: it comes back as it was, when its times are whole seconds and its
  maps are nil or not empty.
\<close>

definition wholeMeta :: "objectMeta \<Rightarrow> bool" where
  "wholeMeta m =
     (jsonTime (om_CreationTimestamp m) = om_CreationTimestamp m \<and>
      map_option jsonTime (om_DeletionTimestamp m) = om_DeletionTimestamp m \<and>
      jsonMap (om_Labels m) = om_Labels m \<and> jsonMap (om_Annotations m) = om_Annotations m)"

definition copiesMeta :: "(objectMeta \<Rightarrow> goerr + objectMeta) \<Rightarrow> bool" where
  "copiesMeta jm \<longleftrightarrow> (\<forall>m. wholeMeta m \<longrightarrow> jm m = Inr m)"

section \<open>Rebalance of v1beta4\<close>

definition jsonCondition :: "RebalanceCondition \<Rightarrow> RebalanceCondition" where
  "jsonCondition c = c\<lparr>rc_LastUpdateTime := jsonTime (rc_LastUpdateTime c),
     rc_LastTransitionTime := jsonTime (rc_LastTransitionTime c)\<rparr>"

definition jsonStatus :: "RebalanceStatus \<Rightarrow> RebalanceStatus" where
  "jsonStatus s = s\<lparr>rb_Conditions := map jsonCondition (rb_Conditions s),
     rb_StartedTime := jsonTime (rb_StartedTime s), rb_CompletedTime := jsonTime (rb_CompletedTime s)\<rparr>"

definition ConvertToRebalance ::
  "(objectMeta \<Rightarrow> goerr + objectMeta) \<Rightarrow> Rebalance4 \<Rightarrow> goerr + typeMeta \<times> Rebalance" where
  "ConvertToRebalance jm src =
     (case jm (r4_meta src) of
        Inl err \<Rightarrow> Inl err
      | Inr m \<Rightarrow>
          Inr (\<lparr>tm_APIVersion = ''apps.emqx.io/v2beta1'', tm_Kind = ''Rebalance''\<rparr>,
            \<lparr>rb_meta = m,
             rb_Spec = \<lparr>rb_InstanceKind = ''EMQX'', rb_InstanceName = r4_InstanceName (r4_Spec src),
               rb_RebalanceStrategy = strategyToV2 (r4_RebalanceStrategy (r4_Spec src))\<rparr>,
             rb_Status = jsonStatus (statusToV2 (r4_Status src))\<rparr>))"

definition ConvertFromRebalance ::
  "(objectMeta \<Rightarrow> goerr + objectMeta) \<Rightarrow> Rebalance \<Rightarrow> goerr + typeMeta \<times> Rebalance4" where
  "ConvertFromRebalance jm src =
     (case jm (rb_meta src) of
        Inl err \<Rightarrow> Inl err
      | Inr m \<Rightarrow>
          Inr (\<lparr>tm_APIVersion = ''apps.emqx.io/v1beta4'', tm_Kind = ''Rebalance''\<rparr>,
            \<lparr>r4_meta = m,
             r4_Spec = \<lparr>r4_InstanceName = rb_InstanceName (rb_Spec src),
               r4_RebalanceStrategy = strategyFromV2 (rb_RebalanceStrategy (rb_Spec src))\<rparr>,
             r4_Status = statusFromV2 (jsonStatus (rb_Status src))\<rparr>))"

section \<open>Lemmas\<close>

lemma jsonMap_None [simp]: "jsonMap None = None"
  by (simp add: jsonMap_def)

lemma jsonMap_idem [simp]: "jsonMap (jsonMap m) = jsonMap m"
  by (simp add: jsonMap_def split: option.splits)

lemma jsonTime_idem [simp]: "jsonTime (jsonTime t) = jsonTime t"
  by (simp add: jsonTime_def nanosPerSecond_def)

lemma jsonTime_zero [simp]: "jsonTime zeroTime = zeroTime"
  by (simp add: jsonTime_def nanosPerSecond_def zeroTime_def)

lemma jsonCondition_idem [simp]: "jsonCondition (jsonCondition c) = jsonCondition c"
  by (simp add: jsonCondition_def)

lemma jsonStatus_idem [simp]: "jsonStatus (jsonStatus s) = jsonStatus s"
  by (simp add: jsonStatus_def)

lemma copiesMetaD: "copiesMeta jm \<Longrightarrow> wholeMeta m \<Longrightarrow> jm m = Inr m"
  by (simp add: copiesMeta_def)

lemma failWith_phase [simp]: "rb_Phase (failWith now message s) = RebalancePhaseFailed"
  by (simp add: failWith_def SetFailed_def SetRebalanceCondition_def rebalanceCondition_def Let_def)

text \<open>The job is reported as failed, and nothing else happens.\<close>

definition failsJob :: "Rebalance \<Rightarrow> call list \<Rightarrow> bool" where
  "failsJob rb l \<longleftrightarrow> (\<exists>now s ans. l = [TNow now, TStatusRebalance (rb\<lparr>rb_Status := s\<rparr>) ans] \<and>
     rb_Phase s = RebalancePhaseFailed)"

lemma obeys_fails: "obeys (failRebalance E rb message) (\<lambda>res l. failsJob rb l \<and> (\<exists>stopped. res = Inl stopped))"
  unfolding failRebalance_def timeNow_def statusRebalance_def failsJob_def
  by (intro obeys_bind_prim obeys_return) auto

lemma obeys_release: "obeys (releaseRebalance E rb) (\<lambda>_ _. True)"
  unfolding releaseRebalance_def updateRebalance_def by (intro obeys_bind_prim obeys_return) simp

text \<open>The controller looks for the target among the resources of kind \<open>EMQX\<close>.\<close>

lemma obeys_targetEMQX_lookup:
  "obeys (targetEMQX E rb) (\<lambda>res l. \<exists>ans l'. l = TGetEMQX (om_Namespace (rb_meta rb)) (rb_InstanceName (rb_Spec rb)) ans # l' \<and>
     (\<forall>e. ans = Inl e \<and> IsNotFound e \<and> \<not> beingDeleted (rb_meta rb) \<longrightarrow>
        failsJob rb l' \<and> (\<exists>stopped. res = Inl stopped)))"
  unfolding targetEMQX_def getEMQX_def
  by (intro obeys_Let obeys_bind_prim obeys_case_sum obeys_if obeys_case_list obeys_return
      obeys_mono[OF obeys_fails]
      obeys_bind[OF obeys_release] obeys_bind[OF only_noWriteD[OF only_requesters(2)]])
    auto

lemma obeys_run_target:
  "obeys (case found of Inl res \<Rightarrow> ret res | Inr (emqx, rq) \<Rightarrow> runRebalance E rb emqx rq)
     (\<lambda>res l. (\<exists>stopped. found = Inl stopped) \<longrightarrow> l = [])"
  by (cases found)
    (auto intro!: obeys_return obeys_mono[OF obeys_runRebalance[of E rb "[]"]] simp: writesOf_def)

definition EMQXLookup :: "Rebalance \<Rightarrow> 'a \<Rightarrow> ('a \<Rightarrow> bool) \<Rightarrow> call list \<Rightarrow> bool" where
  "EMQXLookup rb res stopped l \<longleftrightarrow>
     (\<exists>ans l'. l = TGetEMQX (om_Namespace (rb_meta rb)) (rb_InstanceName (rb_Spec rb)) ans # l' \<and>
        (\<forall>e. ans = Inl e \<and> IsNotFound e \<and> \<not> beingDeleted (rb_meta rb) \<longrightarrow> failsJob rb l' \<and> stopped res))"

lemma obeys_Reconcile_EMQX:
  "obeys (ReconcileRebalance E ns name) (\<lambda>res l. \<forall>rb l'. l = TGetRebalance ns name (Inr rb) # l' \<and>
     rb_InstanceKind (rb_Spec rb) \<noteq> ''EmqxEnterprise'' \<longrightarrow> EMQXLookup rb res (\<lambda>_. True) l')"
proof -
  have tgt: "obeys (if rb_InstanceKind (rb_Spec rb) = ''EmqxEnterprise'' then targetEnterprise E rb else targetEMQX E rb)
      (\<lambda>res l. rb_InstanceKind (rb_Spec rb) \<noteq> ''EmqxEnterprise'' \<longrightarrow> EMQXLookup rb res (\<lambda>res. \<exists>stopped. res = Inl stopped) l)" for rb
    by (auto intro: obeys_mono[OF obeys_targetEnterprise] obeys_mono[OF obeys_targetEMQX_lookup] simp: EMQXLookup_def)
  have step: "EMQXLookup rb res (\<lambda>_. True) (l @ l')"
    if "EMQXLookup rb found (\<lambda>res. \<exists>stopped. res = Inl stopped) l" "(\<exists>stopped. found = Inl stopped) \<longrightarrow> l' = []"
    for rb res l l' and found :: "outcome + target \<times> Requester option"
    using that unfolding EMQXLookup_def by auto
  show ?thesis
    unfolding ReconcileRebalance_def getRebalance_def
    by (intro obeys_bind_prim obeys_case_sum obeys_return obeys_bind[OF tgt] obeys_mono[OF obeys_run_target])
      (auto intro: step)
qed

end
