(* ===== verification/Alpha.thy ===== *)
theory Alpha
  imports V3_Types Json_Conversion
begin

text \<open>
  The \<open>EMQX\<close> resource of API version v2alpha1 (\<open>apis/apps/v2alpha1\<close>): its types
  (\<open>emqx_types.go\<close>), status and conditions (\<open>status.go\<close>), names (\<open>names.go\<close>), the dashboard port
  and the merges (\<open>util.go\<close>), and its conversion from and to v2beta1 through JSON (\<open>emqx_conversion.go\<close>). Its
  conditions have the fields of those of v1beta3 and are the same record.
\<close>

section \<open>Types\<close>

record EMQXReplicantTemplateSpecA =
  ta_NodeSelector :: gomap
  ta_NodeName :: string
  ta_Affinity :: "json option"
  ta_ToleRations :: "json list"
  ta_Replicas :: "int option"
  ta_Command :: "string list"
  ta_Args :: "string list"
  ta_Ports :: "containerPort list"
  ta_Env :: "envVar list"
  ta_EnvFrom :: "json list"
  ta_Resources :: json
  ta_PodSecurityContext :: "json option"
  ta_ContainerSecurityContext :: "json option"
  ta_InitContainers :: "container list"
  ta_ExtraContainers :: "container list"
  ta_ExtraVolumes :: "volume list"
  ta_ExtraVolumeMounts :: "volumeMount list"
  ta_LivenessProbe :: "json option"
  ta_ReadinessProbe :: "json option"
  ta_StartupProbe :: "json option"
  ta_Lifecycle :: "json option"

record EMQXCoreTemplateSpecA = EMQXReplicantTemplateSpecA +
  ta_VolumeClaimTemplates :: pvcSpec

record EMQXReplicantTemplateA =
  rta_meta :: objectMeta
  rta_Spec :: EMQXReplicantTemplateSpecA

record EMQXCoreTemplateA =
  cta_meta :: objectMeta
  cta_Spec :: EMQXCoreTemplateSpecA

record BootstrapAPIKeyA =
  ba_Key :: string
  ba_Secret :: string

record EMQXSpecA =
  a_Image :: string
  a_ImagePullPolicy :: string
  a_ImagePullSecrets :: "string list"
  a_BootstrapAPIKeys :: "BootstrapAPIKeyA list"
  a_BootstrapConfig :: string
  a_CoreTemplate :: EMQXCoreTemplateA
  a_ReplicantTemplate :: EMQXReplicantTemplateA
  a_DashboardServiceTemplate :: service
  a_ListenersServiceTemplate :: service

record EMQXNodeA =
  na_Node :: string
  na_NodeStatus :: string
  na_OTPRelease :: string
  na_Version :: string
  na_Role :: string
  na_Edition :: string
  na_Uptime :: int
  na_Connections :: int

record EMQXStatusA =
  sa_CurrentImage :: string
  sa_CoreNodeReplicas :: int
  sa_CoreNodeReadyReplicas :: int
  sa_ReplicantNodeReplicas :: int
  sa_ReplicantNodeReadyReplicas :: int
  sa_EMQXNodes :: "EMQXNodeA list"
  sa_Conditions :: "Condition3 list"

record EMQXA =
  a_meta :: objectMeta
  a_Spec :: EMQXSpecA
  a_Status :: EMQXStatusA

section \<open>Status\<close>

definition ClusterCreating :: string where
  "ClusterCreating = ''Creating''"

definition ClusterCoreUpdating :: string where
  "ClusterCoreUpdating = ''CoreNodesUpdating''"

definition ClusterCoreReady :: string where
  "ClusterCoreReady = ''CoreNodesReady''"

definition ClusterRunning :: string where
  "ClusterRunning = ''Running''"

text \<open>The current condition is the first one.\<close>

definition isCurrent :: "EMQXStatusA \<Rightarrow> string \<Rightarrow> bool" where
  "isCurrent s t =
     (let index = indexCondition3 (sa_Conditions s) t
      in index = 0 \<and> c3_Status (sa_Conditions s ! nat index) = ConditionTrue)"

definition IsCreating :: "EMQXStatusA \<Rightarrow> bool" where
  "IsCreating s = isCurrent s ClusterCreating"

definition IsCoreNodesUpdating :: "EMQXStatusA \<Rightarrow> bool" where
  "IsCoreNodesUpdating s = isCurrent s ClusterCoreUpdating"

definition IsCoreNodesReady :: "EMQXStatusA \<Rightarrow> bool" where
  "IsCoreNodesReady s = isCurrent s ClusterCoreReady"

definition IsRunningA :: "EMQXStatusA \<Rightarrow> bool" where
  "IsRunningA s = isCurrent s ClusterRunning"

definition uptimeLess :: "EMQXNodeA \<Rightarrow> EMQXNodeA \<Rightarrow> bool" where
  "uptimeLess a b = (na_Uptime a < na_Uptime b)"

definition SetEMQXNodes :: "EMQXStatusA \<Rightarrow> EMQXNodeA list \<Rightarrow> EMQXStatusA" where
  "SetEMQXNodes s nodes = s\<lparr>sa_EMQXNodes := go_sort uptimeLess nodes\<rparr>"

definition SetConditionA :: "(time \<Rightarrow> string) \<Rightarrow> time \<Rightarrow> EMQXStatusA \<Rightarrow> Condition3 \<Rightarrow> EMQXStatusA" where
  "SetConditionA fmt now s c = s\<lparr>sa_Conditions := setCondition3 fmt now (sa_Conditions s) c\<rparr>"

definition RemoveConditionA :: "EMQXStatusA \<Rightarrow> string \<Rightarrow> EMQXStatusA" where
  "RemoveConditionA s t =
     (let pos = indexCondition3 (sa_Conditions s) t
      in if pos = - 1 then s
         else s\<lparr>sa_Conditions := take (nat pos) (sa_Conditions s) @ drop (nat pos + 1) (sa_Conditions s)\<rparr>)"

section \<open>Names, dashboard port and merges\<close>

definition nameA :: "EMQXA \<Rightarrow> string \<Rightarrow> string \<times> string" where
  "nameA instance suffix = (om_Namespace (a_meta instance), om_Name (a_meta instance) @ suffix)"

definition CoreNodeNamespacedName :: "EMQXA \<Rightarrow> string \<times> string" where
  "CoreNodeNamespacedName instance = nameA instance ''-core''"

definition ReplicantNodeNamespacedName :: "EMQXA \<Rightarrow> string \<times> string" where
  "ReplicantNodeNamespacedName instance = nameA instance ''-replicant''"

definition HeadlessServiceNamespacedNameA :: "EMQXA \<Rightarrow> string \<times> string" where
  "HeadlessServiceNamespacedNameA instance = nameA instance ''-headless''"

definition DashboardServiceNamespacedNameA :: "EMQXA \<Rightarrow> string \<times> string" where
  "DashboardServiceNamespacedNameA instance = nameA instance ''-dashboard''"

definition ListenersServiceNamespacedNameA :: "EMQXA \<Rightarrow> string \<times> string" where
  "ListenersServiceNamespacedNameA instance = nameA instance ''-listeners''"

definition NodeCookieNamespacedNameA :: "EMQXA \<Rightarrow> string \<times> string" where
  "NodeCookieNamespacedNameA instance = nameA instance ''-node-cookie''"

definition BootstrapUserNamespacedName :: "EMQXA \<Rightarrow> string \<times> string" where
  "BootstrapUserNamespacedName instance = nameA instance ''-bootstrap-user''"

definition BootstrapConfigNamespacedName :: "EMQXA \<Rightarrow> string \<times> string" where
  "BootstrapConfigNamespacedName instance = nameA instance ''-bootstrap-config''"

text \<open>A bind without a host is not split; the number that \<open>Atoi\<close> cannot read is its value anyway.\<close>

definition GetDashboardServicePortA :: "'c hoconLib \<Rightarrow> EMQXA \<Rightarrow> goerr + servicePort" where
  "GetDashboardServicePortA lib instance =
     (let config = a_BootstrapConfig (a_Spec instance)
      in case h_ParseString lib config of
           Inl err \<Rightarrow> Inl (ErrWrap (''failed to parse '' @ config) err)
         | Inr hoconConfig \<Rightarrow>
             let dashboardPort = trimByte dquote (h_GetString lib hoconConfig ''dashboard.listeners.http.bind'')
             in if dashboardPort = []
                then Inl (ErrText (''failed to get dashboard.listeners.http.bind in '' @ h_String lib hoconConfig))
                else
                  let (host, hostPort, bad) = splitHostPort dashboardPort;
                      strPort = (if bad then dashboardPort else hostPort);
                      port = fst (atoi strPort)
                  in Inr \<lparr>sp_Name = ''dashboard-listeners-http-bind'', sp_Protocol = ''TCP'',
                       sp_Port = int32 port, sp_TargetPort = IntVal (int32 port), sp_NodePort = 0\<rparr>)"

definition MergeServicePortsA :: "servicePort list \<Rightarrow> servicePort list \<Rightarrow> servicePort list" where
  "MergeServicePortsA ports1 ports2 = mergeLoop sp_Name sp_Port (ports1 @ ports2) {} {} []"

definition mergeMapA :: "gomap \<Rightarrow> gomap \<Rightarrow> gomap" where
  "mergeMapA dst src = Some (addMissing (mentries dst) (mentries src))"

section \<open>Conversion\<close>

definition andThen :: "goerr + 'a \<Rightarrow> ('a \<Rightarrow> goerr + 'b) \<Rightarrow> goerr + 'b" where
  "andThen x k = (case x of Inl err \<Rightarrow> Inl err | Inr a \<Rightarrow> k a)"

fun decodeAll :: "('a \<Rightarrow> goerr + 'b) \<Rightarrow> 'a list \<Rightarrow> goerr + 'b list" where
  "decodeAll f [] = Inr []"
| "decodeAll f (x # xs) = andThen (f x) (\<lambda>y. andThen (decodeAll f xs) (\<lambda>ys. Inr (y # ys)))"

text \<open>The fields of a template both versions have; v2beta1 has four more.\<close>

definition templateSpecToV2 :: "('a EMQXReplicantTemplateSpecA_scheme) \<Rightarrow> EMQXReplicantTemplateSpec" where
  "templateSpecToV2 t =
     \<lparr>t_NodeSelector = jsonMap (ta_NodeSelector t), t_NodeName = ta_NodeName t, t_Affinity = ta_Affinity t,
      t_ToleRations = ta_ToleRations t, t_Tolerations = [], t_TopologySpreadConstraints = [],
      t_Replicas = ta_Replicas t, t_MinAvailable = None, t_MaxUnavailable = None,
      t_Command = ta_Command t, t_Args = ta_Args t, t_Ports = ta_Ports t, t_Env = ta_Env t,
      t_EnvFrom = ta_EnvFrom t, t_Resources = ta_Resources t,
      t_PodSecurityContext = ta_PodSecurityContext t,
      t_ContainerSecurityContext = ta_ContainerSecurityContext t,
      t_InitContainers = ta_InitContainers t, t_ExtraContainers = ta_ExtraContainers t,
      t_ExtraVolumes = ta_ExtraVolumes t, t_ExtraVolumeMounts = ta_ExtraVolumeMounts t,
      t_LivenessProbe = ta_LivenessProbe t, t_ReadinessProbe = ta_ReadinessProbe t,
      t_StartupProbe = ta_StartupProbe t, t_Lifecycle = ta_Lifecycle t\<rparr>"

definition templateSpecFromV2 :: "('a EMQXReplicantTemplateSpec_scheme) \<Rightarrow> EMQXReplicantTemplateSpecA" where
  "templateSpecFromV2 t =
     \<lparr>ta_NodeSelector = jsonMap (t_NodeSelector t), ta_NodeName = t_NodeName t, ta_Affinity = t_Affinity t,
      ta_ToleRations = t_ToleRations t, ta_Replicas = t_Replicas t, ta_Command = t_Command t,
      ta_Args = t_Args t, ta_Ports = t_Ports t, ta_Env = t_Env t, ta_EnvFrom = t_EnvFrom t,
      ta_Resources = t_Resources t, ta_PodSecurityContext = t_PodSecurityContext t,
      ta_ContainerSecurityContext = t_ContainerSecurityContext t,
      ta_InitContainers = t_InitContainers t, ta_ExtraContainers = t_ExtraContainers t,
      ta_ExtraVolumes = t_ExtraVolumes t, ta_ExtraVolumeMounts = t_ExtraVolumeMounts t,
      ta_LivenessProbe = t_LivenessProbe t, ta_ReadinessProbe = t_ReadinessProbe t,
      ta_StartupProbe = t_StartupProbe t, ta_Lifecycle = t_Lifecycle t\<rparr>"

definition jsonServiceSpec :: "serviceSpec \<Rightarrow> serviceSpec" where
  "jsonServiceSpec s = s\<lparr>ss_Selector := jsonMap (ss_Selector s)\<rparr>"

text \<open>
  The transition time of a condition is text in v2alpha1 and a time in v2beta1: \<open>parse\<close> reads it
  (\<open>None\<close> when it is not in the format of RFC 3339), an empty text is omitted; \<open>fmt\<close> writes it, and the
  zero time is written as null.
\<close>

definition conditionTo :: "(string \<Rightarrow> time option) \<Rightarrow> Condition3 \<Rightarrow> goerr + condition" where
  "conditionTo parse c =
     (let to = (\<lambda>t. \<lparr>cd_Type = c3_Type c, cd_Status = c3_Status c, cd_Reason = c3_Reason c,
                 cd_Message = c3_Message c, cd_LastTransitionTime = t\<rparr>)
      in if c3_LastTransitionTime c = [] then Inr (to zeroTime)
         else case parse (c3_LastTransitionTime c) of
                None \<Rightarrow> Inl (ErrText (''parsing time '' @ c3_LastTransitionTime c))
              | Some t \<Rightarrow> Inr (to t))"

definition conditionFrom :: "(time \<Rightarrow> string) \<Rightarrow> condition \<Rightarrow> Condition3" where
  "conditionFrom fmt c =
     \<lparr>c3_Type = cd_Type c, c3_Status = cd_Status c, c3_LastUpdateTime = [], c3_LastUpdateAt = zeroTime,
      c3_LastTransitionTime = (if cd_LastTransitionTime c = zeroTime then [] else fmt (cd_LastTransitionTime c)),
      c3_Reason = cd_Reason c, c3_Message = cd_Message c\<rparr>"

definition zeroNodesStatus :: EMQXNodesStatus where
  "zeroNodesStatus = \<lparr>ns_Replicas = 0, ns_ReadyReplicas = 0, ns_CurrentRevision = [], ns_CurrentReplicas = 0,
     ns_UpdateRevision = [], ns_UpdateReplicas = 0, ns_CollisionCount = None\<rparr>"

definition zeroUpdateStrategy :: UpdateStrategy where
  "zeroUpdateStrategy = \<lparr>us_Type = [], us_InitialDelaySeconds = 0,
     us_EvacuationStrategy = \<lparr>es_WaitTakeover = 0, es_ConnEvictRate = 0, es_SessEvictRate = 0\<rparr>\<rparr>"

definition ConvertToEMQX ::
  "(objectMeta \<Rightarrow> goerr + objectMeta) \<Rightarrow> (string \<Rightarrow> time option) \<Rightarrow> EMQXA \<Rightarrow> goerr + typeMeta \<times> EMQX" where
  "ConvertToEMQX jm parse src =
     (let spec = a_Spec src; core = a_CoreTemplate spec; repl = a_ReplicantTemplate spec;
          dash = a_DashboardServiceTemplate spec; lis = a_ListenersServiceTemplate spec
      in andThen (jm (a_meta src)) (\<lambda>m. andThen (jm (cta_meta core)) (\<lambda>cm. andThen (jm (rta_meta repl)) (\<lambda>rm.
         andThen (jm (svc_meta dash)) (\<lambda>dm. andThen (jm (svc_meta lis)) (\<lambda>lm.
         andThen (decodeAll (conditionTo parse) (sa_Conditions (a_Status src))) (\<lambda>conds.
           Inr (\<lparr>tm_APIVersion = ''apps.emqx.io/v2beta1'', tm_Kind = ''EMQX''\<rparr>,
             \<lparr>Meta = m,
              Spec = \<lparr>Image = a_Image spec, ImagePullPolicy = a_ImagePullPolicy spec,
                ImagePullSecrets = a_ImagePullSecrets spec, ServiceAccountName = [],
                BootstrapAPIKeys = map (\<lambda>k. \<lparr>bak_Key = ba_Key k, bak_Secret = ba_Secret k, bak_SecretRef = None\<rparr>)
                  (a_BootstrapAPIKeys spec),
                SpecConfig = \<lparr>cfg_Mode = [], cfg_Data = a_BootstrapConfig spec\<rparr>,
                ClusterDomain = ''cluster.local'', RevisionHistoryLimit = None,
                SpecUpdateStrategy = zeroUpdateStrategy,
                CoreTemplate = \<lparr>ct_meta = cm,
                  ct_Spec = EMQXReplicantTemplateSpec.extend (templateSpecToV2 (cta_Spec core))
                    (EMQXCoreTemplateSpec.fields (ta_VolumeClaimTemplates (cta_Spec core)))\<rparr>,
                ReplicantTemplate =
                  (if ta_Replicas (rta_Spec repl) = None then None
                   else Some \<lparr>rt_meta = rm, rt_Spec = templateSpecToV2 (rta_Spec repl)\<rparr>),
                DashboardServiceTemplate = Some \<lparr>stpl_Enabled = None, stpl_meta = dm, stpl_Spec = jsonServiceSpec (svc_spec dash)\<rparr>,
                ListenersServiceTemplate = Some \<lparr>stpl_Enabled = None, stpl_meta = lm, stpl_Spec = jsonServiceSpec (svc_spec lis)\<rparr>\<rparr>,
              Status = \<lparr>Conditions = conds, CoreNodes = [], CoreNodesStatus = zeroNodesStatus,
                ReplicantNodes = [], ReplicantNodesStatus = zeroNodesStatus, NodeEvacuationsStatus = []\<rparr>\<rparr>))))))))"

definition zeroTemplateSpecA :: EMQXReplicantTemplateSpecA where
  "zeroTemplateSpecA =
     \<lparr>ta_NodeSelector = None, ta_NodeName = [], ta_Affinity = None, ta_ToleRations = [], ta_Replicas = None,
      ta_Command = [], ta_Args = [], ta_Ports = [], ta_Env = [], ta_EnvFrom = [], ta_Resources = JNull,
      ta_PodSecurityContext = None, ta_ContainerSecurityContext = None, ta_InitContainers = [],
      ta_ExtraContainers = [], ta_ExtraVolumes = [], ta_ExtraVolumeMounts = [], ta_LivenessProbe = None,
      ta_ReadinessProbe = None, ta_StartupProbe = None, ta_Lifecycle = None\<rparr>"

definition zeroReplicantA :: EMQXReplicantTemplateA where
  "zeroReplicantA = \<lparr>rta_meta = emptyMeta, rta_Spec = zeroTemplateSpecA\<rparr>"

definition serviceOfTemplate ::
  "(objectMeta \<Rightarrow> goerr + objectMeta) \<Rightarrow> ServiceTemplate option \<Rightarrow> goerr + service" where
  "serviceOfTemplate jm st =
     (case st of
        None \<Rightarrow> Inr \<lparr>svc_APIVersion = [], svc_Kind = [], svc_meta = emptyMeta, svc_spec = emptyServiceSpec\<rparr>
      | Some s \<Rightarrow> andThen (jm (stpl_meta s)) (\<lambda>m.
          Inr \<lparr>svc_APIVersion = [], svc_Kind = [], svc_meta = m, svc_spec = jsonServiceSpec (stpl_Spec s)\<rparr>))"

definition replicantFrom ::
  "(objectMeta \<Rightarrow> goerr + objectMeta) \<Rightarrow> EMQXReplicantTemplate option \<Rightarrow> goerr + EMQXReplicantTemplateA" where
  "replicantFrom jm rt =
     (case rt of
        None \<Rightarrow> Inr zeroReplicantA
      | Some t \<Rightarrow> andThen (jm (rt_meta t)) (\<lambda>m.
          Inr \<lparr>rta_meta = m, rta_Spec = templateSpecFromV2 (rt_Spec t)\<rparr>))"

definition ConvertFromEMQX ::
  "(objectMeta \<Rightarrow> goerr + objectMeta) \<Rightarrow> (time \<Rightarrow> string) \<Rightarrow> EMQX \<Rightarrow> goerr + typeMeta \<times> EMQXA" where
  "ConvertFromEMQX jm fmt src =
     (let spec = Spec src; core = CoreTemplate spec
      in andThen (jm (Meta src)) (\<lambda>m. andThen (jm (ct_meta core)) (\<lambda>cm.
         andThen (replicantFrom jm (ReplicantTemplate spec)) (\<lambda>repl.
         andThen (serviceOfTemplate jm (DashboardServiceTemplate spec)) (\<lambda>dash.
         andThen (serviceOfTemplate jm (ListenersServiceTemplate spec)) (\<lambda>lis.
           Inr (\<lparr>tm_APIVersion = ''apps.emqx.io/v2alpha1'', tm_Kind = ''EMQX''\<rparr>,
             \<lparr>a_meta = m,
              a_Spec = \<lparr>a_Image = Image spec, a_ImagePullPolicy = ImagePullPolicy spec,
                a_ImagePullSecrets = ImagePullSecrets spec,
                a_BootstrapAPIKeys = map (\<lambda>k. \<lparr>ba_Key = bak_Key k, ba_Secret = bak_Secret k\<rparr>) (BootstrapAPIKeys spec),
                a_BootstrapConfig = cfg_Data (SpecConfig spec),
                a_CoreTemplate = \<lparr>cta_meta = cm,
                  cta_Spec = EMQXReplicantTemplateSpecA.extend (templateSpecFromV2 (ct_Spec core))
                    (EMQXCoreTemplateSpecA.fields (t_VolumeClaimTemplates (ct_Spec core)))\<rparr>,
                a_ReplicantTemplate = repl, a_DashboardServiceTemplate = dash,
                a_ListenersServiceTemplate = lis\<rparr>,
              a_Status = \<lparr>sa_CurrentImage = [], sa_CoreNodeReplicas = 0, sa_CoreNodeReadyReplicas = 0,
                sa_ReplicantNodeReplicas = 0, sa_ReplicantNodeReadyReplicas = 0, sa_EMQXNodes = [],
                sa_Conditions = map (conditionFrom fmt) (Conditions (Status src))\<rparr>\<rparr>)))))))"

section \<open>Lemmas\<close>

lemma andThen_simps [simp]: "andThen (Inr a) k = k a" "andThen (Inl err) k = Inl err"
  by (simp_all add: andThen_def)

lemma templateSpec_back [simp]:
  assumes "jsonMap (ta_NodeSelector t) = ta_NodeSelector t"
  shows "templateSpecFromV2 (templateSpecToV2 t) = EMQXReplicantTemplateSpecA.truncate t"
    "templateSpecFromV2 (EMQXReplicantTemplateSpec.extend (templateSpecToV2 t) e) = EMQXReplicantTemplateSpecA.truncate t"
  using assms by (simp_all add: templateSpecToV2_def templateSpecFromV2_def EMQXReplicantTemplateSpecA.defs
      EMQXReplicantTemplateSpec.defs)

lemma jsonServiceSpec_same [simp]: "jsonMap (ss_Selector s) = ss_Selector s \<Longrightarrow> jsonServiceSpec s = s"
  by (simp add: jsonServiceSpec_def)

lemma t_Replicas_templateSpecToV2 [simp]: "t_Replicas (templateSpecToV2 t) = ta_Replicas t"
  by (simp add: templateSpecToV2_def)

lemma truncate_same [simp]: "EMQXReplicantTemplateSpecA.truncate (t :: EMQXReplicantTemplateSpecA) = t"
  by (cases t) (simp add: EMQXReplicantTemplateSpecA.defs)

lemma coreSpec_back [simp]:
  fixes t :: EMQXCoreTemplateSpecA
  shows "EMQXReplicantTemplateSpecA.extend (EMQXReplicantTemplateSpecA.truncate t)
      \<lparr>ta_VolumeClaimTemplates = ta_VolumeClaimTemplates t\<rparr> = t"
  by (cases t) (simp add: EMQXReplicantTemplateSpecA.defs)

lemma pvc_of_extended [simp]:
  "t_VolumeClaimTemplates (EMQXReplicantTemplateSpec.extend t \<lparr>t_VolumeClaimTemplates = p\<rparr>) = p"
  by (simp add: EMQXReplicantTemplateSpec.defs)

lemma keys_back [simp]: "map ((\<lambda>k. \<lparr>ba_Key = bak_Key k, ba_Secret = bak_Secret k\<rparr>) \<circ>
    (\<lambda>k. \<lparr>bak_Key = ba_Key k, bak_Secret = ba_Secret k, bak_SecretRef = None\<rparr>)) ks = ks"
  by (induction ks) simp_all

text \<open>A condition whose transition time is absent or written by the formatter.\<close>

definition wellTimed :: "(string \<Rightarrow> time option) \<Rightarrow> (time \<Rightarrow> string) \<Rightarrow> Condition3 \<Rightarrow> bool" where
  "wellTimed parse fmt c =
     (c3_LastTransitionTime c = [] \<or>
      (case parse (c3_LastTransitionTime c) of
         None \<Rightarrow> False | Some t \<Rightarrow> t \<noteq> zeroTime \<and> fmt t = c3_LastTransitionTime c))"

definition keptCondition :: "Condition3 \<Rightarrow> Condition3" where
  "keptCondition c = c\<lparr>c3_LastUpdateTime := [], c3_LastUpdateAt := zeroTime\<rparr>"

lemma conditions_back:
  assumes "list_all (wellTimed parse fmt) cs"
  obtains ds where "decodeAll (conditionTo parse) cs = Inr ds" "map (conditionFrom fmt) ds = map keptCondition cs"
  using assms
proof (induction cs arbitrary: thesis)
  case (Cons c cs)
  from Cons.prems(2) Cons.IH obtain ds where
    ds: "decodeAll (conditionTo parse) cs = Inr ds" "map (conditionFrom fmt) ds = map keptCondition cs" by auto
  have "\<exists>d. conditionTo parse c = Inr d \<and> conditionFrom fmt d = keptCondition c"
    using Cons.prems(2)
    by (auto simp: wellTimed_def conditionTo_def conditionFrom_def keptCondition_def Let_def split: option.splits)
  then obtain d where "conditionTo parse c = Inr d" "conditionFrom fmt d = keptCondition c" by blast
  with ds show ?case by (intro Cons.prems(1)[of "d # ds"]) simp_all
qed simp

end
