(* ===== verification/Conversion_Properties.thy ===== *)
theory Conversion_Properties
  imports Alpha Conversion Examples
begin

text \<open>
  The properties of the conversions through JSON: what a Rebalance of v1beta4 and an EMQX of v2alpha1
  keep on the way to v2beta1 and back, and which resource a converted Rebalance acts on.
\<close>

section \<open>Rebalance\<close>

lemma wholeMeta_emptyMeta [simp]: "wholeMeta emptyMeta"
  by (simp add: wholeMeta_def emptyMeta_def)

lemma rebalance_returns:
  assumes "copiesMeta jm" "wholeMeta (r4_meta src)" "jsonStatus (statusToV2 (r4_Status src)) = statusToV2 (r4_Status src)"
  shows "\<exists>gvk r gvk'. ConvertToRebalance jm src = Inr (gvk, r) \<and> ConvertFromRebalance jm r = Inr (gvk', src)"
  using assms by (simp add: ConvertToRebalance_def ConvertFromRebalance_def copiesMetaD)

interpretation jobs: conversion
  "\<lambda>src. copiesMeta jm \<and> wholeMeta (r4_meta src) \<and> jsonStatus (statusToV2 (r4_Status src)) = statusToV2 (r4_Status src)"
  "\<lambda>src. map_option snd (sumOption (ConvertToRebalance jm src))"
  "\<lambda>r. map_option snd (sumOption (ConvertFromRebalance jm r))" "\<lambda>src. src" for jm
  using rebalance_returns by unfold_locales fastforce+

text \<open>
  A Rebalance between v1beta4 and v2beta1. A job of v1beta4 whose times are whole seconds comes
  back from v2beta1 as it was. In the other direction everything but the kind of the instance comes
  back, and the kind is always \<open>EMQX\<close> afterwards, also for a job that was written for an
  \<open>EmqxEnterprise\<close>.
\<close>

theorem rebalance_conversion_roundtrip:
  assumes "copiesMeta jm" "wholeMeta (r4_meta src)" "jsonStatus (statusToV2 (r4_Status src)) = statusToV2 (r4_Status src)"
    and "wholeMeta (rb_meta hub)" "jsonStatus (rb_Status hub) = rb_Status hub"
  shows "(\<exists>gvk r gvk'. ConvertToRebalance jm src = Inr (gvk, r) \<and> ConvertFromRebalance jm r = Inr (gvk', src)) \<and>
    (\<exists>gvk r gvk'. ConvertFromRebalance jm hub = Inr (gvk, r) \<and>
       ConvertToRebalance jm r = Inr (gvk', hub\<lparr>rb_Spec := (rb_Spec hub)\<lparr>rb_InstanceKind := ''EMQX''\<rparr>\<rparr>))"
  using assms
  by (simp add: ConvertToRebalance_def ConvertFromRebalance_def copiesMetaD)

definition exStrategy :: RebalanceStrategy where
  "exStrategy = \<lparr>rst_ConnEvictRate = 10, rst_SessEvictRate = 10, rst_WaitTakeover = 1, rst_WaitHealthCheck = 1,
     rst_AbsConnThreshold = 10, rst_RelConnThreshold = ''1.1'', rst_AbsSessThreshold = 10,
     rst_RelSessThreshold = ''1.1''\<rparr>"

definition exRebalance4 :: Rebalance4 where
  "exRebalance4 = \<lparr>r4_meta = emptyMeta\<lparr>om_Name := ''rb''\<rparr>,
     r4_Spec = \<lparr>r4_InstanceName = ''emqx-ee'', r4_RebalanceStrategy = strategyFromV2 exStrategy\<rparr>,
     r4_Status = \<lparr>r4_Conditions = [], r4_Phase = [], r4_RebalanceStates = [], r4_StartedTime = zeroTime,
       r4_CompletedTime = zeroTime\<rparr>\<rparr>"

definition exHub :: Rebalance where
  "exHub = \<lparr>rb_meta = emptyMeta\<lparr>om_Name := ''rb''\<rparr>,
     rb_Spec = \<lparr>rb_InstanceKind = ''EmqxEnterprise'', rb_InstanceName = ''emqx-ee'', rb_RebalanceStrategy = exStrategy\<rparr>, rb_Status = statusToV2 (r4_Status exRebalance4)\<rparr>"

theorem rebalance_conversion_roundtrip_witness:
  "\<exists>gvk r gvk'. ConvertFromRebalance Inr exHub = Inr (gvk, r) \<and>
     ConvertToRebalance Inr r = Inr (gvk', exHub\<lparr>rb_Spec := (rb_Spec exHub)\<lparr>rb_InstanceKind := ''EMQX''\<rparr>\<rparr>)"
proof -
  have jm: "copiesMeta Inr" by (simp add: copiesMeta_def)
  have m: "wholeMeta (r4_meta exRebalance4)" "wholeMeta (rb_meta exHub)"
    by (simp_all add: exRebalance4_def exHub_def wholeMeta_def emptyMeta_def)
  have s: "jsonStatus (statusToV2 (r4_Status exRebalance4)) = statusToV2 (r4_Status exRebalance4)" "jsonStatus (rb_Status exHub) = rb_Status exHub"
    by (simp_all add: exRebalance4_def exHub_def jsonStatus_def statusToV2_def)
  from rebalance_conversion_roundtrip[OF jm m(1) s(1) m(2) s(2)] show ?thesis by blast
qed



section \<open>EMQX of v2alpha1\<close>

text \<open>
  A resource whose times are whole seconds and whose maps are nil or not empty, as all resources are
  that the API server has stored. What comes back of it: not the replicants without a number, and of the status the
  conditions.
\<close>

definition keptEMQX :: "EMQXA \<Rightarrow> EMQXA" where
  "keptEMQX x =
     (let spec = a_Spec x; bare = (\<lambda>s. s\<lparr>svc_APIVersion := [], svc_Kind := []\<rparr>)
      in x\<lparr>a_Spec := spec
          \<lparr>a_ReplicantTemplate :=
             (if ta_Replicas (rta_Spec (a_ReplicantTemplate spec)) = None then zeroReplicantA
              else a_ReplicantTemplate spec),
           a_DashboardServiceTemplate := bare (a_DashboardServiceTemplate spec),
           a_ListenersServiceTemplate := bare (a_ListenersServiceTemplate spec)\<rparr>,
        a_Status := \<lparr>sa_CurrentImage = [], sa_CoreNodeReplicas = 0, sa_CoreNodeReadyReplicas = 0,
          sa_ReplicantNodeReplicas = 0, sa_ReplicantNodeReadyReplicas = 0, sa_EMQXNodes = [],
          sa_Conditions = map keptCondition (sa_Conditions (a_Status x))\<rparr>\<rparr>)"

definition wholeEMQX :: "EMQXA \<Rightarrow> bool" where
  "wholeEMQX x =
     (wholeMeta (a_meta x) \<and> wholeMeta (cta_meta (a_CoreTemplate (a_Spec x))) \<and>
      wholeMeta (rta_meta (a_ReplicantTemplate (a_Spec x))) \<and>
      wholeMeta (svc_meta (a_DashboardServiceTemplate (a_Spec x))) \<and>
      wholeMeta (svc_meta (a_ListenersServiceTemplate (a_Spec x))) \<and>
      list_all (\<lambda>m. jsonMap m = m)
        [ta_NodeSelector (cta_Spec (a_CoreTemplate (a_Spec x))), ta_NodeSelector (rta_Spec (a_ReplicantTemplate (a_Spec x))),
         ss_Selector (svc_spec (a_DashboardServiceTemplate (a_Spec x))),
         ss_Selector (svc_spec (a_ListenersServiceTemplate (a_Spec x)))])"

lemma alpha_returns:
  assumes "copiesMeta jm" "wholeEMQX src" "list_all (wellTimed parse fmt) (sa_Conditions (a_Status src))"
  shows "\<exists>gvk hub gvk'. ConvertToEMQX jm parse src = Inr (gvk, hub) \<and>
    ConvertFromEMQX jm fmt hub = Inr (gvk', keptEMQX src) \<and>
    (IsExistReplicant hub \<longleftrightarrow> (\<exists>n. ta_Replicas (rta_Spec (a_ReplicantTemplate (a_Spec src))) = Some n \<and> n > 0))"
proof -
  obtain ds where ds: "decodeAll (conditionTo parse) (sa_Conditions (a_Status src)) = Inr ds"
    "map (conditionFrom fmt) ds = map keptCondition (sa_Conditions (a_Status src))"
    using conditions_back[OF assms(3)] .
  have jm: "jm m = Inr m" if "wholeMeta m" for m using copiesMetaD[OF assms(1) that] .
  show ?thesis
    using assms(2)
    by (cases "ta_Replicas (rta_Spec (a_ReplicantTemplate (a_Spec src)))")
      (simp_all add: ConvertToEMQX_def ConvertFromEMQX_def wholeEMQX_def jm ds keptEMQX_def replicantFrom_def
        serviceOfTemplate_def IsExistReplicant_def Let_def EMQXCoreTemplateSpec.defs EMQXCoreTemplateSpecA.defs)
qed

lemma condition_kept [simp]: "conditionTo parse (keptCondition c) = conditionTo parse c"
  by (simp add: conditionTo_def keptCondition_def Let_def split: option.split)

lemma conditions_kept [simp]:
  "decodeAll (conditionTo parse) (map keptCondition cs) = decodeAll (conditionTo parse) cs"
  by (induction cs) simp_all

lemma alpha_written_back:
  assumes "copiesMeta jm" "wholeEMQX src"
  shows "ConvertToEMQX jm parse (keptEMQX src) = ConvertToEMQX jm parse src"
proof -
  have jm: "jm m = Inr m" if "wholeMeta m" for m using copiesMetaD[OF assms(1) that] .
  show ?thesis
    using assms(2)
    by (cases "ta_Replicas (rta_Spec (a_ReplicantTemplate (a_Spec src)))")
      (simp_all add: ConvertToEMQX_def wholeEMQX_def jm keptEMQX_def zeroReplicantA_def zeroTemplateSpecA_def Let_def)
qed

interpretation clusters: conversion
  "\<lambda>src. copiesMeta jm \<and> wholeEMQX src \<and> list_all (wellTimed parse fmt) (sa_Conditions (a_Status src))"
  "\<lambda>src. map_option snd (sumOption (ConvertToEMQX jm parse src))"
  "\<lambda>hub. map_option snd (sumOption (ConvertFromEMQX jm fmt hub))" keptEMQX for jm parse fmt
  by unfold_locales (use alpha_returns in fastforce, simp add: alpha_written_back)


definition exEMQXA :: EMQXA where
  "exEMQXA =
     (let svc = \<lparr>svc_APIVersion = ''v1'', svc_Kind = ''Service'', svc_meta = emptyMeta, svc_spec = emptyServiceSpec\<rparr>
      in \<lparr>a_meta = emptyMeta\<lparr>om_Name := ''emqx''\<rparr>,
       a_Spec = \<lparr>a_Image = ''emqx:5.1'', a_ImagePullPolicy = [], a_ImagePullSecrets = [],
         a_BootstrapAPIKeys = [\<lparr>ba_Key = ''k'', ba_Secret = ''s''\<rparr>], a_BootstrapConfig = ''a = 1'',
         a_CoreTemplate = \<lparr>cta_meta = emptyMeta,
           cta_Spec = EMQXReplicantTemplateSpecA.extend (zeroTemplateSpecA\<lparr>ta_Replicas := Some 3\<rparr>)
             (EMQXCoreTemplateSpecA.fields \<lparr>pvc_VolumeMode = None, pvc_other = JNull\<rparr>)\<rparr>,
         a_ReplicantTemplate = zeroReplicantA, a_DashboardServiceTemplate = svc, a_ListenersServiceTemplate = svc\<rparr>,
       a_Status = \<lparr>sa_CurrentImage = [], sa_CoreNodeReplicas = 3, sa_CoreNodeReadyReplicas = 3,
         sa_ReplicantNodeReplicas = 0, sa_ReplicantNodeReadyReplicas = 0, sa_EMQXNodes = [],
         sa_Conditions = [\<lparr>c3_Type = ClusterRunning, c3_Status = ConditionTrue, c3_LastUpdateTime = ''T1'',
           c3_LastUpdateAt = 1, c3_LastTransitionTime = ''T1'', c3_Reason = [], c3_Message = []\<rparr>]\<rparr>\<rparr>)"


end
