(* ===== verification/Reloader.thy ===== *)
theory Reloader
  imports V4_Resources Go_Regexp
begin

text \<open>
  The sidecar of the EMQX 4 pods (\<open>sidecar/reloader/main.go\<close>): it watches the license and the plugin
  configuration files, and asks the node next to it to reload what has changed. The file system, the
  watcher of \<open>fsnotify\<close>, MD5 and the HTTP client are the environment; every call is recorded in a
  trace. \<open>log.Fatal\<close> ends the process.
\<close>

section \<open>State and environment\<close>

record webURL =
  wu_Scheme :: string
  wu_Host :: string
  wu_Path :: string

record webRequest =
  wr_URL :: webURL
  wr_Method :: string
  wr_Body :: string
  wr_Username :: string
  wr_Password :: string

datatype fsCall =
    FReadDir string "goerr + string list"
  | FRemove string
  | FAdd string "goerr option"
  | FRead string "goerr + string"
  | FHttp webRequest

text \<open>\<open>marshalLicense\<close> is the JSON text of the map with the key \<open>license\<close>.\<close>

record 'w fsEnv =
  fs_readDir :: "string \<Rightarrow> 'w \<Rightarrow> (goerr + string list) \<times> 'w"
  fs_remove :: "string \<Rightarrow> 'w \<Rightarrow> 'w"
  fs_add :: "string \<Rightarrow> 'w \<Rightarrow> goerr option \<times> 'w"
  fs_read :: "string \<Rightarrow> 'w \<Rightarrow> (goerr + string) \<times> 'w"
  fs_http :: "webRequest \<Rightarrow> 'w \<Rightarrow> 'w"
  fs_newRequest :: "webRequest \<Rightarrow> goerr option"
  fs_newWatcher :: "goerr option"
  md5 :: "string \<Rightarrow> string"
  marshalLicense :: "string \<Rightarrow> goerr + string"

record 'w reloaderWatcher =
  rw_world :: 'w
  rw_trace :: "fsCall list"
  fileCheck :: "string \<rightharpoonup> string"

datatype 'a run = Fatal goerr | Done 'a

definition record_call :: "'w \<Rightarrow> fsCall \<Rightarrow> 'w reloaderWatcher \<Rightarrow> 'w reloaderWatcher" where
  "record_call w c s = s\<lparr>rw_world := w, rw_trace := rw_trace s @ [c]\<rparr>"

definition readDir :: "'w fsEnv \<Rightarrow> string \<Rightarrow> 'w reloaderWatcher \<Rightarrow> (goerr + string list) \<times> 'w reloaderWatcher" where
  "readDir E d s = (case fs_readDir E d (rw_world s) of (r, w) \<Rightarrow> (r, record_call w (FReadDir d r) s))"

definition watcherRemove :: "'w fsEnv \<Rightarrow> string \<Rightarrow> 'w reloaderWatcher \<Rightarrow> 'w reloaderWatcher" where
  "watcherRemove E f s = record_call (fs_remove E f (rw_world s)) (FRemove f) s"

definition watcherAdd :: "'w fsEnv \<Rightarrow> string \<Rightarrow> 'w reloaderWatcher \<Rightarrow> goerr option \<times> 'w reloaderWatcher" where
  "watcherAdd E f s = (case fs_add E f (rw_world s) of (r, w) \<Rightarrow> (r, record_call w (FAdd f r) s))"

definition readFile :: "'w fsEnv \<Rightarrow> string \<Rightarrow> 'w reloaderWatcher \<Rightarrow> (goerr + string) \<times> 'w reloaderWatcher" where
  "readFile E f s = (case fs_read E f (rw_world s) of (r, w) \<Rightarrow> (r, record_call w (FRead f r) s))"

section \<open>The watched files\<close>

definition blackReloadList :: "string list" where
  "blackReloadList = [''emqx_management.conf'', ''emqx_dashboard.conf'']"

definition isBlackFile :: "string \<Rightarrow> bool" where
  "isBlackFile fileName = list_ex (\<lambda>blackFile. blackFile = fileName) blackReloadList"

text \<open>The pattern \<open>^emqx.*conf$\<close>; the dot does not match a newline.\<close>

definition confPattern :: regexp where
  "confPattern = Seq (Lit ''emqx'') (Seq (Many (\<lambda>c. c \<noteq> CHR 0x0A)) (Lit ''conf''))"

definition shouldIgnoreFile :: "string \<Rightarrow> bool" where
  "shouldIgnoreFile fileName = (isBlackFile fileName \<or> \<not> matchWhole confPattern fileName)"

definition generateWatchedFileList ::
  "'w fsEnv \<Rightarrow> string \<Rightarrow> string \<Rightarrow> 'w reloaderWatcher \<Rightarrow> string list \<times> 'w reloaderWatcher" where
  "generateWatchedFileList E pluginConfigDir licenseFilePath s =
     (let fileList = (if licenseFilePath \<noteq> [] then [licenseFilePath] else [])
      in case readDir E pluginConfigDir s of
           (Inl err, s') \<Rightarrow> (fileList, s')
         | (Inr names, s') \<Rightarrow>
             (fileList @ map (filepathJoin pluginConfigDir) (filter (\<lambda>n. \<not> shouldIgnoreFile n) names), s'))"

section \<open>Checking and requesting\<close>

definition getMD5 :: "'w fsEnv \<Rightarrow> string \<Rightarrow> 'w reloaderWatcher \<Rightarrow> string run \<times> 'w reloaderWatcher" where
  "getMD5 E f s =
     (case readFile E f s of
        (Inl err, s') \<Rightarrow> (Fatal err, s')
      | (Inr content, s') \<Rightarrow> (Done (md5 E content), s'))"

text \<open>A file without a record has the empty checksum.\<close>

definition checksum :: "'w reloaderWatcher \<Rightarrow> string \<Rightarrow> string" where
  "checksum s f = (case fileCheck s f of None \<Rightarrow> [] | Some d \<Rightarrow> d)"

definition setCheck :: "string \<Rightarrow> string \<Rightarrow> 'w reloaderWatcher \<Rightarrow> 'w reloaderWatcher" where
  "setCheck f d s = s\<lparr>fileCheck := (fileCheck s)(f \<mapsto> d)\<rparr>"

fun watchFileList :: "'w fsEnv \<Rightarrow> string list \<Rightarrow> 'w reloaderWatcher \<Rightarrow> unit run \<times> 'w reloaderWatcher" where
  "watchFileList E [] s = (Done (), s)"
| "watchFileList E (f # fs) s =
     (case watcherAdd E f s of
        (Some err, s') \<Rightarrow> watchFileList E fs s'
      | (None, s') \<Rightarrow>
          (case getMD5 E f s' of
             (Fatal err, s'') \<Rightarrow> (Fatal err, s'')
           | (Done d, s'') \<Rightarrow> watchFileList E fs (setCheck f d s'')))"

text \<open>Whether the file has changed, or the error of the watcher.\<close>

definition updateWatcher ::
  "'w fsEnv \<Rightarrow> string \<Rightarrow> 'w reloaderWatcher \<Rightarrow> (bool \<times> goerr option) run \<times> 'w reloaderWatcher" where
  "updateWatcher E f s =
     (case watcherAdd E f (watcherRemove E f s) of
        (Some err, s1) \<Rightarrow> (Done (False, Some err), s1)
      | (None, s1) \<Rightarrow>
          (case getMD5 E f s1 of
             (Fatal err, s2) \<Rightarrow> (Fatal err, s2)
           | (Done d, s2) \<Rightarrow>
               if checksum s2 f \<noteq> d then
                 (case getMD5 E f s2 of
                    (Fatal err, s3) \<Rightarrow> (Fatal err, s3)
                  | (Done d', s3) \<Rightarrow> (Done (True, None), setCheck f d' s3))
               else (Done (False, None), s2)))"

text \<open>The answer is only logged.\<close>

definition requestWebhook :: "'w fsEnv \<Rightarrow> webRequest \<Rightarrow> 'w reloaderWatcher \<Rightarrow> 'w reloaderWatcher" where
  "requestWebhook E rq s =
     (case fs_newRequest E rq of
        Some err \<Rightarrow> s
      | None \<Rightarrow> record_call (fs_http E rq (rw_world s)) (FHttp rq) s)"

section \<open>The loop\<close>

record settings =
  se_Username :: string
  se_Password :: string
  se_Port :: int
  se_PluginConfigDir :: string
  se_LicenseFilePath :: string

definition loadRequest :: "settings \<Rightarrow> string \<Rightarrow> string \<Rightarrow> string \<Rightarrow> webRequest" where
  "loadRequest cfg path method body =
     \<lparr>wr_URL = \<lparr>wu_Scheme = ''http'', wu_Host = ''localhost:'' @ itoa (se_Port cfg), wu_Path = path\<rparr>,
      wr_Method = method, wr_Body = body, wr_Username = se_Username cfg, wr_Password = se_Password cfg\<rparr>"

definition baseName :: "string \<Rightarrow> string" where
  "baseName path = (case lastIndexByte path (CHR ''/'') of None \<Rightarrow> path | Some i \<Rightarrow> drop (Suc i) path)"

definition trimSuffix :: "string \<Rightarrow> string \<Rightarrow> string" where
  "trimSuffix s suffix =
     (if hasPrefix (rev s) (rev suffix) then take (length s - length suffix) s else s)"

definition uploadLicense :: "settings \<Rightarrow> string \<Rightarrow> webRequest" where
  "uploadLicense cfg body = loadRequest cfg ''/api/v4/license/upload'' ''POST'' body"

definition reloadPlugin :: "settings \<Rightarrow> string \<Rightarrow> webRequest" where
  "reloadPlugin cfg f =
     loadRequest cfg (''/api/v4/plugins/'' @ trimSuffix (baseName f) ''.conf'' @ ''/reload'') ''PUT'' []"

definition reloadFile :: "'w fsEnv \<Rightarrow> settings \<Rightarrow> string \<Rightarrow> 'w reloaderWatcher \<Rightarrow> unit run \<times> 'w reloaderWatcher" where
  "reloadFile E cfg f s =
     (if f = se_LicenseFilePath cfg then
        (case readFile E f s of
           (Inl err, s1) \<Rightarrow> (Fatal err, s1)
         | (Inr content, s1) \<Rightarrow>
             (case marshalLicense E content of
                Inl err \<Rightarrow> (Fatal err, s1)
              | Inr body \<Rightarrow> (Done (), requestWebhook E (uploadLicense cfg body) s1)))
      else (Done (), requestWebhook E (reloadPlugin cfg f) s))"

text \<open>The bit set of an event is a number, of which removal is the third bit.\<close>

record fsEvent =
  fe_Name :: string
  fe_Op :: nat

definition fsnotifyRemove :: nat where
  "fsnotifyRemove = 4"

definition handleEvent :: "'w fsEnv \<Rightarrow> settings \<Rightarrow> fsEvent \<Rightarrow> 'w reloaderWatcher \<Rightarrow> unit run \<times> 'w reloaderWatcher" where
  "handleEvent E cfg event s =
     (if fe_Op event = fsnotifyRemove then
        (case updateWatcher E (fe_Name event) s of
           (Fatal err, s1) \<Rightarrow> (Fatal err, s1)
         | (Done (updated, Some err), s1) \<Rightarrow> (Fatal err, s1)
         | (Done (updated, None), s1) \<Rightarrow>
             if updated then reloadFile E cfg (fe_Name event) s1 else (Done (), s1))
      else (Done (), s))"

text \<open>What the two channels deliver; the loop ends when one of them is closed.\<close>

datatype message = Event fsEvent | WatchError goerr | Closed

fun watchLoop :: "'w fsEnv \<Rightarrow> settings \<Rightarrow> message list \<Rightarrow> 'w reloaderWatcher \<Rightarrow> unit run \<times> 'w reloaderWatcher" where
  "watchLoop E cfg [] s = (Done (), s)"
| "watchLoop E cfg (Closed # ms) s = (Done (), s)"
| "watchLoop E cfg (WatchError err # ms) s = watchLoop E cfg ms s"
| "watchLoop E cfg (Event event # ms) s =
     (case handleEvent E cfg event s of
        (Fatal err, s') \<Rightarrow> (Fatal err, s')
      | (Done u, s') \<Rightarrow> watchLoop E cfg ms s')"

definition main :: "'w fsEnv \<Rightarrow> settings \<Rightarrow> message list \<Rightarrow> 'w \<Rightarrow> unit run \<times> 'w reloaderWatcher" where
  "main E cfg messages w =
     (case generateWatchedFileList E (se_PluginConfigDir cfg) (se_LicenseFilePath cfg)
             \<lparr>rw_world = w, rw_trace = [], fileCheck = Map.empty\<rparr> of
        (fileList, s1) \<Rightarrow>
          (case fs_newWatcher E of
             Some err \<Rightarrow> (Fatal err, s1)
           | None \<Rightarrow>
               (case watchFileList E fileList s1 of
                  (Fatal err, s2) \<Rightarrow> (Fatal err, s2)
                | (Done u, s2) \<Rightarrow> watchLoop E cfg messages s2)))"

section \<open>Lemmas\<close>

lemma record_call_simps [simp]:
  "rw_trace (record_call w c s) = rw_trace s @ [c]" "fileCheck (record_call w c s) = fileCheck s"
  "rw_world (record_call w c s) = w"
  by (simp_all add: record_call_def)

lemma setCheck_simps [simp]:
  "rw_trace (setCheck f d s) = rw_trace s" "fileCheck (setCheck f d s) = (fileCheck s)(f \<mapsto> d)"
  by (simp_all add: setCheck_def)

lemmas fs_defs = readFile_def getMD5_def watcherAdd_def watcherRemove_def requestWebhook_def

end
