(* ===== verification/Rollout_Progress.thy ===== *)
theory Rollout_Progress
  imports Rollout_Properties
begin

text \<open>
  That a rollout makes progress. The safety properties of \<open>syncPods\<close> say when a node may be taken
  down; here the cluster cooperates, and every round takes one old node down, first the replicants and
  then the core nodes, until none is left. What the API server and the nodes have to answer for that
  is said by the predicates \<open>replicantsCooperate\<close> and \<open>coreCooperates\<close>.
\<close>

section \<open>Runs and worlds\<close>

text \<open>\<open>leads P m Q\<close>: from a world that satisfies \<open>P\<close> the run of \<open>m\<close> ends with a result and a world that satisfy \<open>Q\<close>.\<close>

definition leads :: "('w \<Rightarrow> bool) \<Rightarrow> ('w, 'a) op \<Rightarrow> ('a \<Rightarrow> 'w \<Rightarrow> bool) \<Rightarrow> bool" where
  "leads P m Q \<longleftrightarrow> (\<forall>s. P (world s) \<longrightarrow> Q (fst (run_state m s)) (world (snd (run_state m s))))"

lemma leads_return: "(\<And>w. P w \<Longrightarrow> Q x w) \<Longrightarrow> leads P (ret x) Q"
  by (simp add: leads_def State_Monad.return_def)

lemma leads_bind:
  assumes "leads P m R" "\<And>a. leads (R a) (k a) Q"
  shows "leads P (State_Monad.bind m k) Q"
  using assms unfolding leads_def run_bind by blast

lemma leads_prim: "(\<And>w. P w \<Longrightarrow> case f w of (a, w') \<Rightarrow> Q a w') \<Longrightarrow> leads P (prim f entry) Q"
  unfolding leads_def prim_def by (simp add: case_prod_beta)

lemma leads_bindGo:
  assumes "leads P m (\<lambda>r w. \<exists>a. r = Ret a \<and> R a w)" "\<And>a. leads (R a) (k a) Q"
  shows "leads P (bindGo m k) Q"
  unfolding bindGo_def
  by (rule leads_bind[OF assms(1)]) (use assms(2) in \<open>auto simp: leads_def split: go.splits\<close>)

lemma leads_pre: "(\<And>w. P w \<Longrightarrow> P' w) \<Longrightarrow> leads P' m Q \<Longrightarrow> leads P m Q"
  by (auto simp: leads_def)

text \<open>A fact that does not depend on the world can be assumed.\<close>

lemma leads_fact: "(b \<Longrightarrow> leads P m Q) \<Longrightarrow> leads (\<lambda>w. b \<and> P w) m Q"
  by (auto simp: leads_def)

section \<open>A cluster that cooperates\<close>

text \<open>One call answers as \<open>P\<close> says and leaves a world in \<open>W\<close>.\<close>

definition gives :: "('w \<Rightarrow> 'a \<times> 'w) \<Rightarrow> ('a \<Rightarrow> bool) \<Rightarrow> ('w \<Rightarrow> bool) \<Rightarrow> 'w \<Rightarrow> bool" where
  "gives f P W w = (case f w of (a, w') \<Rightarrow> P a \<and> W w')"

lemma leads_gives: "(\<And>w. P w \<Longrightarrow> gives f A W w) \<Longrightarrow> leads P (prim f entry) (\<lambda>a w. A a \<and> W w)"
  by (rule leads_prim) (auto simp: gives_def)

text \<open>
  The worlds in which the old StatefulSet has \<open>k\<close> replicas are those of \<open>holds k\<close>. While there are
  some, the lists show the set \<open>old k\<close> as the one the rollout replaces and no old ReplicaSet, the
  initial delay has passed, the pod with the highest ordinal is there, its node has stopped or has no
  sessions, the wait for takeover is over, and an update that asks for one replica less is accepted.
\<close>

definition readyToShrink :: "EMQX \<Rightarrow> bool" where
  "readyToShrink x \<longleftrightarrow>
     IsConditionTrue (Status x) Available \<and> evacuationsSettled x \<and>
     (IsExistReplicant x \<longrightarrow>
        ns_CurrentRevision (ReplicantNodesStatus (Status x)) = ns_UpdateRevision (ReplicantNodesStatus (Status x)))"

text \<open>The node answers that it has stopped or has no sessions to lose.\<close>

definition answersIdle :: "('w, 'c) env \<Rightarrow> Requester \<Rightarrow> string \<Rightarrow> ('w \<Rightarrow> bool) \<Rightarrow> bool" where
  "answersIdle E rq node W \<longleftrightarrow>
     newRequestErr E (nodeRequest rq node) = None \<and>
     (\<forall>w. W w \<longrightarrow> gives (w_do E (nodeRequest rq node))
        (\<lambda>ans. \<exists>rp. ans = Inr rp \<and> resp_ReadErr rp = None \<and> mayStop E rp) W w)"

text \<open>No takeover of sessions has to be waited for.\<close>

definition takeoverOver :: "('w, 'c) env \<Rightarrow> EMQX \<Rightarrow> objectMeta \<Rightarrow> ('w \<Rightarrow> bool) \<Rightarrow> 'w \<Rightarrow> bool" where
  "takeoverOver E x m W =
     gives (w_listEvents E (om_Namespace m) (om_Name m))
       (\<lambda>items. \<forall>w. W w \<longrightarrow> gives (w_now E) (\<lambda>now. checkWaitTakeoverReady now x (handlerEventList items)) W w) W"

definition coreCooperates ::
  "('w, 'c) env \<Rightarrow> Requester \<Rightarrow> (nat \<Rightarrow> statefulSet) \<Rightarrow> (nat \<Rightarrow> 'w \<Rightarrow> bool) \<Rightarrow> EMQX \<Rightarrow> bool" where
  "coreCooperates E rq old holds x \<longleftrightarrow>
     readyToShrink x \<and>
     (\<forall>k w. holds (Suc k) w \<longrightarrow>
        sts_Replicas (old (Suc k)) = Some (int (Suc k)) \<and> st_Replicas (sts_status (old (Suc k))) \<noteq> 0 \<and>
        gives (w_listSts E (om_Namespace (Meta x)) (DefaultCoreLabels x))
          (\<lambda>items. case getStateFulSetList items x of (upd, cur, _) \<Rightarrow> replaced sts_meta upd cur = Some (old (Suc k)))
          (holds (Suc k)) w \<and>
        gives (w_listRs E (om_Namespace (Meta x)) (DefaultReplicantLabels x))
          (\<lambda>items. case getReplicaSetList items x of (upd, cur, _) \<Rightarrow> replaced rs_meta upd cur = None)
          (holds (Suc k)) w \<and>
        gives (w_now E) (\<lambda>now. checkInitialDelaySecondsReady now x) (holds (Suc k)) w \<and>
        gives (w_getPod E (om_Namespace (Meta x)) (om_Name (sts_meta (old (Suc k))) @ ''-'' @ itoa (int k)))
          (\<lambda>got. \<exists>p. got = Inr p \<and> om_DeletionTimestamp (pod_meta p) = None \<and>
             answersIdle E rq (oldStsNode (old (Suc k)) p) (holds (Suc k))) (holds (Suc k)) w \<and>
        takeoverOver E x (sts_meta (old (Suc k))) (holds (Suc k)) w \<and>
        gives (w_update E (OStatefulSet ((old (Suc k))\<lparr>sts_Replicas := Some (int k)\<rparr>)))
          (\<lambda>err. err = None) (holds k) w)"

text \<open>
  The same for the replicants: while the old ReplicaSet has replicas, no evacuation is running, none of
  its pods is going yet, the node on the one with the greatest name is idle, the mark on that pod is
  accepted and seen when the pod is read again, and an update that asks for one replica less is accepted.
\<close>

definition idleReplicant ::
  "('w, 'c) env \<Rightarrow> Requester \<Rightarrow> (nat \<Rightarrow> replicaSet) \<Rightarrow> (nat \<Rightarrow> 'w \<Rightarrow> bool) \<Rightarrow> nat \<Rightarrow> pod list \<Rightarrow> bool" where
  "idleReplicant E rq old holds k pods \<longleftrightarrow>
     pods \<noteq> [] \<and> list_all (\<lambda>p. \<not> alreadyGoing p) pods \<and>
     (let p = hd (go_sort PodsByNameOlder pods)
      in answersIdle E rq (''emqx@'' @ pod_PodIP p) (holds (Suc k)) \<and>
         (\<forall>w. holds (Suc k) w \<longrightarrow>
            gives (w_update E (OPod (markPod p))) (\<lambda>err. err = None) (holds (Suc k)) w \<and>
            gives (w_getPod E (om_Namespace (pod_meta p)) (om_Name (pod_meta p)))
              (\<lambda>got. \<exists>q. got = Inr q \<and> mget (om_Annotations (pod_meta q)) podDeletionCost \<noteq> None) (holds (Suc k)) w))"

definition replicantsCooperate ::
  "('w, 'c) env \<Rightarrow> Requester \<Rightarrow> (nat \<Rightarrow> replicaSet) \<Rightarrow> (nat \<Rightarrow> 'w \<Rightarrow> bool) \<Rightarrow> EMQX \<Rightarrow> bool" where
  "replicantsCooperate E rq old holds x \<longleftrightarrow>
     IsConditionTrue (Status x) Available \<and> NodeEvacuationsStatus (Status x) = [] \<and>
     (\<forall>k w. holds (Suc k) w \<longrightarrow>
        rs_Replicas (old (Suc k)) = Some (int (Suc k)) \<and>
        gives (w_listSts E (om_Namespace (Meta x)) (DefaultCoreLabels x)) (\<lambda>_. True) (holds (Suc k)) w \<and>
        gives (w_listRs E (om_Namespace (Meta x)) (DefaultReplicantLabels x))
          (\<lambda>items. case getReplicaSetList items x of (upd, cur, _) \<Rightarrow> replaced rs_meta upd cur = Some (old (Suc k)))
          (holds (Suc k)) w \<and>
        gives (w_now E) (\<lambda>now. checkInitialDelaySecondsReady now x) (holds (Suc k)) w \<and>
        gives (w_listPods E (om_Namespace (Meta x)) (DefaultReplicantLabels x))
          (\<lambda>pods. \<forall>w. holds (Suc k) w \<longrightarrow>
             gives (w_listRs E (om_Namespace (Meta x)) (DefaultReplicantLabels x))
               (\<lambda>items. \<exists>ps. getRsPodMap items pods (om_UID (rs_meta (old (Suc k)))) = Some ps \<and>
                  idleReplicant E rq old holds k ps) (holds (Suc k)) w) (holds (Suc k)) w \<and>
        takeoverOver E x (rs_meta (old (Suc k))) (holds (Suc k)) w \<and>
        gives (w_update E (OReplicaSet ((old (Suc k))\<lparr>rs_Replicas := Some (int k)\<rparr>)))
          (\<lambda>err. err = None) (holds k) w)"

text \<open>One round for each reconcile, with the resource it has read; whether all of them succeeded.\<close>

fun rounds :: "(EMQX \<Rightarrow> ('w, (subResult \<times> EMQX) go) op) \<Rightarrow> EMQX list \<Rightarrow> ('w, bool) op" where
  "rounds step [] = ret True"
| "rounds step (x # xs) = do {
     res \<leftarrow> step x;
     rest \<leftarrow> rounds step xs;
     ret (res = Ret (done_ok, x) \<and> rest) }"

definition syncRounds :: "('w, 'c) env \<Rightarrow> Requester \<Rightarrow> EMQX list \<Rightarrow> ('w, bool) op" where
  "syncRounds E rq xs = rounds (\<lambda>x. syncPods E x (Some rq)) xs"

section \<open>One round\<close>

lemma coreCooperatesD:
  assumes "coreCooperates E rq old holds x"
  shows "readyToShrink x"
    and "\<And>k w. holds (Suc k) w \<Longrightarrow> sts_Replicas (old (Suc k)) = Some (int (Suc k))"
    and "\<And>k w. holds (Suc k) w \<Longrightarrow> st_Replicas (sts_status (old (Suc k))) \<noteq> 0"
    and "\<And>k w. holds (Suc k) w \<Longrightarrow> gives (w_listSts E (om_Namespace (Meta x)) (DefaultCoreLabels x))
          (\<lambda>items. case getStateFulSetList items x of (upd, cur, _) \<Rightarrow> replaced sts_meta upd cur = Some (old (Suc k)))
          (holds (Suc k)) w"
    and "\<And>k w. holds (Suc k) w \<Longrightarrow> gives (w_listRs E (om_Namespace (Meta x)) (DefaultReplicantLabels x))
          (\<lambda>items. case getReplicaSetList items x of (upd, cur, _) \<Rightarrow> replaced rs_meta upd cur = None)
          (holds (Suc k)) w"
    and "\<And>k w. holds (Suc k) w \<Longrightarrow>
        gives (w_now E) (\<lambda>now. checkInitialDelaySecondsReady now x) (holds (Suc k)) w"
    and "\<And>k w. holds (Suc k) w \<Longrightarrow>
        gives (w_getPod E (om_Namespace (Meta x)) (om_Name (sts_meta (old (Suc k))) @ ''-'' @ itoa (int k)))
          (\<lambda>got. \<exists>p. got = Inr p \<and> om_DeletionTimestamp (pod_meta p) = None \<and>
             answersIdle E rq (oldStsNode (old (Suc k)) p) (holds (Suc k))) (holds (Suc k)) w"
    and "\<And>k w. holds (Suc k) w \<Longrightarrow>
        gives (w_update E (OStatefulSet ((old (Suc k))\<lparr>sts_Replicas := Some (int k)\<rparr>)))
          (\<lambda>err. err = None) (holds k) w"
    and "\<And>k w. holds (Suc k) w \<Longrightarrow> takeoverOver E x (sts_meta (old (Suc k))) (holds (Suc k)) w"
  using assms unfolding coreCooperates_def by blast+

lemma leads_nodeInfo:
  assumes "answersIdle E rq node W"
  shows "leads W (getEMQXNodeInfoByAPI E rq node)
    (\<lambda>info w. (\<exists>i. info = Inr (Some i) \<and> (n_NodeStatus i = ''stopped'' \<or> noSessions i)) \<and> W w)"
  unfolding getEMQXNodeInfoByAPI_def Request_def Let_def httpDo_def nodeRequest_def[symmetric]
    assms[unfolded answersIdle_def, THEN conjunct1] option.case State_Monad.bind_assoc State_Monad.bind_left_identity
proof (rule leads_bind[OF leads_gives[OF assms[unfolded answersIdle_def, THEN conjunct2, rule_format]]], assumption, rule leads_fact, elim exE conjE, rule leads_return, goal_cases)
  case (1 ans rp w)
  then show ?case
    by (cases "unmarshalNode E (resp_Body rp)") (auto simp: mayStop_def split: if_splits option.splits)
qed

lemma leads_drained:
  assumes "noSessions i" and "\<And>w. W w \<Longrightarrow> takeoverOver E x m W w"
  shows "leads W (drained E x rq m targets i) (\<lambda>r w. r = Inr True \<and> W w)"
  unfolding drained_def getEventList_def listEvents_def timeNow_def State_Monad.bind_assoc State_Monad.bind_left_identity
    if_not_P[OF assms(1)[unfolded noSessions_def]]
  by (rule leads_bind[OF leads_gives[OF assms(2)[unfolded takeoverOver_def]]], assumption, rule leads_fact,
      rule leads_bind, rule leads_gives, blast, rule leads_return) blast

text \<open>
  How \<open>canBeScaleDownRs\<close> and \<open>canBeScaleDownSts\<close> ask a node: the answer \<open>fin (Inr True)\<close> lets it go.
\<close>

lemma leads_checkNode:
  assumes idle: "answersIdle E rq node W" and over: "\<And>w. W w \<Longrightarrow> takeoverOver E x m W w" and v: "v = fin (Inr True)"
  shows "leads W (do {
      info \<leftarrow> getEMQXNodeInfoByAPI E rq node;
      (case info of
         Inl e \<Rightarrow> f e
       | Inr None \<Rightarrow> g
       | Inr (Some i) \<Rightarrow>
           if n_NodeStatus i = ''stopped'' then ret v
           else do { ok \<leftarrow> drained E x rq m targets i; ret (fin ok) }) })
      (\<lambda>r w. r = v \<and> W w)"
proof (rule leads_bind[OF leads_nodeInfo[OF idle]], rule leads_fact, elim exE conjE, goal_cases)
  case (1 info i)
  show ?case
  proof (cases "n_NodeStatus i = ''stopped''")
    case False
    with 1 have "noSessions i" by blast
    from leads_drained[OF this over] show ?thesis
      using 1 False v by (auto intro!: leads_bind leads_fact leads_return)
  qed (use 1 in \<open>auto intro: leads_return\<close>)
qed

lemma pred_replicas: "int (Suc k) < 2 ^ 31 \<Longrightarrow> int32 (int (Suc k) - 1) = int k"
  by (subst int32_id) auto

lemma leads_canBeScaleDownSts:
  assumes coop: "coreCooperates E rq old holds x" and small: "int (Suc k) < 2 ^ 31"
  shows "leads (holds (Suc k)) (canBeScaleDownSts E x rq (old (Suc k)) targets)
    (\<lambda>r w. r = Ret (Inr True) \<and> holds (Suc k) w)"
proof (cases "\<exists>w. holds (Suc k) w")
  case True
  then have old: "sts_Replicas (old (Suc k)) = Some (int (Suc k))" "st_Replicas (sts_status (old (Suc k))) \<noteq> 0"
    using coreCooperatesD(2,3)[OF coop] by blast+
  have settled: "\<not> (case NodeEvacuationsStatus (Status x) of [] \<Rightarrow> False | ev # _ \<Rightarrow> ne_State ev \<noteq> ''prohibiting'')"
    and revision: "\<not> (IsExistReplicant x \<and> ns_CurrentRevision (ReplicantNodesStatus (Status x)) \<noteq>
      ns_UpdateRevision (ReplicantNodesStatus (Status x)))"
    using coreCooperatesD(1)[OF coop] by (auto simp: readyToShrink_def evacuationsSettled_def split: list.splits)
  show ?thesis
    unfolding canBeScaleDownSts_def if_not_P[OF revision] if_not_P[OF settled] if_not_P[OF old(2)] old(1) option.case
      pred_replicas[OF small] timeNow_def getPod_def
    by (rule leads_bind[OF leads_gives[OF coreCooperatesD(6)[OF coop]]], assumption, rule leads_fact,
        simp only: not_True_eq_False if_False,
        rule leads_bind[OF leads_gives[OF coreCooperatesD(7)[OF coop]]], assumption, rule leads_fact)
      (auto intro!: leads_checkNode coreCooperatesD(9)[OF coop])
qed (simp add: leads_def)

lemma leads_scaleDownSts:
  assumes coop: "coreCooperates E rq old holds x" and small: "int (Suc k) < 2 ^ 31"
  shows "leads (holds (Suc k)) (scaleDownSts E (old (Suc k))) (\<lambda>r w. r = Ret done_ok \<and> holds k w)"
proof (cases "\<exists>w. holds (Suc k) w")
  case True
  then have "sts_Replicas (old (Suc k)) = Some (int (Suc k))" using coreCooperatesD(2)[OF coop] by blast
  then show ?thesis
    unfolding scaleDownSts_def update_def
    by (auto simp: pred_replicas[OF small, simplified] intro!: leads_bind[OF leads_gives[OF coreCooperatesD(8)[OF coop]]] leads_fact leads_return)
qed (simp add: leads_def)

lemma leads_syncPods:
  assumes coop: "coreCooperates E rq old holds x" and small: "int (Suc k) < 2 ^ 31"
  shows "leads (holds (Suc k)) (syncPods E x (Some rq)) (\<lambda>r w. r = Ret (done_ok, x) \<and> holds k w)"
proof -
  have round: "leads (holds (Suc k)) (bindGo (syncPodsWith E x rq (Some (old (Suc k))) None targets)
      (\<lambda>res. ret (Ret (res, x)))) (\<lambda>r w. r = Ret (done_ok, x) \<and> holds k w)" for targets
  proof (rule leads_bindGo[where R = "\<lambda>res w. res = done_ok \<and> holds k w"])
    show "leads (holds (Suc k)) (syncPodsWith E x rq (Some (old (Suc k))) None targets)
      (\<lambda>r w. \<exists>a. r = Ret a \<and> a = done_ok \<and> holds k w)"
      unfolding syncPodsWith_def option.case
      by (rule leads_bindGo[where R = "\<lambda>res w. res = Inr True \<and> holds (Suc k) w"])
        (use leads_canBeScaleDownSts[OF coop small] leads_scaleDownSts[OF coop small]
          in \<open>auto intro!: leads_fact simp: leads_def\<close>)
  qed (auto intro!: leads_fact leads_return)
  have "IsConditionTrue (Status x) Available"
    using coreCooperatesD(1)[OF coop] by (simp add: readyToShrink_def)
  then show ?thesis
    unfolding syncPods_def readStatefulSets_def readReplicaSets_def listSts_def listRs_def
      State_Monad.bind_assoc State_Monad.bind_left_identity
    by (auto intro!: leads_bind[OF leads_gives[OF coreCooperatesD(4)[OF coop]]]
        leads_bind[OF leads_gives[OF coreCooperatesD(5)[OF coop]]] leads_fact round split: prod.splits)
qed

section \<open>One round of the replicants\<close>

lemma replicantsCooperateD:
  assumes "replicantsCooperate E rq old holds x"
  shows "IsConditionTrue (Status x) Available" "NodeEvacuationsStatus (Status x) = []"
    and "\<And>k w. holds (Suc k) w \<Longrightarrow> rs_Replicas (old (Suc k)) = Some (int (Suc k))"
    and "\<And>k w. holds (Suc k) w \<Longrightarrow>
      gives (w_listSts E (om_Namespace (Meta x)) (DefaultCoreLabels x)) (\<lambda>_. True) (holds (Suc k)) w"
    and "\<And>k w. holds (Suc k) w \<Longrightarrow> gives (w_listRs E (om_Namespace (Meta x)) (DefaultReplicantLabels x))
      (\<lambda>items. case getReplicaSetList items x of (upd, cur, _) \<Rightarrow> replaced rs_meta upd cur = Some (old (Suc k)))
      (holds (Suc k)) w"
    and "\<And>k w. holds (Suc k) w \<Longrightarrow>
      gives (w_now E) (\<lambda>now. checkInitialDelaySecondsReady now x) (holds (Suc k)) w"
    and "\<And>k w. holds (Suc k) w \<Longrightarrow> gives (w_listPods E (om_Namespace (Meta x)) (DefaultReplicantLabels x))
      (\<lambda>pods. \<forall>w. holds (Suc k) w \<longrightarrow>
         gives (w_listRs E (om_Namespace (Meta x)) (DefaultReplicantLabels x))
           (\<lambda>items. \<exists>ps. getRsPodMap items pods (om_UID (rs_meta (old (Suc k)))) = Some ps \<and>
              idleReplicant E rq old holds k ps) (holds (Suc k)) w) (holds (Suc k)) w"
    and "\<And>k w. holds (Suc k) w \<Longrightarrow> takeoverOver E x (rs_meta (old (Suc k))) (holds (Suc k)) w"
    and "\<And>k w. holds (Suc k) w \<Longrightarrow>
      gives (w_update E (OReplicaSet ((old (Suc k))\<lparr>rs_Replicas := Some (int k)\<rparr>))) (\<lambda>err. err = None) (holds k) w"
  using assms unfolding replicantsCooperate_def by blast+

lemma leads_pickRsPod:
  assumes coop: "replicantsCooperate E rq old holds x" and idle: "idleReplicant E rq old holds k ps"
  shows "leads (holds (Suc k)) (pickRsPod E x rq (old (Suc k)) targets ps)
    (\<lambda>r w. r = Ret (Inr (Some (hd (go_sort PodsByNameOlder ps)))) \<and> holds (Suc k) w)"
proof -
  have none: "find alreadyGoing (go_sort PodsByNameOlder ps) = None"
    using idle by (auto simp: idleReplicant_def find_None_iff list_all_iff)
  show ?thesis
    unfolding pickRsPod_def Let_def none option.case drainPod_def
    by (rule leads_checkNode[where fin = "\<lambda>ok. Ret (case ok of Inl e \<Rightarrow> Inl e | Inr b \<Rightarrow> Inr (if b then Some _ else None))"])
      (use idle replicantsCooperateD(8)[OF coop] in \<open>auto simp: idleReplicant_def Let_def\<close>)
qed

lemma leads_canBeScaleDownRs:
  assumes coop: "replicantsCooperate E rq old holds x"
  shows "leads (holds (Suc k)) (canBeScaleDownRs E x rq (old (Suc k)) targets)
    (\<lambda>r w. \<exists>a. r = Ret a \<and> (\<exists>ps. idleReplicant E rq old holds k ps \<and>
       a = Inr (Some (hd (go_sort PodsByNameOlder ps)))) \<and> holds (Suc k) w)"
  unfolding canBeScaleDownRs_def replicantsCooperateD(2)[OF coop] timeNow_def readRsPodMap_def listPods_def listRs_def
    State_Monad.bind_assoc State_Monad.bind_left_identity
proof (rule leads_bind[OF leads_gives[OF replicantsCooperateD(6)[OF coop]]], assumption, rule leads_fact,
    simp only: not_True_eq_False if_False,
    rule leads_bind[OF leads_gives[OF replicantsCooperateD(7)[OF coop]]], assumption, rule leads_fact,
    rule leads_bind[OF leads_gives], blast, rule leads_fact, elim exE conjE, goal_cases)
  case (1 now pods items ps)
  then show ?case
    using leads_pickRsPod[OF coop, of k ps targets]
    by (fastforce simp: idleReplicant_def leads_def)
qed

lemma leads_scaleDownRs:
  assumes coop: "replicantsCooperate E rq old holds x" and small: "int (Suc k) < 2 ^ 31"
    and idle: "idleReplicant E rq old holds k ps"
  shows "leads (holds (Suc k)) (scaleDownRs E (old (Suc k)) (hd (go_sort PodsByNameOlder ps)))
    (\<lambda>r w. r = Ret done_ok \<and> holds k w)"
proof (cases "\<exists>w. holds (Suc k) w")
  case True
  then have n: "rs_Replicas (old (Suc k)) = Some (int (Suc k))" using replicantsCooperateD(3)[OF coop] by blast
  note pod = idle[unfolded idleReplicant_def Let_def]
  show ?thesis
    unfolding scaleDownRs_def update_def getPod_def
    by (rule leads_bind[OF leads_gives], use pod in blast, rule leads_fact, simp only: option.case,
        rule leads_bind[OF leads_gives], use pod in blast, rule leads_fact)
      (auto simp: n pred_replicas[OF small, simplified]
        intro!: leads_bind[OF leads_gives[OF replicantsCooperateD(9)[OF coop]]] leads_fact leads_return)
qed (simp add: leads_def)

lemma leads_syncPods_replicants:
  assumes coop: "replicantsCooperate E rq old holds x" and small: "int (Suc k) < 2 ^ 31"
  shows "leads (holds (Suc k)) (syncPods E x (Some rq)) (\<lambda>r w. r = Ret (done_ok, x) \<and> holds k w)"
proof -
  have stays: "om_DeletionTimestamp (pod_meta (hd (go_sort PodsByNameOlder ps))) = None"
    if "idleReplicant E rq old holds k ps" for ps
  proof -
    from that have "hd (go_sort PodsByNameOlder ps) \<in> set ps"
      unfolding idleReplicant_def by (metis hd_in_set length_0_conv length_go_sort set_go_sort)
    with that show ?thesis by (auto simp: idleReplicant_def list_all_iff alreadyGoing_def)
  qed
  have shrink: "leads (holds (Suc k)) (syncPodsWith E x rq oldSts (Some (old (Suc k))) targets)
      (\<lambda>r w. \<exists>a. r = Ret a \<and> a = done_ok \<and> holds k w)" for oldSts targets
    unfolding syncPodsWith_def option.case
    by (rule leads_bindGo[OF leads_canBeScaleDownRs[OF coop]], rule leads_fact, elim exE conjE)
      (use leads_scaleDownRs[OF coop small] stays in \<open>simp add: leads_def\<close>)
  have round: "leads (holds (Suc k)) (bindGo (syncPodsWith E x rq oldSts (Some (old (Suc k))) targets)
      (\<lambda>res. ret (Ret (res, x)))) (\<lambda>r w. r = Ret (done_ok, x) \<and> holds k w)" for oldSts targets
    by (rule leads_bindGo[OF shrink]) (auto intro!: leads_fact leads_return)
  show ?thesis
    using replicantsCooperateD(1)[OF coop]
    unfolding syncPods_def readStatefulSets_def readReplicaSets_def listSts_def listRs_def
      State_Monad.bind_assoc State_Monad.bind_left_identity
    by (auto intro!: leads_bind[OF leads_gives[OF replicantsCooperateD(4)[OF coop]]]
        leads_bind[OF leads_gives[OF replicantsCooperateD(5)[OF coop]]] leads_fact round split: prod.splits)
qed

section \<open>The rollout\<close>

text \<open>
  The contract of a round: with a resource that is \<open>fit\<close> it takes one node down, and leaves the
  resource alone.
\<close>

locale shrinking =
  fixes fit :: "EMQX \<Rightarrow> bool"
    and step :: "EMQX \<Rightarrow> ('w, (subResult \<times> EMQX) go) op"
    and holds :: "nat \<Rightarrow> 'w \<Rightarrow> bool"
  assumes takes_one: "fit x \<Longrightarrow> int (Suc k) < 2 ^ 31 \<Longrightarrow>
    leads (holds (Suc k)) (step x) (\<lambda>r w. r = Ret (done_ok, x) \<and> holds k w)"
begin

lemma empties:
  assumes "list_all fit xs" "int (length xs) < 2 ^ 31"
  shows "leads (holds (length xs)) (rounds step xs) (\<lambda>r w. r \<and> holds 0 w)"
  using assms
proof (induction xs)
  case (Cons x xs)
  then have one: "leads (holds (Suc (length xs))) (step x) (\<lambda>r w. r = Ret (done_ok, x) \<and> holds (length xs) w)"
    by (intro takes_one) auto
  from Cons have rest: "leads (holds (length xs)) (rounds step xs) (\<lambda>r w. r \<and> holds 0 w)" by simp
  show ?case
    by (auto intro!: leads_bind[OF one] leads_fact leads_bind[OF rest] leads_return)
qed (auto intro: leads_return)

end

interpretation core_rounds: shrinking "coreCooperates E rq old holds" "\<lambda>x. syncPods E x (Some rq)" holds
  for E rq old holds
  by unfold_locales (rule leads_syncPods)

interpretation replicant_rounds: shrinking "replicantsCooperate E rq old holds" "\<lambda>x. syncPods E x (Some rq)" holds
  for E rq old holds
  by unfold_locales (rule leads_syncPods_replicants)

lemma rounds_append:
  "rounds step (xs @ ys) = do { a \<leftarrow> rounds step xs; b \<leftarrow> rounds step ys; ret (a \<and> b) }"
  by (induction xs)
    (simp_all add: State_Monad.bind_assoc State_Monad.bind_left_identity State_Monad.bind_right_identity conj_assoc)

text \<open>
  C6. A rollout finishes. \<open>holds r c\<close> are the worlds in which the old ReplicaSet has \<open>r\<close> and the old
  StatefulSet \<open>c\<close> replicas. When the cluster cooperates, with the resources \<open>xs\<close> read while replicants
  are replaced and \<open>ys\<close> read while core nodes are, every round of \<open>syncPods\<close> succeeds, leaves the
  resource alone and takes one node down, and after as many rounds as there were old nodes none is left.
\<close>

theorem rollout_finishes:
  assumes "list_all (replicantsCooperate E rq oldRs (\<lambda>r. holds r (length ys))) xs"
    and "list_all (coreCooperates E rq oldSts (holds 0)) ys"
    and "int (length xs) < 2 ^ 31" "int (length ys) < 2 ^ 31"
    and "holds (length xs) (length ys) w"
  shows "case run_state (syncRounds E rq (xs @ ys)) \<lparr>world = w, trace = l\<rparr> of (ok, s) \<Rightarrow> ok \<and> holds 0 0 (world s)"
proof -
  have "leads (holds (length xs) (length ys)) (syncRounds E rq (xs @ ys)) (\<lambda>r w. r \<and> holds 0 0 w)"
    unfolding syncRounds_def rounds_append
    by (rule leads_bind[OF replicant_rounds.empties[OF assms(1,3)]], rule leads_fact,
        rule leads_bind[OF core_rounds.empties[OF assms(2,4)]], rule leads_fact, rule leads_return) simp
  with assms(5) show ?thesis by (simp add: leads_def case_prod_beta)
qed

text \<open>
  A cluster of one old replicant and one old core node. The world is twice the replica count of the old
  ReplicaSet plus that of the old StatefulSet; an update of either set writes it.
\<close>

definition exShrinking :: "(int, unit) env" where
  "exShrinking = exRollout\<lparr>w_now := Pair (1000 * nanosPerSecond),
     w_listSts := (\<lambda>_ _ w. ([exSts ''emqx-core-a'' ''a'' (w mod 2), exSts ''emqx-core-b'' ''b'' 1], w)),
     w_listRs := (\<lambda>_ _ w. ([exRs ''emqx-replicant-a'' ''a'' (w div 2), exRs ''emqx-replicant-b'' ''b'' 1], w)),
     w_listPods := (\<lambda>_ _. Pair [exPod ''emqx-replicant-a-xyz'' ''emqx-replicant-a-uid'']),
     w_getPod := (\<lambda>_ name. Pair (Inr (markPod (exPod name [])))),
     w_update := (\<lambda>ob w. (None, case ob of
       OReplicaSet s \<Rightarrow> (case rs_Replicas s of Some n \<Rightarrow> 2 * n + w mod 2 | None \<Rightarrow> w)
     | OStatefulSet s \<Rightarrow> (case sts_Replicas s of Some n \<Rightarrow> 2 * (w div 2) + n | None \<Rightarrow> w)
     | _ \<Rightarrow> w))\<rparr>"

definition exHolds :: "nat \<Rightarrow> nat \<Rightarrow> int \<Rightarrow> bool" where
  "exHolds r c w \<longleftrightarrow> w = 2 * int r + int c \<and> c \<le> 1"

lemma exShrinking_env:
  "w_now exShrinking = Pair (1000 * nanosPerSecond)"
  "w_listSts exShrinking = (\<lambda>_ _ w. ([exSts ''emqx-core-a'' ''a'' (w mod 2), exSts ''emqx-core-b'' ''b'' 1], w))"
  "w_listRs exShrinking = (\<lambda>_ _ w. ([exRs ''emqx-replicant-a'' ''a'' (w div 2), exRs ''emqx-replicant-b'' ''b'' 1], w))"
  "w_listPods exShrinking = (\<lambda>_ _. Pair [exPod ''emqx-replicant-a-xyz'' ''emqx-replicant-a-uid''])"
  "w_getPod exShrinking = (\<lambda>_ name. Pair (Inr (markPod (exPod name []))))"
  "w_do exShrinking = (\<lambda>_. Pair (Inr (exOK [])))" "w_listEvents exShrinking = (\<lambda>_ _. Pair [])"
  "newRequestErr exShrinking = (\<lambda>_. None)"
  "w_update exShrinking (OStatefulSet ((exSts name hash m)\<lparr>sts_Replicas := Some n\<rparr>)) w = (None, 2 * (w div 2) + n)"
  "w_update exShrinking (OReplicaSet ((exRs name hash m)\<lparr>rs_Replicas := Some n\<rparr>)) w = (None, 2 * n + w mod 2)"
  "w_update exShrinking (OPod p) w = (None, w)"
  by (simp_all add: exShrinking_def exRollout_def exEnv_def exEmpty_def fun_eq_iff)

lemma exShrinking_idle: "answersIdle exShrinking rq node W"
proof -
  have "mayStop exShrinking (exOK [])" by code_simp
  then show ?thesis by (simp add: answersIdle_def gives_def exShrinking_env exOK_def)
qed

lemma exShrinking_takeover: "W w \<Longrightarrow> takeoverOver exShrinking x m W w"
  by (simp add: takeoverOver_def gives_def exShrinking_env handlerEventList_def checkWaitTakeoverReady_def)

lemma exSets:
  "sts_Replicas (exSts name hash n) = Some n" "st_Replicas (sts_status (exSts name hash n)) = n"
  "rs_Replicas (exRs name hash n) = Some n"
  "om_DeletionTimestamp (pod_meta (markPod (exPod name uid))) = None"
  "mget (om_Annotations (pod_meta (markPod p))) podDeletionCost = Some ''-99999''"
  "mget (om_Annotations (pod_meta (exPod name uid))) key = None"
  "om_DeletionTimestamp (pod_meta (exPod name uid)) = None"
  by (simp_all add: exSts_def exRs_def exSetStatus_def exPod_def exMeta_def emptyMeta_def markPod_def mset_key_def
      mget_def)

lemma exShrinking_core:
  "coreCooperates exShrinking exRq (\<lambda>c. exSts ''emqx-core-a'' ''a'' (int c)) (exHolds 0) (exAvailable ''b'' ''a'')"
proof -
  have ready: "readyToShrink (exAvailable ''b'' ''a'')"
    "checkInitialDelaySecondsReady (1000 * nanosPerSecond) (exAvailable ''b'' ''a'')" by code_simp+
  have sets: "case getStateFulSetList [exSts ''emqx-core-a'' ''a'' n, exSts ''emqx-core-b'' ''b'' 1]
      (exAvailable ''b'' ''a'') of (upd, cur, _) \<Rightarrow> replaced sts_meta upd cur = Some (exSts ''emqx-core-a'' ''a'' n)" for n
    by (simp add: getStateFulSetList_def classify_def stsHash_def exSts_def exMeta_def exLabels_def
      exAvailable_def exEMQX_def exStatus_def exNodesStatus_def replaced_def)
  have none: "case getReplicaSetList [exRs ''emqx-replicant-a'' ''a'' n, exRs ''emqx-replicant-b'' ''b'' 1]
      (exAvailable ''b'' ''a'') of (upd, cur, _) \<Rightarrow> replaced rs_meta upd cur = None" for n
    by (simp add: getReplicaSetList_def classify_def rsHash_def exRs_def exMeta_def exLabels_def
      exAvailable_def exEMQX_def exStatus_def exNodesStatus_def replaced_def)
  show ?thesis
    unfolding coreCooperates_def gives_def exShrinking_env
    using ready sets[of 1] none by (auto simp: exSets exHolds_def exShrinking_idle intro: exShrinking_takeover)
qed

lemma exShrinking_replicants:
  "replicantsCooperate exShrinking exRq (\<lambda>r. exRs ''emqx-replicant-a'' ''a'' (int r)) (\<lambda>r. exHolds r 1) exReplicating"
proof -
  let ?pods = "[exPod ''emqx-replicant-a-xyz'' ''emqx-replicant-a-uid'']"
  have ready: "IsConditionTrue (Status exReplicating) Available" "NodeEvacuationsStatus (Status exReplicating) = []"
    "checkInitialDelaySecondsReady (1000 * nanosPerSecond) exReplicating" by code_simp+
  have sets: "getReplicaSetList [exRs ''emqx-replicant-a'' ''a'' n, exRs ''emqx-replicant-b'' ''b'' 1] exReplicating =
      (Some (exRs ''emqx-replicant-b'' ''b'' 1), Some (exRs ''emqx-replicant-a'' ''a'' n), [])"
    "replaced rs_meta (Some (exRs ''emqx-replicant-b'' ''b'' 1)) (Some (exRs ''emqx-replicant-a'' ''a'' n)) =
      Some (exRs ''emqx-replicant-a'' ''a'' n)" for n
    by (simp_all add: getReplicaSetList_def classify_def rsHash_def exRs_def exMeta_def exLabels_def exReplicating_def
      exAvailable_def exEMQX_def exStatus_def exNodesStatus_def replaced_def)
  have pods: "getRsPodMap [exRs ''emqx-replicant-a'' ''a'' n, exRs ''emqx-replicant-b'' ''b'' 1] ?pods
      (om_UID (rs_meta (exRs ''emqx-replicant-a'' ''a'' m))) = Some ?pods" for n m
    by (simp add: getRsPodMap_def exRs_def exPod_def exMeta_def)
  have idle: "idleReplicant exShrinking exRq old (\<lambda>r. exHolds r 1) k ?pods" for old k
    by (simp add: idleReplicant_def alreadyGoing_def go_sort_def exSets exShrinking_idle exShrinking_env gives_def)
  show ?thesis
    unfolding replicantsCooperate_def gives_def exShrinking_env
    using ready idle by (auto simp: exSets exHolds_def sets pods add.commute intro: exShrinking_takeover)
qed

theorem rollout_finishes_witness:
  "case run_state (syncRounds exShrinking exRq ([exReplicating] @ [exAvailable ''b'' ''a'']))
     \<lparr>world = 3, trace = []\<rparr> of (ok, s) \<Rightarrow> ok \<and> exHolds 0 0 (world s)"
  by (rule rollout_finishes[where holds = exHolds and oldRs = "\<lambda>r. exRs ''emqx-replicant-a'' ''a'' (int r)"
        and oldSts = "\<lambda>c. exSts ''emqx-core-a'' ''a'' (int c)"])
    (use exShrinking_replicants exShrinking_core in simp_all, simp add: exHolds_def)

end
