(* ===== verification/Startup.thy ===== *)
theory Startup
  imports Api
begin

text \<open>
  The process of the operator (\<open>main.go\<close>): the schemes it knows, the order in which it registers
  controllers, webhooks and health checks with the manager of \<open>controller-runtime\<close>, and the role it
  runs with (\<open>config/rbac/role.yaml\<close>, generated from the markers in \<open>main.go\<close> and the controllers). The
  manager is not code of the repository: what it answers to each step is the argument \<open>answer\<close>.
\<close>

section \<open>Options\<close>

text \<open>The flags after \<open>flag.Parse\<close>; these are the values without arguments.\<close>

record flags =
  fl_MetricsAddr :: string
  fl_ProbeAddr :: string
  fl_LeaderElect :: bool

definition defaultFlags :: flags where
  "defaultFlags = \<lparr>fl_MetricsAddr = '':8080'', fl_ProbeAddr = '':8081'', fl_LeaderElect = False\<rparr>"

text \<open>The namespaces of the cache are the keys of a map, or all namespaces when it is nil.\<close>

record managerOptions =
  mo_BindAddress :: string
  mo_HealthProbeBindAddress :: string
  mo_LeaderElection :: bool
  mo_LeaderElectionID :: string
  mo_LeaseDuration :: time
  mo_RenewDeadline :: time
  mo_DefaultNamespaces :: "string list option"

definition getWatchNamespace :: "(string \<rightharpoonup> string) \<Rightarrow> string list option" where
  "getWatchNamespace environ =
     (case environ ''WATCH_NAMESPACE'' of
        Some ns \<Rightarrow> Some [ns]
      | None \<Rightarrow> None)"

definition managerOptionsOf :: "flags \<Rightarrow> (string \<rightharpoonup> string) \<Rightarrow> managerOptions" where
  "managerOptionsOf fl environ =
     \<lparr>mo_BindAddress = fl_MetricsAddr fl, mo_HealthProbeBindAddress = fl_ProbeAddr fl,
      mo_LeaderElection = fl_LeaderElect fl, mo_LeaderElectionID = ''19fd6fcc.emqx.io'',
      mo_LeaseDuration = 30 * nanosPerSecond, mo_RenewDeadline = 20 * nanosPerSecond,
      mo_DefaultNamespaces = getWatchNamespace environ\<rparr>"

section \<open>The steps\<close>

datatype kind = KEmqxBroker | KEmqxEnterprise | KEmqxPlugin | KEMQX | KRebalance

datatype step =
    AddToScheme string
  | NewManager managerOptions
  | SetupController kind
  | SetupWebhook kind
  | AddHealthzCheck
  | AddReadyzCheck
  | StartManager

text \<open>What an error does: \<open>utilruntime.Must\<close> panics, most steps exit, one is only logged.\<close>

datatype onError = Abort | Exit1 | LogOnly

datatype ending = Panicked | Exited int

definition initSteps :: "(step \<times> onError) list" where
  "initSteps =
     map (\<lambda>scheme. (AddToScheme scheme, Abort)) [''client-go'', ''v1beta3'', ''v1beta4'', ''v2alpha1'', ''v2beta1'']"

definition webhookSteps :: "(string \<rightharpoonup> string) \<Rightarrow> (step \<times> onError) list" where
  "webhookSteps environ =
     (if environ ''ENABLE_WEBHOOKS'' \<noteq> Some ''false''
      then map (\<lambda>k. (SetupWebhook k, Exit1)) [KEmqxPlugin, KEmqxBroker, KEmqxEnterprise, KRebalance]
      else [])"

definition mainSteps :: "flags \<Rightarrow> (string \<rightharpoonup> string) \<Rightarrow> (step \<times> onError) list" where
  "mainSteps fl environ =
     [(NewManager (managerOptionsOf fl environ), Exit1), (SetupController KEmqxBroker, Exit1),
      (SetupController KEmqxEnterprise, Exit1), (SetupController KEmqxPlugin, Exit1),
      (SetupController KEMQX, Exit1), (SetupController KRebalance, LogOnly)] @
     webhookSteps environ @
     [(AddHealthzCheck, Exit1), (AddReadyzCheck, Exit1), (StartManager, Exit1)]"

text \<open>The steps that are made, and how the process ends.\<close>

fun runSteps :: "(step \<Rightarrow> goerr option) \<Rightarrow> (step \<times> onError) list \<Rightarrow> step list \<times> ending" where
  "runSteps answer [] = ([], Exited 0)"
| "runSteps answer ((s, failure) # rest) =
     (let continue = (case runSteps answer rest of (made, end) \<Rightarrow> (s # made, end))
      in case answer s of
           None \<Rightarrow> continue
         | Some err \<Rightarrow> (case failure of Abort \<Rightarrow> ([s], Panicked) | Exit1 \<Rightarrow> ([s], Exited 1) | LogOnly \<Rightarrow> continue))"

definition operatorMain :: "(step \<Rightarrow> goerr option) \<Rightarrow> flags \<Rightarrow> (string \<rightharpoonup> string) \<Rightarrow> step list \<times> ending" where
  "operatorMain answer fl environ = runSteps answer (initSteps @ mainSteps fl environ)"

section \<open>The role\<close>

record policyRule =
  pr_APIGroups :: "string list"
  pr_Resources :: "string list"
  pr_Verbs :: "string list"

definition managerRole :: "policyRule list" where
  "managerRole =
     [\<lparr>pr_APIGroups = [[]], pr_Resources = [''configmaps'', ''endpoints'', ''persistentvolumes'', ''secrets'', ''services''],
       pr_Verbs = [''create'', ''get'', ''list'', ''update'', ''watch'']\<rparr>,
      \<lparr>pr_APIGroups = [[]], pr_Resources = [''events''],
       pr_Verbs = [''create'', ''get'', ''list'', ''patch'', ''update'', ''watch'']\<rparr>,
      \<lparr>pr_APIGroups = [[]], pr_Resources = [''persistentvolumeclaims''],
       pr_Verbs = [''create'', ''delete'', ''get'', ''list'', ''update'', ''watch'']\<rparr>,
      \<lparr>pr_APIGroups = [[]], pr_Resources = [''pods''], pr_Verbs = [''get'', ''list'', ''update'', ''watch'']\<rparr>,
      \<lparr>pr_APIGroups = [[]], pr_Resources = [''pods/status''], pr_Verbs = [''patch'']\<rparr>,
      \<lparr>pr_APIGroups = [''apps''], pr_Resources = [''replicasets'', ''statefulsets''],
       pr_Verbs = [''create'', ''delete'', ''get'', ''list'', ''update'', ''watch'']\<rparr>,
      \<lparr>pr_APIGroups = [''apps.emqx.io''],
       pr_Resources = [''emqxbrokers'', ''emqxenterprises'', ''emqxes'', ''emqxplugins'', ''rebalances''],
       pr_Verbs = [''create'', ''delete'', ''get'', ''list'', ''patch'', ''update'', ''watch'']\<rparr>,
      \<lparr>pr_APIGroups = [''apps.emqx.io''],
       pr_Resources = [''emqxbrokers/finalizers'', ''emqxenterprises/finalizers'', ''emqxes/finalizers'',
         ''emqxplugins/finalizers'', ''rebalances/finalizers''],
       pr_Verbs = [''update'']\<rparr>,
      \<lparr>pr_APIGroups = [''apps.emqx.io''],
       pr_Resources = [''emqxbrokers/status'', ''emqxenterprises/status'', ''emqxes/status'',
         ''emqxplugins/status'', ''rebalances/status''],
       pr_Verbs = [''get'', ''patch'', ''update'']\<rparr>,
      \<lparr>pr_APIGroups = [''coordination.k8s.io''], pr_Resources = [''leases''],
       pr_Verbs = [''create'', ''get'', ''list'', ''update'', ''watch'']\<rparr>,
      \<lparr>pr_APIGroups = [''policy''], pr_Resources = [''poddisruptionbudgets''],
       pr_Verbs = [''create'', ''delete'', ''get'', ''list'', ''update'', ''watch'']\<rparr>]"

section \<open>Lemmas\<close>

text \<open>The exit code is 0 when no step with consequences failed.\<close>

lemma runSteps_exit:
  "snd (runSteps answer ss) = Exited 0 \<longleftrightarrow> (\<forall>(s, f) \<in> set ss. f = LogOnly \<or> answer s = None)"
proof (induction ss)
  case (Cons p ss)
  obtain s f where "p = (s, f)" by fastforce
  with Cons show ?case by (cases f) (auto simp: Let_def split: option.splits prod.splits)
qed simp

text \<open>The last step is made exactly when nothing before it stopped the process.\<close>

lemma runSteps_last:
  assumes "t \<notin> fst ` set ss"
  shows "t \<in> set (fst (runSteps answer (ss @ [(t, f)]))) \<longleftrightarrow> (\<forall>(s, f) \<in> set ss. f = LogOnly \<or> answer s = None)"
  using assms
proof (induction ss)
  case Nil
  then show ?case by (cases f) (auto simp: Let_def split: option.splits)
next
  case (Cons p ss)
  obtain s f where "p = (s, f)" by fastforce
  with Cons show ?case by (cases f) (auto simp: Let_def split: option.splits prod.splits)
qed

end
