(* ===== verification/Authorization.thy ===== *)
theory Authorization
  imports Startup Emqx_Controller Rebalance_Controller V4_Plugins
begin

text \<open>
  The permissions the calls of the controllers need, and that the role of the operator grants them.
  An API server that checks roles allows a request when a rule of the role has its group, its
  resource and its verb. The client of the manager reads from a cache, which lists and watches what
  it serves; the handler reads without one.
\<close>

section \<open>Permissions\<close>

record permission =
  pm_Group :: string
  pm_Resource :: string
  pm_Verb :: string

definition allows :: "policyRule \<Rightarrow> permission \<Rightarrow> bool" where
  "allows rule p \<longleftrightarrow> pm_Group p \<in> set (pr_APIGroups rule) \<and> pm_Resource p \<in> set (pr_Resources rule) \<and>
     pm_Verb p \<in> set (pr_Verbs rule)"

fun objResource :: "obj \<Rightarrow> string \<times> string" where
  "objResource (OStatefulSet _) = (''apps'', ''statefulsets'')"
| "objResource (OReplicaSet _) = (''apps'', ''replicasets'')"
| "objResource (OPod _) = ([], ''pods'')"
| "objResource (OPvc _) = ([], ''persistentvolumeclaims'')"
| "objResource (OSecret _) = ([], ''secrets'')"
| "objResource (OConfigMap _) = ([], ''configmaps'')"
| "objResource (OService _) = ([], ''services'')"
| "objResource (OPdb _) = (''policy'', ''poddisruptionbudgets'')"
| "objResource (OEndpoints _) = ([], ''endpoints'')"
| "objResource (OPlugin _) = (''apps.emqx.io'', ''emqxplugins'')"

definition requests :: "string list \<Rightarrow> string \<times> string \<Rightarrow> permission list" where
  "requests verbs r = map (\<lambda>v. \<lparr>pm_Group = fst r, pm_Resource = snd r, pm_Verb = v\<rparr>) verbs"

definition cached :: "string \<times> string \<Rightarrow> permission list" where
  "cached r = requests [''get'', ''list'', ''watch''] r"

abbreviation custom :: "string \<Rightarrow> string \<times> string" where
  "custom r \<equiv> (''apps.emqx.io'', r)"

fun needs :: "call \<Rightarrow> permission list" where
  "needs (TListSts _ _ _) = cached (''apps'', ''statefulsets'')"
| "needs (TListStsE _ _ _) = cached (''apps'', ''statefulsets'')"
| "needs (TGetSts _ _ _) = cached (''apps'', ''statefulsets'')"
| "needs (TListRs _ _ _) = cached (''apps'', ''replicasets'')"
| "needs (TListPods _ _ _) = cached ([], ''pods'')"
| "needs (TListPodsE _ _ _) = cached ([], ''pods'')"
| "needs (TGetPod _ _ _) = cached ([], ''pods'')"
| "needs (TListPvcs _ _ _) = cached ([], ''persistentvolumeclaims'')"
| "needs (TListEvents _ _ _) = requests [''list''] ([], ''events'')"
| "needs (TGetSecret _ _ _) = cached ([], ''secrets'')"
| "needs (TGetConfigMap _ _ _) = cached ([], ''configmaps'')"
| "needs (TListPlugins _ _) = cached (custom ''emqxplugins'')"
| "needs (TGetPlugin _ _ _) = cached (custom ''emqxplugins'')"
| "needs (TListBrokers _ _ _) = cached (custom ''emqxbrokers'')"
| "needs (TGetBroker _ _ _) = cached (custom ''emqxbrokers'')"
| "needs (TListEnterprises _ _ _) = cached (custom ''emqxenterprises'')"
| "needs (TGetEnterprise _ _ _) = cached (custom ''emqxenterprises'')"
| "needs (TGetEMQX _ _ _) = cached (custom ''emqxes'')"
| "needs (TGetRebalance _ _ _) = cached (custom ''rebalances'')"
| "needs (TGetObj ob _) = requests [''get''] (objResource ob)"
| "needs (TCreate ob _) = requests [''create''] (objResource ob)"
| "needs (TUpdate ob _) = requests [''update''] (objResource ob)"
| "needs (TDelete ob _) = requests [''delete''] (objResource ob)"
| "needs (TUpdateEMQX _ _) = requests [''update''] (custom ''emqxes'')"
| "needs (TStatusEMQX _ _) = requests [''update''] (custom ''emqxes/status'')"
| "needs (TStatusEmqx (Broker _) _) = requests [''update''] (custom ''emqxbrokers/status'')"
| "needs (TStatusEmqx (Enterprise _) _) = requests [''update''] (custom ''emqxenterprises/status'')"
| "needs (TUpdateRebalance _ _) = requests [''update''] (custom ''rebalances'')"
| "needs (TStatusRebalance _ _) = requests [''update''] (custom ''rebalances/status'')"
| "needs (TPatchPodStatus _ _ _) = requests [''patch''] ([], ''pods/status'')"
| "needs (TEvent _ _) = requests [''create'', ''patch''] ([], ''events'')"
| "needs (TNow _) = []"
| "needs (THttp _ _) = []"
| "needs (TPassword _) = []"
| "needs (TServerVersion _) = []"

definition authorised :: "policyRule list \<Rightarrow> call \<Rightarrow> bool" where
  "authorised role c = list_all (\<lambda>p. list_ex (\<lambda>rule. allows rule p) role) (needs c)"

section \<open>What the role grants\<close>

text \<open>Everything the operator could ask for but to create pods and to delete what is not a set or a claim.\<close>

fun denied :: "call \<Rightarrow> bool" where
  "denied (TCreate ob _) = (\<not> creatable ob)"
| "denied (TDelete (OPod _) _) = True"
| "denied (TDelete (OSecret _) _) = True"
| "denied (TDelete (OConfigMap _) _) = True"
| "denied (TDelete (OService _) _) = True"
| "denied (TDelete (OEndpoints _) _) = True"
| "denied _ = False"

lemma authorised_denied: "authorised managerRole c \<longleftrightarrow> \<not> denied c"
proof (cases c)
  case (TGetObj ob r)
  then show ?thesis by (cases ob) (simp_all add: authorised_def requests_def allows_def managerRole_def)
next
  case (TCreate ob r)
  then show ?thesis by (cases ob) (simp_all add: authorised_def requests_def allows_def managerRole_def)
next
  case (TUpdate ob r)
  then show ?thesis by (cases ob) (simp_all add: authorised_def requests_def allows_def managerRole_def)
next
  case (TDelete ob r)
  then show ?thesis by (cases ob) (simp_all add: authorised_def requests_def allows_def managerRole_def)
next
  case (TStatusEmqx x r)
  then show ?thesis by (cases x) (simp_all add: authorised_def requests_def allows_def managerRole_def)
qed (simp_all add: authorised_def requests_def cached_def allows_def managerRole_def)

lemma authorised_read: "\<not> k8sWrite c \<Longrightarrow> authorised managerRole c"
  by (simp add: authorised_denied) (cases c; simp)

lemma made_creatable: "annotatorOk E \<Longrightarrow> made E ob \<Longrightarrow> creatable ob"
  using annotatorOk_set by (fastforce simp: made_def)

lemma authorised_writeOk: "annotatorOk E \<Longrightarrow> writeOk E c \<Longrightarrow> authorised managerRole c"
  by (simp add: authorised_denied)
    (cases c rule: denied.cases; auto dest: made_creatable)

lemma authorised_writeOk4: "annotatorOk E \<Longrightarrow> writeOk4 E c \<Longrightarrow> authorised managerRole c"
  by (simp add: authorised_denied)
    (cases c rule: denied.cases; auto dest: made_creatable)

end
