(* ===== verification/Operator_Properties.thy ===== *)
theory Operator_Properties
  imports Authorization Examples
begin

text \<open>
  The properties of the operator as a process: its controllers together never ask the API server for
  more than the role of the operator grants, and what has to succeed before it starts.
\<close>

section \<open>Permissions\<close>

text \<open>The contract of a controller towards the role: whatever it finds, it stays within the role.\<close>

locale controller =
  fixes reconcile :: "('w, 'c) env \<Rightarrow> string \<Rightarrow> string \<Rightarrow> ('w, 'a) op"
  assumes within: "annotatorOk E \<Longrightarrow> onlyCalls (authorised managerRole) (reconcile E ns name)"
begin

lemma createsNoPods:
  "annotatorOk E \<Longrightarrow> obeys (reconcile E ns name) (\<lambda>_ l. \<forall>p answer. TCreate (OPod p) answer \<notin> set l)"
  by (rule obeys_mono[OF onlyD[OF within]]) (auto simp: list_all_iff authorised_denied)

end

lemma only_case_bool: "only Q R m \<Longrightarrow> only Q R n \<Longrightarrow> only Q R (case b of True \<Rightarrow> m | False \<Rightarrow> n)"
  by (cases b) simp_all

lemma only_reads_role [only_intros]:
  "onlyCalls (authorised managerRole) (Request E rq method u body header)"
  "onlyCalls (authorised managerRole) (newRequesterBySvc E x)"
  "onlyCalls (authorised managerRole) (getPluginsConfig E x)"
  "onlyCalls (authorised managerRole) (getEmqxList E ns labels)"
  unfolding Request_def newRequesterBySvc_def getBootstrapUser_def getPluginsConfig_def getEmqxList_def call_defs
  by (intro only_intros; simp add: authorised_denied)+

lemma only_Update_role [only_intros]: "onlyCalls (authorised managerRole) (Update E ob)"
  unfolding Update_def update_def by (intro only_intros; simp add: authorised_denied)

lemma only_loadLoop_role [only_intros]: "onlyCalls (authorised managerRole) (loadLoop E rq act nps)"
proof (induction nps)
  case (Cons np nps)
  then show ?case
    by (cases np) (auto simp: doLoadPluginByAPI_def intro!: only_intros)
qed (simp add: only_return)

lemma only_unloadFromAll_role [only_intros]: "onlyCalls (authorised managerRole) (unloadFromAll E p xs)"
  by (induction xs) (auto simp: unloadPluginByAPI_def getPluginsByAPI_def intro!: only_intros)

lemma only_loadToAll_role [only_intros]: "onlyCalls (authorised managerRole) (loadToAll E p xs)"
proof (induction xs)
  case (Cons x xs)
  then show ?case
    unfolding loadToAll.simps checkPluginConfig_def loadPluginConfig_def checkPluginStatusByAPI_def getPluginsByAPI_def
    by (intro only_intros only_case_bool; simp)
qed (simp add: only_return)

lemma reconciled_role:
  assumes "annotatorOk E" "reconciled E got res l"
  shows "list_all (authorised managerRole) l"
proof (cases got)
  case (Inr x)
  with assms authorised_writeOk[OF assms(1)] show ?thesis
    by (cases "h_ParseString (hocon E) (cfg_Data (SpecConfig (Spec x)))")
      (auto simp: reconciled_def list_all_iff authorised_denied split: if_splits)
qed (use assms in \<open>simp add: reconciled_def\<close>)

interpretation emqx_controller: controller Reconcile
proof unfold_locales
  fix E :: "('w, 'c) env" and ns name
  assume "annotatorOk E"
  then show "onlyCalls (authorised managerRole) (Reconcile E ns name)"
    unfolding only_def
    by (intro obeys_mono[OF obeys_Reconcile]) (auto simp: authorised_denied reconciled_role)
qed

lemma rebalanceWrite_role: "rebalanceWrite E rb l c \<Longrightarrow> authorised managerRole c"
  by (erule rebalanceWriteE) (auto simp: authorised_denied)

interpretation rebalance_controller: controller ReconcileRebalance
proof unfold_locales
  fix E :: "('w, 'c) env" and ns name
  show "onlyCalls (authorised managerRole) (ReconcileRebalance E ns name)"
    unfolding only_def
  proof (rule obeys_mono[OF obeys_ReconcileRebalance])
    fix res l
    assume "\<forall>c \<in> set l. k8sWrite c \<longrightarrow>
      (\<exists>rb. TGetRebalance ns name (Inr rb) \<in> set l \<and> rebalanceWrite E rb l c)"
    then show "list_all (authorised managerRole) l \<and> True"
      unfolding list_all_iff using authorised_read rebalanceWrite_role by blast
  qed
qed

lemma only_Do: "onlyCalls (writeOk4 E) (Do E x)"
proof -
  have "onlyCalls (writeOk4 E) (newRequesterBySvc E x)"
    unfolding newRequesterBySvc_def getBootstrapUser_def getSecret_def by (intro only_intros; simp)
  moreover have "onlyCalls (writeOk4 E) (addEmqxBootstrapUser E None x ArgNone)"
    using addEmqxBootstrapUser_contract.law by (rule only_weaken) simp
  moreover have "onlyCalls (writeOk4 E) (runSubReconcilers4 subReconcilers4 E r x a)" for r a
    using only_subReconcilers4 by (rule only_weaken) simp
  ultimately show ?thesis unfolding Do_def by (intro only_intros) simp_all
qed

lemma only_Do_role: "annotatorOk E \<Longrightarrow> onlyCalls (authorised managerRole) (Do E x)"
  using only_Do by (rule only_weaken_calls) (rule authorised_writeOk4)

interpretation broker_controller: controller ReconcileBroker
  by unfold_locales
    (unfold ReconcileBroker_def getBroker_def, intro only_intros only_Do_role; simp add: authorised_denied)

interpretation enterprise_controller: controller ReconcileEnterprise
  by unfold_locales
    (unfold ReconcileEnterprise_def getEnterprise_def, intro only_intros only_Do_role; simp add: authorised_denied)

interpretation plugin_controller: controller ReconcilePlugin
  by unfold_locales
    (unfold ReconcilePlugin_def finalizePlugin_def getPlugin_def update_def, intro only_intros; simp add: authorised_denied)

text \<open>
  C8. The operator stays within its role. Whatever the five controllers find in the cluster and
  whatever the calls answer, every call of every reconcile is one the rules of
  \<open>config/rbac/role.yaml\<close> allow, reads through the cache included: no reconcile can be refused for
  lack of permission. In particular no controller ever creates a pod.
  The annotator of k8s-objectmatcher is taken to set annotations only.
\<close>

theorem controllers_stay_within_role:
  assumes "annotatorOk E"
  shows "onlyCalls (authorised managerRole) (Reconcile E ns name) \<and>
    onlyCalls (authorised managerRole) (ReconcileRebalance E ns name) \<and>
    onlyCalls (authorised managerRole) (ReconcileBroker E ns name) \<and>
    onlyCalls (authorised managerRole) (ReconcileEnterprise E ns name) \<and>
    onlyCalls (authorised managerRole) (ReconcilePlugin E ns name)"
  using emqx_controller.within[OF assms] rebalance_controller.within[OF assms]
    broker_controller.within[OF assms] enterprise_controller.within[OF assms] plugin_controller.within[OF assms]
  by blast

theorem controllers_stay_within_role_witness:
  "list_all (authorised managerRole) (runOf (Reconcile (exEnv exEmpty) ''ns'' ''emqx''))"
  using obeys_run[OF onlyD[OF controllers_stay_within_role[OF exEnv_annotatorOk, THEN conjunct1]]] by blast

section \<open>Startup\<close>

definition requiredSteps :: "flags \<Rightarrow> (string \<rightharpoonup> string) \<Rightarrow> step list" where
  "requiredSteps fl environ =
     filter (\<lambda>s. s \<noteq> SetupController KRebalance \<and> s \<noteq> StartManager) (map fst (initSteps @ mainSteps fl environ))"

lemma mainSteps_last: "mainSteps fl environ = butlast (mainSteps fl environ) @ [(StartManager, Exit1)]"
  by (simp add: mainSteps_def butlast_append)

lemma StartManager_last: "StartManager \<notin> fst ` set (initSteps @ butlast (mainSteps fl environ))"
  by (auto simp: mainSteps_def initSteps_def webhookSteps_def butlast_append)

lemma requiredSteps_fatal:
  "(\<forall>(s, f) \<in> set (initSteps @ butlast (mainSteps fl environ)). f = LogOnly \<or> answer s = None) \<longleftrightarrow>
     list_all (\<lambda>s. answer s = None) (requiredSteps fl environ)"
  by (auto simp: requiredSteps_def mainSteps_def initSteps_def webhookSteps_def butlast_append)

lemma operatorMain_steps:
  "operatorMain answer fl environ =
     runSteps answer ((initSteps @ butlast (mainSteps fl environ)) @ [(StartManager, Exit1)])"
  unfolding operatorMain_def by (subst mainSteps_last) simp

text \<open>
  C40. The manager is started exactly when every scheme was added, the manager was made, and every
  controller, webhook and health check was registered, with one exception: a failure to register the
  controller of \<open>Rebalance\<close> is only logged, and the operator runs without it. The process exits with 0
  exactly when the manager was started and stopped without an error, whether or not that controller
  is there.
\<close>

theorem operator_starts_without_rebalance:
  "(StartManager \<in> set (fst (operatorMain answer fl environ)) \<longleftrightarrow>
      list_all (\<lambda>s. answer s = None) (requiredSteps fl environ)) \<and>
   (snd (operatorMain answer fl environ) = Exited 0 \<longleftrightarrow>
      StartManager \<in> set (fst (operatorMain answer fl environ)) \<and> answer StartManager = None)"
  unfolding operatorMain_steps runSteps_last[OF StartManager_last] runSteps_exit requiredSteps_fatal[symmetric]
  by auto

end
