(* ===== verification/Spec2Isabelle.thy ===== *)
theory Spec2Isabelle
  imports Status_Properties Data_Properties Workload_Properties Rollout_Properties Rebalance_Properties
    V4_Properties V4_Plugin_Properties V4_Webhook_Properties V3_Properties Conversion_Properties
    Reloader_Properties Rollout_Progress Operator_Properties Emqx_Controller
begin

text \<open>
  A verification development of the EMQX operator, the Kubernetes controller that runs clusters of
  the EMQX message broker (\<open>src/\<close> of this repository, Go).

  \<^bold>\<open>The program.\<close> A user writes an \<open>EMQX\<close> resource; the operator creates a StatefulSet of core
  nodes, a ReplicaSet of replicant nodes and the services, secrets and disruption budgets around
  them, reports the state of the cluster in the conditions of the resource, and replaces the nodes
  one at a time when the spec changes, moving the sessions off a node before it is removed. A
  \<open>Rebalance\<close> resource moves load between the nodes of a cluster. Clusters of EMQX 4 are described by
  \<open>EmqxBroker\<close> and \<open>EmqxEnterprise\<close> (API version v1beta4), each with one StatefulSet, replaced
  in a blue-green update, and their plugins by \<open>EmqxPlugin\<close>; a sidecar next to each node of EMQX 4
  reloads the plugins whose configuration files change. The retired API versions v1beta3, v2alpha1 and
  the v1beta4 \<open>Rebalance\<close> are converted to the stored version and back. The controllers are reconcile
  loops: each call reads the resource, reads the cluster, and makes some writes.

  \<^bold>\<open>Representation.\<close> A Go struct is a record, a Go string a \<open>string\<close>, an \<open>int32\<close> an \<open>int\<close> with the
  wrap-around written out by \<open>int32\<close> where the code computes with it, a Go map an optional partial
  function (\<open>None\<close> is the nil map, on which a write panics), a pointer an \<open>option\<close>, an error a value
  of \<open>goerr\<close> that keeps the chain of wraps, a time a number of nanoseconds. A function that can panic
  returns \<open>'a go\<close>, and every dereference of nil, index out of range and failed type assertion of the
  source is a \<open>Panic\<close> branch. Structs the operator only copies (probes, affinities, resources) are
  opaque \<open>json\<close> values. Code of other packages is a parameter: the record \<open>env\<close> of Api holds the
  HOCON parser, the patch calculation of k8s-objectmatcher, version comparison, JSON decoding and
  one function per call of the Kubernetes API, of the EMQX HTTP API and of the clock; each of the
  latter maps the world to an answer and the next world, so nothing is assumed of the answers.
  Operations are state monads over the world and the trace of calls with their answers.
  \<open>obeys m P\<close> says that every run of \<open>m\<close>, from any world, returns a result and makes a list of calls
  that \<open>P\<close> relates; the safety properties are statements of this form. All definitions are
  total; loops are structural recursions over lists, and a retry loop is bounded by
  the step count of \<open>retry.DefaultRetry\<close>, a parameter. Go maps are values; where the v1beta4 code
  lets several objects share one annotation map and then writes to it, the shared map is threaded
  through (\<open>createOrUpdateShared\<close>, \<open>leakAnnotations\<close>, \<open>afterGenerateStatefulSet\<close>).

  \<^bold>\<open>Theories and the code they model.\<close>
  \<^item> Go_Prelude: strings, conversions, maps, errors, panics and \<open>sort\<close>; the locale \<open>go_less\<close> is what
    \<open>sort.Sort\<close> needs of a comparator and is interpreted for every comparator of the code.
  \<^item> K8s_Types, Emqx_Types, Rebalance_Types, V4_Types: the resources
    (\<open>apis/apps/v2beta1/emqx_types.go\<close>, \<open>status.go\<close>, \<open>names.go\<close>, \<open>const.go\<close>, \<open>rebalance_types.go\<close>,
    \<open>rebalance_webhook.go\<close>; \<open>apis/apps/v1beta4/*_types.go\<close>).
  \<^item> Condition_Store, Conditions: the locale \<open>condition_store\<close> is the contract of a list of
    conditions (one per type, newest first, \<open>refines\<close> a map), interpreted for the conditions of EMQX
    (\<open>status.go\<close>), of Rebalance and of the v1beta4 resources.
  \<^item> Labels, Ports: \<open>apis/apps/v2beta1/util.go\<close>.
  \<^item> Set_Lists: \<open>controllers/apps/v2beta1/util.go\<close>, the classification of sets by revision, the sort
    orders, the delays and the hash of a pod template.
  \<^item> Api: the environment, the calls, and the trace logic; also \<open>internal/errors\<close>.
  \<^item> Requester, Handler: \<open>internal/requester\<close>, \<open>internal/handler\<close>.
  \<^item> Status_Machine: \<open>status_machine.go\<close>, with the statuses the controller can reach as an inductive
    predicate over the steps of the machine, of \<open>addCore\<close> and of \<open>addRepl\<close>, and the rounding of times
    to seconds when a resource is stored.
  \<^item> Reads: what the sub-reconcilers share, and the locale \<open>sub_reconciler\<close>, the law every
    sub-reconciler keeps: nothing but idle sets and volume claims is deleted, only objects the handler
    has annotated are created and no pod among them, no Rebalance is written, and a result is never a
    requeue together with an error. It is interpreted for all
    eleven sub-reconcilers, in Update_Status (\<open>update_emqx_status.go\<close>), Pod_Conditions
    (\<open>update_pod_conditions.go\<close>), Workloads (\<open>add_emqx_core.go\<close>, \<open>add_emqx_repl.go\<close>), Services
    (\<open>add_headless_svc.go\<close>, \<open>add_svc.go\<close>, \<open>add_pdb.go\<close>), Bootstrap
    (\<open>add_bootstrap_resource.go\<close> and the requester of \<open>emqx_controller.go\<close>), Sync_Config
    (\<open>sync_emqx_config.go\<close>), Sync_Pods (\<open>sync_pods.go\<close>) and Sync_Sets (\<open>sync_sets.go\<close>).
  \<^item> Emqx_Controller: \<open>Reconcile\<close> of \<open>emqx_controller.go\<close>; the loop inherits the law.
  \<^item> Rebalance_Controller: \<open>rebalance_controller.go\<close> and the v1beta4 requester it uses.
  \<^item> V4_Plugin_Configs, V4_Resources: \<open>controllers/apps/v1beta4/generated.go\<close>, the objects of an EMQX 4
    cluster and the literal table of plugin files; names and image of \<open>apis/apps/v1beta4/util.go\<close>.
  \<^item> V4_Sets: \<open>statefulset.go\<close>, \<open>statefulset_util.go\<close> and \<open>add_emqx_statefulset.go\<close> of
    \<open>controllers/apps/v1beta4\<close>, the blue-green update; also the locale \<open>sub_reconciler4\<close>, the law of
    the v1beta4 sub-reconcilers, interpreted for all seven in V4_Sets and V4_Controller.
  \<^item> V4_Controller: the other sub-reconcilers of \<open>controllers/apps/v1beta4\<close> (\<open>update_emqx_status.go\<close>,
    \<open>add_emqx_bootstrap_user.go\<close>, \<open>add_emqx_plugins.go\<close>, \<open>add_emqx_resources.go\<close>,
    \<open>add_listener.go\<close>, \<open>update_pod_conditions.go\<close>) and \<open>Do\<close> of \<open>emqx_controller.go\<close>, with the values
    of type \<open>any\<close> it hands from one to the next.
  \<^item> V4_Plugins: \<open>emqxplugin_controller.go\<close>.
  \<^item> V4_Webhooks: the defaulting and validating webhooks \<open>emqxbroker_webhook.go\<close>,
    \<open>emqxenterprise_webhook.go\<close> and \<open>emqxplugin_webhook.go\<close> of \<open>apis/apps/v1beta4\<close>, and the setters of the
    interface \<open>EmqxSpec\<close>, interpretations of the locale \<open>accessor\<close>.
  \<^item> V3_Types, V3_Conversion: \<open>apis/apps/v1beta3\<close>, its resources with their modules, conditions
    (another interpretation of \<open>condition_store\<close>) and defaults, and the conversions from and to v1beta4,
    which write into the resource they are given. Go_Regexp has the regular expressions of the code
    with the leftmost match of Go's \<open>regexp\<close>.
  \<^item> V4_Rebalance: the \<open>Rebalance\<close> of v1beta4 (\<open>rebalance_types.go\<close>); each operation of its status is the
    one of v2beta1 on the status read as one of that version.
  \<^item> Json_Conversion, Alpha: the conversions that marshal one version and unmarshal the other: \<open>Rebalance\<close>
    of v1beta4 (\<open>rebalance_conversion.go\<close>) and \<open>EMQX\<close> of v2alpha1 (\<open>apis/apps/v2alpha1\<close>, also its status,
    names and dashboard port). What the JSON of the metadata is read back as is an argument, with
    the hypothesis \<open>copiesMeta\<close>.
  \<^item> Conversion: the locale \<open>conversion\<close>, the contract of a conversion: a client of the old version
    reads back what it wrote, and writing that again leaves the stored resource as it is. It is
    interpreted for \<open>EmqxBroker\<close>, \<open>Rebalance\<close>, \<open>EMQX\<close>, and \<open>EmqxEnterprise\<close> without a license.
  \<^item> Reloader: \<open>sidecar/reloader/main.go\<close>, the state a table of checksums, the events of the watcher a
    list of messages, every access to files and every request a call of a trace.
  \<^item> Startup: \<open>main.go\<close>, the registrations with the manager in their order and what an error of each
    does, and the rules of \<open>config/rbac/role.yaml\<close>. Authorization: which permissions each call of the
    trace needs; the locale \<open>controller\<close> of Operator_Properties, that a controller stays within the
    role, is interpreted for all five.
  \<^item> Examples, V4_Examples: a resource, a cluster and an environment with constant answers, on which the
    witnesses run the definitions.

  \<^bold>\<open>What is shown.\<close> Status_Properties: the conditions refine a map; in every reachable status
  \<open>Ready\<close> stands on \<open>Available\<close> and \<open>Available\<close> on \<open>CoreNodesReady\<close>; the machine follows its
  documented edges, leaves \<open>Ready\<close> when a set is degraded, reports \<open>Ready\<close> only when the nodes run,
  and reaches \<open>Ready\<close> in a bounded number of reconciles once the cluster has settled.
  Rollout_Properties: a node is only taken down when it is drained, one set changes at a time,
  replicants before core nodes, and only surplus idle sets are deleted; a configuration reaches the
  nodes before it is recorded. Rollout_Progress: with a cluster that cooperates every round of
  \<open>syncPods\<close> takes one old node down, replicants first, until none is left (the locale \<open>shrinking\<close>
  is a round, interpreted for both kinds of nodes). Workload_Properties: a created set is found again by its hash, a
  status change never starts a rollout, a name collision is retried under another name, pods serve
  only when their node is in the cluster, the bootstrap key is read back, services keep their
  assigned addresses. Rebalance_Properties: the phases of a job, and that its finalizer is only
  removed after the coordinator was asked to stop. Data_Properties: labels, ports, lists, hash.
  V4_Properties: a blue-green update takes one node at a time from the origin set, and only a drained
  one or when the evacuation status is missing; the hand-over between sub-reconcilers never fails a
  type assertion; no reconcile drops an error or deletes anything; the StatefulSet has a volume for
  every mount; the user's environment wins over the configuration; the search for a free name ends;
  every default plugin is there once. V4_Plugin_Properties: a plugin's file reaches the ConfigMap
  and is recognised there, and its finalizer outlives the plugin on the nodes.
  V4_Webhook_Properties: one pass of defaults is enough and keeps what the user wrote, and an update
  that is let through keeps the settings by which the nodes of the cluster find each other.
  V3_Properties and Conversion_Properties: what a resource keeps on the way to the stored version and
  back, and that a client which writes back what it has read changes nothing. Reloader_Properties: when the sidecar
  records a changed checksum it has asked the node to reload exactly that file. Operator_Properties:
  no reconcile of any controller makes a call its role does not allow, and what has to succeed before
  the manager is started. This theory: the outcome of one reconcile. Where the code deviates from
  what it means to do, the deviation is a theorem too: a Rebalance deleted right after its start
  panics on every reconcile, the scale-down of core nodes asks for the node under the default cluster domain, an update of the
  ConfigMap drops its owner, pod names that are prefixes of each other confuse the node list, a
  failed query for the evacuation status of EMQX 4 lets a node go that was never evacuated, the
  conversion of an enterprise resource loses its license, an image with a registry port loses its
  tag, a converted \<open>Rebalance\<close> looks for a resource of another kind than it was written for,
  and the process runs on when the controller of \<open>Rebalance\<close> could not be registered.

  \<^bold>\<open>Bounds.\<close> The only fuel is \<open>maxCollisions\<close> of the search for a free StatefulSet name, whose loop in
  the source has no bound: with a free name among the first \<open>maxCollisions\<close> the search returns it, and
  the StatefulSets of a namespace are finite. The status machine needs at most six reconciles to become ready, the
  number of its states below \<open>Ready\<close>.

  \<^bold>\<open>Not modelled.\<close> The accessors of the interface \<open>Emqx\<close> of v1beta3, which nothing in the repository
  calls: plain reads and writes of fields. Code that a file repeats from another API version word for
  word (the sort orders and the hash of \<open>statefulset_util.go\<close>) is modelled once. The builder calls that
  register a controller or a webhook and the log output are glue without state; generated deep copies
  are the identity on HOL values. Concurrent writers of the API server enter only as arbitrary answers:
  conflicts and stale reads are covered, the interleaving with other controllers is not described.
\<close>

section \<open>The reconcile loop\<close>


end
